(* ===== verification/Prelude.thy ===== *)
theory Prelude
  imports Main "HOL-Library.Char_ord" "HOL-Library.List_Lexorder"
begin

text \<open>
  Shared vocabulary of the development: the fact collections the component proofs draw on,
  Go's string and integer operations as far as the program uses them, and tables as lists of
  rows with the SQL operations SELECT, UPDATE and COUNT over them.
  Strings are lists of bytes; the case and space functions are those of Go's \<open>strings\<close>
  package on ASCII text.
\<close>

named_theorems go_simps "unfolding of Go library operations on concrete data"
named_theorems sql_defs "definitions of the SQL statements"
named_theorems frame_intros "composition rules for relations between database states"
named_theorems ok_elims "elimination rules for successful runs"

subsection \<open>Integers\<close>

text \<open>Go's \<open>int64\<close> and PostgreSQL's \<open>BIGINT\<close>: integers with their range; Go arithmetic wraps.\<close>

definition in_int64 :: "int \<Rightarrow> bool" where
  "in_int64 x \<longleftrightarrow> - (2 ^ 63) \<le> x \<and> x < 2 ^ 63"

definition wrap64 :: "int \<Rightarrow> int" where
  "wrap64 x = (x + 2 ^ 63) mod 2 ^ 64 - 2 ^ 63"

lemma wrap64_id [simp]: "in_int64 x \<Longrightarrow> wrap64 x = x"
  by (simp add: in_int64_def wrap64_def)

lemma in_int64_wrap64 [simp]: "in_int64 (wrap64 x)"
proof -
  have "0 \<le> (x + 2 ^ 63) mod 2 ^ 64" and "(x + 2 ^ 63) mod 2 ^ 64 < (2 ^ 64 :: int)"
    by simp_all
  then show ?thesis unfolding in_int64_def wrap64_def by simp
qed

text \<open>Go's \<open>int32(x)\<close> conversion keeps the low 32 bits.\<close>

definition wrap32 :: "int \<Rightarrow> int" where
  "wrap32 x = (x + 2 ^ 31) mod 2 ^ 32 - 2 ^ 31"

lemma wrap32_id: "- (2 ^ 31) \<le> x \<Longrightarrow> x < 2 ^ 31 \<Longrightarrow> wrap32 x = x"
  by (simp add: wrap32_def)

text \<open>Decimal rendering, as \<open>%d\<close> prints it.\<close>

fun show_nat :: "nat \<Rightarrow> string" where
  "show_nat n = (if n < 10 then [char_of (48 + n)]
     else show_nat (n div 10) @ [char_of (48 + n mod 10)])"

declare show_nat.simps [simp del]

definition show_int :: "int \<Rightarrow> string" where
  "show_int i = (if i < 0 then ''-'' @ show_nat (nat (- i)) else show_nat (nat i))"

subsection \<open>Strings\<close>

definition is_space :: "char \<Rightarrow> bool" where
  "is_space c \<longleftrightarrow> (let n = (of_char c :: nat) in n = 32 \<or> (9 \<le> n \<and> n \<le> 13))"

definition upper_char :: "char \<Rightarrow> char" where
  "upper_char c = (let n = (of_char c :: nat) in if 97 \<le> n \<and> n \<le> 122 then char_of (n - 32) else c)"

definition lower_char :: "char \<Rightarrow> char" where
  "lower_char c = (let n = (of_char c :: nat) in if 65 \<le> n \<and> n \<le> 90 then char_of (n + 32) else c)"

definition TrimSpace :: "string \<Rightarrow> string" where
  "TrimSpace s = rev (dropWhile is_space (rev (dropWhile is_space s)))"

definition ToUpper :: "string \<Rightarrow> string" where
  "ToUpper s = map upper_char s"

definition ToLower :: "string \<Rightarrow> string" where
  "ToLower s = map lower_char s"

lemmas string_defs [go_simps] =
  TrimSpace_def ToUpper_def ToLower_def is_space_def upper_char_def lower_char_def

lemma is_space_upper_char [simp]: "is_space (upper_char c) = is_space c"
  by (auto simp: is_space_def upper_char_def Let_def)

lemma upper_char_idem [simp]: "upper_char (upper_char c) = upper_char c"
  by (auto simp: upper_char_def Let_def)

lemma ToUpper_idem [simp]: "ToUpper (ToUpper s) = ToUpper s"
  by (simp add: ToUpper_def comp_def)

lemma hd_dropWhile_not: "dropWhile P xs \<noteq> [] \<Longrightarrow> \<not> P (hd (dropWhile P xs))"
  by (induction xs) auto

lemma dropWhile_idle: "(xs \<noteq> [] \<Longrightarrow> \<not> P (hd xs)) \<Longrightarrow> dropWhile P xs = xs"
  by (cases xs) auto

lemma hd_rev_dropWhile_rev:
  "rev (dropWhile P (rev ys)) \<noteq> [] \<Longrightarrow> hd (rev (dropWhile P (rev ys))) = hd ys"
  by (induction ys) (auto simp: dropWhile_append split: if_splits)

lemma TrimSpace_idem [simp]: "TrimSpace (TrimSpace s) = TrimSpace s"
proof -
  define u where "u = dropWhile is_space s"
  define v where "v = rev (dropWhile is_space (rev u))"
  have "\<not> is_space (hd v)" if "v \<noteq> []"
  proof -
    from that have "hd v = hd u" and "u \<noteq> []"
      using hd_rev_dropWhile_rev [of is_space u] by (auto simp: v_def)
    then show ?thesis using hd_dropWhile_not [of is_space s] by (simp add: u_def)
  qed
  then have "dropWhile is_space v = v" by (rule dropWhile_idle)
  moreover have "dropWhile is_space (rev v) = rev v"
    by (simp add: v_def)
  ultimately show ?thesis
    by (simp add: TrimSpace_def u_def [symmetric] v_def [symmetric])
qed

lemma TrimSpace_map_upper: "TrimSpace (ToUpper s) = ToUpper (TrimSpace s)"
  by (simp add: TrimSpace_def ToUpper_def dropWhile_map rev_map comp_def)

subsection \<open>Tables\<close>

text \<open>
  A table is the list of its rows. \<open>sel_one\<close> is \<open>SELECT ... WHERE key = k\<close> read as one row,
  \<open>update_rows\<close> an \<open>UPDATE\<close> whose row function may raise, which aborts the statement.
\<close>

definition sel_one :: "('r \<Rightarrow> 'k) \<Rightarrow> 'k \<Rightarrow> 'r list \<Rightarrow> 'r option" where
  "sel_one key k rows = List.find (\<lambda>r. key r = k) rows"

fun update_rows :: "('r \<Rightarrow> bool) \<Rightarrow> ('r \<Rightarrow> 'e + 'r) \<Rightarrow> 'r list \<Rightarrow> 'e + int \<times> 'r list" where
  "update_rows P f [] = Inr (0, [])"
| "update_rows P f (r # rs) =
     (case update_rows P f rs of
        Inl e \<Rightarrow> Inl e
      | Inr (n, rs') \<Rightarrow>
          (if P r then (case f r of Inl e \<Rightarrow> Inl e | Inr r' \<Rightarrow> Inr (n + 1, r' # rs'))
           else Inr (n, r # rs')))"

lemma sel_one_Nil [simp]: "sel_one key k [] = None"
  by (simp add: sel_one_def)

lemma sel_one_Cons [simp]:
  "sel_one key k (r # rs) = (if key r = k then Some r else sel_one key k rs)"
  by (simp add: sel_one_def)

lemma sel_one_append [simp]:
  "sel_one key k (rs @ ss) =
     (case sel_one key k rs of None \<Rightarrow> sel_one key k ss | Some r \<Rightarrow> Some r)"
  by (induction rs) auto

lemma sel_one_Some: "sel_one key k rs = Some r \<Longrightarrow> r \<in> set rs \<and> key r = k"
  by (induction rs) (auto split: if_splits)

lemma sel_one_None_iff: "sel_one key k rs = None \<longleftrightarrow> k \<notin> key ` set rs"
  by (induction rs) auto

lemma update_rows_count:
  "update_rows P f rs = Inr (n, rs') \<Longrightarrow> n = int (length (filter P rs))"
  by (induction rs arbitrary: n rs') (auto split: sum.splits if_splits)

lemma update_rows_rows:
  "update_rows P f rs = Inr (n, rs') \<Longrightarrow>
     list_all2 (\<lambda>r r'. (P r \<and> f r = Inr r') \<or> (\<not> P r \<and> r' = r)) rs rs'"
  by (induction rs arbitrary: n rs') (auto split: sum.splits if_splits)

lemma update_rows_length: "update_rows P f rs = Inr (n, rs') \<Longrightarrow> length rs' = length rs"
  using update_rows_rows [of P f rs n rs'] by (auto dest: list_all2_lengthD)

lemma update_rows_map:
  assumes "update_rows P f rs = Inr (n, rs')"
    and "\<And>r r'. f r = Inr r' \<Longrightarrow> g r' = g r"
  shows "map g rs' = map g rs"
  using assms
  by (induction rs arbitrary: n rs') (auto split: sum.splits if_splits)

lemma update_rows_sel_one:
  assumes "update_rows (\<lambda>r. key r = k) f rs = Inr (n, rs')"
    and "\<And>r r'. f r = Inr r' \<Longrightarrow> key r' = key r"
  shows "sel_one key j rs' =
    (if j = k then (case sel_one key k rs of None \<Rightarrow> None | Some r \<Rightarrow> Some (projr (f r)))
     else sel_one key j rs)"
  using assms
  by (induction rs arbitrary: n rs') (auto split: sum.splits if_splits)

lemma update_rows_hit:
  assumes "update_rows (\<lambda>r. key r = k) f rs = Inr (n, rs')" and "n \<noteq> 0"
  obtains r r' where "sel_one key k rs = Some r" and "f r = Inr r'"
proof -
  have "\<exists>r r'. sel_one key k rs = Some r \<and> f r = Inr r'"
    using assms by (induction rs arbitrary: n rs') (auto split: sum.splits if_splits)
  then show thesis using that by blast
qed

lemma update_rows_total:
  assumes "\<And>r. r \<in> set rs \<Longrightarrow> P r \<Longrightarrow> f r = Inr (g r)"
  shows "update_rows P f rs = Inr (int (length (filter P rs)), map (\<lambda>r. if P r then g r else r) rs)"
  using assms by (induction rs) auto

lemma update_rows_all:
  assumes "update_rows P f rs = Inr (n, rs')"
    and "\<forall>r \<in> set rs. Q r" and "\<And>r r'. Q r \<Longrightarrow> f r = Inr r' \<Longrightarrow> Q r'"
  shows "\<forall>r \<in> set rs'. Q r"
  using assms by (induction rs arbitrary: n rs') (auto split: sum.splits if_splits)

end
