(* ===== verification/Domain.thy ===== *)
theory Domain
  imports Prelude
begin

text \<open>
  The shared data of the program: Go errors with wrapping (\<open>errors.Is\<close>, \<open>errors.As\<close>), the
  constants of \<open>internal/domain/constants.go\<close>, UUIDs, and JSON values.
  A UUID is identified with its canonical text, so that \<open>String()\<close> is the selector and the
  comparisons of \<open>String()\<close> values are the order of the type.
\<close>

subsection \<open>Errors\<close>

datatype err =
    ErrNoRows \<comment> \<open>pgx.ErrNoRows\<close>
  | PgError string \<comment> \<open>a pgconn.PgError with its SQLSTATE code\<close>
  | DriverErr string \<comment> \<open>any other error of the driver or of a client library\<close>
  | ContextCanceled
  | ContextDeadlineExceeded
  | ErrInsufficientFunds
  | ErrUnsupportedCurrency
  | ErrRateUnavailable
  | ErrInvalidAmount
  | ErrReferenceRequired
  | ErrSameAccountTransfer
  | ErrCurrencyMismatch
  | ErrSameCurrencyExchange
  | ErrPayoutNotFound
  | ErrPayoutNotInManualReview
  | ErrInvalidManualReviewDecision
  | ErrInvalidSignature
  | ErrDepositInProgress
  | ErrDepositPayloadMismatch
  | ErrInvalidWebhookPayload
  | ErrNotFound
  | ErrHashMismatch
  | ErrInProgress
  | Msg string \<comment> \<open>errors.New, or fmt.Errorf without a wrapped error\<close>
  | Wrap string err string \<comment> \<open>fmt.Errorf with one wrapped error: text before, error, text after\<close>

fun errors_Is :: "err \<Rightarrow> err \<Rightarrow> bool" where
  "errors_Is (Wrap p e s) t \<longleftrightarrow> Wrap p e s = t \<or> errors_Is e t"
| "errors_Is e t \<longleftrightarrow> e = t"

text \<open>\<open>errors.As(err, &pgErr)\<close> with the code of the PostgreSQL error found.\<close>

fun errors_As_PgError :: "err \<Rightarrow> string option" where
  "errors_As_PgError (Wrap p e s) = errors_As_PgError e"
| "errors_As_PgError (PgError code) = Some code"
| "errors_As_PgError e = None"

fun Error :: "err \<Rightarrow> string" where
  "Error ErrNoRows = ''no rows in result set''"
| "Error (PgError code) = ''SQLSTATE '' @ code"
| "Error (DriverErr m) = m"
| "Error ContextCanceled = ''context canceled''"
| "Error ContextDeadlineExceeded = ''context deadline exceeded''"
| "Error ErrInsufficientFunds = ''insufficient funds''"
| "Error ErrUnsupportedCurrency = ''unsupported currency''"
| "Error ErrRateUnavailable = ''exchange rate unavailable''"
| "Error ErrInvalidAmount = ''amount must be greater than zero''"
| "Error ErrReferenceRequired = ''reference_id is required''"
| "Error ErrSameAccountTransfer = ''cannot transfer to the same account''"
| "Error ErrCurrencyMismatch = ''currency mismatch''"
| "Error ErrSameCurrencyExchange = ''source and target currency must be different''"
| "Error ErrPayoutNotFound = ''payout not found''"
| "Error ErrPayoutNotInManualReview = ''payout is not in manual review''"
| "Error ErrInvalidManualReviewDecision = ''invalid manual review decision''"
| "Error ErrInvalidSignature = ''invalid signature''"
| "Error ErrDepositInProgress = ''deposit is still processing''"
| "Error ErrDepositPayloadMismatch = ''deposit payload does not match existing reference''"
| "Error ErrInvalidWebhookPayload = ''invalid webhook payload''"
| "Error ErrNotFound = ''idempotency key not found''"
| "Error ErrHashMismatch = ''idempotency key body mismatch''"
| "Error ErrInProgress = ''idempotency key in progress''"
| "Error (Msg m) = m"
| "Error (Wrap p e s) = p @ Error e @ s"

subsection \<open>Identifiers\<close>

datatype uuid = UUID (String: string)

instantiation uuid :: linorder
begin

definition less_eq_uuid :: "uuid \<Rightarrow> uuid \<Rightarrow> bool" where
  "less_eq_uuid a b \<longleftrightarrow> String a \<le> String b"

definition less_uuid :: "uuid \<Rightarrow> uuid \<Rightarrow> bool" where
  "less_uuid a b \<longleftrightarrow> String a < String b"

instance
  by standard (auto simp: less_eq_uuid_def less_uuid_def uuid.expand)

end

definition uuid_Nil :: uuid where
  "uuid_Nil = UUID ''00000000-0000-0000-0000-000000000000''"

subsection \<open>Constants\<close>

definition SystemUserID :: string where
  "SystemUserID = ''11111111-1111-1111-1111-111111111111''"

definition SystemAccountUSD :: string where
  "SystemAccountUSD = ''22222222-2222-2222-2222-222222222222''"

definition SystemAccountEUR :: string where
  "SystemAccountEUR = ''33333333-3333-3333-3333-333333333333''"

definition SystemAccountGBP :: string where
  "SystemAccountGBP = ''44444444-4444-4444-4444-444444444444''"

definition DirectionDebit :: string where "DirectionDebit = ''debit''"

definition DirectionCredit :: string where "DirectionCredit = ''credit''"

definition TxTypeTransfer :: string where "TxTypeTransfer = ''transfer''"

definition TxTypeExchange :: string where "TxTypeExchange = ''exchange''"

definition TxTypePayout :: string where "TxTypePayout = ''payout''"

definition TxTypeDeposit :: string where "TxTypeDeposit = ''deposit''"

definition TxStatusCompleted :: string where "TxStatusCompleted = ''COMPLETED''"

definition TxStatusFailed :: string where "TxStatusFailed = ''FAILED''"

definition TxStatusPending :: string where "TxStatusPending = ''PENDING''"

definition TxStatusProcessing :: string where "TxStatusProcessing = ''PROCESSING''"

definition TxStatusReversed :: string where "TxStatusReversed = ''REVERSED''"

definition PayoutStatusPending :: string where "PayoutStatusPending = ''PENDING''"

definition PayoutStatusProcessing :: string where "PayoutStatusProcessing = ''PROCESSING''"

definition PayoutStatusCompleted :: string where "PayoutStatusCompleted = ''COMPLETED''"

definition PayoutStatusFailed :: string where "PayoutStatusFailed = ''FAILED''"

definition PayoutStatusManualReview :: string where "PayoutStatusManualReview = ''MANUAL_REVIEW''"

lemmas direction_defs = DirectionDebit_def DirectionCredit_def

lemmas tx_type_defs = TxTypeTransfer_def TxTypeExchange_def TxTypePayout_def TxTypeDeposit_def

lemmas tx_status_defs =
  TxStatusCompleted_def TxStatusFailed_def TxStatusPending_def TxStatusProcessing_def
  TxStatusReversed_def

lemmas payout_status_defs =
  PayoutStatusPending_def PayoutStatusProcessing_def PayoutStatusCompleted_def
  PayoutStatusFailed_def PayoutStatusManualReview_def

lemmas constant_defs [go_simps] = direction_defs tx_type_defs tx_status_defs payout_status_defs

lemma direction_distinct [simp]:
  "DirectionDebit \<noteq> DirectionCredit" "DirectionCredit \<noteq> DirectionDebit"
  by (simp_all add: direction_defs)

lemma payout_status_distinct [simp]:
  "distinct [PayoutStatusPending, PayoutStatusProcessing, PayoutStatusCompleted,
     PayoutStatusFailed, PayoutStatusManualReview]"
  by (simp add: payout_status_defs)

lemma tx_status_distinct [simp]:
  "distinct [TxStatusPending, TxStatusProcessing, TxStatusCompleted, TxStatusFailed,
     TxStatusReversed]"
  by (simp add: tx_status_defs)

lemmas payout_status_neq [simp] = payout_status_distinct [simplified]
  and tx_status_neq [simp] = tx_status_distinct [simplified]

lemma tx_status_nonempty [simp]:
  "TxStatusPending \<noteq> []" "TxStatusProcessing \<noteq> []" "TxStatusCompleted \<noteq> []"
  "TxStatusFailed \<noteq> []" "TxStatusReversed \<noteq> []"
  by (simp_all add: tx_status_defs)

subsection \<open>JSON\<close>

text \<open>
  The value of a \<open>JSONB\<close> column or of a request body. A number that is not an integer keeps its
  text; an object keeps its members in order.
\<close>

datatype json = JNull | JBool bool | JInt int | JNumber string | JString string | JArray "json list" | JObject "(string \<times> json) list"

end
