(* ===== verification/Database.thy ===== *)
theory Database
  imports Domain Complex_Main
begin

text \<open>
  The tables of the schema (\<open>internal/repository/models.go\<close>, \<open>db/migrations\<close>) and one
  definition per generated query of \<open>internal/repository\<close>. A statement reads the time
  \<open>NOW()\<close> and a database state and either raises or returns its result with the next state.
  Inserts and updates check the constraints of the migrations in PostgreSQL's order: column
  types, then CHECK, then UNIQUE, then FOREIGN KEY. The row locks of \<open>FOR UPDATE\<close> have no
  effect on the state; the rows that \<open>SKIP LOCKED\<close> passes over are an argument.
\<close>

subsection \<open>Rows and tables\<close>

record user_row =
  u_id :: uuid
  u_username :: string
  u_email :: string
  u_role :: string
  u_created_at :: int

record account_row =
  a_id :: uuid
  a_user_id :: uuid
  a_currency :: string
  a_balance :: int
  a_created_at :: int
  a_locked_micros :: int

record transaction_row =
  t_id :: uuid
  t_amount :: int
  t_currency :: string
  t_type :: string
  t_status :: string
  t_reference_id :: string
  t_created_at :: int
  t_fx_rate :: "rat option"
  t_metadata :: "json option"

record entry_row =
  e_id :: uuid
  e_transaction_id :: uuid
  e_account_id :: uuid
  e_amount :: int
  e_direction :: string
  e_created_at :: int

record payout_row =
  p_id :: uuid
  p_transaction_id :: uuid
  p_account_id :: uuid
  p_amount_micros :: int
  p_currency :: string
  p_status :: string
  p_gateway_ref :: "string option"
  p_created_at :: int
  p_updated_at :: int

record audit_row =
  l_id :: int
  l_entity_type :: string
  l_entity_id :: uuid
  l_actor_id :: "uuid option"
  l_action :: string
  l_prev_state :: "string option"
  l_next_state :: "string option"
  l_metadata :: "json option"
  l_created_at :: int

record idempotency_row =
  k_key :: string
  k_request_hash :: string
  k_method :: string
  k_path :: string
  k_response_status :: int
  k_response_body :: string
  k_content_type :: string
  k_in_progress :: bool
  k_created_at :: int
  k_updated_at :: int

record db =
  users :: "user_row list"
  accounts :: "account_row list"
  transactions :: "transaction_row list"
  entries :: "entry_row list"
  payouts :: "payout_row list"
  audit_log :: "audit_row list"
  idempotency_keys :: "idempotency_row list"
  audit_seq :: int \<comment> \<open>the sequence behind the BIGSERIAL key of audit_log\<close>

type_synonym 'a stmt = "int \<Rightarrow> db \<Rightarrow> err + 'a \<times> db"

subsection \<open>Constraint violations\<close>

abbreviation unique_violation :: err where "unique_violation \<equiv> PgError ''23505''"
abbreviation not_null_violation :: err where "not_null_violation \<equiv> PgError ''23502''"

abbreviation foreign_key_violation :: err where "foreign_key_violation \<equiv> PgError ''23503''"
abbreviation check_violation :: err where "check_violation \<equiv> PgError ''23514''"
abbreviation string_too_long :: err where "string_too_long \<equiv> PgError ''22001''"
abbreviation out_of_range :: err where "out_of_range \<equiv> PgError ''22003''"
abbreviation negative_limit :: err where "negative_limit \<equiv> PgError ''2201W''"
abbreviation negative_offset :: err where "negative_offset \<equiv> PgError ''2201X''"

definition currency_ok :: "string \<Rightarrow> bool" where
  "currency_ok c \<longleftrightarrow> c \<in> {''USD'', ''EUR'', ''GBP''}"

definition tx_type_ok :: "string \<Rightarrow> bool" where
  "tx_type_ok t \<longleftrightarrow> t \<in> {''transfer'', ''exchange'', ''payout'', ''deposit''}"

definition tx_status_ok :: "string \<Rightarrow> bool" where
  "tx_status_ok s \<longleftrightarrow> s \<in> {''PENDING'', ''PROCESSING'', ''COMPLETED'', ''FAILED'', ''REVERSED''}"

definition direction_ok :: "string \<Rightarrow> bool" where
  "direction_ok d \<longleftrightarrow> d \<in> {''debit'', ''credit''}"

definition payout_status_ok :: "string \<Rightarrow> bool" where
  "payout_status_ok s \<longleftrightarrow>
     s \<in> {''PENDING'', ''PROCESSING'', ''COMPLETED'', ''FAILED'', ''MANUAL_REVIEW''}"

text \<open>A \<open>NUMERIC(18,8)\<close> column rounds to eight decimals, half away from zero.\<close>

definition numeric_18_8 :: "rat \<Rightarrow> rat" where
  "numeric_18_8 r = (if r < 0 then - of_int \<lfloor>- r * 10 ^ 8 + 1 / 2\<rfloor> else of_int \<lfloor>r * 10 ^ 8 + 1 / 2\<rfloor>) / 10 ^ 8"

subsection \<open>Queries on users and accounts (account.sql.go)\<close>

definition CreateUser :: "uuid \<Rightarrow> string \<Rightarrow> string \<Rightarrow> string \<Rightarrow> int stmt" where
  [sql_defs]: "CreateUser uid username email role t d =
     (if length username > 255 \<or> length email > 255 \<or> length role > 50 then Inl string_too_long
      else if uid \<in> u_id ` set (users d) \<or> email \<in> u_email ` set (users d) then Inl unique_violation
      else Inr (t, d\<lparr>users := users d @
        [\<lparr>u_id = uid, u_username = username, u_email = email, u_role = role, u_created_at = t\<rparr>]\<rparr>))"

definition GetUser :: "uuid \<Rightarrow> user_row stmt" where
  [sql_defs]: "GetUser uid t d =
     (case sel_one u_id uid (users d) of None \<Rightarrow> Inl ErrNoRows | Some r \<Rightarrow> Inr (r, d))"

definition CreateAccount :: "uuid \<Rightarrow> uuid \<Rightarrow> string \<Rightarrow> int \<Rightarrow> int stmt" where
  [sql_defs]: "CreateAccount uid user_id currency balance t d =
     (if length currency > 3 then Inl string_too_long
      else if \<not> currency_ok currency then Inl check_violation
      else if uid \<in> a_id ` set (accounts d) \<or>
              (user_id, currency) \<in> (\<lambda>r. (a_user_id r, a_currency r)) ` set (accounts d)
        then Inl unique_violation
      else if user_id \<notin> u_id ` set (users d) then Inl foreign_key_violation
      else Inr (t, d\<lparr>accounts := accounts d @
        [\<lparr>a_id = uid, a_user_id = user_id, a_currency = currency, a_balance = balance,
          a_created_at = t, a_locked_micros = 0\<rparr>]\<rparr>))"

definition GetAccount :: "uuid \<Rightarrow> account_row stmt" where
  [sql_defs]: "GetAccount uid t d =
     (case sel_one a_id uid (accounts d) of None \<Rightarrow> Inl ErrNoRows | Some r \<Rightarrow> Inr (r, d))"

definition GetAccountBalanceAndLocked :: "uuid \<Rightarrow> (int \<times> int \<times> string) stmt" where
  [sql_defs]: "GetAccountBalanceAndLocked uid t d =
     (case sel_one a_id uid (accounts d) of
        None \<Rightarrow> Inl ErrNoRows
      | Some r \<Rightarrow> Inr ((a_balance r, a_locked_micros r, a_currency r), d))"

text \<open>The row of an account after its balance and locked funds change, or the error raised.\<close>

definition set_funds :: "int \<Rightarrow> int \<Rightarrow> account_row \<Rightarrow> err + account_row" where
  "set_funds bal locked r =
     (if \<not> in_int64 bal \<or> \<not> in_int64 locked then Inl out_of_range
      else if locked < 0 then Inl check_violation
      else Inr (r\<lparr>a_balance := bal, a_locked_micros := locked\<rparr>))"

definition update_accounts ::
  "(account_row \<Rightarrow> bool) \<Rightarrow> (account_row \<Rightarrow> err + account_row) \<Rightarrow> int stmt" where
  "update_accounts P f t d =
     (case update_rows P f (accounts d) of
        Inl e \<Rightarrow> Inl e | Inr (n, rows) \<Rightarrow> Inr (n, d\<lparr>accounts := rows\<rparr>))"

definition LockAccountFunds :: "int \<Rightarrow> uuid \<Rightarrow> int stmt" where
  [sql_defs]: "LockAccountFunds locked_micros uid =
     update_accounts (\<lambda>r. a_id r = uid)
       (\<lambda>r. set_funds (a_balance r) (a_locked_micros r + locked_micros) r)"

definition ReleaseAccountFunds :: "int \<Rightarrow> uuid \<Rightarrow> int stmt" where
  [sql_defs]: "ReleaseAccountFunds locked_micros uid =
     update_accounts (\<lambda>r. a_id r = uid)
       (\<lambda>r. set_funds (a_balance r) (a_locked_micros r - locked_micros) r)"

definition ReleaseAccountFundsSafe :: "int \<Rightarrow> uuid \<Rightarrow> int stmt" where
  [sql_defs]: "ReleaseAccountFundsSafe locked_micros uid =
     update_accounts (\<lambda>r. a_id r = uid \<and> a_locked_micros r \<ge> locked_micros)
       (\<lambda>r. set_funds (a_balance r) (a_locked_micros r - locked_micros) r)"

definition DeductLockedFunds :: "int \<Rightarrow> uuid \<Rightarrow> int stmt" where
  [sql_defs]: "DeductLockedFunds locked_micros uid =
     update_accounts (\<lambda>r. a_id r = uid)
       (\<lambda>r. set_funds (a_balance r - locked_micros) (a_locked_micros r - locked_micros) r)"

definition GetEntries :: "uuid \<Rightarrow> int \<Rightarrow> int \<Rightarrow> entry_row list stmt" where
  [sql_defs]: "GetEntries account_id limit offset t d =
     (if limit < 0 then Inl negative_limit else if offset < 0 then Inl negative_offset
      else Inr (take (nat limit) (drop (nat offset)
        (sort_key (\<lambda>e. - e_created_at e) (filter (\<lambda>e. e_account_id e = account_id) (entries d)))), d))"

subsection \<open>Queries on transactions and entries (transfer.sql.go)\<close>

definition CheckTransactionIdempotency :: "string \<Rightarrow> transaction_row stmt" where
  [sql_defs]: "CheckTransactionIdempotency reference_id t d =
     (case sel_one t_reference_id reference_id (transactions d) of
        None \<Rightarrow> Inl ErrNoRows | Some r \<Rightarrow> Inr (r, d))"

definition CreateEntry :: "uuid \<Rightarrow> uuid \<Rightarrow> uuid \<Rightarrow> int \<Rightarrow> string \<Rightarrow> uuid stmt" where
  [sql_defs]: "CreateEntry uid transaction_id account_id amount direction t d =
     (if length direction > 10 then Inl string_too_long
      else if amount \<le> 0 \<or> \<not> direction_ok direction then Inl check_violation
      else if (uid, t) \<in> (\<lambda>e. (e_id e, e_created_at e)) ` set (entries d) then Inl unique_violation
      else if transaction_id \<notin> t_id ` set (transactions d) \<or> account_id \<notin> a_id ` set (accounts d)
        then Inl foreign_key_violation
      else Inr (uid, d\<lparr>entries := entries d @
        [\<lparr>e_id = uid, e_transaction_id = transaction_id, e_account_id = account_id,
          e_amount = amount, e_direction = direction, e_created_at = t\<rparr>]\<rparr>))"

definition CreateTransaction ::
  "uuid \<Rightarrow> int \<Rightarrow> string \<Rightarrow> string \<Rightarrow> string \<Rightarrow> string \<Rightarrow> rat option \<Rightarrow> json option \<Rightarrow> uuid stmt" where
  [sql_defs]: "CreateTransaction uid amount currency type status reference_id fx_rate metadata t d =
     (if length currency > 3 \<or> length type > 50 \<or> length status > 50 \<or> length reference_id > 255
        then Inl string_too_long
      else if amount \<le> 0 \<or> \<not> currency_ok currency \<or> \<not> tx_type_ok type \<or> \<not> tx_status_ok status
        then Inl check_violation
      else if uid \<in> t_id ` set (transactions d) \<or>
              reference_id \<in> t_reference_id ` set (transactions d) then Inl unique_violation
      else Inr (uid, d\<lparr>transactions := transactions d @
        [\<lparr>t_id = uid, t_amount = amount, t_currency = currency, t_type = type, t_status = status,
          t_reference_id = reference_id, t_created_at = t,
          t_fx_rate = map_option numeric_18_8 fx_rate, t_metadata = metadata\<rparr>]\<rparr>))"

definition GetAccountBalanceAndCurrency :: "uuid \<Rightarrow> (int \<times> string) stmt" where
  [sql_defs]: "GetAccountBalanceAndCurrency uid t d =
     (case sel_one a_id uid (accounts d) of
        None \<Rightarrow> Inl ErrNoRows | Some r \<Rightarrow> Inr ((a_balance r, a_currency r), d))"

definition GetAccountCurrency :: "uuid \<Rightarrow> string stmt" where
  [sql_defs]: "GetAccountCurrency uid t d =
     (case sel_one a_id uid (accounts d) of
        None \<Rightarrow> Inl ErrNoRows | Some r \<Rightarrow> Inr (a_currency r, d))"

definition GetTransaction :: "uuid \<Rightarrow> transaction_row stmt" where
  [sql_defs]: "GetTransaction uid t d =
     (case sel_one t_id uid (transactions d) of None \<Rightarrow> Inl ErrNoRows | Some r \<Rightarrow> Inr (r, d))"

definition GetTransactionStatusForUpdate :: "uuid \<Rightarrow> string stmt" where
  [sql_defs]: "GetTransactionStatusForUpdate uid t d =
     (case sel_one t_id uid (transactions d) of
        None \<Rightarrow> Inl ErrNoRows | Some r \<Rightarrow> Inr (t_status r, d))"

definition LockAccount :: "uuid \<Rightarrow> uuid stmt" where
  [sql_defs]: "LockAccount uid t d =
     (case sel_one a_id uid (accounts d) of None \<Rightarrow> Inl ErrNoRows | Some r \<Rightarrow> Inr (a_id r, d))"

definition UpdateAccountBalance :: "int \<Rightarrow> uuid \<Rightarrow> int stmt" where
  [sql_defs]: "UpdateAccountBalance amount uid =
     update_accounts (\<lambda>r. a_id r = uid)
       (\<lambda>r. set_funds (a_balance r + amount) (a_locked_micros r) r)"

definition update_transactions ::
  "uuid \<Rightarrow> (transaction_row \<Rightarrow> err + transaction_row) \<Rightarrow> int stmt" where
  "update_transactions uid f t d =
     (case update_rows (\<lambda>r. t_id r = uid) f (transactions d) of
        Inl e \<Rightarrow> Inl e | Inr (n, rows) \<Rightarrow> Inr (n, d\<lparr>transactions := rows\<rparr>))"

definition UpdateTransactionFx :: "rat option \<Rightarrow> json option \<Rightarrow> uuid \<Rightarrow> int stmt" where
  [sql_defs]: "UpdateTransactionFx fx_rate metadata uid =
     update_transactions uid (\<lambda>r.
       (case fx_rate of
          Some x \<Rightarrow> if \<bar>numeric_18_8 x\<bar> \<ge> 10 ^ 10 then Inl out_of_range
                    else Inr (r\<lparr>t_fx_rate := Some (numeric_18_8 x), t_metadata := metadata\<rparr>)
        | None \<Rightarrow> Inr (r\<lparr>t_fx_rate := None, t_metadata := metadata\<rparr>)))"

definition UpdateTransactionStatus :: "string \<Rightarrow> uuid \<Rightarrow> int stmt" where
  [sql_defs]: "UpdateTransactionStatus status uid =
     update_transactions uid (\<lambda>r.
       (if length status > 50 then Inl string_too_long
        else if \<not> tx_status_ok status then Inl check_violation
        else Inr (r\<lparr>t_status := status\<rparr>)))"

subsection \<open>Queries on payouts (payout.sql.go)\<close>

definition CountPayoutsByStatus :: "string \<Rightarrow> int stmt" where
  [sql_defs]: "CountPayoutsByStatus status t d =
     Inr (int (length (filter (\<lambda>p. p_status p = status) (payouts d))), d)"

definition GetPayout :: "uuid \<Rightarrow> payout_row stmt" where
  [sql_defs]: "GetPayout uid t d =
     (case sel_one p_id uid (payouts d) of None \<Rightarrow> Inl ErrNoRows | Some r \<Rightarrow> Inr (r, d))"

definition GetPayoutByTransactionID :: "uuid \<Rightarrow> payout_row stmt" where
  [sql_defs]: "GetPayoutByTransactionID transaction_id t d =
     (case sel_one p_transaction_id transaction_id (payouts d) of
        None \<Rightarrow> Inl ErrNoRows | Some r \<Rightarrow> Inr (r, d))"

definition GetPayoutForUpdate :: "uuid \<Rightarrow> payout_row stmt" where
  [sql_defs]: "GetPayoutForUpdate uid t d =
     (case sel_one p_id uid (payouts d) of None \<Rightarrow> Inl ErrNoRows | Some r \<Rightarrow> Inr (r, d))"

definition GetPayoutsByStatus :: "string \<Rightarrow> int \<Rightarrow> int \<Rightarrow> payout_row list stmt" where
  [sql_defs]: "GetPayoutsByStatus status limit offset t d =
     (if limit < 0 then Inl negative_limit else if offset < 0 then Inl negative_offset
      else Inr (take (nat limit) (drop (nat offset)
        (sort_key (\<lambda>p. - p_updated_at p) (sort_key (\<lambda>p. - p_created_at p)
          (filter (\<lambda>p. p_status p = status) (payouts d))))), d))"

definition GetPendingPayouts :: "(uuid \<Rightarrow> bool) \<Rightarrow> int \<Rightarrow> payout_row list stmt" where
  [sql_defs]: "GetPendingPayouts skip limit t d =
     (if limit < 0 then Inl negative_limit
      else Inr (take (nat limit) (sort_key p_created_at
        (filter (\<lambda>p. p_status p = ''PENDING'' \<and> \<not> skip (p_id p)) (payouts d))), d))"

definition GetStaleProcessingPayouts ::
  "(uuid \<Rightarrow> bool) \<Rightarrow> int \<Rightarrow> int \<Rightarrow> payout_row list stmt" where
  [sql_defs]: "GetStaleProcessingPayouts skip cutoff limit t d =
     (if limit < 0 then Inl negative_limit
      else Inr (take (nat limit) (sort_key p_updated_at
        (filter (\<lambda>p. p_status p = ''PROCESSING'' \<and> p_updated_at p < cutoff \<and> \<not> skip (p_id p))
          (payouts d))), d))"

definition InsertPayout ::
  "uuid \<Rightarrow> uuid \<Rightarrow> uuid \<Rightarrow> int \<Rightarrow> string \<Rightarrow> string \<Rightarrow> payout_row stmt" where
  [sql_defs]: "InsertPayout uid transaction_id account_id amount_micros currency status t d =
     (if amount_micros \<le> 0 \<or> \<not> currency_ok currency \<or> \<not> payout_status_ok status
        then Inl check_violation
      else if uid \<in> p_id ` set (payouts d) then Inl unique_violation
      else if transaction_id \<notin> t_id ` set (transactions d) \<or> account_id \<notin> a_id ` set (accounts d)
        then Inl foreign_key_violation
      else (let row = \<lparr>p_id = uid, p_transaction_id = transaction_id, p_account_id = account_id,
              p_amount_micros = amount_micros, p_currency = currency, p_status = status,
              p_gateway_ref = None, p_created_at = t, p_updated_at = t\<rparr>
            in Inr (row, d\<lparr>payouts := payouts d @ [row]\<rparr>)))"

definition UpdatePayoutStatus :: "string \<Rightarrow> string option \<Rightarrow> uuid \<Rightarrow> int stmt" where
  [sql_defs]: "UpdatePayoutStatus status gateway_ref uid t d =
     (case update_rows (\<lambda>r. p_id r = uid) (\<lambda>r.
        (if \<not> payout_status_ok status then Inl check_violation
         else Inr (r\<lparr>p_status := status, p_gateway_ref := gateway_ref, p_updated_at := t\<rparr>)))
        (payouts d) of
        Inl e \<Rightarrow> Inl e | Inr (n, rows) \<Rightarrow> Inr (n, d\<lparr>payouts := rows\<rparr>))"

subsection \<open>Queries on the audit log (audit.sql.go)\<close>

definition GetAuditLogsByEntity :: "string \<Rightarrow> uuid \<Rightarrow> audit_row list stmt" where
  [sql_defs]: "GetAuditLogsByEntity entity_type entity_id t d =
     Inr (sort_key l_id (filter (\<lambda>l. l_entity_type l = entity_type \<and> l_entity_id l = entity_id)
       (audit_log d)), d)"

definition InsertAuditLog ::
  "string \<Rightarrow> uuid \<Rightarrow> uuid option \<Rightarrow> string \<Rightarrow> string option \<Rightarrow> string option \<Rightarrow> json option \<Rightarrow> int stmt" where
  [sql_defs]: "InsertAuditLog entity_type entity_id actor_id action prev_state next_state metadata t d =
     (let n = audit_seq d + 1 in
      Inr (n, d\<lparr>audit_seq := n, audit_log := audit_log d @
        [\<lparr>l_id = n, l_entity_type = entity_type, l_entity_id = entity_id, l_actor_id = actor_id,
          l_action = action, l_prev_state = prev_state, l_next_state = next_state,
          l_metadata = metadata, l_created_at = t\<rparr>]\<rparr>))"

subsection \<open>Queries for reconciliation (reconciliation.sql.go)\<close>

text \<open>The \<open>CASE\<close> expression over an entry's direction.\<close>

definition signed_amount :: "entry_row \<Rightarrow> int" where
  "signed_amount e = (if e_direction e = ''credit'' then e_amount e
     else if e_direction e = ''debit'' then - e_amount e else 0)"

definition GetLedgerNet :: "int stmt" where
  [sql_defs]: "GetLedgerNet t d =
     (let n = sum_list (map signed_amount (entries d))
      in if in_int64 n then Inr (n, d) else Inl out_of_range)"

text \<open>The join with \<open>accounts\<close>: the signed amounts of the entries of one currency.\<close>

definition currency_net :: "db \<Rightarrow> string \<Rightarrow> int" where
  "currency_net d c = sum_list (map signed_amount
     (filter (\<lambda>e. \<exists>a \<in> set (accounts d). a_id a = e_account_id e \<and> a_currency a = c) (entries d)))"

definition GetLedgerCurrencyImbalances :: "(string \<times> int) list stmt" where
  [sql_defs]: "GetLedgerCurrencyImbalances t d =
     (let groups = remdups (map a_currency
            (filter (\<lambda>a. \<exists>e \<in> set (entries d). e_account_id e = a_id a) (accounts d)));
          rows = filter (\<lambda>(c, n). n \<noteq> 0) (map (\<lambda>c. (c, currency_net d c)) groups)
      in if list_all (\<lambda>(c, n). in_int64 n) rows then Inr (rows, d) else Inl out_of_range)"

subsection \<open>Queries on idempotency keys (idempotency.sql.go)\<close>

text \<open>An empty response body is a nil slice, which the driver sends as NULL.\<close>

definition FinalizeIdempotencyKey ::
  "int \<Rightarrow> string \<Rightarrow> string \<Rightarrow> string \<Rightarrow> string \<Rightarrow> idempotency_row stmt" where
  [sql_defs]: "FinalizeIdempotencyKey response_status response_body content_type key request_hash t d =
     (case update_rows (\<lambda>r. k_key r = key \<and> k_request_hash r = request_hash)
        (\<lambda>r. if response_body = '''' then Inl not_null_violation
             else Inr (r\<lparr>k_response_status := response_status, k_response_body := response_body,
               k_content_type := content_type, k_in_progress := False, k_updated_at := t\<rparr>))
        (idempotency_keys d) of
        Inl e \<Rightarrow> Inl e
      | Inr (n, rows) \<Rightarrow>
          (case List.find (\<lambda>r. k_key r = key \<and> k_request_hash r = request_hash) rows of
             None \<Rightarrow> Inl ErrNoRows | Some r \<Rightarrow> Inr (r, d\<lparr>idempotency_keys := rows\<rparr>)))"

definition GetIdempotencyKey :: "string \<Rightarrow> idempotency_row stmt" where
  [sql_defs]: "GetIdempotencyKey key t d =
     (case sel_one k_key key (idempotency_keys d) of
        None \<Rightarrow> Inl ErrNoRows | Some r \<Rightarrow> Inr (r, d))"

definition ReserveIdempotencyKey :: "string \<Rightarrow> string \<Rightarrow> string \<Rightarrow> string \<Rightarrow> string stmt" where
  [sql_defs]: "ReserveIdempotencyKey key request_hash http_method path t d =
     (if key \<in> k_key ` set (idempotency_keys d) then Inl ErrNoRows
      else Inr (key, d\<lparr>idempotency_keys := idempotency_keys d @
        [\<lparr>k_key = key, k_request_hash = request_hash, k_method = http_method, k_path = path,
          k_response_status = 0, k_response_body = '''', k_content_type = ''application/json'',
          k_in_progress = True, k_created_at = t, k_updated_at = t\<rparr>]\<rparr>))"

lemmas update_defs [sql_defs] = update_accounts_def update_transactions_def set_funds_def

end
