(* ===== verification/Metrics.thy ===== *)
theory Metrics
  imports Prelude
begin

text \<open>
  The package variables of \<open>internal/observability/metrics.go\<close> and their registration. A collector is
  known by its name and the names of its labels; what is handed to \<open>prometheus.MustRegister\<close>, which
  panics on a name it already has, is kept in \<open>registered\<close>.
\<close>

record collector =
  c_Name :: string
  c_labels :: "string list"

record collectors =
  registerOnce :: bool \<comment> \<open>whether the function of \<open>Do\<close> has run\<close>
  httpDurationHistogram :: "collector option"
  ledgerImbalanceCounter :: "collector option"
  idempotencyCounter :: "collector option"
  manualReviewQueueGauge :: "collector option"
  manualReviewCounter :: "collector option"
  workerRunCounter :: "collector option"
  registered :: "collector list"

text \<open>The variables before \<open>Init\<close>: \<open>nil\<close>.\<close>

definition no_collectors :: collectors where
  "no_collectors = \<lparr>registerOnce = False, httpDurationHistogram = None, ledgerImbalanceCounter = None,
     idempotencyCounter = None, manualReviewQueueGauge = None, manualReviewCounter = None,
     workerRunCounter = None, registered = []\<rparr>"

definition Init :: "collectors \<Rightarrow> collectors" where
  "Init g =
     (if registerOnce g then g
      else
        let h = \<lparr>c_Name = ''http_request_duration_seconds'', c_labels = [''method'', ''path'', ''status'']\<rparr>;
            l = \<lparr>c_Name = ''ledger_imbalance_total'', c_labels = [''currency'']\<rparr>;
            i = \<lparr>c_Name = ''idempotency_events_total'', c_labels = [''outcome'']\<rparr>;
            q = \<lparr>c_Name = ''payout_manual_review_queue_size'', c_labels = []\<rparr>;
            m = \<lparr>c_Name = ''payout_manual_review_transitions_total'', c_labels = [''action'']\<rparr>;
            k = \<lparr>c_Name = ''worker_runs_total'', c_labels = [''worker'', ''result'']\<rparr>
        in \<lparr>registerOnce = True, httpDurationHistogram = Some h, ledgerImbalanceCounter = Some l,
            idempotencyCounter = Some i, manualReviewQueueGauge = Some q, manualReviewCounter = Some m,
            workerRunCounter = Some k, registered = registered g @ [h, l, i, q, m, k]\<rparr>)"

text \<open>However often it is called, the collectors are made and handed over once.\<close>

lemma Init_Init [simp]: "Init (Init g) = Init g"
  by (simp add: Init_def Let_def)

lemma Init_again: "(Init ^^ Suc n) g = Init g"
  by (induction n) simp_all

lemma Init_registers: "distinct (map c_Name (registered (Init no_collectors)))"
  by (simp add: Init_def no_collectors_def Let_def)

lemma Init_sel [simp]:
  "map_option c_Name (httpDurationHistogram (Init no_collectors)) = Some ''http_request_duration_seconds''"
  "map_option c_Name (ledgerImbalanceCounter (Init no_collectors)) = Some ''ledger_imbalance_total''"
  "map_option c_Name (idempotencyCounter (Init no_collectors)) = Some ''idempotency_events_total''"
  "map_option c_Name (manualReviewQueueGauge (Init no_collectors)) = Some ''payout_manual_review_queue_size''"
  "map_option c_Name (manualReviewCounter (Init no_collectors)) = Some ''payout_manual_review_transitions_total''"
  "map_option c_Name (workerRunCounter (Init no_collectors)) = Some ''worker_runs_total''"
  by (simp_all add: Init_def no_collectors_def Let_def)

end
