(* ===== verification/Store.thy ===== *)
theory Store
  imports Database Metrics
begin

text \<open>
  The effects of the services: a state and error monad over the world (the database and
  everything outside the process), queries run alone or inside a transaction, and
  \<open>Store.RunInTx\<close> of \<open>internal/repository/store.go\<close>. Every answer of the outside is read from a
  schedule in the world, so that a theorem about all worlds is about every sequence of clock
  readings, generated identifiers, driver failures, context errors and gateway replies.
\<close>

subsection \<open>The world\<close>

text \<open>
  A driver failure: the statement is not executed (\<open>Fault\<close>), or it is executed and its reply
  is lost (\<open>LostReply\<close>). Serialisation failures and deadlocks are failures with an SQLSTATE.
\<close>

datatype db_fault = ConnLost string | CtxCanceled | CtxDeadline | SqlState string

datatype fault = NoFault | Fault db_fault | LostReply db_fault

fun fault_err :: "db_fault \<Rightarrow> err" where
  "fault_err (ConnLost m) = DriverErr m"
| "fault_err CtxCanceled = ContextCanceled"
| "fault_err CtxDeadline = ContextDeadlineExceeded"
| "fault_err (SqlState code) = PgError code"

datatype event =
    GatewaySend string int string \<comment> \<open>a call of the gateway: destination, amount, currency\<close>
  | Counter string "string list" \<comment> \<open>a Prometheus counter incremented, with its labels\<close>
  | Gauge string int
  | RedisSet string string int \<comment> \<open>a value written to the cache: key, value, time to live\<close>
  | Observe string "string list" int \<comment> \<open>a histogram observation: labels and a duration in microseconds\<close>
  | LogEntry string "string list" \<comment> \<open>a line of the request log: message and fields\<close>

text \<open>The reply of Redis to a command on a key: no value, a value, or an error of the client.\<close>

datatype redis_reply = RedisNil | RedisValue string | RedisError string

record world =
  wdb :: db
  wnow :: int \<comment> \<open>NOW() of the running transaction\<close>
  wfaults :: "nat \<Rightarrow> fault"
  wclock :: "nat \<Rightarrow> int"
  wuuids :: "nat \<Rightarrow> uuid"
  wctx :: "nat \<Rightarrow> err option"
  wgateway :: "nat \<Rightarrow> err + string"
  wskip :: "nat \<Rightarrow> uuid \<Rightarrow> bool" \<comment> \<open>rows locked by other sessions\<close>
  wredis :: "nat \<Rightarrow> string \<Rightarrow> redis_reply"
  wothers :: "nat \<Rightarrow> db \<Rightarrow> db" \<comment> \<open>what other sessions commit while this one sleeps\<close>
  wmetrics :: collectors \<comment> \<open>the package variables of \<open>observability\<close>\<close>
  wtrace :: "event list"

definition pop :: "(nat \<Rightarrow> 'a) \<Rightarrow> nat \<Rightarrow> 'a" where
  "pop s = (\<lambda>n. s (Suc n))"

type_synonym 'a m = "world \<Rightarrow> (err + 'a) \<times> world"

subsection \<open>Control\<close>

definition ret :: "'a \<Rightarrow> 'a m" where
  "ret a w = (Inr a, w)"

definition throw :: "err \<Rightarrow> 'a m" where
  "throw e w = (Inl e, w)"

definition bind :: "'a m \<Rightarrow> ('a \<Rightarrow> 'b m) \<Rightarrow> 'b m" where
  "bind m f w = (case m w of (Inl e, w') \<Rightarrow> (Inl e, w') | (Inr a, w') \<Rightarrow> f a w')"

text \<open>\<open>v, err := m\<close> with the error inspected by the caller.\<close>

definition attempt :: "'a m \<Rightarrow> (err + 'a) m" where
  "attempt m w = (case m w of (r, w') \<Rightarrow> (Inr r, w'))"

text \<open>\<open>if err != nil { return fmt.Errorf("text: %w", err) }\<close>.\<close>

definition wrapf :: "string \<Rightarrow> 'a m \<Rightarrow> 'a m" where
  "wrapf text m w = (case m w of (Inl e, w') \<Rightarrow> (Inl (Wrap text e ''''), w') | r \<Rightarrow> r)"

primrec foreach :: "('b \<Rightarrow> unit m) \<Rightarrow> 'b list \<Rightarrow> unit m" where
  "foreach f [] = ret ()"
| "foreach f (x # xs) = bind (f x) (\<lambda>_. foreach f xs)"

subsection \<open>Outside answers\<close>

definition uuid_New :: "uuid m" where
  "uuid_New w = (Inr (wuuids w 0), w\<lparr>wuuids := pop (wuuids w)\<rparr>)"

definition time_Now :: "int m" where
  "time_Now w = (Inr (wclock w 0), w\<lparr>wclock := pop (wclock w)\<rparr>)"

definition ctx_Err :: "err option m" where
  "ctx_Err w = (Inr (wctx w 0), w\<lparr>wctx := pop (wctx w)\<rparr>)"

definition locked_rows :: "(uuid \<Rightarrow> bool) m" where
  "locked_rows w = (Inr (wskip w 0), w\<lparr>wskip := pop (wskip w)\<rparr>)"

definition emit :: "event \<Rightarrow> unit m" where
  "emit e w = (Inr (), w\<lparr>wtrace := wtrace w @ [e]\<rparr>)"

text \<open>The interface \<open>Gateway.SendPayout\<close>: the call is recorded, the reply comes from outside.\<close>

definition SendPayout :: "string \<Rightarrow> int \<Rightarrow> string \<Rightarrow> string m" where
  "SendPayout destination amount currency w =
     (wgateway w 0, w\<lparr>wgateway := pop (wgateway w),
        wtrace := wtrace w @ [GatewaySend destination amount currency]\<rparr>)"

text \<open>Redis: each command consumes one reply; a value written is recorded in the trace.\<close>

definition redis_Get :: "string \<Rightarrow> redis_reply m" where
  "redis_Get key w = (Inr (wredis w 0 key), w\<lparr>wredis := pop (wredis w)\<rparr>)"

definition redis_Set :: "string \<Rightarrow> string \<Rightarrow> int \<Rightarrow> redis_reply m" where
  "redis_Set key v ttl w = (Inr (wredis w 0 key), w\<lparr>wredis := pop (wredis w),
     wtrace := wtrace w @ [RedisSet key v ttl]\<rparr>)"

definition redis_Ping :: "redis_reply m" where
  "redis_Ping w = (Inr (wredis w 0 ''''), w\<lparr>wredis := pop (wredis w)\<rparr>)"

text \<open>A sleep, during which other sessions commit.\<close>

definition tick :: "unit m" where
  "tick w = (Inr (), w\<lparr>wdb := wothers w 0 (wdb w), wothers := pop (wothers w)\<rparr>)"

subsection \<open>Running statements\<close>

text \<open>A statement inside a transaction: a failure leaves the transaction to be rolled back.\<close>

definition exec :: "'a stmt \<Rightarrow> 'a m" where
  "exec s w = (let w1 = w\<lparr>wfaults := pop (wfaults w)\<rparr> in
     case wfaults w 0 of
       NoFault \<Rightarrow> (case s (wnow w) (wdb w) of
           Inl e \<Rightarrow> (Inl e, w1) | Inr (a, d) \<Rightarrow> (Inr a, w1\<lparr>wdb := d\<rparr>))
     | Fault f \<Rightarrow> (Inl (fault_err f), w1)
     | LostReply f \<Rightarrow> (Inl (fault_err f), w1))"

text \<open>A statement on the pool is a transaction of its own, with its own \<open>NOW()\<close>.\<close>

definition auto_exec :: "'a stmt \<Rightarrow> 'a m" where
  "auto_exec s w = (let t = wclock w 0;
       w1 = w\<lparr>wfaults := pop (wfaults w), wclock := pop (wclock w), wnow := t\<rparr> in
     case wfaults w 0 of
       NoFault \<Rightarrow> (case s t (wdb w) of
           Inl e \<Rightarrow> (Inl e, w1) | Inr (a, d) \<Rightarrow> (Inr a, w1\<lparr>wdb := d\<rparr>))
     | Fault f \<Rightarrow> (Inl (fault_err f), w1)
     | LostReply f \<Rightarrow> (case s t (wdb w) of
           Inl e \<Rightarrow> (Inl (fault_err f), w1) | Inr (a, d) \<Rightarrow> (Inl (fault_err f), w1\<lparr>wdb := d\<rparr>)))"

text \<open>
  \<open>RunInTx\<close>: begin, run the function, roll back on its error, commit otherwise. A rollback
  restores every table; the audit sequence keeps its value. A failing commit has either not
  happened or happened without the client learning it.
\<close>

definition begin_tx :: "unit m" where
  "begin_tx w = (let w1 = w\<lparr>wfaults := pop (wfaults w), wclock := pop (wclock w), wnow := wclock w 0\<rparr> in
     case wfaults w 0 of
       NoFault \<Rightarrow> (Inr (), w1)
     | Fault f \<Rightarrow> (Inl (Wrap ''begin transaction: '' (fault_err f) ''''), w1)
     | LostReply f \<Rightarrow> (Inl (Wrap ''begin transaction: '' (fault_err f) ''''), w1))"

definition rollback :: "db \<Rightarrow> world \<Rightarrow> world" where
  "rollback d0 w = w\<lparr>wdb := d0\<lparr>audit_seq := audit_seq (wdb w)\<rparr>\<rparr>"

definition RunInTx :: "'a m \<Rightarrow> 'a m" where
  "RunInTx fn w =
     (case begin_tx w of
        (Inl e, w1) \<Rightarrow> (Inl e, w1)
      | (Inr _, w1) \<Rightarrow>
          (case fn w1 of
             (Inl e, w2) \<Rightarrow> (Inl e, rollback (wdb w1) w2)
           | (Inr a, w2) \<Rightarrow>
               (let w3 = w2\<lparr>wfaults := pop (wfaults w2)\<rparr> in
                case wfaults w2 0 of
                  NoFault \<Rightarrow> (Inr a, w3)
                | Fault f \<Rightarrow> (Inl (Wrap ''commit transaction: '' (fault_err f) ''''), rollback (wdb w1) w3)
                | LostReply f \<Rightarrow> (Inl (Wrap ''commit transaction: '' (fault_err f) ''''), w3))))"

subsection \<open>Basic laws\<close>

lemmas control_defs = ret_def throw_def bind_def attempt_def wrapf_def
  and outside_defs = uuid_New_def time_Now_def ctx_Err_def locked_rows_def emit_def SendPayout_def

lemma ret_bind [simp]: "bind (ret a) f = f a"
  by (simp add: fun_eq_iff control_defs)

lemma bind_ret [simp]: "bind m ret = m"
  by (auto simp: fun_eq_iff control_defs split: prod.splits sum.splits)

lemma bind_assoc: "bind (bind m f) g = bind m (\<lambda>a. bind (f a) g)"
  by (auto simp: fun_eq_iff control_defs split: prod.splits sum.splits)

lemma throw_bind [simp]: "bind (throw e) f = throw e"
  by (simp add: fun_eq_iff control_defs)

lemma bind_uuid_New: "bind uuid_New f w = f (wuuids w 0) (w\<lparr>wuuids := pop (wuuids w)\<rparr>)"
  by (simp add: bind_def uuid_New_def)

lemma bind_ok [ok_elims]:
  assumes "bind m f w = (Inr b, w')"
  obtains a w1 where "m w = (Inr a, w1)" and "f a w1 = (Inr b, w')"
  using assms by (auto simp: bind_def split: prod.splits sum.splits)

lemma wrapf_ok [ok_elims]:
  assumes "wrapf text m w = (Inr a, w')" obtains "m w = (Inr a, w')"
  using assms by (auto simp: wrapf_def split: prod.splits sum.splits)

lemma ret_ok [ok_elims]:
  assumes "ret a w = (Inr b, w')" obtains "b = a" and "w' = w"
  using assms by (auto simp: ret_def)

lemma throw_ok [ok_elims]:
  assumes "throw e w = (Inr b, w')" obtains "False"
  using assms by (auto simp: throw_def)

lemma exec_ok [ok_elims]:
  assumes "exec s w = (Inr a, w')"
  obtains "s (wnow w) (wdb w) = Inr (a, wdb w')" and "wnow w' = wnow w"
    and "wtrace w' = wtrace w"
  using assms by (auto simp: exec_def Let_def split: fault.splits sum.splits)

lemma uuid_New_ok [ok_elims]:
  assumes "uuid_New w = (Inr a, w')"
  obtains "wdb w' = wdb w" and "wnow w' = wnow w" and "wtrace w' = wtrace w"
  using assms by (auto simp: uuid_New_def)

text \<open>
  The contract of \<open>RunInTx\<close>: on success the database is what the function left; on an error it
  is the old one up to the audit sequence, unless the reply of the commit was lost.
\<close>

lemma begin_tx_db: "begin_tx w = (r, w') \<Longrightarrow> wdb w' = wdb w \<and> wtrace w' = wtrace w"
  by (auto simp: begin_tx_def Let_def split: fault.splits)

lemma RunInTx_ok:
  assumes "RunInTx fn w = (Inr a, w')"
  obtains w1 w2 where "begin_tx w = (Inr (), w1)" and "wdb w1 = wdb w" and "fn w1 = (Inr a, w2)"
    and "wdb w' = wdb w2" and "wtrace w1 = wtrace w" and "wtrace w' = wtrace w2"
proof (cases "begin_tx w")
  case (Pair r w1)
  with assms show thesis
    using begin_tx_db [OF Pair]
    by (auto simp: RunInTx_def Let_def split: sum.splits prod.splits fault.splits intro!: that)
qed

lemma RunInTx_err:
  assumes "RunInTx fn w = (Inl e, w')"
  shows "(\<exists>n. wdb w' = (wdb w)\<lparr>audit_seq := n\<rparr>) \<or>
    (\<exists>a w1 w2. begin_tx w = (Inr (), w1) \<and> fn w1 = (Inr a, w2) \<and> wdb w' = wdb w2 \<and>
       (\<exists>f. wfaults w2 0 = LostReply f))"
proof (cases "begin_tx w")
  case (Pair r w1)
  have "\<exists>n. wdb w = (wdb w)\<lparr>audit_seq := n\<rparr>"
    by (rule exI [of _ "audit_seq (wdb w)"]) simp
  with Pair assms begin_tx_db [OF Pair] show ?thesis
    by (auto simp: RunInTx_def Let_def rollback_def split: sum.splits prod.splits fault.splits)
qed

text \<open>Whatever the outcome, the transaction has left no trace or all of its effects.\<close>

lemma RunInTx_atomic:
  assumes "RunInTx fn w = (r, w')"
  obtains (rolled_back) n e where "r = Inl e" and "wdb w' = (wdb w)\<lparr>audit_seq := n\<rparr>"
    | (committed) a w1 w2 where "begin_tx w = (Inr (), w1)" and "wdb w1 = wdb w" and "fn w1 = (Inr a, w2)"
      and "wdb w' = wdb w2" and "\<And>b. r = Inr b \<Longrightarrow> b = a"
proof (cases r)
  case (Inr a)
  with assms have "RunInTx fn w = (Inr a, w')" by simp
  then obtain w1 w2 where "begin_tx w = (Inr (), w1)" "wdb w1 = wdb w" "fn w1 = (Inr a, w2)" "wdb w' = wdb w2"
    by (rule RunInTx_ok)
  with Inr show thesis by (auto intro!: committed)
next
  case (Inl e)
  with assms have "RunInTx fn w = (Inl e, w')" by simp
  from RunInTx_err [OF this] show thesis
  proof (elim disjE exE conjE)
    fix n assume "wdb w' = (wdb w)\<lparr>audit_seq := n\<rparr>"
    with Inl show thesis by (rule rolled_back)
  next
    fix a w1 w2 f
    assume "begin_tx w = (Inr (), w1)" "fn w1 = (Inr a, w2)" "wdb w' = wdb w2"
    with Inl show thesis by (intro committed) (auto dest: begin_tx_db)
  qed
qed

subsection \<open>Relations every statement respects\<close>

text \<open>
  \<open>frame R m\<close>: whatever the outside answers, the database after running \<open>m\<close> is related to the
  one before. The locale collects the composition rules for a reflexive and transitive
  relation that does not look at the audit sequence.
\<close>

definition frame :: "(db \<Rightarrow> db \<Rightarrow> bool) \<Rightarrow> 'a m \<Rightarrow> bool" where
  "frame R m \<longleftrightarrow> (\<forall>w. R (wdb w) (wdb (snd (m w))))"

definition keeps :: "(db \<Rightarrow> db \<Rightarrow> bool) \<Rightarrow> 'a stmt \<Rightarrow> bool" where
  "keeps R s \<longleftrightarrow> (\<forall>t d a d'. s t d = Inr (a, d') \<longrightarrow> R d d')"

lemma frameD: "frame R m \<Longrightarrow> m w = (r, w') \<Longrightarrow> R (wdb w) (wdb w')"
  by (metis frame_def snd_conv)

lemma keepsD: "keeps R s \<Longrightarrow> s t d = Inr (a, d') \<Longrightarrow> R d d'"
  by (auto simp: keeps_def)

locale frame_rel =
  fixes R :: "db \<Rightarrow> db \<Rightarrow> bool"
  assumes R_refl: "R d d"
    and R_trans: "R d d' \<Longrightarrow> R d' d'' \<Longrightarrow> R d d''"
    and R_seq: "R d (d\<lparr>audit_seq := n\<rparr>)"
begin

lemma frame_pure [frame_intros]:
  "frame R (ret a)" "frame R (throw e)" "frame R uuid_New" "frame R time_Now" "frame R ctx_Err"
  "frame R locked_rows" "frame R (emit ev)" "frame R (SendPayout dest amount currency)"
  by (auto simp: frame_def control_defs outside_defs R_refl)

lemma frame_bind [frame_intros]:
  assumes "frame R m" and "\<And>a. frame R (f a)"
  shows "frame R (bind m f)"
proof -
  have "R (wdb w) (wdb (snd (bind m f w)))" for w
  proof (cases "m w")
    case (Pair r w1)
    have "R (wdb w) (wdb w1)" using assms(1) Pair by (rule frameD)
    then show ?thesis
      using assms(2) Pair by (auto simp: bind_def frame_def split: sum.splits intro: R_trans)
  qed
  then show ?thesis by (simp add: frame_def)
qed

lemma frame_attempt [frame_intros]: "frame R m \<Longrightarrow> frame R (attempt m)"
  by (auto simp: frame_def attempt_def split: prod.splits) (metis snd_conv)

lemma frame_wrapf [frame_intros]: "frame R m \<Longrightarrow> frame R (wrapf text m)"
  by (auto simp: frame_def wrapf_def split: prod.splits sum.splits) (metis snd_conv)+

lemma frame_foreach [frame_intros]: "(\<And>x. frame R (f x)) \<Longrightarrow> frame R (foreach f xs)"
  by (induction xs) (auto intro!: frame_intros)

lemma frame_exec [frame_intros]: "keeps R s \<Longrightarrow> frame R (exec s)"
  by (auto simp: frame_def exec_def keeps_def Let_def R_refl split: fault.splits sum.splits)

lemma frame_auto_exec [frame_intros]: "keeps R s \<Longrightarrow> frame R (auto_exec s)"
  by (auto simp: frame_def auto_exec_def keeps_def Let_def R_refl split: fault.splits sum.splits)

text \<open>Only a completed function counts: its intermediate states need not be related.\<close>

lemma frame_RunInTx_atomic:
  assumes "\<And>w a w'. fn w = (Inr a, w') \<Longrightarrow> R (wdb w) (wdb w')"
  shows "frame R (RunInTx fn)"
proof -
  have "R (wdb w) (wdb w')" if "RunInTx fn w = (r, w')" for w r w'
    using that by (cases rule: RunInTx_atomic) (auto simp: R_seq dest: assms)
  then show ?thesis by (metis frame_def prod.collapse)
qed

lemma frame_RunInTx [frame_intros]: "frame R fn \<Longrightarrow> frame R (RunInTx fn)"
  by (rule frame_RunInTx_atomic) (rule frameD)

lemma frame_if [frame_intros]: "(b \<Longrightarrow> frame R m) \<Longrightarrow> (\<not> b \<Longrightarrow> frame R n) \<Longrightarrow> frame R (if b then m else n)"
  by simp

lemma frame_case_option [frame_intros]:
  "frame R m \<Longrightarrow> (\<And>a. frame R (f a)) \<Longrightarrow> frame R (case x of None \<Rightarrow> m | Some a \<Rightarrow> f a)"
  by (cases x) auto

lemma frame_case_sum [frame_intros]:
  "(\<And>a. frame R (f a)) \<Longrightarrow> (\<And>b. frame R (g b)) \<Longrightarrow> frame R (case x of Inl a \<Rightarrow> f a | Inr b \<Rightarrow> g b)"
  by (cases x) auto

lemma frame_case_prod [frame_intros]:
  "(\<And>a b. frame R (f a b)) \<Longrightarrow> frame R (case x of (a, b) \<Rightarrow> f a b)"
  by (cases x) auto

lemma frame_Let [frame_intros]: "(\<And>a. frame R (f a)) \<Longrightarrow> frame R (let a = x in f a)"
  by simp

lemma keeps_reads [frame_intros]:
  "keeps R (GetUser i)" "keeps R (GetAccount i)" "keeps R (GetAccountBalanceAndLocked i)"
  "keeps R (GetEntries i n j)" "keeps R (CheckTransactionIdempotency r)"
  "keeps R (GetAccountBalanceAndCurrency i)" "keeps R (GetAccountCurrency i)"
  "keeps R (GetTransaction i)" "keeps R (GetTransactionStatusForUpdate i)"
  "keeps R (LockAccount i)" "keeps R (CountPayoutsByStatus s)" "keeps R (GetPayout i)"
  "keeps R (GetPayoutByTransactionID i)" "keeps R (GetPayoutForUpdate i)"
  "keeps R (GetPayoutsByStatus s n j)" "keeps R (GetPendingPayouts skip n)"
  "keeps R (GetStaleProcessingPayouts skip c n)" "keeps R (GetAuditLogsByEntity ty i)"
  "keeps R GetLedgerNet" "keeps R GetLedgerCurrencyImbalances"
  "keeps R (GetIdempotencyKey k)"
  by (auto simp: keeps_def sql_defs R_refl Let_def split: option.splits if_splits)

end

text \<open>
  The relations that every writing statement respects: the properties of the data model that
  hold whatever the services do. A client proves once, inside this locale, that it is built
  from the statements of the repository only.
\<close>

locale stmt_frame = frame_rel +
  assumes keeps_CreateUser [frame_intros]: "keeps R (CreateUser i n em ro)"
    and keeps_CreateAccount [frame_intros]: "keeps R (CreateAccount i u c b)"
    and keeps_LockAccountFunds [frame_intros]: "keeps R (LockAccountFunds x i)"
    and keeps_ReleaseAccountFunds [frame_intros]: "keeps R (ReleaseAccountFunds x i)"
    and keeps_ReleaseAccountFundsSafe [frame_intros]: "keeps R (ReleaseAccountFundsSafe x i)"
    and keeps_DeductLockedFunds [frame_intros]: "keeps R (DeductLockedFunds x i)"
    and keeps_UpdateAccountBalance [frame_intros]: "keeps R (UpdateAccountBalance x i)"
    and keeps_CreateEntry [frame_intros]: "keeps R (CreateEntry i tx ac x di)"
    and keeps_CreateTransaction [frame_intros]: "keeps R (CreateTransaction i x c ty st r fx md)"
    and keeps_UpdateTransactionFx [frame_intros]: "keeps R (UpdateTransactionFx fx md i)"
    and keeps_UpdateTransactionStatus [frame_intros]: "keeps R (UpdateTransactionStatus st i)"
    and keeps_InsertPayout [frame_intros]: "keeps R (InsertPayout i tx ac x c st)"
    and keeps_UpdatePayoutStatus [frame_intros]: "keeps R (UpdatePayoutStatus st g i)"
    and keeps_InsertAuditLog [frame_intros]: "keeps R (InsertAuditLog ety eid actor act ps ns amd)"
    and keeps_FinalizeIdempotencyKey [frame_intros]: "keeps R (FinalizeIdempotencyKey rs rb ct k h)"
    and keeps_ReserveIdempotencyKey [frame_intros]: "keeps R (ReserveIdempotencyKey k h me pa)"

text \<open>Nothing stored has changed; the audit sequence may have advanced.\<close>

definition unchanged :: "db \<Rightarrow> db \<Rightarrow> bool" where
  "unchanged d d' \<longleftrightarrow> (\<exists>n. d' = d\<lparr>audit_seq := n\<rparr>)"

lemma unchanged_refl [simp]: "unchanged d d"
  unfolding unchanged_def by (rule exI [of _ "audit_seq d"]) simp

interpretation idle: frame_rel unchanged
proof (unfold_locales, goal_cases)
  case (2 d d' d'') then show ?case by (auto simp: unchanged_def)
qed (auto simp: unchanged_def intro: exI [of _ "audit_seq d" for d])

lemma unchanged_tables:
  assumes "unchanged d d'"
  shows "users d' = users d" "accounts d' = accounts d" "transactions d' = transactions d"
    "entries d' = entries d" "payouts d' = payouts d" "audit_log d' = audit_log d"
    "idempotency_keys d' = idempotency_keys d"
  using assms by (auto simp: unchanged_def)

lemma foreach_map: "foreach f (map g xs) = foreach (\<lambda>x. f (g x)) xs"
  by (induction xs) simp_all

text \<open>A read on the pool: the database stays, and without an error its result is the query's.\<close>

lemma auto_exec_ok [ok_elims]:
  assumes "auto_exec s w = (Inr a, w')"
  obtains t where "s t (wdb w) = Inr (a, wdb w')" and "wtrace w' = wtrace w"
  using assms by (auto simp: auto_exec_def Let_def split: fault.splits sum.splits)

lemma auto_exec_read: "keeps (=) s \<Longrightarrow> auto_exec s w = (r, w') \<Longrightarrow> wdb w' = wdb w"
  by (auto simp: auto_exec_def keeps_def Let_def split: fault.splits sum.splits) metis+

lemma attempt_cases:
  assumes "attempt m w = (r, w')" obtains x where "r = Inr x" and "m w = (x, w')"
  using assms by (auto simp: attempt_def split: prod.splits)

end
