(* ===== verification/Observability.thy ===== *)
theory Observability
  imports Store
begin

text \<open>
  The updates of \<open>internal/observability/metrics.go\<close>: each does nothing while its collector is \<open>nil\<close>,
  and otherwise is an event of the trace with the collector's name and the label values.
\<close>

definition update_metric :: "(collectors \<Rightarrow> collector option) \<Rightarrow> (string \<Rightarrow> event) \<Rightarrow> unit m" where
  "update_metric var ev w = (case var (wmetrics w) of None \<Rightarrow> ret () w | Some c \<Rightarrow> emit (ev (c_Name c)) w)"

definition ObserveHTTP :: "string \<Rightarrow> string \<Rightarrow> int \<Rightarrow> int \<Rightarrow> unit m" where
  "ObserveHTTP meth path status duration =
     update_metric httpDurationHistogram (\<lambda>name. Observe name [meth, path, show_int status] duration)"

definition IncrementLedgerImbalance :: "string \<Rightarrow> unit m" where
  "IncrementLedgerImbalance currency = update_metric ledgerImbalanceCounter (\<lambda>name. Counter name [currency])"

definition IncrementIdempotencyEvent :: "string \<Rightarrow> unit m" where
  "IncrementIdempotencyEvent outcome = update_metric idempotencyCounter (\<lambda>name. Counter name [outcome])"

definition SetManualReviewQueueSize :: "int \<Rightarrow> unit m" where
  "SetManualReviewQueueSize n = update_metric manualReviewQueueGauge (\<lambda>name. Gauge name n)"

definition IncrementManualReviewTransition :: "string \<Rightarrow> unit m" where
  "IncrementManualReviewTransition action = update_metric manualReviewCounter (\<lambda>name. Counter name [action])"

definition IncrementWorkerRun :: "string \<Rightarrow> string \<Rightarrow> unit m" where
  "IncrementWorkerRun worker result = update_metric workerRunCounter (\<lambda>name. Counter name [worker, result])"

lemmas metric_defs = ObserveHTTP_def IncrementLedgerImbalance_def IncrementIdempotencyEvent_def
  SetManualReviewQueueSize_def IncrementManualReviewTransition_def IncrementWorkerRun_def

text \<open>An update never fails and touches nothing but the trace.\<close>

definition metric_events :: "(collectors \<Rightarrow> collector option) \<Rightarrow> (string \<Rightarrow> event) \<Rightarrow> world \<Rightarrow> event list" where
  "metric_events var ev w = (case var (wmetrics w) of None \<Rightarrow> [] | Some c \<Rightarrow> [ev (c_Name c)])"

lemma update_metric_eq: "update_metric var ev w = (Inr (), w\<lparr>wtrace := wtrace w @ metric_events var ev w\<rparr>)"
  by (simp add: update_metric_def metric_events_def ret_def emit_def split: option.split)

lemmas metric_eqs = metric_defs update_metric_eq

lemma metric_events_ready [simp]:
  "map_option c_Name (var (wmetrics w)) = Some name \<Longrightarrow> metric_events var ev w = [ev name]"
  by (auto simp: metric_events_def)

context frame_rel
begin

lemma frame_metrics [frame_intros]:
  "frame R (ObserveHTTP meth path status duration)" "frame R (IncrementLedgerImbalance c)"
  "frame R (IncrementIdempotencyEvent e)" "frame R (SetManualReviewQueueSize n)"
  "frame R (IncrementManualReviewTransition a)" "frame R (IncrementWorkerRun u v)"
  by (simp_all add: frame_def metric_eqs R_refl)

end

subsection \<open>Registered collectors\<close>

fun event_labels :: "event \<Rightarrow> (string \<times> nat) option" where
  "event_labels (Counter name ls) = Some (name, length ls)"
| "event_labels (Observe name ls _) = Some (name, length ls)"
| "event_labels (Gauge name _) = Some (name, 0)"
| "event_labels _ = None"

text \<open>An event has a registered name and as many label values as the collector has labels.\<close>

definition fits :: "collectors \<Rightarrow> event \<Rightarrow> bool" where
  "fits g ev = (\<exists>c \<in> set (registered g). event_labels ev = Some (c_Name c, length (c_labels c)))"

lemma fits_ready:
  "fits (Init no_collectors) ev \<longleftrightarrow> event_labels ev \<in> Some ` {(''http_request_duration_seconds'', 3),
     (''ledger_imbalance_total'', 1), (''idempotency_events_total'', 1), (''payout_manual_review_queue_size'', 0),
     (''payout_manual_review_transitions_total'', 1), (''worker_runs_total'', 2)}"
  by (simp add: fits_def Init_def no_collectors_def Let_def eval_nat_numeral)

text \<open>
  Metrics are complete and cannot panic: after any positive number of calls of \<open>Init\<close> the six
  collectors have been handed to the registry once each, under different names, and every update
  records exactly one event, with a registered name and the number of label values it was
  registered with; before \<open>Init\<close> an update is a no-op.
\<close>

theorem metrics_recorded:
  assumes "update \<in> {ObserveHTTP meth path status duration, IncrementLedgerImbalance c, IncrementIdempotencyEvent e,
      SetManualReviewQueueSize n, IncrementManualReviewTransition a, IncrementWorkerRun u v}"
  shows "length (registered ((Init ^^ Suc k) no_collectors)) = 6 \<and>
    distinct (map c_Name (registered ((Init ^^ Suc k) no_collectors))) \<and>
    (wmetrics w = (Init ^^ Suc k) no_collectors \<longrightarrow>
      (\<exists>ev. update w = (Inr (), w\<lparr>wtrace := wtrace w @ [ev]\<rparr>) \<and> fits (wmetrics w) ev)) \<and>
    (wmetrics w = no_collectors \<longrightarrow> update w = (Inr (), w))"
proof (intro conjI impI)
  assume "wmetrics w = (Init ^^ Suc k) no_collectors"
  then have ready: "wmetrics w = Init no_collectors" by (simp only: Init_again)
  obtain ev where "update w = (Inr (), w\<lparr>wtrace := wtrace w @ [ev]\<rparr>)" and "fits (Init no_collectors) ev"
    using assms by (auto simp: ready metric_eqs fits_ready)
  then show "\<exists>ev. update w = (Inr (), w\<lparr>wtrace := wtrace w @ [ev]\<rparr>) \<and> fits (wmetrics w) ev"
    using ready by auto
next
  assume "wmetrics w = no_collectors"
  then show "update w = (Inr (), w)"
    using assms by (auto simp: metric_eqs metric_events_def no_collectors_def)
qed (simp_all only: Init_again, simp_all add: Init_registers, simp add: Init_def no_collectors_def Let_def)

end
