(* ===== verification/TransactionState.thy ===== *)
theory TransactionState
  imports Observability
begin

text \<open>
  The transaction state machine (\<open>internal/service/transaction_state.go\<close>), the audit writer
  (\<open>audit.go\<close>) and the row-count guard (\<open>utils.go\<close>): \<open>transitionTransactionState\<close> is the only
  way the services change the status of a transaction inside a database transaction.
\<close>

subsection \<open>Row counts and audit records\<close>

definition requireExactlyOne :: "int \<Rightarrow> string \<Rightarrow> unit m" where
  "requireExactlyOne rows operation =
     (if rows \<noteq> 1 then throw (Msg (operation @ '' affected '' @ show_int rows @ '' rows''))
      else ret ())"

definition textParam :: "string \<Rightarrow> string option" where
  "textParam v = (if v = '''' then None else Some v)"

definition audit_Write ::
  "string \<Rightarrow> uuid \<Rightarrow> uuid option \<Rightarrow> string \<Rightarrow> string \<Rightarrow> string \<Rightarrow> json option \<Rightarrow> unit m" where
  "audit_Write entityType entityID actorID action prevState nextState metadata =
     bind (wrapf ''insert audit log: ''
       (exec (InsertAuditLog entityType entityID actorID action (textParam prevState)
          (textParam nextState) metadata))) (\<lambda>_. ret ())"

subsection \<open>The state machine\<close>

definition transactionTransitions :: "string \<rightharpoonup> string set" where
  "transactionTransitions =
     [''PENDING'' \<mapsto> {''PROCESSING'', ''FAILED''},
      ''PROCESSING'' \<mapsto> {''PENDING'', ''COMPLETED'', ''FAILED'', ''REVERSED''},
      ''COMPLETED'' \<mapsto> {''REVERSED''},
      ''FAILED'' \<mapsto> {''PROCESSING'', ''REVERSED''},
      ''REVERSED'' \<mapsto> {}]"

definition normalizeState :: "string \<Rightarrow> string" where
  "normalizeState state = ToUpper (TrimSpace state)"

definition canTransition :: "string \<Rightarrow> string \<Rightarrow> bool" where
  "canTransition current next =
     (case transactionTransitions (normalizeState current) of
        None \<Rightarrow> False
      | Some nextStates \<Rightarrow> normalizeState next \<in> nextStates)"

definition transitionTransactionState ::
  "uuid \<Rightarrow> string \<Rightarrow> uuid option \<Rightarrow> string \<Rightarrow> json option \<Rightarrow> unit m" where
  "transitionTransactionState transactionID nextState actorID action metadata =
     bind (wrapf ''get current transaction state: '' (exec (GetTransactionStatusForUpdate transactionID)))
       (\<lambda>currentState.
     if normalizeState currentState = normalizeState nextState then ret ()
     else if \<not> canTransition currentState nextState then
       throw (Msg (''invalid transaction state transition: '' @ currentState @ '' -> '' @ nextState))
     else
     bind (wrapf ''update transaction state: '' (exec (UpdateTransactionStatus nextState transactionID)))
       (\<lambda>rows.
     bind (requireExactlyOne rows ''update transaction state'') (\<lambda>_.
     audit_Write ''transaction'' transactionID actorID action currentState nextState metadata)))"

lemmas state_defs = requireExactlyOne_def textParam_def audit_Write_def transitionTransactionState_def

subsection \<open>Frame rules\<close>

context frame_rel
begin

lemma frame_requireExactlyOne [frame_intros]: "frame R (requireExactlyOne n op)"
  by (simp add: requireExactlyOne_def frame_pure)

end

text \<open>
  The interface of the payment services: the statements they execute themselves, with the state
  machine as the way to change a status (\<open>ledger_frame\<close>); a payout request also inserts a payout
  (\<open>service_frame\<close>), and the payout worker also sets a status directly (\<open>worker_frame\<close>). Whatever
  respects all statements is an instance of the three.
\<close>

locale ledger_frame = frame_rel +
  assumes keeps_LockAccountFunds [frame_intros]: "keeps R (LockAccountFunds x i)"
    and keeps_ReleaseAccountFunds [frame_intros]: "keeps R (ReleaseAccountFunds x i)"
    and keeps_ReleaseAccountFundsSafe [frame_intros]: "keeps R (ReleaseAccountFundsSafe x i)"
    and keeps_DeductLockedFunds [frame_intros]: "keeps R (DeductLockedFunds x i)"
    and keeps_UpdateAccountBalance [frame_intros]: "keeps R (UpdateAccountBalance x i)"
    and keeps_CreateEntry [frame_intros]: "keeps R (CreateEntry i tx ac x di)"
    and keeps_CreateTransaction [frame_intros]: "keeps R (CreateTransaction i x c ty TxStatusPending r fx md)"
    and keeps_UpdateTransactionFx [frame_intros]: "keeps R (UpdateTransactionFx fx md i)"

    and keeps_UpdatePayoutStatus [frame_intros]: "keeps R (UpdatePayoutStatus st g i)"
    and keeps_InsertAuditLog [frame_intros]: "keeps R (InsertAuditLog ety eid actor act ps ns amd)"
    and frame_transition [frame_intros]: "frame R (transitionTransactionState i nst actor act amd)"
begin

lemma frame_audit_Write [frame_intros]: "frame R (audit_Write ty i ac a ps ns md)"
  unfolding audit_Write_def by (intro frame_intros)

end

locale service_frame = ledger_frame +
  assumes keeps_InsertPayout [frame_intros]: "keeps R (InsertPayout i tx ac x c PayoutStatusPending)"

locale worker_frame = service_frame +
  assumes keeps_UpdateTransactionStatus [frame_intros]: "keeps R (UpdateTransactionStatus st i)"

context stmt_frame
begin

lemma transition_respects: "frame R (transitionTransactionState i ns ac a md)"
  unfolding transitionTransactionState_def audit_Write_def by (intro frame_intros)

end

sublocale stmt_frame \<subseteq> worker: worker_frame R
  by unfold_locales (rule keeps_LockAccountFunds keeps_ReleaseAccountFunds keeps_ReleaseAccountFundsSafe
    keeps_DeductLockedFunds keeps_UpdateAccountBalance keeps_CreateEntry keeps_CreateTransaction
    keeps_UpdateTransactionFx keeps_InsertPayout keeps_UpdatePayoutStatus keeps_InsertAuditLog
    transition_respects keeps_UpdateTransactionStatus)+

lemma requireExactlyOne_ok [ok_elims]:
  assumes "requireExactlyOne n op w = (Inr u, w')" obtains "n = 1" and "w' = w"
  using assms by (auto simp: requireExactlyOne_def throw_def ret_def split: if_splits)

end
