(* ===== verification/Ledger.thy ===== *)
theory Ledger
  imports TransactionState
begin

text \<open>
  What the tables mean: the view of the database as accounts with a balance, locked funds and
  the net of their ledger entries, and the two relations that every statement of the
  repository respects: history is kept (\<open>evolves\<close>), and the constraints of the schema hold
  (\<open>schema_ok\<close>). Both are interpretations of \<open>stmt_frame\<close>, so they hold of every service.
\<close>

subsection \<open>Views\<close>

abbreviation acct :: "db \<Rightarrow> uuid \<Rightarrow> account_row option" where
  "acct d i \<equiv> sel_one a_id i (accounts d)"

abbreviation txn :: "db \<Rightarrow> uuid \<Rightarrow> transaction_row option" where
  "txn d i \<equiv> sel_one t_id i (transactions d)"

abbreviation payout_of :: "db \<Rightarrow> uuid \<Rightarrow> payout_row option" where
  "payout_of d i \<equiv> sel_one p_id i (payouts d)"

definition balance_of :: "db \<Rightarrow> uuid \<Rightarrow> int" where
  "balance_of d i = (case acct d i of None \<Rightarrow> 0 | Some r \<Rightarrow> a_balance r)"

definition locked_of :: "db \<Rightarrow> uuid \<Rightarrow> int" where
  "locked_of d i = (case acct d i of None \<Rightarrow> 0 | Some r \<Rightarrow> a_locked_micros r)"

definition net_of :: "db \<Rightarrow> uuid \<Rightarrow> int" where
  "net_of d i = sum_list (map signed_amount (filter (\<lambda>e. e_account_id e = i) (entries d)))"

definition ledger_net :: "db \<Rightarrow> int" where
  "ledger_net d = sum_list (map signed_amount (entries d))"

subsection \<open>History is kept\<close>

definition grows :: "('r \<Rightarrow> 'k) \<Rightarrow> 'r list \<Rightarrow> 'r list \<Rightarrow> bool" where
  "grows f xs ys \<longleftrightarrow> (\<exists>zs. map f ys = map f xs @ zs)"

lemma grows_refl [simp]: "grows f xs xs"
  by (simp add: grows_def)

lemma grows_trans: "grows f xs ys \<Longrightarrow> grows f ys zs \<Longrightarrow> grows f xs zs"
  by (auto simp: grows_def)

lemma grows_append [simp]: "grows f xs (xs @ ys)"
  by (simp add: grows_def)

lemma grows_update:
  assumes "update_rows P g xs = Inr (n, ys)" and "\<And>r r'. g r = Inr r' \<Longrightarrow> f r' = f r"
  shows "grows f xs ys"
  using update_rows_map [OF assms] by (simp add: grows_def)

lemma grows_sel_one:
  assumes "grows f xs ys" and "\<And>r. key r = fst (f r)" and "sel_one key k xs = Some r"
  obtains r' where "sel_one key k ys = Some r'" and "f r' = f r"
proof -
  obtain zs where zs: "map f ys = map f xs @ zs" using assms(1) by (auto simp: grows_def)
  have "\<exists>r'. sel_one key k ys = Some r' \<and> f r' = f r"
    using assms(3) zs
  proof (induction xs arbitrary: ys)
    case (Cons x xs)
    then obtain y ys' where "ys = y # ys'" and "f y = f x" and "map f ys' = map f xs @ zs"
      by (auto simp: Cons_eq_append_conv map_eq_Cons_conv)
    with Cons show ?case by (auto simp: assms(2) split: if_splits)
  qed simp
  then show thesis using that by blast
qed

definition account_identity :: "account_row \<Rightarrow> uuid \<times> uuid \<times> string \<times> int" where
  "account_identity r = (a_id r, a_user_id r, a_currency r, a_created_at r)"

definition transaction_identity :: "transaction_row \<Rightarrow> uuid \<times> int \<times> string \<times> string \<times> string \<times> int" where
  "transaction_identity r =
     (t_id r, t_amount r, t_currency r, t_type r, t_reference_id r, t_created_at r)"

definition payout_identity :: "payout_row \<Rightarrow> uuid \<times> uuid \<times> uuid \<times> int \<times> string \<times> int" where
  "payout_identity r =
     (p_id r, p_transaction_id r, p_account_id r, p_amount_micros r, p_currency r, p_created_at r)"

definition key_identity :: "idempotency_row \<Rightarrow> string \<times> string \<times> string \<times> string" where
  "key_identity r = (k_key r, k_request_hash r, k_method r, k_path r)"

lemmas identity_defs =
  account_identity_def transaction_identity_def payout_identity_def key_identity_def

text \<open>Entries and audit records are only appended; rows keep their identity and are never removed.\<close>

definition evolves :: "db \<Rightarrow> db \<Rightarrow> bool" where
  "evolves d d' \<longleftrightarrow>
     grows (\<lambda>e. e) (entries d) (entries d') \<and> grows (\<lambda>l. l) (audit_log d) (audit_log d') \<and>
     grows (\<lambda>u. u) (users d) (users d') \<and>
     grows account_identity (accounts d) (accounts d') \<and>
     grows transaction_identity (transactions d) (transactions d') \<and>
     grows payout_identity (payouts d) (payouts d') \<and>
     grows key_identity (idempotency_keys d) (idempotency_keys d')"

lemma set_funds_simps:
  assumes "set_funds b l r = Inr r'"
  shows "r' = r\<lparr>a_balance := b, a_locked_micros := l\<rparr>" and "0 \<le> l" and "in_int64 b" and "in_int64 l"
  using assms by (auto simp: set_funds_def split: if_splits)

lemma set_funds_identity: "set_funds b l r = Inr r' \<Longrightarrow> account_identity r' = account_identity r"
  by (auto simp: identity_defs dest: set_funds_simps)

lemma evolves_funds:
  "keeps evolves (update_accounts P (\<lambda>r. set_funds (b r) (l r) r))"
  by (auto simp: keeps_def update_accounts_def evolves_def split: sum.splits
        intro!: grows_update elim: set_funds_identity)

lemma evolves_transactions:
  assumes "\<And>r r'. f r = Inr r' \<Longrightarrow> transaction_identity r' = transaction_identity r"
  shows "keeps evolves (update_transactions i f)"
  using assms
  by (auto simp: keeps_def update_transactions_def evolves_def split: sum.splits intro!: grows_update)

lemma evolves_inserts:
  "keeps evolves (CreateUser i n em ro)" "keeps evolves (CreateAccount i u c b)"
  "keeps evolves (CreateEntry i tx ac x di)" "keeps evolves (CreateTransaction i x c ty st r fx md)"
  "keeps evolves (InsertPayout i tx ac x c st)" "keeps evolves (InsertAuditLog ty i act a ps ns md)"
  "keeps evolves (ReserveIdempotencyKey k h me pa)"
  by (auto simp: keeps_def sql_defs evolves_def Let_def split: if_splits)

lemma evolves_updates:
  "keeps evolves (UpdateTransactionFx fx md i)" "keeps evolves (UpdateTransactionStatus st i)"
  "keeps evolves (UpdatePayoutStatus st g i)" "keeps evolves (FinalizeIdempotencyKey rs rb ct k h)"
proof -
  show "keeps evolves (UpdateTransactionFx fx md i)" "keeps evolves (UpdateTransactionStatus st i)"
    unfolding UpdateTransactionFx_def UpdateTransactionStatus_def
    by (rule evolves_transactions; auto simp: identity_defs split: option.splits if_splits)+
  show "keeps evolves (UpdatePayoutStatus st g i)" "keeps evolves (FinalizeIdempotencyKey rs rb ct k h)"
    by (auto simp: keeps_def UpdatePayoutStatus_def FinalizeIdempotencyKey_def evolves_def identity_defs
          split: sum.splits option.splits if_splits intro!: grows_update)
qed

interpretation evo: stmt_frame evolves
proof (unfold_locales, goal_cases)
  case (1 d) show ?case by (simp add: evolves_def)
next
  case (2 d d' d'') then show ?case unfolding evolves_def by (blast intro: grows_trans)
next
  case (3 d n) show ?case by (simp add: evolves_def)
qed (simp_all add: evolves_inserts evolves_updates evolves_funds LockAccountFunds_def
      ReleaseAccountFunds_def ReleaseAccountFundsSafe_def DeductLockedFunds_def UpdateAccountBalance_def)

subsection \<open>The constraints of the schema\<close>

definition account_ok :: "db \<Rightarrow> account_row \<Rightarrow> bool" where
  "account_ok d r \<longleftrightarrow> currency_ok (a_currency r) \<and> 0 \<le> a_locked_micros r \<and>
     a_user_id r \<in> set (map u_id (users d))"

definition transaction_ok :: "transaction_row \<Rightarrow> bool" where
  "transaction_ok r \<longleftrightarrow> 0 < t_amount r \<and> currency_ok (t_currency r) \<and> tx_type_ok (t_type r) \<and>
     tx_status_ok (t_status r)"

definition entry_ok :: "db \<Rightarrow> entry_row \<Rightarrow> bool" where
  "entry_ok d e \<longleftrightarrow> 0 < e_amount e \<and> direction_ok (e_direction e) \<and>
     e_transaction_id e \<in> set (map t_id (transactions d)) \<and>
     e_account_id e \<in> set (map a_id (accounts d))"

definition payout_ok :: "db \<Rightarrow> payout_row \<Rightarrow> bool" where
  "payout_ok d p \<longleftrightarrow> 0 < p_amount_micros p \<and> currency_ok (p_currency p) \<and>
     payout_status_ok (p_status p) \<and>
     p_transaction_id p \<in> set (map t_id (transactions d)) \<and>
     p_account_id p \<in> set (map a_id (accounts d))"

definition schema_ok :: "db \<Rightarrow> bool" where
  "schema_ok d \<longleftrightarrow>
     distinct (map u_id (users d)) \<and> distinct (map u_email (users d)) \<and>
     distinct (map a_id (accounts d)) \<and>
     distinct (map (\<lambda>r. (a_user_id r, a_currency r)) (accounts d)) \<and>
     (\<forall>r \<in> set (accounts d). account_ok d r) \<and>
     distinct (map t_id (transactions d)) \<and> distinct (map t_reference_id (transactions d)) \<and>
     (\<forall>r \<in> set (transactions d). transaction_ok r) \<and>
     distinct (map (\<lambda>e. (e_id e, e_created_at e)) (entries d)) \<and>
     (\<forall>e \<in> set (entries d). entry_ok d e) \<and>
     distinct (map p_id (payouts d)) \<and> (\<forall>p \<in> set (payouts d). payout_ok d p) \<and>
     distinct (map k_key (idempotency_keys d))"

definition keeps_schema :: "db \<Rightarrow> db \<Rightarrow> bool" where
  "keeps_schema d d' \<longleftrightarrow> (schema_ok d \<longrightarrow> schema_ok d')"

lemmas row_ok_defs = account_ok_def transaction_ok_def entry_ok_def payout_ok_def

lemma schema_funds: "keeps keeps_schema (update_accounts P (\<lambda>r. set_funds (b r) (l r) r))"
proof -
  have "schema_ok (d\<lparr>accounts := rows\<rparr>)"
    if ok: "schema_ok d" and upd: "update_rows P (\<lambda>r. set_funds (b r) (l r) r) (accounts d) = Inr (n, rows)"
    for d n rows
  proof -
    have ids: "map a_id rows = map a_id (accounts d)"
      and keys: "map (\<lambda>r. (a_user_id r, a_currency r)) rows
        = map (\<lambda>r. (a_user_id r, a_currency r)) (accounts d)"
      by (rule update_rows_map [OF upd], auto dest: set_funds_simps)+
    have "\<forall>r \<in> set (accounts d). account_ok d r" using ok by (simp add: schema_ok_def)
    then have "\<forall>r \<in> set rows. account_ok d r"
      by (rule update_rows_all [OF upd]) (auto simp: account_ok_def set_funds_def split: if_splits)
    with ok ids keys show ?thesis
      by (simp add: schema_ok_def row_ok_defs del: set_map flip: list.set_map)
  qed
  then show ?thesis
    by (auto simp: keeps_def keeps_schema_def update_accounts_def split: sum.splits)
qed

lemma schema_transactions:
  assumes "\<And>r r'. f r = Inr r' \<Longrightarrow> transaction_identity r' = transaction_identity r"
    and "\<And>r r'. f r = Inr r' \<Longrightarrow> t_status r' = t_status r \<or> tx_status_ok (t_status r')"
  shows "keeps keeps_schema (update_transactions i f)"
proof -
  have "schema_ok (d\<lparr>transactions := rows\<rparr>)"
    if ok: "schema_ok d" and upd: "update_rows (\<lambda>r. t_id r = i) f (transactions d) = Inr (n, rows)"
    for d n rows
  proof -
    have ids: "map t_id rows = map t_id (transactions d)"
      and refs: "map t_reference_id rows = map t_reference_id (transactions d)"
      by (rule update_rows_map [OF upd], drule assms(1), simp add: identity_defs)+
    have "\<forall>r \<in> set (transactions d). transaction_ok r" using ok by (simp add: schema_ok_def)
    then have "\<forall>r \<in> set rows. transaction_ok r"
      by (rule update_rows_all [OF upd])
        (use assms in \<open>fastforce simp: transaction_ok_def identity_defs\<close>)
    with ok ids refs show ?thesis
      by (simp add: schema_ok_def row_ok_defs del: set_map flip: list.set_map)
  qed
  then show ?thesis
    by (auto simp: keeps_def keeps_schema_def update_transactions_def split: sum.splits)
qed

lemma schema_payouts: "keeps keeps_schema (UpdatePayoutStatus st g i)"
proof -
  have "schema_ok (d\<lparr>payouts := rows\<rparr>)"
    if ok: "schema_ok d" and upd: "update_rows (\<lambda>r. p_id r = i) (\<lambda>r.
        (if \<not> payout_status_ok st then Inl check_violation
         else Inr (r\<lparr>p_status := st, p_gateway_ref := g, p_updated_at := t\<rparr>))) (payouts d) = Inr (n, rows)"
    for d n rows t
  proof -
    have ids: "map p_id rows = map p_id (payouts d)"
      by (rule update_rows_map [OF upd]) (auto split: if_splits)
    have "\<forall>r \<in> set (payouts d). payout_ok d r" using ok by (simp add: schema_ok_def)
    then have "\<forall>r \<in> set rows. payout_ok d r"
      by (rule update_rows_all [OF upd]) (auto simp: payout_ok_def split: if_splits)
    with ok ids show ?thesis by (simp add: schema_ok_def row_ok_defs)
  qed
  then show ?thesis
    by (auto simp: keeps_def keeps_schema_def UpdatePayoutStatus_def split: sum.splits)
qed

lemma schema_finalize: "keeps keeps_schema (FinalizeIdempotencyKey rs rb ct k h)"
proof -
  have "schema_ok (d\<lparr>idempotency_keys := rows\<rparr>)"
    if ok: "schema_ok d" and upd: "update_rows P (\<lambda>r. if rb = [] then Inl not_null_violation
          else Inr (r\<lparr>k_response_status := rs, k_response_body := rb,
            k_content_type := ct, k_in_progress := False, k_updated_at := t\<rparr>)) (idempotency_keys d)
        = Inr (n, rows)" for P t d n rows
  proof -
    have "map k_key rows = map k_key (idempotency_keys d)"
      using upd by (rule update_rows_map) (auto split: if_splits)
    with ok show ?thesis by (simp add: schema_ok_def row_ok_defs)
  qed
  then show ?thesis
    by (auto simp: keeps_def keeps_schema_def FinalizeIdempotencyKey_def split: sum.splits option.splits)
qed

lemma schema_inserts:
  "keeps keeps_schema (CreateUser i n em ro)" "keeps keeps_schema (CreateAccount i u c b)"
  "keeps keeps_schema (CreateEntry i tx ac x di)"
  "keeps keeps_schema (CreateTransaction i x c ty st r fx md)"
  "keeps keeps_schema (InsertPayout i tx ac x c st)"
  "keeps keeps_schema (InsertAuditLog ty i act a ps ns md)"
  "keeps keeps_schema (ReserveIdempotencyKey k h me pa)"
  by (auto simp: keeps_def keeps_schema_def schema_ok_def row_ok_defs Let_def CreateUser_def
        CreateAccount_def CreateEntry_def CreateTransaction_def InsertPayout_def InsertAuditLog_def
        ReserveIdempotencyKey_def split: if_splits)

interpretation sch: stmt_frame keeps_schema
proof (unfold_locales, goal_cases)
  case (3 d n) show ?case by (simp add: keeps_schema_def schema_ok_def row_ok_defs)
next
  case (13 fx md i) show ?case unfolding UpdateTransactionFx_def
    by (rule schema_transactions; auto simp: identity_defs split: option.splits if_splits)
next
  case (14 st i) show ?case unfolding UpdateTransactionStatus_def
    by (rule schema_transactions; auto simp: identity_defs split: option.splits if_splits)
qed (simp_all add: schema_inserts schema_payouts schema_finalize schema_funds LockAccountFunds_def
      ReleaseAccountFunds_def ReleaseAccountFundsSafe_def DeductLockedFunds_def UpdateAccountBalance_def,
     auto simp: keeps_schema_def)

end
