(* ===== verification/Money.thy ===== *)
theory Money
  imports Ledger
begin

text \<open>
  \<open>internal/domain/money.go\<close>, the exchange rates of \<open>internal/service/exchange_rate.go\<close> and
  \<open>getSystemAccountID\<close> of \<open>transfer.go\<close>. The packages the code calls but does not contain
  (\<open>google/uuid\<close>, \<open>shopspring/decimal\<close> and \<open>pgtype.Numeric\<close>) are the fields of the record
  \<open>lib\<close>; what the code relies on is stated by the predicates \<open>uuid_lib\<close> and \<open>decimal_lib\<close>. A
  function that can fail returns its error text on the left. A decimal is its value, a rational number.
\<close>

subsection \<open>Library functions\<close>

record lib =
  uuid_Parse :: "string \<Rightarrow> string + uuid"
  dec_NewFromInt :: "int \<Rightarrow> rat"
  dec_NewFromString :: "string \<Rightarrow> rat option"
  dec_Mul :: "rat \<Rightarrow> rat \<Rightarrow> rat"
  dec_Div :: "rat \<Rightarrow> rat \<Rightarrow> rat"
  dec_IntPart :: "rat \<Rightarrow> int"
  dec_String :: "rat \<Rightarrow> string"
  dec_StringFixed :: "rat \<Rightarrow> int \<Rightarrow> string"
  numeric_Scan :: "string \<Rightarrow> rat option"
  numeric_Value :: "rat \<Rightarrow> string option"

text \<open>\<open>uuid.Parse\<close> reads the canonical text of the system accounts back.\<close>

definition uuid_lib :: "lib \<Rightarrow> bool" where
  "uuid_lib L \<longleftrightarrow> (\<forall>s \<in> {SystemAccountUSD, SystemAccountEUR, SystemAccountGBP}.
     uuid_Parse L s = Inr (UUID s))"

text \<open>
  \<open>shopspring/decimal\<close>: \<open>NewFromInt\<close> and \<open>Mul\<close> are exact; \<open>Div\<close> is exact when the quotient has at
  most sixteen decimals (\<open>DivisionPrecision\<close>) and otherwise within one unit of the sixteenth;
  \<open>IntPart\<close> returns an \<open>int64\<close> and drops the fraction of a number whose integer part fits;
  \<open>NewFromString\<close> reads the three base rates.
\<close>

definition int_part :: "rat \<Rightarrow> int" where
  "int_part x = (if x < 0 then - \<lfloor>- x\<rfloor> else \<lfloor>x\<rfloor>)"

definition decimal_lib :: "lib \<Rightarrow> bool" where
  "decimal_lib L \<longleftrightarrow>
     (\<forall>n. in_int64 n \<longrightarrow> dec_NewFromInt L n = of_int n) \<and>
     (\<forall>a b. dec_Mul L a b = a * b) \<and>
     (\<forall>a b. b \<noteq> 0 \<longrightarrow> a / b * 10 ^ 16 \<in> \<int> \<longrightarrow> dec_Div L a b = a / b) \<and>
     (\<forall>a b. b \<noteq> 0 \<longrightarrow> \<bar>dec_Div L a b - a / b\<bar> \<le> 1 / 10 ^ 16) \<and>
     (\<forall>x. in_int64 (int_part x) \<longrightarrow> dec_IntPart L x = int_part x) \<and>
     (\<forall>x. in_int64 (dec_IntPart L x)) \<and>
     dec_NewFromString L ''1'' = Some 1 \<and>
     dec_NewFromString L ''0.92'' = Some (92 / 100) \<and>
     dec_NewFromString L ''0.79'' = Some (79 / 100)"

subsection \<open>Money\<close>

record Money =
  Amount :: int
  Currency :: string

definition NewMoney :: "int \<Rightarrow> string \<Rightarrow> Money" where
  "NewMoney amount currency = \<lparr>Amount = amount, Currency = currency\<rparr>"

definition ToDecimal :: "lib \<Rightarrow> Money \<Rightarrow> rat" where
  "ToDecimal L m = dec_Div L (dec_NewFromInt L (Amount m)) (dec_NewFromInt L 1000000)"

definition FromDecimal :: "lib \<Rightarrow> rat \<Rightarrow> int" where
  "FromDecimal L d = dec_IntPart L (dec_Mul L d (dec_NewFromInt L 1000000))"

definition Multiply :: "lib \<Rightarrow> Money \<Rightarrow> rat \<Rightarrow> Money" where
  "Multiply L m factor =
     \<lparr>Amount = FromDecimal L (dec_Mul L (ToDecimal L m) factor), Currency = Currency m\<rparr>"

definition Convert :: "lib \<Rightarrow> Money \<Rightarrow> string \<Rightarrow> rat \<Rightarrow> Money" where
  "Convert L m targetCurrency rate =
     \<lparr>Amount = FromDecimal L (dec_Mul L (ToDecimal L m) rate), Currency = targetCurrency\<rparr>"

definition Money_String :: "lib \<Rightarrow> Money \<Rightarrow> string" where
  "Money_String L m = dec_StringFixed L (ToDecimal L m) 2 @ '' '' @ Currency m"

subsection \<open>Exchange rates\<close>

definition base_rates :: "string \<rightharpoonup> string" where
  "base_rates = [''USD'' \<mapsto> ''1'', ''EUR'' \<mapsto> ''0.92'', ''GBP'' \<mapsto> ''0.79'']"

definition GetExchangeRate :: "lib \<Rightarrow> string \<Rightarrow> string \<Rightarrow> err + rat" where
  "GetExchangeRate L source target =
     (if source = target then Inr (dec_NewFromInt L 1)
      else case (base_rates source, base_rates target) of
        (Some sourceRate, Some targetRate) \<Rightarrow>
          (case dec_NewFromString L sourceRate of
             None \<Rightarrow> Inl (Wrap '''' ErrRateUnavailable ('': invalid source rate '' @ sourceRate))
           | Some sRate \<Rightarrow>
               (case dec_NewFromString L targetRate of
                  None \<Rightarrow> Inl (Wrap '''' ErrRateUnavailable ('': invalid target rate '' @ targetRate))
                | Some tRate \<Rightarrow> Inr (dec_Div L tRate sRate)))
      | _ \<Rightarrow> Inl (Wrap '''' ErrUnsupportedCurrency ('': '' @ source @ ''->'' @ target)))"

subsection \<open>System accounts\<close>

definition parse_system_account :: "lib \<Rightarrow> string \<Rightarrow> err + uuid" where
  "parse_system_account L s =
     (case uuid_Parse L s of Inl m \<Rightarrow> Inl (DriverErr m) | Inr u \<Rightarrow> Inr u)"

definition getSystemAccountID :: "lib \<Rightarrow> string \<Rightarrow> err + uuid" where
  "getSystemAccountID L currency =
     (let c = ToUpper (TrimSpace currency) in
      if c = ''USD'' then parse_system_account L SystemAccountUSD
      else if c = ''EUR'' then parse_system_account L SystemAccountEUR
      else if c = ''GBP'' then parse_system_account L SystemAccountGBP
      else Inl (Msg (''unsupported currency for system liquidity: '' @ currency)))"

text \<open>A computation of the program that can fail but has no effect.\<close>

definition lift_sum :: "err + 'a \<Rightarrow> 'a m" where
  "lift_sum r w = (r, w)"

lemma lift_sum_ok [ok_elims]:
  assumes "lift_sum r w = (Inr a, w')" obtains "r = Inr a" and "w' = w"
  using assms by (auto simp: lift_sum_def)

context frame_rel
begin

lemma frame_lift_sum [frame_intros]: "frame R (lift_sum r)"
  by (simp add: frame_def lift_sum_def R_refl)

end

subsection \<open>Conversion\<close>

lemma int_part_of_int [simp]: "int_part (of_int n) = n"
  by (simp add: int_part_def)

lemma int_part_nonneg: "0 \<le> x \<Longrightarrow> int_part x = \<lfloor>x\<rfloor>"
  by (simp add: int_part_def)

lemma ToDecimal_exact:
  assumes "decimal_lib L" and "in_int64 (Amount m)"
  shows "ToDecimal L m = of_int (Amount m) / 1000000"
proof -
  have "(of_int (Amount m) :: rat) / 1000000 * 10 ^ 16 = of_int (Amount m * 10 ^ 10)"
    by simp
  then have "(of_int (Amount m) :: rat) / 1000000 * 10 ^ 16 \<in> \<int>"
    by (metis Ints_of_int)
  then have "dec_Div L (of_int (Amount m)) 1000000 = of_int (Amount m) / 1000000"
    using assms(1) unfolding decimal_lib_def by (metis zero_neq_numeral)
  moreover have "dec_NewFromInt L 1000000 = 1000000"
    using assms(1) by (simp add: decimal_lib_def in_int64_def)
  ultimately show ?thesis
    using assms by (simp add: ToDecimal_def decimal_lib_def)
qed

lemma FromDecimal_eq:
  assumes "decimal_lib L" and "in_int64 (int_part (x * 1000000))"
  shows "FromDecimal L x = int_part (x * 1000000)"
proof -
  have "dec_NewFromInt L 1000000 = 1000000"
    using assms(1) by (simp add: decimal_lib_def in_int64_def)
  then show ?thesis using assms by (simp add: FromDecimal_def decimal_lib_def)
qed

text \<open>
  C31. Conversion floors: a non-negative amount converted at a non-negative rate is the exact product,
  rounded down to a whole micro-unit, in the target currency; no precision is lost in between.
\<close>

theorem Convert_floors:
  assumes "decimal_lib L" and "in_int64 (Amount m)" and "0 \<le> Amount m" and "0 \<le> rate"
    and "in_int64 \<lfloor>of_int (Amount m) * rate\<rfloor>"
  shows "Amount (Convert L m c rate) = \<lfloor>of_int (Amount m) * rate\<rfloor> \<and> Currency (Convert L m c rate) = c"
proof -
  have "dec_Mul L (ToDecimal L m) rate * 1000000 = of_int (Amount m) * rate"
    using assms by (simp add: ToDecimal_exact decimal_lib_def)
  with assms show ?thesis
    by (simp add: Convert_def FromDecimal_eq int_part_nonneg)
qed

text \<open>
  Micro-units survive the decimal representation: every \<open>int64\<close> amount, negative ones too, is
  recovered from its decimal.
\<close>

theorem decimal_round_trip:
  assumes "decimal_lib L" and "in_int64 (Amount m)"
  shows "FromDecimal L (ToDecimal L m) = Amount m"
proof -
  have "ToDecimal L m * 1000000 = of_int (Amount m)" using ToDecimal_exact [OF assms] by simp
  then show ?thesis using FromDecimal_eq [OF assms(1), of "ToDecimal L m"] assms(2) by simp
qed

text \<open>The rates of the static table, as numbers.\<close>

definition base_rate :: "string \<Rightarrow> rat" where
  "base_rate c = (if c = ''EUR'' then 92 / 100 else if c = ''GBP'' then 79 / 100 else 1)"

lemma base_rates_supported:
  "decimal_lib L \<Longrightarrow> currency_ok c \<Longrightarrow> \<exists>str. base_rates c = Some str \<and> dec_NewFromString L str = Some (base_rate c)"
  by (auto simp: currency_ok_def base_rates_def base_rate_def decimal_lib_def)

lemma base_rates_unsupported: "\<not> currency_ok c \<Longrightarrow> base_rates c = None"
  by (auto simp: currency_ok_def base_rates_def)

lemma base_rate_ratio: "79 / 100 \<le> base_rate t / base_rate s" "base_rate s \<noteq> 0"
  by (simp_all add: base_rate_def)

lemma near_positive:
  fixes x y e :: rat
  assumes "\<bar>x - y\<bar> \<le> e" and "e < y" shows "0 < x"
  using assms by (cases "x \<le> y") (simp_all add: abs_if split: if_splits)

text \<open>
  C32. Exchange rates: 1 between equal currencies; between two supported ones a positive rate within
  one unit of the sixteenth decimal of the quotient of the base rates; an error that is
  \<open>ErrUnsupportedCurrency\<close> for everything else.
\<close>

theorem GetExchangeRate_value:
  assumes "decimal_lib L"
  shows "if s = t then GetExchangeRate L s t = Inr 1
    else if currency_ok s \<and> currency_ok t then
      \<exists>r. GetExchangeRate L s t = Inr r \<and> \<bar>r - base_rate t / base_rate s\<bar> \<le> 1 / 10 ^ 16 \<and> 0 < r
    else \<exists>e. GetExchangeRate L s t = Inl e \<and> errors_Is e ErrUnsupportedCurrency"
proof -
  consider (same) "s = t" | (rate) "s \<noteq> t" "currency_ok s" "currency_ok t" | (none) "s \<noteq> t" "\<not> (currency_ok s \<and> currency_ok t)"
    by blast
  then show ?thesis
  proof cases
    case same
    then show ?thesis using assms by (simp add: GetExchangeRate_def decimal_lib_def in_int64_def)
  next
    case rate
    let ?r = "dec_Div L (base_rate t) (base_rate s)"
    have "\<bar>?r - base_rate t / base_rate s\<bar> \<le> 1 / 10 ^ 16"
      using assms base_rate_ratio(2) by (simp add: decimal_lib_def)
    moreover from this have "0 < ?r"
      by (rule near_positive) (rule less_le_trans [OF _ base_rate_ratio(1)], simp)
    moreover have "GetExchangeRate L s t = Inr ?r"
      using rate(1) base_rates_supported [OF assms rate(2)] base_rates_supported [OF assms rate(3)]
      by (auto simp: GetExchangeRate_def)
    ultimately show ?thesis using rate by auto
  next
    case none
    then show ?thesis
      by (auto simp: GetExchangeRate_def base_rates_unsupported split: option.splits)
  qed
qed

end
