(* ===== verification/Effects.thy ===== *)
theory Effects
  imports Money
begin

text \<open>
  The abstract ledger (a balance, locked funds and a net of entries per account) and what each
  statement of the repository does to it. A money movement of a service is proved by running
  through its statements with these lemmas; the services refine the abstract operations
  \<open>credit\<close>, \<open>lock_funds\<close> and \<open>post\<close>.
\<close>

subsection \<open>The abstract ledger\<close>

record ledger =
  bal :: "uuid \<Rightarrow> int"
  lck :: "uuid \<Rightarrow> int"
  net :: "uuid \<Rightarrow> int"

definition view :: "db \<Rightarrow> ledger" where
  "view d = \<lparr>bal = balance_of d, lck = locked_of d, net = net_of d\<rparr>"

definition credit :: "uuid \<Rightarrow> int \<Rightarrow> ledger \<Rightarrow> ledger" where
  "credit k x v = v\<lparr>bal := (bal v)(k := bal v k + x)\<rparr>"

definition lock_funds :: "uuid \<Rightarrow> int \<Rightarrow> ledger \<Rightarrow> ledger" where
  "lock_funds k x v = v\<lparr>lck := (lck v)(k := lck v k + x)\<rparr>"

definition post :: "uuid \<Rightarrow> int \<Rightarrow> ledger \<Rightarrow> ledger" where
  "post k x v = v\<lparr>net := (net v)(k := net v k + x)\<rparr>"

text \<open>A posted movement changes a balance and the net of its entries by the same amount.\<close>

definition move :: "uuid \<Rightarrow> int \<Rightarrow> ledger \<Rightarrow> ledger" where
  "move k x v = credit k x (post k x v)"

lemmas ledger_defs = credit_def lock_funds_def post_def move_def

lemma ledger_eqI: "bal u = bal v \<Longrightarrow> lck u = lck v \<Longrightarrow> net u = net v \<Longrightarrow> (u :: ledger) = v"
  by simp

lemma post_credit: "post j y (credit k x v) = credit k x (post j y v)"
  by (simp add: ledger_defs)

lemma view_sel [simp]:
  "bal (view d) = balance_of d" "lck (view d) = locked_of d" "net (view d) = net_of d"
  by (simp_all add: view_def)

lemma bal_ops [simp]:
  "bal (credit k x v) = (bal v)(k := bal v k + x)" "bal (lock_funds k x v) = bal v" "bal (post k x v) = bal v"
  "bal (move k x v) = (bal v)(k := bal v k + x)"
  by (simp_all add: ledger_defs)

lemma lck_ops [simp]:
  "lck (credit k x v) = lck v" "lck (lock_funds k x v) = (lck v)(k := lck v k + x)" "lck (post k x v) = lck v"
  "lck (move k x v) = lck v"
  by (simp_all add: ledger_defs)

lemma net_ops [simp]:
  "net (credit k x v) = net v" "net (lock_funds k x v) = net v" "net (post k x v) = (net v)(k := net v k + x)"
  "net (move k x v) = (net v)(k := net v k + x)"
  by (simp_all add: ledger_defs)

text \<open>What is left of the balance when the entries are taken away: no movement changes it.\<close>

definition drift :: "db \<Rightarrow> uuid \<Rightarrow> int" where
  "drift d i = balance_of d i - net_of d i"

subsection \<open>Updates of accounts\<close>

definition other_tables :: "db \<Rightarrow> db \<Rightarrow> bool" where
  "other_tables d d' \<longleftrightarrow> (\<exists>rows. d' = d\<lparr>accounts := rows\<rparr> \<and> map account_identity rows = map account_identity (accounts d))"

lemma funds_effect:
  assumes "update_accounts (\<lambda>r. a_id r = k) (\<lambda>r. set_funds (b r) (l r) r) t d = Inr (n, d')" and "n \<noteq> 0"
  obtains r where "acct d k = Some r" and "0 \<le> l r" and "in_int64 (b r)" and "in_int64 (l r)"
    and "\<And>j. acct d' j = (if j = k then Some (r\<lparr>a_balance := b r, a_locked_micros := l r\<rparr>) else acct d j)"
    and "other_tables d d'"
proof -
  obtain rows where upd: "update_rows (\<lambda>r. a_id r = k) (\<lambda>r. set_funds (b r) (l r) r) (accounts d) = Inr (n, rows)"
    and d': "d' = d\<lparr>accounts := rows\<rparr>"
    using assms(1) by (auto simp: update_accounts_def split: sum.splits)
  obtain r r' where r: "acct d k = Some r" and r': "set_funds (b r) (l r) r = Inr r'"
    using update_rows_hit [OF upd assms(2)] by blast
  have key: "a_id s' = a_id s" if "set_funds (b s) (l s) s = Inr s'" for s s'
    using set_funds_simps(1) [OF that] by simp
  have "map account_identity rows = map account_identity (accounts d)"
    using upd by (rule update_rows_map) (rule set_funds_identity)
  then have same: "other_tables d d'" using d' by (auto simp: other_tables_def)
  show thesis
  proof (rule that)
    show "acct d k = Some r" by (rule r)
    show "0 \<le> l r" "in_int64 (b r)" "in_int64 (l r)" using set_funds_simps [OF r'] by simp_all
    show "acct d' j = (if j = k then Some (r\<lparr>a_balance := b r, a_locked_micros := l r\<rparr>) else acct d j)" for j
      using update_rows_sel_one [OF upd key, of j] r r' set_funds_simps(1) [OF r'] d' by simp
  qed (rule same)
qed

lemma other_tables_same:
  assumes "other_tables d d'"
  shows "entries d' = entries d" "transactions d' = transactions d" "payouts d' = payouts d"
    "audit_log d' = audit_log d" "users d' = users d" "idempotency_keys d' = idempotency_keys d"
    "audit_seq d' = audit_seq d"
  using assms by (auto simp: other_tables_def)

lemma other_tables_net: "other_tables d d' \<Longrightarrow> net_of d' = net_of d"
  by (auto simp: other_tables_def net_of_def)

lemma view_of_funds:
  assumes "acct d k = Some r"
    and "\<And>j. acct d' j = (if j = k then Some (r\<lparr>a_balance := b, a_locked_micros := l\<rparr>) else acct d j)"
    and "other_tables d d'"
  shows "view d' = credit k (b - a_balance r) (lock_funds k (l - a_locked_micros r) (view d))"
  using assms
  by (intro ledger_eqI) (auto simp: fun_eq_iff balance_of_def locked_of_def other_tables_net)

lemma credit_0 [simp]: "credit k 0 v = v" and lock_funds_0 [simp]: "lock_funds k 0 v = v"
  by (simp_all add: ledger_defs)

text \<open>One lemma per statement: the account exists, the ledger moves, the other tables stay.\<close>

lemma UpdateAccountBalance_effect:
  assumes "UpdateAccountBalance x k t d = Inr (1, d')"
  shows "\<exists>r. acct d k = Some r \<and> in_int64 (a_balance r + x)" "view d' = credit k x (view d)" "other_tables d d'"
  using assms unfolding UpdateAccountBalance_def
  by (auto elim!: funds_effect dest: view_of_funds)

lemma LockAccountFunds_effect:
  assumes "LockAccountFunds x k t d = Inr (1, d')"
  shows "view d' = lock_funds k x (view d)" "other_tables d d'"
  using assms unfolding LockAccountFunds_def
  by (auto elim!: funds_effect dest: view_of_funds)

lemma ReleaseAccountFunds_effect:
  assumes "ReleaseAccountFunds x k t d = Inr (1, d')"
  shows "view d' = lock_funds k (- x) (view d)" "other_tables d d'" "x \<le> locked_of d k"
  using assms unfolding ReleaseAccountFunds_def
  by (auto simp: locked_of_def elim!: funds_effect dest: view_of_funds)

lemma DeductLockedFunds_effect:
  assumes "DeductLockedFunds x k t d = Inr (1, d')"
  shows "view d' = credit k (- x) (lock_funds k (- x) (view d))" "other_tables d d'" "x \<le> locked_of d k"
    "\<exists>r. acct d k = Some r"
  using assms unfolding DeductLockedFunds_def
  by (auto simp: locked_of_def elim!: funds_effect dest: view_of_funds)

subsection \<open>Entries\<close>

lemma net_of_append:
  assumes "entries d' = entries d @ [e]"
  shows "net_of d' = (net_of d)(e_account_id e := net_of d (e_account_id e) + signed_amount e)"
  using assms by (auto simp: net_of_def fun_eq_iff)

lemma CreateEntry_effect:
  assumes "CreateEntry i tx k x di t d = Inr (a, d')"
  defines "e \<equiv> \<lparr>e_id = i, e_transaction_id = tx, e_account_id = k, e_amount = x, e_direction = di, e_created_at = t\<rparr>"
  shows "d' = d\<lparr>entries := entries d @ [e]\<rparr>" "view d' = post k (signed_amount e) (view d)" "0 < x"
    "k \<in> a_id ` set (accounts d)" "tx \<in> t_id ` set (transactions d)"
proof -
  show d': "d' = d\<lparr>entries := entries d @ [e]\<rparr>" and "0 < x"
    and "k \<in> a_id ` set (accounts d)" "tx \<in> t_id ` set (transactions d)"
    using assms by (auto simp: CreateEntry_def split: if_splits)
  have "net_of d' = (net_of d)(k := net_of d k + signed_amount e)"
    using net_of_append [of d' d e] d' by (simp add: e_def)
  with d' show "view d' = post k (signed_amount e) (view d)"
    by (intro ledger_eqI) (simp_all add: fun_eq_iff balance_of_def locked_of_def)
qed

lemma signed_amount_simps [simp]:
  "signed_amount \<lparr>e_id = i, e_transaction_id = tx, e_account_id = k, e_amount = x, e_direction = DirectionDebit, e_created_at = t\<rparr> = - x"
  "signed_amount \<lparr>e_id = i, e_transaction_id = tx, e_account_id = k, e_amount = x, e_direction = DirectionCredit, e_created_at = t\<rparr> = x"
  by (simp_all add: signed_amount_def direction_defs)

subsection \<open>Statements that move no money\<close>

definition same_ledger :: "db \<Rightarrow> db \<Rightarrow> bool" where
  "same_ledger d d' \<longleftrightarrow> accounts d' = accounts d \<and> entries d' = entries d"

lemma same_ledger_view: "same_ledger d d' \<Longrightarrow> view d' = view d"
  by (intro ledger_eqI) (auto simp: same_ledger_def balance_of_def locked_of_def net_of_def fun_eq_iff)

lemma same_ledger_trans [trans]: "same_ledger d d' \<Longrightarrow> same_ledger d' d'' \<Longrightarrow> same_ledger d d''"
  by (simp add: same_ledger_def)

lemma same_ledger_refl [simp]: "same_ledger d d"
  by (simp add: same_ledger_def)

interpretation still: frame_rel same_ledger
  by unfold_locales (auto simp: same_ledger_def)

lemma still_statements [frame_intros]:
  "keeps same_ledger (CreateTransaction i x c ty st r fx md)"
  "keeps same_ledger (UpdateTransactionFx fx md i)" "keeps same_ledger (UpdateTransactionStatus st i)"
  "keeps same_ledger (InsertPayout i tx ac x c st)" "keeps same_ledger (UpdatePayoutStatus st g i)"
  "keeps same_ledger (InsertAuditLog ty i actor a ps ns md)"
  by (auto simp: keeps_def same_ledger_def CreateTransaction_def UpdateTransactionFx_def
        UpdateTransactionStatus_def update_transactions_def InsertPayout_def UpdatePayoutStatus_def
        InsertAuditLog_def Let_def split: if_splits sum.splits)


lemma still_audit_Write [frame_intros]: "frame same_ledger (audit_Write ty i ac a ps ns md)"
  unfolding audit_Write_def by (intro frame_intros)

lemma still_transition [frame_intros]: "frame same_ledger (transitionTransactionState i ns ac a md)"
  unfolding transitionTransactionState_def by (intro frame_intros)

subsection \<open>Transactions\<close>

lemma txn_after_update:
  assumes "update_transactions i f t d = Inr (n, d')" and "n \<noteq> 0"
    and "\<And>r r'. f r = Inr r' \<Longrightarrow> t_id r' = t_id r"
  obtains r r' rows where "txn d i = Some r" and "f r = Inr r'" and "d' = d\<lparr>transactions := rows\<rparr>"
    and "\<And>j. txn d' j = (if j = i then Some r' else txn d j)"
proof -
  obtain rows where upd: "update_rows (\<lambda>r. t_id r = i) f (transactions d) = Inr (n, rows)"
    and d': "d' = d\<lparr>transactions := rows\<rparr>"
    using assms(1) by (auto simp: update_transactions_def split: sum.splits)
  obtain r r' where "txn d i = Some r" "f r = Inr r'" using update_rows_hit [OF upd assms(2)] .
  moreover have "txn d' j = (if j = i then Some r' else txn d j)" for j
    using update_rows_sel_one [OF upd assms(3), of j] d' calculation by simp
  ultimately show thesis using that d' by blast
qed

lemma UpdateTransactionStatus_effect:
  assumes "UpdateTransactionStatus st i t d = Inr (1, d')"
  obtains r rows where "txn d i = Some r" and "tx_status_ok st" and "d' = d\<lparr>transactions := rows\<rparr>"
    and "\<And>j. txn d' j = (if j = i then Some (r\<lparr>t_status := st\<rparr>) else txn d j)"
  using assms unfolding UpdateTransactionStatus_def
  by (rule txn_after_update) (auto split: if_splits)

lemma audit_Write_ok [ok_elims]:
  assumes "audit_Write ty i actor a ps ns md w = (Inr u, w')"
  obtains "wdb w' = (wdb w)\<lparr>audit_seq := audit_seq (wdb w) + 1, audit_log := audit_log (wdb w) @
    [\<lparr>l_id = audit_seq (wdb w) + 1, l_entity_type = ty, l_entity_id = i, l_actor_id = actor, l_action = a,
      l_prev_state = textParam ps, l_next_state = textParam ns, l_metadata = md, l_created_at = wnow w\<rparr>]\<rparr>"
    and "wnow w' = wnow w" and "wtrace w' = wtrace w"
  using assms unfolding audit_Write_def
  by (auto simp: InsertAuditLog_def Let_def elim!: ok_elims)

text \<open>
  A successful transition: the transaction already had the state, or the state machine allows
  the step, the row has the new status and one audit record is appended.
\<close>

lemma transition_ok [ok_elims]:
  assumes "transitionTransactionState i ns actor a md w = (Inr u, w')"
  obtains (same) r where "txn (wdb w) i = Some r" and "normalizeState (t_status r) = normalizeState ns"
      and "wdb w' = wdb w" and "wnow w' = wnow w" and "wtrace w' = wtrace w"
    | (changed) r rows where "txn (wdb w) i = Some r" and "canTransition (t_status r) ns"
      and "wdb w' = (wdb w)\<lparr>transactions := rows, audit_seq := audit_seq (wdb w) + 1,
        audit_log := audit_log (wdb w) @ [\<lparr>l_id = audit_seq (wdb w) + 1, l_entity_type = ''transaction'', l_entity_id = i, l_actor_id = actor, l_action = a,
          l_prev_state = textParam (t_status r), l_next_state = textParam ns, l_metadata = md,
          l_created_at = wnow w\<rparr>]\<rparr>"
      and "\<And>j. txn (wdb w') j = (if j = i then Some (r\<lparr>t_status := ns\<rparr>) else txn (wdb w) j)"
      and "wnow w' = wnow w" and "wtrace w' = wtrace w"
proof -
  obtain cs w1 where get: "GetTransactionStatusForUpdate i (wnow w) (wdb w) = Inr (cs, wdb w1)"
    and w1: "wnow w1 = wnow w" "wtrace w1 = wtrace w"
    and rest: "(if normalizeState cs = normalizeState ns then ret ()
      else if \<not> canTransition cs ns then
        throw (Msg (''invalid transaction state transition: '' @ cs @ '' -> '' @ ns))
      else bind (wrapf ''update transaction state: '' (exec (UpdateTransactionStatus ns i))) (\<lambda>rows.
        bind (requireExactlyOne rows ''update transaction state'') (\<lambda>_.
        audit_Write ''transaction'' i actor a cs ns md))) w1 = (Inr u, w')"
    using assms unfolding transitionTransactionState_def by (auto elim!: bind_ok wrapf_ok exec_ok)
  obtain r where r: "txn (wdb w) i = Some r" "t_status r = cs" "wdb w1 = wdb w"
    using get by (auto simp: GetTransactionStatusForUpdate_def split: option.splits)
  show thesis
  proof (cases "normalizeState cs = normalizeState ns")
    case True
    with rest r w1 show thesis by (auto elim!: ret_ok intro!: same)
  next
    case False
    with rest have can: "canTransition cs ns" by (auto split: if_splits elim!: throw_ok)
    from rest False can obtain w2 where upd: "UpdateTransactionStatus ns i (wnow w1) (wdb w1) = Inr (1, wdb w2)"
      and w2: "wnow w2 = wnow w1" "wtrace w2 = wtrace w1"
      and aud: "audit_Write ''transaction'' i actor a cs ns md w2 = (Inr u, w')"
      by (auto elim!: bind_ok wrapf_ok exec_ok requireExactlyOne_ok)
    from upd obtain rows where "wdb w2 = (wdb w1)\<lparr>transactions := rows\<rparr>"
      and "\<And>j. txn (wdb w2) j = (if j = i then Some (r\<lparr>t_status := ns\<rparr>) else txn (wdb w) j)"
      using r by (auto elim!: UpdateTransactionStatus_effect)
    with aud w1 w2 r can show thesis by (auto elim!: audit_Write_ok intro!: changed)
  qed
qed

subsection \<open>The movement of a computation\<close>

text \<open>
  \<open>moves m \<phi>\<close>: whenever \<open>m\<close> succeeds, the abstract ledger after it is \<open>\<phi>\<close> of the one before. The
  rules compute \<open>\<phi>\<close> along the text of \<open>m\<close>; the last two apply where no more specific one does.
\<close>

definition moves :: "'a m \<Rightarrow> (ledger \<Rightarrow> ledger) \<Rightarrow> bool" where
  "moves m \<phi> \<longleftrightarrow> (\<forall>w a w'. m w = (Inr a, w') \<longrightarrow> view (wdb w') = \<phi> (view (wdb w)))"

lemma movesD: "moves m \<phi> \<Longrightarrow> m w = (Inr a, w') \<Longrightarrow> view (wdb w') = \<phi> (view (wdb w))"
  by (auto simp: moves_def)

lemma moves_throw: "moves (throw e) \<phi>"
  by (auto simp: moves_def elim: throw_ok)

lemma moves_if: "moves m \<phi> \<Longrightarrow> moves n \<phi> \<Longrightarrow> moves (if b then m else n) \<phi>"
  by simp

lemma moves_case_prod: "(\<And>a b. moves (f a b) \<phi>) \<Longrightarrow> moves (case x of (a, b) \<Rightarrow> f a b) \<phi>"
  by (cases x) auto

lemma moves_case_option:
  "moves m \<phi> \<Longrightarrow> (\<And>a. moves (f a) \<phi>) \<Longrightarrow> moves (case x of None \<Rightarrow> m | Some a \<Rightarrow> f a) \<phi>"
  by (cases x) auto

lemma moves_wrapf: "moves m \<phi> \<Longrightarrow> moves (wrapf text m) \<phi>"
  by (auto simp: moves_def elim!: wrapf_ok)

lemma moves_balance:
  assumes "moves (f ()) \<psi>"
  shows "moves (bind (wrapf text (exec (UpdateAccountBalance x k))) (\<lambda>rows.
           bind (requireExactlyOne rows op) f)) (\<lambda>v. \<psi> (credit k x v))"
  using assms
  by (auto simp: moves_def elim!: bind_ok wrapf_ok exec_ok requireExactlyOne_ok
        dest: UpdateAccountBalance_effect(2))

lemma moves_balance_last:
  "moves (bind (wrapf text (exec (UpdateAccountBalance x k))) (\<lambda>rows. requireExactlyOne rows op)) (credit k x)"
  by (auto simp: moves_def elim!: bind_ok wrapf_ok exec_ok requireExactlyOne_ok
        dest: UpdateAccountBalance_effect(2))

lemma moves_lock:
  assumes "moves (f ()) \<psi>"
  shows "moves (bind (wrapf text (exec (LockAccountFunds x k))) (\<lambda>rows.
           bind (requireExactlyOne rows op) f)) (\<lambda>v. \<psi> (lock_funds k x v))"
  using assms
  by (auto simp: moves_def elim!: bind_ok wrapf_ok exec_ok requireExactlyOne_ok
        dest: LockAccountFunds_effect(1))

lemma moves_release:
  assumes "moves (f ()) \<psi>"
  shows "moves (bind (wrapf text (exec (ReleaseAccountFunds x k))) (\<lambda>rows.
           bind (requireExactlyOne rows op) f)) (\<lambda>v. \<psi> (lock_funds k (- x) v))"
  using assms
  by (auto simp: moves_def elim!: bind_ok wrapf_ok exec_ok requireExactlyOne_ok
        dest: ReleaseAccountFunds_effect(1))

lemma moves_deduct:
  assumes "moves (f ()) \<psi>"
  shows "moves (bind (wrapf text (exec (DeductLockedFunds x k))) (\<lambda>rows.
           bind (requireExactlyOne rows op) f)) (\<lambda>v. \<psi> (credit k (- x) (lock_funds k (- x) v)))"
  using assms
  by (auto simp: moves_def elim!: bind_ok wrapf_ok exec_ok requireExactlyOne_ok
        dest: DeductLockedFunds_effect(1))

lemma moves_entry:
  "moves (exec (CreateEntry i tx k x DirectionDebit)) (post k (- x))"
  "moves (exec (CreateEntry i tx k x DirectionCredit)) (post k x)"
  by (auto simp: moves_def elim!: exec_ok dest: CreateEntry_effect(2))

lemma moves_still:
  assumes "frame same_ledger m" shows "moves m (\<lambda>v. v)"
  using frameD [OF assms] by (auto simp: moves_def intro: same_ledger_view)

lemma moves_bind: "moves m \<phi> \<Longrightarrow> (\<And>a. moves (f a) \<psi>) \<Longrightarrow> moves (bind m f) (\<lambda>v. \<psi> (\<phi> v))"
  by (auto simp: moves_def elim!: bind_ok)

lemmas moves_rules = moves_throw moves_balance moves_balance_last moves_lock moves_release moves_deduct moves_if
  moves_case_prod moves_case_option moves_entry moves_bind moves_wrapf moves_still

end
