(* ===== verification/Lifecycle.thy ===== *)
theory Lifecycle
  imports Effects
begin

text \<open>
  The life of a transaction record inside one database transaction: opened as PENDING and moved
  to PROCESSING, then posted, then completed. The three services that post to the ledger share
  this sequence; the lemmas here describe its two ends and what the postings leave alone.
\<close>

subsection \<open>The state machine on the status constants\<close>

lemma normalizeState_status [simp]:
  "normalizeState TxStatusPending = TxStatusPending" "normalizeState TxStatusProcessing = TxStatusProcessing"
  "normalizeState TxStatusCompleted = TxStatusCompleted" "normalizeState TxStatusFailed = TxStatusFailed"
  "normalizeState TxStatusReversed = TxStatusReversed"
  by (simp_all add: normalizeState_def tx_status_defs string_defs)

lemma normalizeState_ok: "tx_status_ok s \<Longrightarrow> normalizeState s = s"
  by (auto simp: tx_status_ok_def normalizeState_def string_defs)

lemma textParam_status [simp]:
  "textParam TxStatusPending = Some TxStatusPending" "textParam TxStatusProcessing = Some TxStatusProcessing"
  "textParam TxStatusCompleted = Some TxStatusCompleted" "textParam TxStatusFailed = Some TxStatusFailed"
  "textParam '''' = None"
  by (simp_all add: textParam_def)

lemma transactionTransitions_simps:
  "transactionTransitions TxStatusPending = Some {TxStatusProcessing, TxStatusFailed}"
  "transactionTransitions TxStatusProcessing =
     Some {TxStatusPending, TxStatusCompleted, TxStatusFailed, TxStatusReversed}"
  "transactionTransitions TxStatusCompleted = Some {TxStatusReversed}"
  "transactionTransitions TxStatusFailed = Some {TxStatusProcessing, TxStatusReversed}"
  "transactionTransitions TxStatusReversed = Some {}"
  by (simp_all add: transactionTransitions_def tx_status_defs)

subsection \<open>Records and postings\<close>

text \<open>What the postings of a transaction leave alone.\<close>

definition only_posts :: "db \<Rightarrow> db \<Rightarrow> bool" where
  "only_posts d d' \<longleftrightarrow> users d' = users d \<and> transactions d' = transactions d \<and> payouts d' = payouts d \<and>
     audit_log d' = audit_log d \<and> idempotency_keys d' = idempotency_keys d \<and>
     map account_identity (accounts d') = map account_identity (accounts d)"

interpretation posting: frame_rel only_posts
  by unfold_locales (auto simp: only_posts_def)

lemma only_posts_statements [frame_intros]:
  "keeps only_posts (CreateEntry i tx k x di)" "keeps only_posts (UpdateAccountBalance x k)"
  "keeps only_posts (LockAccountFunds x k)" "keeps only_posts (ReleaseAccountFunds x k)"
  "keeps only_posts (ReleaseAccountFundsSafe x k)" "keeps only_posts (DeductLockedFunds x k)"
  by (auto simp: keeps_def only_posts_def CreateEntry_def UpdateAccountBalance_def LockAccountFunds_def
        ReleaseAccountFunds_def ReleaseAccountFundsSafe_def DeductLockedFunds_def update_accounts_def
        split: if_splits sum.splits intro: update_rows_map set_funds_identity)


text \<open>The audit record of a transaction's state change.\<close>

definition audit_entry :: "int \<Rightarrow> int \<Rightarrow> uuid \<Rightarrow> uuid option \<Rightarrow> string \<Rightarrow> string option \<Rightarrow> string \<Rightarrow> json option \<Rightarrow> audit_row" where
  "audit_entry n t i actor action prev nxt md =
     \<lparr>l_id = n, l_entity_type = ''transaction'', l_entity_id = i, l_actor_id = actor, l_action = action,
      l_prev_state = prev, l_next_state = Some nxt, l_metadata = md, l_created_at = t\<rparr>"

lemma moved_to:
  assumes "transitionTransactionState i ns actor act md w = (Inr u, w')" and "txn (wdb w) i = Some r"
    and "normalizeState (t_status r) \<noteq> normalizeState ns" and "ns \<noteq> ''''" and "t_status r \<noteq> ''''"
  shows "txn (wdb w') i = Some (r\<lparr>t_status := ns\<rparr>)" and "\<And>j. j \<noteq> i \<Longrightarrow> txn (wdb w') j = txn (wdb w) j"
    and "audit_log (wdb w') = audit_log (wdb w) @
      [audit_entry (audit_seq (wdb w) + 1) (wnow w) i actor act (Some (t_status r)) ns md]"
    and "payouts (wdb w') = payouts (wdb w)" and "same_ledger (wdb w) (wdb w')" and "wnow w' = wnow w"
    and "audit_seq (wdb w') = audit_seq (wdb w) + 1" and "canTransition (t_status r) ns"
  using assms by (auto elim!: transition_ok simp: audit_entry_def textParam_def same_ledger_def)

lemma CreateTransaction_effect:
  assumes "CreateTransaction i x c ty st ref fx md t d = Inr (a, d')"
  shows "d' = d\<lparr>transactions := transactions d @ [\<lparr>t_id = i, t_amount = x, t_currency = c, t_type = ty,
      t_status = st, t_reference_id = ref, t_created_at = t, t_fx_rate = map_option numeric_18_8 fx,
      t_metadata = md\<rparr>]\<rparr>"
    and "txn d i = None" and "ref \<notin> t_reference_id ` set (transactions d)" and "0 < x" and "currency_ok c"
  using assms by (auto simp: CreateTransaction_def sel_one_None_iff split: if_splits)

text \<open>The record a service opens, and the two audit records that come with it.\<close>

definition opened_row :: "uuid \<Rightarrow> int \<Rightarrow> string \<Rightarrow> string \<Rightarrow> string \<Rightarrow> json option \<Rightarrow> int \<Rightarrow> transaction_row" where
  "opened_row i x c ty ref md t = \<lparr>t_id = i, t_amount = x, t_currency = c, t_type = ty,
     t_status = TxStatusProcessing, t_reference_id = ref, t_created_at = t, t_fx_rate = None, t_metadata = md\<rparr>"

definition opening_trail :: "int \<Rightarrow> int \<Rightarrow> uuid \<Rightarrow> json option \<Rightarrow> audit_row list" where
  "opening_trail n t i md =
     [audit_entry (n + 1) t i None ''created'' None TxStatusPending md,
      audit_entry (n + 2) t i None ''processing_started'' (Some TxStatusPending) TxStatusProcessing None]"

lemma open_ok:
  assumes "bind (wrapf m1 (exec (CreateTransaction i x c ty TxStatusPending ref None md))) (\<lambda>_.
    bind (audit_Write ''transaction'' i None ''created'' '''' TxStatusPending md) (\<lambda>_.
    bind (wrapf m2 (transitionTransactionState i TxStatusProcessing None ''processing_started'' None)) f)) w
    = (Inr a, w')"
  obtains w1 where "f () w1 = (Inr a, w')" and "same_ledger (wdb w) (wdb w1)" and "wnow w1 = wnow w"
    and "txn (wdb w) i = None" and "ref \<notin> t_reference_id ` set (transactions (wdb w))"
    and "0 < x" and "currency_ok c"
    and "txn (wdb w1) i = Some (opened_row i x c ty ref md (wnow w))"
    and "\<And>j. j \<noteq> i \<Longrightarrow> txn (wdb w1) j = txn (wdb w) j" and "payouts (wdb w1) = payouts (wdb w)"
    and "audit_log (wdb w1) = audit_log (wdb w) @ opening_trail (audit_seq (wdb w)) (wnow w) i md"
    and "audit_seq (wdb w1) = audit_seq (wdb w) + 2"
proof -
  obtain b w2 w3 w4 where create: "CreateTransaction i x c ty TxStatusPending ref None md (wnow w) (wdb w) = Inr (b, wdb w2)"
    and w2: "wnow w2 = wnow w" and audit: "audit_Write ''transaction'' i None ''created'' '''' TxStatusPending md w2 = (Inr (), w3)"
    and trans: "transitionTransactionState i TxStatusProcessing None ''processing_started'' None w3 = (Inr (), w4)"
    and rest: "f () w4 = (Inr a, w')"
    using assms by (elim bind_ok wrapf_ok exec_ok) auto
  note new = CreateTransaction_effect [OF create]
  let ?r = "\<lparr>t_id = i, t_amount = x, t_currency = c, t_type = ty, t_status = TxStatusPending,
    t_reference_id = ref, t_created_at = wnow w, t_fx_rate = None, t_metadata = md\<rparr>"
  have d3: "wdb w3 = (wdb w2)\<lparr>audit_seq := audit_seq (wdb w) + 1, audit_log := audit_log (wdb w) @
      [audit_entry (audit_seq (wdb w) + 1) (wnow w) i None ''created'' None TxStatusPending md]\<rparr>"
    and w3: "wnow w3 = wnow w"
    using audit new(1) w2 by (auto elim!: audit_Write_ok simp: audit_entry_def)
  have pending: "txn (wdb w3) i = Some ?r" using d3 new(1,2) by simp
  note moved = moved_to [OF trans pending, simplified]
  show thesis
  proof (rule that [OF rest])
    show "same_ledger (wdb w) (wdb w4)" using moved(5) d3 new(1) by (simp add: same_ledger_def)
    show "txn (wdb w4) i = Some (opened_row i x c ty ref md (wnow w))"
      using moved(1) by (simp add: opened_row_def)
    show "txn (wdb w4) j = txn (wdb w) j" if "j \<noteq> i" for j
      using moved(2) [OF that] d3 new(1) that by (simp split: option.splits)
    show "audit_log (wdb w4) = audit_log (wdb w) @ opening_trail (audit_seq (wdb w)) (wnow w) i md"
      using moved(3) d3 w3 by (simp add: opening_trail_def add.commute)
  qed (use moved d3 w3 new in auto)
qed

subsection \<open>Postings\<close>

text \<open>An entry without its identifier and time.\<close>

definition posting_of :: "entry_row \<Rightarrow> uuid \<times> uuid \<times> int \<times> string" where
  "posting_of e = (e_transaction_id e, e_account_id e, e_amount e, e_direction e)"

text \<open>
  \<open>posts m ps\<close>: whenever \<open>m\<close> succeeds, it has appended entries with the postings \<open>ps\<close>, and apart
  from these and the funds of accounts nothing has changed.
\<close>

definition posts :: "'a m \<Rightarrow> (uuid \<times> uuid \<times> int \<times> string) list \<Rightarrow> bool" where
  "posts m ps \<longleftrightarrow> (\<forall>w a w'. m w = (Inr a, w') \<longrightarrow> only_posts (wdb w) (wdb w') \<and>
     audit_seq (wdb w') = audit_seq (wdb w) \<and> wnow w' = wnow w \<and>
     (\<exists>es. entries (wdb w') = entries (wdb w) @ es \<and> map posting_of es = ps))"

lemma postsD:
  assumes "posts m ps" and "m w = (Inr a, w')"
  obtains es where "only_posts (wdb w) (wdb w')" and "audit_seq (wdb w') = audit_seq (wdb w)"
    and "wnow w' = wnow w" and "entries (wdb w') = entries (wdb w) @ es" and "map posting_of es = ps"
  using assms unfolding posts_def by blast

lemma posts_eq: "posts m qs \<Longrightarrow> qs = ps \<Longrightarrow> posts m ps"
  by simp

lemma posts_bind: "posts m ps \<Longrightarrow> (\<And>a. posts (f a) qs) \<Longrightarrow> posts (bind m f) (ps @ qs)"
proof -
  assume m: "posts m ps" and f: "\<And>a. posts (f a) qs"
  show "posts (bind m f) (ps @ qs)"
    unfolding posts_def
  proof (intro allI impI)
    fix w b w' assume "bind m f w = (Inr b, w')"
    then obtain a w1 where 1: "m w = (Inr a, w1)" and 2: "f a w1 = (Inr b, w')" by (rule bind_ok)
    obtain es where es: "only_posts (wdb w) (wdb w1)" "audit_seq (wdb w1) = audit_seq (wdb w)"
        "wnow w1 = wnow w" "entries (wdb w1) = entries (wdb w) @ es" "map posting_of es = ps"
      using m 1 by (rule postsD)
    obtain fs where fs: "only_posts (wdb w1) (wdb w')" "audit_seq (wdb w') = audit_seq (wdb w1)"
        "wnow w' = wnow w1" "entries (wdb w') = entries (wdb w1) @ fs" "map posting_of fs = qs"
      using f 2 by (rule postsD)
    have "entries (wdb w') = entries (wdb w) @ (es @ fs)" and "map posting_of (es @ fs) = ps @ qs"
      using es fs by simp_all
    with es fs show "only_posts (wdb w) (wdb w') \<and> audit_seq (wdb w') = audit_seq (wdb w) \<and> wnow w' = wnow w \<and>
      (\<exists>es. entries (wdb w') = entries (wdb w) @ es \<and> map posting_of es = ps @ qs)"
      using posting.R_trans by metis
  qed
qed

lemma posts_wrapf: "posts m ps \<Longrightarrow> posts (wrapf text m) ps"
  by (auto simp: posts_def elim!: wrapf_ok)

lemma posts_pure: "posts (ret a) []" "posts uuid_New []" "posts (lift_sum r) []" "posts (requireExactlyOne n op) []"
  by (auto simp: posts_def posting.R_refl elim!: ret_ok uuid_New_ok lift_sum_ok requireExactlyOne_ok)

lemma posts_entry: "posts (exec (CreateEntry e i k x di)) [(i, k, x, di)]"
  by (auto simp: posts_def posting_of_def only_posts_def elim!: exec_ok dest!: CreateEntry_effect(1))

lemma posts_funds:
  assumes "\<And>t d n d'. s t d = Inr (n, d') \<Longrightarrow> other_tables d d'"
  shows "posts (exec s) []"
  by (auto simp: posts_def only_posts_def other_tables_def elim!: exec_ok dest!: assms)

lemma posts_funds_statements:
  "posts (exec (UpdateAccountBalance x k)) []" "posts (exec (LockAccountFunds x k)) []"
  "posts (exec (ReleaseAccountFunds x k)) []" "posts (exec (ReleaseAccountFundsSafe x k)) []"
  "posts (exec (DeductLockedFunds x k)) []"
  by (rule posts_funds, auto simp: other_tables_def update_accounts_def UpdateAccountBalance_def LockAccountFunds_def
        ReleaseAccountFunds_def ReleaseAccountFundsSafe_def DeductLockedFunds_def
        split: sum.splits intro: update_rows_map set_funds_identity)+

lemmas posts_rules = posts_bind posts_wrapf posts_pure posts_entry posts_funds_statements

subsection \<open>Opened, posted, completed\<close>

definition completed_row :: "uuid \<Rightarrow> int \<Rightarrow> string \<Rightarrow> string \<Rightarrow> string \<Rightarrow> json option \<Rightarrow> int \<Rightarrow> transaction_row" where
  "completed_row i x c ty ref md t = (opened_row i x c ty ref md t)\<lparr>t_status := TxStatusCompleted\<rparr>"

definition completed_trail :: "int \<Rightarrow> int \<Rightarrow> uuid \<Rightarrow> json option \<Rightarrow> audit_row list" where
  "completed_trail n t i md = opening_trail n t i md @
     [audit_entry (n + 3) t i None ''completed'' (Some TxStatusProcessing) TxStatusCompleted None]"

text \<open>
  The records of a completed transaction: it did not exist, it exists as COMPLETED, the other
  transactions and the payouts are as before, and its entries and audit records are appended.
\<close>

definition completed_in ::
  "db \<Rightarrow> db \<Rightarrow> transaction_row \<Rightarrow> (uuid \<times> uuid \<times> int \<times> string) list \<Rightarrow> audit_row list \<Rightarrow> bool" where
  "completed_in d d' r ps ls \<longleftrightarrow> txn d (t_id r) = None \<and>
     t_reference_id r \<notin> t_reference_id ` set (transactions d) \<and>
     (\<forall>j. txn d' j = (if j = t_id r then Some r else txn d j)) \<and> payouts d' = payouts d \<and>
     (\<exists>es. entries d' = entries d @ es \<and> map posting_of es = ps) \<and> audit_log d' = audit_log d @ ls"

lemma close_ok:
  assumes "txn (wdb w) i = Some r" and "t_status r = TxStatusProcessing" and "posts m ps"
    and "bind m (\<lambda>_. bind (wrapf text (transitionTransactionState i TxStatusCompleted None ''completed'' None)) g) w = (Inr b, w')"
  obtains w1 where "g () w1 = (Inr b, w')"
    and "\<And>j. txn (wdb w1) j = (if j = i then Some (r\<lparr>t_status := TxStatusCompleted\<rparr>) else txn (wdb w) j)"
    and "payouts (wdb w1) = payouts (wdb w)"
    and "\<exists>es. entries (wdb w1) = entries (wdb w) @ es \<and> map posting_of es = ps"
    and "audit_log (wdb w1) = audit_log (wdb w) @
      [audit_entry (audit_seq (wdb w) + 1) (wnow w) i None ''completed'' (Some TxStatusProcessing) TxStatusCompleted None]"
proof -
  obtain a w2 w3 where m: "m w = (Inr a, w2)"
    and trans: "transitionTransactionState i TxStatusCompleted None ''completed'' None w2 = (Inr (), w3)"
    and rest: "g () w3 = (Inr b, w')"
    using assms(4) by (elim bind_ok wrapf_ok) auto
  obtain es where es: "only_posts (wdb w) (wdb w2)" "audit_seq (wdb w2) = audit_seq (wdb w)" "wnow w2 = wnow w"
      "entries (wdb w2) = entries (wdb w) @ es" "map posting_of es = ps"
    using assms(3) m by (rule postsD)
  have row: "txn (wdb w2) i = Some r" using assms(1) es(1) by (simp add: only_posts_def)
  note moved = moved_to [OF trans row]
  show thesis
  proof (rule that [OF rest])
    show "txn (wdb w3) j = (if j = i then Some (r\<lparr>t_status := TxStatusCompleted\<rparr>) else txn (wdb w) j)" for j
      using moved(1,2) assms(2) es(1) by (simp add: only_posts_def)
  qed (use moved assms(2) es in \<open>auto simp: only_posts_def same_ledger_def\<close>)
qed

lemma completed_chain:
  assumes "same_ledger d d1" and "txn d i = None" and "ref \<notin> t_reference_id ` set (transactions d)"
    and "\<And>j. j \<noteq> i \<Longrightarrow> txn d1 j = txn d j" and "payouts d1 = payouts d"
    and "audit_log d1 = audit_log d @ opening_trail (audit_seq d) now i md"
    and "\<And>j. txn d2 j = (if j = i then Some r else txn d1 j)" and "payouts d2 = payouts d1"
    and "\<exists>es. entries d2 = entries d1 @ es \<and> map posting_of es = ps"
    and "audit_log d2 = audit_log d1 @
      [audit_entry (audit_seq d + 3) now i None ''completed'' (Some TxStatusProcessing) TxStatusCompleted None]"
    and "t_id r = i" and "t_reference_id r = ref"
  shows "completed_in d d2 r ps (completed_trail (audit_seq d) now i md)"
  unfolding completed_in_def assms(11,12)
proof (intro conjI)
  show "\<forall>j. txn d2 j = (if j = i then Some r else txn d j)" using assms(4,7) by simp
  show "\<exists>es. entries d2 = entries d @ es \<and> map posting_of es = ps" using assms(1,9) by (simp add: same_ledger_def)
  show "audit_log d2 = audit_log d @ completed_trail (audit_seq d) now i md"
    using assms(6,10) by (simp add: completed_trail_def)
qed (use assms in simp_all)

lemma complete_ok:
  assumes "bind (wrapf m1 (exec (CreateTransaction i x c ty TxStatusPending ref None md))) (\<lambda>_.
    bind (audit_Write ''transaction'' i None ''created'' '''' TxStatusPending md) (\<lambda>_.
    bind (wrapf m2 (transitionTransactionState i TxStatusProcessing None ''processing_started'' None)) (\<lambda>_.
    bind m (\<lambda>_.
    bind (wrapf m3 (transitionTransactionState i TxStatusCompleted None ''completed'' None)) g)))) w
    = (Inr b, w')" and "posts m ps"
  obtains w1 where "g () w1 = (Inr b, w')" and "0 < x" and "currency_ok c"
    and "completed_in (wdb w) (wdb w1) (completed_row i x c ty ref md (wnow w)) ps
      (completed_trail (audit_seq (wdb w)) (wnow w) i md)"
  using assms(1)
proof (rule open_ok)
  fix w1
  assume 1: "txn (wdb w1) i = Some (opened_row i x c ty ref md (wnow w))"
    and 2: "bind m (\<lambda>_. bind (wrapf m3 (transitionTransactionState i TxStatusCompleted None ''completed'' None)) g) w1 = (Inr b, w')"
    and 3: "same_ledger (wdb w) (wdb w1)" "wnow w1 = wnow w" "txn (wdb w) i = None" "0 < x" "currency_ok c"
      "ref \<notin> t_reference_id ` set (transactions (wdb w))" "\<And>j. j \<noteq> i \<Longrightarrow> txn (wdb w1) j = txn (wdb w) j"
      "payouts (wdb w1) = payouts (wdb w)" "audit_seq (wdb w1) = audit_seq (wdb w) + 2"
      "audit_log (wdb w1) = audit_log (wdb w) @ opening_trail (audit_seq (wdb w)) (wnow w) i md"
  have st: "t_status (opened_row i x c ty ref md (wnow w)) = TxStatusProcessing"
    by (simp add: opened_row_def)
  show thesis
  proof (rule close_ok [OF 1 st assms(2) 2])
    fix w2
    assume 4: "g () w2 = (Inr b, w')" "payouts (wdb w2) = payouts (wdb w1)"
        "\<And>j. txn (wdb w2) j = (if j = i then Some ((opened_row i x c ty ref md (wnow w))\<lparr>t_status := TxStatusCompleted\<rparr>) else txn (wdb w1) j)"
        "\<exists>es. entries (wdb w2) = entries (wdb w1) @ es \<and> map posting_of es = ps"
        "audit_log (wdb w2) = audit_log (wdb w1) @
          [audit_entry (audit_seq (wdb w1) + 1) (wnow w1) i None ''completed'' (Some TxStatusProcessing) TxStatusCompleted None]"
    have "completed_in (wdb w) (wdb w2) (completed_row i x c ty ref md (wnow w)) ps
        (completed_trail (audit_seq (wdb w)) (wnow w) i md)"
      by (rule completed_chain [OF 3(1,3,6,7,8,10), of _ "completed_row i x c ty ref md (wnow w)"])
        (use 3(2,9) 4 in \<open>simp_all add: completed_row_def opened_row_def add.commute\<close>)
    with 4(1) 3(4,5) show thesis by (rule that)
  qed
qed

end
