(* ===== verification/StateMachine.thy ===== *)
theory StateMachine
  imports Lifecycle
begin

text \<open>
  The states a transaction can go through under the services: \<open>follows\<close> relates two databases when
  every transaction of the first is in the second with a status the state machine of
  \<open>transaction_state.go\<close> allows to reach, and every new one has a status reachable from PENDING.
  It is an instance of \<open>service_frame\<close>, so it holds of every service built on that interface.
\<close>

definition status_path :: "string \<Rightarrow> string \<Rightarrow> bool" where
  "status_path = canTransition\<^sup>*\<^sup>*"

lemma status_path_refl [simp]: "status_path s s"
  by (simp add: status_path_def)

lemma status_path_trans: "status_path s t \<Longrightarrow> status_path t u \<Longrightarrow> status_path s u"
  by (simp add: status_path_def)

definition follows :: "db \<Rightarrow> db \<Rightarrow> bool" where
  "follows d d' \<longleftrightarrow> (\<forall>i. case txn d i of
     Some r \<Rightarrow> (\<exists>r'. txn d' i = Some r' \<and> status_path (t_status r) (t_status r'))
   | None \<Rightarrow> (\<forall>r'. txn d' i = Some r' \<longrightarrow> status_path TxStatusPending (t_status r')))"


lemma follows_I:
  assumes "\<And>i r. txn d i = Some r \<Longrightarrow> \<exists>r'. txn d' i = Some r' \<and> status_path (t_status r) (t_status r')"
    and "\<And>i r'. txn d i = None \<Longrightarrow> txn d' i = Some r' \<Longrightarrow> status_path TxStatusPending (t_status r')"
  shows "follows d d'"
  using assms by (auto simp: follows_def split: option.splits)

lemma follows_old:
  "follows d d' \<Longrightarrow> txn d i = Some r \<Longrightarrow> \<exists>r'. txn d' i = Some r' \<and> status_path (t_status r) (t_status r')"
  by (auto simp: follows_def split: option.splits dest!: spec [of _ i])

lemma follows_new:
  "follows d d' \<Longrightarrow> txn d i = None \<Longrightarrow> txn d' i = Some r' \<Longrightarrow> status_path TxStatusPending (t_status r')"
  by (auto simp: follows_def split: option.splits dest!: spec [of _ i])

lemma follows_eq: "transactions d' = transactions d \<Longrightarrow> follows d d'"
  by (rule follows_I) auto

lemma follows_trans: "follows d d' \<Longrightarrow> follows d' d'' \<Longrightarrow> follows d d''"
proof (rule follows_I)
  assume 1: "follows d d'" and 2: "follows d' d''"
  show "\<exists>r'. txn d'' i = Some r' \<and> status_path (t_status r) (t_status r')" if "txn d i = Some r" for i r
    using follows_old [OF 1 that] follows_old [OF 2] status_path_trans by blast
  show "status_path TxStatusPending (t_status r')" if "txn d i = None" "txn d'' i = Some r'" for i r'
  proof (cases "txn d' i")
    case None then show ?thesis using follows_new [OF 2] that by blast
  next
    case (Some r1)
    with follows_new [OF 1 that(1)] follows_old [OF 2 Some] that(2) show ?thesis
      by (auto intro: status_path_trans)
  qed
qed

lemma follows_update:
  assumes "update_transactions i f t d = Inr (n, d')"
    and "\<And>r r'. f r = Inr r' \<Longrightarrow> t_id r' = t_id r"
    and "\<And>r r'. txn d i = Some r \<Longrightarrow> f r = Inr r' \<Longrightarrow> status_path (t_status r) (t_status r')"
  shows "follows d d'"
proof (cases "n = 0")
  case True
  obtain rows where upd: "update_rows (\<lambda>r. t_id r = i) f (transactions d) = Inr (n, rows)" and d': "d' = d\<lparr>transactions := rows\<rparr>"
    using assms(1) by (auto simp: update_transactions_def split: sum.splits)
  have "txn d i = None"
    using update_rows_count [OF upd] True by (auto simp: sel_one_None_iff filter_empty_conv)
  then have "txn d' j = txn d j" for j
    using update_rows_sel_one [OF upd assms(2)] d' by simp
  then show ?thesis by (intro follows_I) auto
next
  case False
  obtain r r' where r: "txn d i = Some r" "f r = Inr r'" and upd: "\<And>j. txn d' j = (if j = i then Some r' else txn d j)"
    using txn_after_update [OF assms(1) False assms(2)] by metis
  show ?thesis
    by (rule follows_I) (use r upd assms(3) [OF r] in \<open>auto split: if_splits\<close>)
qed

lemma follows_transition: "frame follows (transitionTransactionState i ns ac a md)"
proof -
  have rest: "follows (wdb w) (wdb (snd (bind (wrapf m (exec (UpdateTransactionStatus ns i))) (\<lambda>rows.
      bind (requireExactlyOne rows op) (\<lambda>_. audit_Write ty i ac a cs ns md)) w)))"
    if "txn (wdb w) i = Some r" and "canTransition (t_status r) ns" for w r m op ty cs
  proof (cases "exec (UpdateTransactionStatus ns i) w")
    case (Pair x w1)
    have "status_path (t_status r) ns" using that(2) by (simp add: status_path_def)
    then have 1: "follows (wdb w) (wdb w1)"
      using Pair that(1)
      by (auto simp: exec_def Let_def UpdateTransactionStatus_def follows_eq split: fault.splits sum.splits
            elim!: follows_update split: if_splits)
    have "follows (wdb w1) (wdb (snd (bind (requireExactlyOne n op) (\<lambda>_. audit_Write ty i ac a cs ns md) w1)))" for n
      by (rule follows_eq)
        (auto simp: control_defs requireExactlyOne_def audit_Write_def exec_def Let_def InsertAuditLog_def
          split: fault.splits)
    with 1 Pair show ?thesis
      by (auto simp: bind_def [of "wrapf m k" for k] wrapf_def split: sum.splits intro: follows_trans)
  qed
  show ?thesis
    unfolding frame_def
  proof
    fix w
    show "follows (wdb w) (wdb (snd (transitionTransactionState i ns ac a md w)))"
    proof (cases "exec (GetTransactionStatusForUpdate i) w")
      case (Pair x w1)
      have same: "wdb w1 = wdb w"
        using Pair by (auto simp: exec_def Let_def GetTransactionStatusForUpdate_def
            split: fault.splits sum.splits option.splits)
      show ?thesis
      proof (cases x)
        case (Inl e)
        with Pair same show ?thesis
          by (simp add: transitionTransactionState_def bind_def wrapf_def follows_eq)
      next
        case (Inr cs)
        with Pair obtain r where "txn (wdb w1) i = Some r" "t_status r = cs"
          by (auto simp: exec_def Let_def GetTransactionStatusForUpdate_def
            split: fault.splits sum.splits option.splits)
        with Pair Inr same show ?thesis
          using rest [of w1 r] by (auto simp: transitionTransactionState_def bind_def [of "wrapf m k" for m k]
            wrapf_def ret_def throw_def follows_eq)
      qed
    qed
  qed
qed

lemma follows_statements:
  "keeps follows (LockAccountFunds x i)" "keeps follows (ReleaseAccountFunds x i)"
  "keeps follows (ReleaseAccountFundsSafe x i)" "keeps follows (DeductLockedFunds x i)"
  "keeps follows (UpdateAccountBalance x i)" "keeps follows (CreateEntry i tx ac x di)"
  "keeps follows (InsertPayout i tx ac x c st)" "keeps follows (UpdatePayoutStatus st g i)"
  "keeps follows (InsertAuditLog ty i actor act ps ns md)"
  by (auto simp: keeps_def LockAccountFunds_def ReleaseAccountFunds_def ReleaseAccountFundsSafe_def
        DeductLockedFunds_def UpdateAccountBalance_def update_accounts_def CreateEntry_def InsertPayout_def
        UpdatePayoutStatus_def InsertAuditLog_def Let_def split: sum.splits if_splits intro!: follows_eq)

interpretation fsm: service_frame follows
proof (unfold_locales, goal_cases)
  case (2 d d' d'') then show ?case by (rule follows_trans)
next
  case (10 i x c ty r fx md)
  show ?case
    by (auto simp: keeps_def dest!: CreateTransaction_effect(1) intro!: follows_I split: if_splits)
next
  case (11 fx md i)
  show ?case
    by (auto simp: keeps_def UpdateTransactionFx_def elim!: follows_update split: option.splits if_splits)
next
  case (14 i ns ac a md) show ?case by (rule follows_transition)
qed (auto simp: follows_statements intro: follows_eq)

subsection \<open>The paths\<close>

lemma canTransition_ok:
  assumes "tx_status_ok s" and "canTransition s t"
  shows "t \<noteq> s"
  using assms by (auto simp: canTransition_def normalizeState_ok tx_status_ok_def transactionTransitions_def
      split: option.splits if_splits)

lemma path_stays:
  assumes "status_path s t" and "P s" and "\<And>u v. P u \<Longrightarrow> canTransition u v \<Longrightarrow> P v"
  shows "P t"
  using assms(1,2) unfolding status_path_def by (induction rule: rtranclp_induct) (auto intro: assms(3))

text \<open>COMPLETED is left only for REVERSED, and REVERSED is never left.\<close>

lemma completed_path:
  assumes "status_path TxStatusCompleted t"
  shows "normalizeState t \<in> {TxStatusCompleted, TxStatusReversed}"
  using assms
  by (rule path_stays) (auto simp: canTransition_def transactionTransitions_simps)

lemma reversed_path:
  assumes "status_path TxStatusReversed t" shows "normalizeState t = TxStatusReversed"
  using assms
  by (rule path_stays) (auto simp: canTransition_def transactionTransitions_simps)

end
