(* ===== verification/Sample.thy ===== *)
theory Sample
  imports Money
begin

text \<open>
  Concrete data: the database the migrations create (\<open>db/migrations/000003\<close>), a database with
  customers, an implementation of the library functions that satisfies their contracts, and a
  world without faults. The witnesses of the properties are stated over these.
\<close>

definition account_row_of :: "string \<Rightarrow> string \<Rightarrow> string \<Rightarrow> int \<Rightarrow> int \<Rightarrow> account_row" where
  "account_row_of i u c b l = \<lparr>a_id = UUID i, a_user_id = UUID u, a_currency = c, a_balance = b,
     a_created_at = 0, a_locked_micros = l\<rparr>"

definition seed_db :: db where
  "seed_db = \<lparr>users = [\<lparr>u_id = UUID SystemUserID, u_username = ''system_liquidity'',
       u_email = ''system@grey.finance'', u_role = ''system'', u_created_at = 0\<rparr>],
     accounts = [account_row_of SystemAccountUSD SystemUserID ''USD'' 0 0,
       account_row_of SystemAccountEUR SystemUserID ''EUR'' 0 0,
       account_row_of SystemAccountGBP SystemUserID ''GBP'' 0 0],
     transactions = [], entries = [], payouts = [], audit_log = [], idempotency_keys = [], audit_seq = 0\<rparr>"

abbreviation alice_usd :: uuid where "alice_usd \<equiv> UUID ''a-usd''"
abbreviation alice_eur :: uuid where "alice_eur \<equiv> UUID ''a-eur''"
abbreviation bob_usd :: uuid where "bob_usd \<equiv> UUID ''b-usd''"

definition sample_db :: db where
  "sample_db = seed_db\<lparr>
     users := users seed_db @ [\<lparr>u_id = UUID ''alice'', u_username = ''alice'', u_email = ''a@x'',
         u_role = ''user'', u_created_at = 0\<rparr>,
       \<lparr>u_id = UUID ''bob'', u_username = ''bob'', u_email = ''b@x'', u_role = ''user'', u_created_at = 0\<rparr>],
     accounts := accounts seed_db @ [account_row_of ''a-usd'' ''alice'' ''USD'' 500 0,
       account_row_of ''a-eur'' ''alice'' ''EUR'' 0 0, account_row_of ''b-usd'' ''bob'' ''USD'' 0 0]\<rparr>"

definition sample_lib :: lib where
  "sample_lib = \<lparr>uuid_Parse = (\<lambda>s. Inr (UUID s)), dec_NewFromInt = of_int,
     dec_NewFromString = (\<lambda>s. if s = ''1'' then Some 1 else if s = ''0.92'' then Some (92 / 100)
       else if s = ''0.79'' then Some (79 / 100) else None),
     dec_Mul = (*), dec_Div = (/), dec_IntPart = (\<lambda>x. wrap64 (int_part x)), dec_String = (\<lambda>x. ''1''),
     dec_StringFixed = (\<lambda>x n. ''1''), numeric_Scan = (\<lambda>s. Some 1), numeric_Value = (\<lambda>x. Some ''1'')\<rparr>"

definition sample_world :: "db \<Rightarrow> world" where
  "sample_world d = \<lparr>wdb = d, wnow = 0, wfaults = (\<lambda>_. NoFault), wclock = (\<lambda>_. 0),
     wuuids = (\<lambda>n. UUID (replicate (Suc n) (CHR ''x''))), wctx = (\<lambda>_. None),
     wgateway = (\<lambda>_. Inr ''MOCK-1''), wskip = (\<lambda>_ _. False), wredis = (\<lambda>_ _. RedisNil),
     wothers = (\<lambda>_ d. d), wmetrics = Init no_collectors, wtrace = []\<rparr>"

lemma sample_world_sel [simp]:
  "wdb (sample_world d) = d" "wfaults (sample_world d) = (\<lambda>_. NoFault)" "wclock (sample_world d) = (\<lambda>_. 0)"
  "wtrace (sample_world d) = []" "wuuids (sample_world d) = (\<lambda>n. UUID (replicate (Suc n) (CHR ''x'')))"
  "wmetrics (sample_world d) = Init no_collectors" "wctx (sample_world d) = (\<lambda>_. None)" "wgateway (sample_world d) = (\<lambda>_. Inr ''MOCK-1'')"
  by (simp_all add: sample_world_def)

lemmas sample_defs = seed_db_def sample_db_def account_row_of_def SystemUserID_def SystemAccountUSD_def
  SystemAccountEUR_def SystemAccountGBP_def

lemma sample_schema [simp]: "schema_ok seed_db" "schema_ok sample_db"
  by (simp_all add: sample_defs schema_ok_def row_ok_defs currency_ok_def)

lemma sample_uuid_lib [simp]: "uuid_lib sample_lib"
  by (simp add: uuid_lib_def sample_lib_def)

lemma sample_decimal_lib [simp]: "decimal_lib sample_lib"
  by (simp add: decimal_lib_def sample_lib_def)

lemma in_int64_small [simp]: "in_int64 (numeral n) \<longleftrightarrow> numeral n < (2 ^ 63 :: int)" "in_int64 0" "in_int64 1"
  by (auto simp: in_int64_def)

end
