(* ===== verification/InternalTransfer.thy ===== *)
theory InternalTransfer
  imports StateMachine Sample
begin

text \<open>
  \<open>TransferService.Transfer\<close> of \<open>internal/service/transfer.go\<close>: the checks, the idempotency
  lookup, the database transaction (\<open>Transfer_tx\<close>) and the resolution of a unique violation.
\<close>

subsection \<open>Model\<close>

record model_transaction =
  mt_id :: uuid
  mt_amount :: int
  mt_currency :: string
  mt_type :: string
  mt_status :: string
  mt_reference_id :: string
  mt_fx_rate :: "rat option"
  mt_metadata :: "json option"
  mt_created_at :: "int option" \<comment> \<open>None: the zero time\<close>

definition isUniqueViolation :: "err \<Rightarrow> bool" where
  "isUniqueViolation e \<longleftrightarrow> errors_As_PgError e = Some ''23505''"

definition mapExistingTransaction :: "lib \<Rightarrow> transaction_row \<Rightarrow> model_transaction" where
  "mapExistingTransaction L row =
     (let fxRate = (case t_fx_rate row of
            None \<Rightarrow> None
          | Some r \<Rightarrow> (case numeric_Value L r of
                None \<Rightarrow> None | Some val \<Rightarrow> dec_NewFromString L val))
      in \<lparr>mt_id = t_id row, mt_amount = t_amount row, mt_currency = t_currency row,
          mt_type = t_type row, mt_status = t_status row, mt_reference_id = t_reference_id row,
          mt_fx_rate = fxRate, mt_metadata = None, mt_created_at = None\<rparr>)"

text \<open>The two entries and the two balance updates.\<close>

definition transfer_postings :: "uuid \<Rightarrow> uuid \<Rightarrow> int \<Rightarrow> uuid \<Rightarrow> unit m" where
  "transfer_postings fromAccountID toAccountID amount transactionID =
     bind uuid_New (\<lambda>debitID.
     bind (wrapf ''failed to create sender ledger entry: ''
       (exec (CreateEntry debitID transactionID fromAccountID amount DirectionDebit))) (\<lambda>_.
     bind uuid_New (\<lambda>creditID.
     bind (wrapf ''failed to create receiver ledger entry: ''
       (exec (CreateEntry creditID transactionID toAccountID amount DirectionCredit))) (\<lambda>_.
     bind (wrapf ''failed to update sender balance: ''
       (exec (UpdateAccountBalance (wrap64 (- amount)) fromAccountID))) (\<lambda>rows.
     bind (requireExactlyOne rows ''debit sender account'') (\<lambda>_.
     bind (wrapf ''failed to update receiver balance: ''
       (exec (UpdateAccountBalance amount toAccountID))) (\<lambda>rows.
     requireExactlyOne rows ''credit receiver account'')))))))"

text \<open>What follows the checks inside the transaction.\<close>

definition post_transfer :: "uuid \<Rightarrow> uuid \<Rightarrow> int \<Rightarrow> string \<Rightarrow> uuid \<Rightarrow> string \<Rightarrow> string m" where
  "post_transfer fromAccountID toAccountID amount referenceID transactionID fromCurrency =
     bind (wrapf ''failed to create transaction: ''
       (exec (CreateTransaction transactionID amount fromCurrency TxTypeTransfer TxStatusPending
          referenceID None None))) (\<lambda>_.
     bind (audit_Write ''transaction'' transactionID None ''created'' '''' TxStatusPending None) (\<lambda>_.
     bind (wrapf ''failed to transition transaction to processing: ''
       (transitionTransactionState transactionID TxStatusProcessing None ''processing_started'' None)) (\<lambda>_.
     bind (transfer_postings fromAccountID toAccountID amount transactionID) (\<lambda>_.
     bind (wrapf ''failed to complete transaction: ''
       (transitionTransactionState transactionID TxStatusCompleted None ''completed'' None)) (\<lambda>_.
     ret fromCurrency)))))"

text \<open>The function passed to \<open>RunInTx\<close>; it returns the transaction's currency.\<close>

definition Transfer_tx :: "uuid \<Rightarrow> uuid \<Rightarrow> int \<Rightarrow> string \<Rightarrow> uuid \<Rightarrow> string m" where
  "Transfer_tx fromAccountID toAccountID amount referenceID transactionID =
     (let (account1ID, account2ID) =
        (if fromAccountID > toAccountID then (toAccountID, fromAccountID)
         else (fromAccountID, toAccountID)) in
     bind (wrapf (''failed to lock account '' @ String account1ID @ '': '') (exec (LockAccount account1ID))) (\<lambda>_.
     bind (wrapf (''failed to lock account '' @ String account2ID @ '': '') (exec (LockAccount account2ID))) (\<lambda>_.
     bind (wrapf ''failed to fetch sender account: '' (exec (GetAccountBalanceAndCurrency fromAccountID)))
       (\<lambda>(fromBalance, fromCurrency).
     bind (wrapf ''failed to fetch receiver account: '' (exec (GetAccountCurrency toAccountID)))
       (\<lambda>toCurrency.
     if fromCurrency \<noteq> toCurrency then
       throw (Wrap '''' ErrCurrencyMismatch ('': sender is '' @ fromCurrency @ '', receiver is '' @ toCurrency))
     else if fromBalance < amount then throw ErrInsufficientFunds
     else post_transfer fromAccountID toAccountID amount referenceID transactionID fromCurrency)))))"

text \<open>After a failed transaction: a unique violation is resolved by the record that won the race.\<close>

definition resolve_duplicate :: "lib \<Rightarrow> string \<Rightarrow> err \<Rightarrow> model_transaction m" where
  "resolve_duplicate L referenceID err =
     (if isUniqueViolation err then
        bind (attempt (auto_exec (CheckTransactionIdempotency referenceID))) (\<lambda>again.
        case again of
          Inr existing \<Rightarrow> ret (mapExistingTransaction L existing)
        | Inl lookupErr \<Rightarrow> throw err)
      else throw err)"

definition Transfer :: "lib \<Rightarrow> uuid \<Rightarrow> uuid \<Rightarrow> int \<Rightarrow> string \<Rightarrow> model_transaction m" where
  "Transfer L fromAccountID toAccountID amount referenceID =
     (if amount \<le> 0 then throw ErrInvalidAmount
      else if referenceID = '''' then throw ErrReferenceRequired
      else if fromAccountID = toAccountID then throw ErrSameAccountTransfer
      else
      bind (attempt (auto_exec (CheckTransactionIdempotency referenceID))) (\<lambda>found.
      case found of
        Inr existingTxRow \<Rightarrow> ret (mapExistingTransaction L existingTxRow)
      | Inl err \<Rightarrow>
        if \<not> errors_Is err ErrNoRows then throw (Wrap ''failed to check idempotency: '' err '''')
        else
        bind uuid_New (\<lambda>transactionID.
        bind (attempt (RunInTx (Transfer_tx fromAccountID toAccountID amount referenceID transactionID)))
          (\<lambda>result.
        case result of
          Inl err \<Rightarrow> resolve_duplicate L referenceID err
        | Inr txCurrency \<Rightarrow>
            ret \<lparr>mt_id = transactionID, mt_amount = amount, mt_currency = txCurrency,
                 mt_type = TxTypeTransfer, mt_status = TxStatusCompleted,
                 mt_reference_id = referenceID, mt_fx_rate = None, mt_metadata = None, mt_created_at = None\<rparr>))))"

subsection \<open>Built from the statements of the repository\<close>

context frame_rel
begin

lemma frame_resolve_duplicate [frame_intros]: "frame R (resolve_duplicate L ref e)"
  unfolding resolve_duplicate_def by (intro frame_intros)

end

context ledger_frame
begin

lemma frame_post_transfer [frame_intros]: "frame R (post_transfer f t a ref i c)"
  unfolding post_transfer_def transfer_postings_def by (intro frame_intros)

lemma frame_Transfer_tx [frame_intros]: "frame R (Transfer_tx f t a ref i)"
  unfolding Transfer_tx_def by (intro frame_intros)

lemma frame_Transfer [frame_intros]: "frame R (Transfer L f t a ref)"
  unfolding Transfer_def by (intro frame_intros)

end

subsection \<open>The money movement\<close>

lemma LockAccount_ok [simp]: "LockAccount k t d = Inr (a, d') \<longleftrightarrow> a = k \<and> d' = d \<and> acct d k \<noteq> None"
  by (auto simp: LockAccount_def split: option.splits dest: sel_one_Some)

lemma account_reads [simp]:
  "GetAccountBalanceAndCurrency k t d = Inr ((b, c), d') \<longleftrightarrow>
     d' = d \<and> (\<exists>r. acct d k = Some r \<and> b = a_balance r \<and> c = a_currency r)"
  "GetAccountCurrency k t d = Inr (c, d') \<longleftrightarrow> d' = d \<and> (\<exists>r. acct d k = Some r \<and> c = a_currency r)"
  by (auto simp: GetAccountBalanceAndCurrency_def GetAccountCurrency_def split: option.splits)

lemma transfer_postings_moves:
  assumes "in_int64 a" and "0 < a"
  shows "moves (transfer_postings f t a i) (\<lambda>v. move t a (move f (- a) v))"
proof -
  have neg: "wrap64 (- a) = - a" using assms by (simp add: in_int64_def)
  have "moves (transfer_postings f t a i)
    (\<lambda>v. credit t a (credit f (- a) (post t a (post f (- a) v))))"
    unfolding transfer_postings_def neg by (rule moves_rules | intro frame_intros)+
  then show ?thesis by (simp add: move_def post_credit)
qed

lemma post_transfer_moves:
  assumes "in_int64 a" and "0 < a"
  shows "moves (post_transfer f t a ref i c) (\<lambda>v. move t a (move f (- a) v))"
  unfolding post_transfer_def
  by (rule transfer_postings_moves [OF assms] moves_rules | intro frame_intros)+

lemma transfer_postings_posts:
  "posts (transfer_postings f t a i) [(i, f, a, DirectionDebit), (i, t, a, DirectionCredit)]"
  unfolding transfer_postings_def by (rule posts_eq, (rule posts_rules)+) simp

subsection \<open>The effect of the transaction\<close>

lemma Transfer_tx_reads:
  assumes "Transfer_tx f t a ref i w = (Inr c, w')"
  obtains ra rb w1 where "acct (wdb w) f = Some ra" and "acct (wdb w) t = Some rb"
    and "a_currency rb = a_currency ra" and "a \<le> a_balance ra" and "wdb w1 = wdb w" and "wnow w1 = wnow w"
    and "post_transfer f t a ref i (a_currency ra) w1 = (Inr c, w')"
  using assms unfolding Transfer_tx_def Let_def
  by (auto split: prod.splits if_splits elim!: throw_ok bind_ok wrapf_ok exec_ok intro: that)

text \<open>
  A transfer of \<open>a\<close> in currency \<open>c\<close> from \<open>f\<close> to \<open>t\<close> as transaction \<open>i\<close> at time \<open>now\<close>: both accounts
  have the currency, the sender has the balance, the ledger moves by the amount, the transaction
  is recorded as completed with its two entries and its audit trail.
\<close>

definition transferred :: "uuid \<Rightarrow> uuid \<Rightarrow> int \<Rightarrow> string \<Rightarrow> uuid \<Rightarrow> string \<Rightarrow> int \<Rightarrow> db \<Rightarrow> db \<Rightarrow> bool" where
  "transferred f t a ref i c now d d' \<longleftrightarrow>
     (\<exists>ra rb. acct d f = Some ra \<and> acct d t = Some rb \<and> a_currency ra = c \<and> a_currency rb = c \<and>
        a \<le> a_balance ra) \<and>
     view d' = move t a (move f (- a) (view d)) \<and>
     completed_in d d' (completed_row i a c TxTypeTransfer ref None now)
       [(i, f, a, DirectionDebit), (i, t, a, DirectionCredit)]
       (completed_trail (audit_seq d) now i None)"

lemma Transfer_tx_transferred:
  assumes "Transfer_tx f t a ref i w = (Inr c, w')" and "in_int64 a"
  shows "0 < a" and "transferred f t a ref i c (wnow w) (wdb w) (wdb w')"
proof -
  obtain ra rb w1 where reads: "acct (wdb w) f = Some ra" "acct (wdb w) t = Some rb"
      "a_currency rb = a_currency ra" "a \<le> a_balance ra" "wdb w1 = wdb w" "wnow w1 = wnow w"
    and post: "post_transfer f t a ref i (a_currency ra) w1 = (Inr c, w')"
    using assms(1) by (rule Transfer_tx_reads)
  obtain w2 where "ret (a_currency ra) w2 = (Inr c, w')" and pos: "0 < a"
    and recs: "completed_in (wdb w1) (wdb w2) (completed_row i a (a_currency ra) TxTypeTransfer ref None (wnow w1))
      [(i, f, a, DirectionDebit), (i, t, a, DirectionCredit)] (completed_trail (audit_seq (wdb w1)) (wnow w1) i None)"
    using post unfolding post_transfer_def by (rule complete_ok [OF _ transfer_postings_posts]) blast
  then have "c = a_currency ra" "w2 = w'" by (auto elim: ret_ok)
  moreover have "view (wdb w') = move t a (move f (- a) (view (wdb w1)))"
    using post_transfer_moves [OF assms(2) pos] post by (rule movesD)
  ultimately show "transferred f t a ref i c (wnow w) (wdb w) (wdb w')"
    using reads recs by (simp add: transferred_def)
  show "0 < a" by (rule pos)
qed

subsection \<open>The whole operation\<close>

text \<open>The answer of a lookup by reference in the database \<open>d\<close>.\<close>

definition existing_answer :: "lib \<Rightarrow> string \<Rightarrow> db \<Rightarrow> err + model_transaction \<Rightarrow> bool" where
  "existing_answer L ref d r \<longleftrightarrow> (\<forall>mt. r = Inr mt \<longrightarrow>
     (\<exists>row. sel_one t_reference_id ref (transactions d) = Some row \<and> mt = mapExistingTransaction L row))"

lemma existing_answer_Inl [simp]: "existing_answer L ref d (Inl e)"
  by (simp add: existing_answer_def)

lemma CheckTransactionIdempotency_ok:
  "CheckTransactionIdempotency ref t d = Inr (row, d') \<longleftrightarrow>
     d' = d \<and> sel_one t_reference_id ref (transactions d) = Some row"
  by (auto simp: CheckTransactionIdempotency_def split: option.splits)

lemma resolve_duplicate_answer:
  assumes "resolve_duplicate L ref e w = (r, w')"
  shows "unchanged (wdb w) (wdb w')" and "existing_answer L ref (wdb w) r"
proof -
  show "unchanged (wdb w) (wdb w')" using idle.frame_resolve_duplicate assms by (rule frameD)
  show "existing_answer L ref (wdb w) r"
    using assms unfolding resolve_duplicate_def
    by (auto simp: existing_answer_def CheckTransactionIdempotency_ok attempt_def
          split: if_splits sum.splits prod.splits elim!: throw_ok bind_ok ret_ok auto_exec_ok)
qed

lemma unique_reference:
  assumes "schema_ok d" and "txn d i = Some r" and "sel_one t_reference_id (t_reference_id r) (transactions d) = Some row"
  shows "row = r"
proof -
  have "inj_on t_reference_id (set (transactions d))"
    using assms(1) by (simp add: schema_ok_def distinct_map)
  then show ?thesis
    using sel_one_Some [OF assms(2)] sel_one_Some [OF assms(3)] by (auto dest: inj_onD)
qed

lemma existing_answer_unchanged:
  "unchanged d d' \<Longrightarrow> existing_answer L ref d' r \<longleftrightarrow> existing_answer L ref d r"
  by (simp add: existing_answer_def unchanged_tables)

text \<open>The two stages the transfer operations share.\<close>

lemma idempotency_guard:
  assumes "bind (attempt (auto_exec (CheckTransactionIdempotency ref))) (\<lambda>found.
      case found of
        Inr row \<Rightarrow> ret (mapExistingTransaction L row)
      | Inl err \<Rightarrow> if \<not> errors_Is err ErrNoRows then throw (e err) else M) w = (r, w')"
  obtains (answered) "unchanged (wdb w) (wdb w')" and "existing_answer L ref (wdb w) r"
    | (proceeds) w1 where "wdb w1 = wdb w" and "M w1 = (r, w')"
proof (cases "auto_exec (CheckTransactionIdempotency ref) w")
  case (Pair x w1)
  have same: "wdb w1 = wdb w"
    using Pair by (rule auto_exec_read [rotated]) (auto simp: keeps_def CheckTransactionIdempotency_ok)
  show thesis
  proof (cases x)
    case (Inr row)
    with Pair have "sel_one t_reference_id ref (transactions (wdb w)) = Some row"
      by (auto elim!: auto_exec_ok simp: CheckTransactionIdempotency_ok)
    with assms Pair Inr same show thesis
      by (intro answered) (auto simp: control_defs existing_answer_def)
  next
    case (Inl err)
    with assms Pair same show thesis
      by (cases "errors_Is err ErrNoRows") (auto simp: control_defs intro: answered proceeds)
  qed
qed

lemma tx_then_resolve:
  assumes "bind (attempt (RunInTx tx)) (\<lambda>result.
      case result of Inl err \<Rightarrow> resolve_duplicate L ref err | Inr x \<Rightarrow> ret (k x)) w = (r, w')"
  obtains (none) "unchanged (wdb w) (wdb w')" and "existing_answer L ref (wdb w) r"
    | (all) x w1 w2 where "wdb w1 = wdb w" and "begin_tx w = (Inr (), w1)" and "tx w1 = (Inr x, w2)"
      and "unchanged (wdb w2) (wdb w')" and "r = Inr (k x) \<or> existing_answer L ref (wdb w2) r"
proof (cases "RunInTx tx w")
  case (Pair x w3)
  then have rest: "(case x of Inl err \<Rightarrow> resolve_duplicate L ref err | Inr x \<Rightarrow> ret (k x)) w3 = (r, w')"
    using assms by (simp add: control_defs)
  from Pair show thesis
  proof (cases rule: RunInTx_atomic)
    case (rolled_back n e)
    then have "unchanged (wdb w) (wdb w3)" by (auto simp: unchanged_def)
    moreover have "resolve_duplicate L ref e w3 = (r, w')" using rest rolled_back(1) by simp
    then have "unchanged (wdb w3) (wdb w')" "existing_answer L ref (wdb w3) r"
      by (rule resolve_duplicate_answer)+
    ultimately show thesis
      using none idle.R_trans existing_answer_unchanged by blast
  next
    case (committed a w1 w2)
    have "unchanged (wdb w2) (wdb w') \<and> (r = Inr (k a) \<or> existing_answer L ref (wdb w2) r)"
    proof (cases x)
      case (Inl e)
      with rest have "resolve_duplicate L ref e w3 = (r, w')" by simp
      from resolve_duplicate_answer [OF this] committed(4) show ?thesis by simp
    next
      case (Inr b)
      with rest committed(5) have "r = Inr (k a)" "w' = w3" by (auto simp: ret_def)
      with committed(4) show ?thesis by simp
    qed
    with committed show thesis by (intro all) auto
  qed
qed

definition transfer_answer :: "uuid \<Rightarrow> int \<Rightarrow> string \<Rightarrow> string \<Rightarrow> string \<Rightarrow> rat option \<Rightarrow> model_transaction" where
  "transfer_answer i a c ty ref fx = \<lparr>mt_id = i, mt_amount = a, mt_currency = c, mt_type = ty,
     mt_status = TxStatusCompleted, mt_reference_id = ref, mt_fx_rate = fx, mt_metadata = None, mt_created_at = None\<rparr>"

text \<open>
  C10. Whatever the driver, the clock and the generated identifiers do, \<open>Transfer\<close> either leaves
  every table as it was, and then an answer is that of the transaction already recorded under the
  reference, or it has done one complete transfer: both accounts exist with the same currency, the
  sender's balance covers the amount, balance and entries of the sender fall and of the receiver
  rise by the amount, a new COMPLETED transaction, its debit and credit entry and its three audit
  records are stored, and an answer describes that transaction.
\<close>

theorem Transfer_all_or_nothing:
  assumes "Transfer L f t a ref w = (r, w')" and "in_int64 a" and "schema_ok (wdb w)"
  shows "(unchanged (wdb w) (wdb w') \<and> existing_answer L ref (wdb w) r) \<or>
    (\<exists>i c now d'. transferred f t a ref i c now (wdb w) d' \<and> unchanged d' (wdb w') \<and>
       (\<forall>mt. r = Inr mt \<longrightarrow> mt = transfer_answer i a c TxTypeTransfer ref None))"
proof (cases "0 < a \<and> ref \<noteq> '''' \<and> f \<noteq> t")
  case False
  with assms(1) have "w' = w \<and> (\<exists>e. r = Inl e)"
    by (auto simp: Transfer_def throw_def split: if_splits)
  then show ?thesis by auto
next
  case True
  let ?k = "\<lambda>i c. transfer_answer i a c TxTypeTransfer ref None"
  have "bind (attempt (auto_exec (CheckTransactionIdempotency ref))) (\<lambda>found.
      case found of
        Inr row \<Rightarrow> ret (mapExistingTransaction L row)
      | Inl err \<Rightarrow> if \<not> errors_Is err ErrNoRows then throw (Wrap ''failed to check idempotency: '' err '''')
          else bind uuid_New (\<lambda>i. bind (attempt (RunInTx (Transfer_tx f t a ref i))) (\<lambda>result.
            case result of Inl err \<Rightarrow> resolve_duplicate L ref err | Inr c \<Rightarrow> ret (?k i c)))) w = (r, w')"
    using assms(1) True unfolding Transfer_def transfer_answer_def by simp
  then show ?thesis
  proof (cases rule: idempotency_guard)
    case (proceeds w1)
    define i w2 where "i = wuuids w1 0" and "w2 = w1\<lparr>wuuids := pop (wuuids w1)\<rparr>"
    have "bind (attempt (RunInTx (Transfer_tx f t a ref i))) (\<lambda>result.
        case result of Inl err \<Rightarrow> resolve_duplicate L ref err | Inr c \<Rightarrow> ret (?k i c)) w2 = (r, w')"
      using proceeds(2) unfolding i_def w2_def by (simp only: bind_uuid_New)
    then show ?thesis
    proof (cases rule: tx_then_resolve)
      case none
      then show ?thesis using proceeds(1) by (simp add: w2_def)
    next
      case (all c w3 w4)
      have start: "wdb w3 = wdb w" using all(1) proceeds(1) by (simp add: w2_def)
      have eff: "transferred f t a ref i c (wnow w3) (wdb w) (wdb w4)"
        using Transfer_tx_transferred(2) [OF all(3) assms(2)] start by simp
      then have "txn (wdb w4) i = Some (completed_row i a c TxTypeTransfer ref None (wnow w3))"
        by (auto simp: transferred_def completed_in_def completed_row_def opened_row_def)
      moreover have "schema_ok (wdb w4)"
        using frameD [OF sch.worker.frame_Transfer_tx all(3)] assms(3) start by (simp add: keeps_schema_def)
      ultimately have "r = Inr mt \<Longrightarrow> mt = ?k i c" for mt
        using all(5) unique_reference by (fastforce simp: existing_answer_def completed_row_def opened_row_def
            mapExistingTransaction_def transfer_answer_def)
      with eff all(4) show ?thesis by blast
    qed
  qed simp
qed

text \<open>
  C30. Replay: a transfer whose reference is already recorded changes nothing and is answered with the
  recorded transaction, whatever its accounts and amount are.
\<close>

theorem Transfer_replay:
  assumes "0 < a" and "ref \<noteq> ''''" and "f \<noteq> t" and "wfaults w 0 = NoFault"
    and "sel_one t_reference_id ref (transactions (wdb w)) = Some row"
  shows "fst (Transfer L f t a ref w) = Inr (mapExistingTransaction L row) \<and>
    wdb (snd (Transfer L f t a ref w)) = wdb w \<and> wtrace (snd (Transfer L f t a ref w)) = wtrace w"
  using assms
  by (simp add: Transfer_def control_defs auto_exec_def Let_def CheckTransactionIdempotency_def)

end
