(* ===== verification/ExchangeTransfer.thy ===== *)
theory ExchangeTransfer
  imports InternalTransfer "HOL-Library.Multiset"
begin

text \<open>
  \<open>TransferService.TransferExchange\<close> and the lock-order helpers \<open>sortUUIDs\<close> and \<open>dedupeUUIDs\<close> of
  \<open>internal/service/transfer.go\<close>. The rate comes from the interface \<open>ExchangeRateService\<close>, a
  function argument; the program passes \<open>GetExchangeRate\<close>.
\<close>

subsection \<open>Lock order\<close>

text \<open>The inner and the outer loop of the exchange sort, on the slice with its indices.\<close>

function sortUUIDs_inner :: "nat \<Rightarrow> nat \<Rightarrow> uuid list \<Rightarrow> uuid list" where
  "sortUUIDs_inner i j ids =
     (if j < length ids then
        sortUUIDs_inner i (Suc j)
          (if ids ! i > ids ! j then ids[i := ids ! j, j := ids ! i] else ids)
      else ids)"
  by pat_completeness auto
termination
  by (relation "measure (\<lambda>(i, j, ids). length ids - j)") auto

declare sortUUIDs_inner.simps [simp del]

lemma length_sortUUIDs_inner [simp]: "length (sortUUIDs_inner i j ids) = length ids"
  by (induction i j ids rule: sortUUIDs_inner.induct) (subst sortUUIDs_inner.simps, auto)

function sortUUIDs_outer :: "nat \<Rightarrow> uuid list \<Rightarrow> uuid list" where
  "sortUUIDs_outer i ids =
     (if i < length ids then sortUUIDs_outer (Suc i) (sortUUIDs_inner i (Suc i) ids) else ids)"
  by pat_completeness auto
termination
  by (relation "measure (\<lambda>(i, ids). length ids - i)") auto

declare sortUUIDs_outer.simps [simp del]

definition sortUUIDs :: "uuid list \<Rightarrow> uuid list" where
  "sortUUIDs ids = sortUUIDs_outer 0 ids"

fun dedupe_loop :: "uuid set \<Rightarrow> uuid list \<Rightarrow> uuid list \<Rightarrow> uuid list" where
  "dedupe_loop seen out [] = out"
| "dedupe_loop seen out (x # ids) =
     (if x \<in> seen then dedupe_loop seen out ids
      else dedupe_loop (insert x seen) (out @ [x]) ids)"

definition dedupeUUIDs :: "uuid list \<Rightarrow> uuid list" where
  "dedupeUUIDs ids = dedupe_loop {} [] ids"

subsection \<open>The exchange\<close>

record TransferExchangeCmd =
  xc_FromAccountID :: uuid
  xc_ToAccountID :: uuid
  xc_Amount :: int
  xc_FromCurrency :: string
  xc_ToCurrency :: string
  xc_ReferenceID :: string

definition lock_for_exchange :: "uuid \<Rightarrow> unit m" where
  "lock_for_exchange i =
     bind (attempt (exec (LockAccount i))) (\<lambda>r.
     case r of
       Inr _ \<Rightarrow> ret ()
     | Inl err \<Rightarrow>
         if errors_Is err ErrNoRows then throw (Msg (''account '' @ String i @ '' not found''))
         else throw (Wrap (''failed to lock account '' @ String i @ '': '') err ''''))"

definition parse_fx_rate :: "lib \<Rightarrow> rat \<Rightarrow> err + rat" where
  "parse_fx_rate L rate =
     (case numeric_Scan L (dec_String L rate) of
        None \<Rightarrow> Inl (DriverErr ''invalid numeric'') | Some n \<Rightarrow> Inr n)"

text \<open>The four entries and the four balance updates around the two liquidity accounts.\<close>

definition exchange_entries :: "uuid \<Rightarrow> uuid \<Rightarrow> uuid \<Rightarrow> uuid \<Rightarrow> uuid \<Rightarrow> int \<Rightarrow> int \<Rightarrow> unit m" where
  "exchange_entries transactionID fromAccountID liqSourceID liqTargetID toAccountID amountSource amountTarget =
     bind uuid_New (\<lambda>e1.
     bind (wrapf ''failed to log user debit entry: ''
       (exec (CreateEntry e1 transactionID fromAccountID amountSource DirectionDebit))) (\<lambda>_.
     bind uuid_New (\<lambda>e2.
     bind (exec (CreateEntry e2 transactionID liqSourceID amountSource DirectionCredit)) (\<lambda>_.
     bind uuid_New (\<lambda>e3.
     bind (exec (CreateEntry e3 transactionID liqTargetID amountTarget DirectionDebit)) (\<lambda>_.
     bind uuid_New (\<lambda>e4.
     bind (exec (CreateEntry e4 transactionID toAccountID amountTarget DirectionCredit)) (\<lambda>_.
     ret ()))))))))"

definition exchange_balances :: "uuid \<Rightarrow> uuid \<Rightarrow> uuid \<Rightarrow> uuid \<Rightarrow> int \<Rightarrow> int \<Rightarrow> unit m" where
  "exchange_balances fromAccountID liqSourceID liqTargetID toAccountID amountSource amountTarget =
     bind (wrapf ''failed to debit user account: ''
       (exec (UpdateAccountBalance (wrap64 (- amountSource)) fromAccountID))) (\<lambda>rows.
     bind (requireExactlyOne rows ''debit source account'') (\<lambda>_.
     bind (wrapf ''failed to credit liquidity source: ''
       (exec (UpdateAccountBalance amountSource liqSourceID))) (\<lambda>rows.
     bind (requireExactlyOne rows ''credit source liquidity account'') (\<lambda>_.
     bind (wrapf ''failed to debit liquidity target: ''
       (exec (UpdateAccountBalance (wrap64 (- amountTarget)) liqTargetID))) (\<lambda>rows.
     bind (requireExactlyOne rows ''debit target liquidity account'') (\<lambda>_.
     bind (wrapf ''failed to credit user account: ''
       (exec (UpdateAccountBalance amountTarget toAccountID))) (\<lambda>rows.
     bind (requireExactlyOne rows ''credit destination account'') (\<lambda>_.
     ret ()))))))))"

definition exchange_postings :: "uuid \<Rightarrow> uuid \<Rightarrow> uuid \<Rightarrow> uuid \<Rightarrow> uuid \<Rightarrow> int \<Rightarrow> int \<Rightarrow> unit m" where
  "exchange_postings transactionID fromAccountID liqSourceID liqTargetID toAccountID amountSource amountTarget =
     bind (exchange_entries transactionID fromAccountID liqSourceID liqTargetID toAccountID
       amountSource amountTarget) (\<lambda>_.
     exchange_balances fromAccountID liqSourceID liqTargetID toAccountID amountSource amountTarget)"

definition fx_metadata :: "TransferExchangeCmd \<Rightarrow> int \<Rightarrow> json" where
  "fx_metadata cmd amountTarget =
     JObject [(''from_currency'', JString (xc_FromCurrency cmd)), (''target_amount'', JInt amountTarget),
       (''to_currency'', JString (xc_ToCurrency cmd))]"

text \<open>What follows the checks inside the transaction.\<close>

definition post_exchange :: "lib \<Rightarrow> TransferExchangeCmd \<Rightarrow> rat \<Rightarrow> uuid \<Rightarrow> uuid \<Rightarrow> uuid \<Rightarrow> unit m" where
  "post_exchange L cmd rate liqSourceID liqTargetID transactionID =
     bind (wrapf ''failed to create transaction: ''
       (exec (CreateTransaction transactionID (xc_Amount cmd) (xc_FromCurrency cmd) TxTypeExchange
          TxStatusPending (xc_ReferenceID cmd) None None))) (\<lambda>_.
     bind (audit_Write ''transaction'' transactionID None ''created'' '''' TxStatusPending None) (\<lambda>_.
     bind (wrapf ''failed to transition transaction to processing: ''
       (transitionTransactionState transactionID TxStatusProcessing None ''processing_started'' None)) (\<lambda>_.
     let sourceMoney = NewMoney (xc_Amount cmd) (xc_FromCurrency cmd);
         targetMoney = Convert L sourceMoney (xc_ToCurrency cmd) rate;
         amountSource = Amount sourceMoney;
         amountTarget = Amount targetMoney in
     bind (wrapf ''failed to parse fx rate: '' (lift_sum (parse_fx_rate L rate))) (\<lambda>numericFxRate.
     bind (wrapf ''failed to update transaction fx metadata: ''
       (exec (UpdateTransactionFx (Some numericFxRate) (Some (fx_metadata cmd amountTarget)) transactionID))) (\<lambda>rows.
     bind (requireExactlyOne rows ''update transaction fx metadata'') (\<lambda>_.
     bind (exchange_postings transactionID (xc_FromAccountID cmd) liqSourceID liqTargetID
       (xc_ToAccountID cmd) amountSource amountTarget) (\<lambda>_.
     wrapf ''failed to complete exchange transaction: ''
       (transitionTransactionState transactionID TxStatusCompleted None ''completed'' None))))))))"

definition TransferExchange_tx ::
  "lib \<Rightarrow> TransferExchangeCmd \<Rightarrow> rat \<Rightarrow> uuid \<Rightarrow> uuid \<Rightarrow> uuid \<Rightarrow> unit m" where
  "TransferExchange_tx L cmd rate liqSourceID liqTargetID transactionID =
     bind (foreach lock_for_exchange (sortUUIDs (dedupeUUIDs
        [xc_FromAccountID cmd, liqSourceID, liqTargetID, xc_ToAccountID cmd]))) (\<lambda>_.
     bind (wrapf ''failed to fetch sender account: ''
       (exec (GetAccountBalanceAndCurrency (xc_FromAccountID cmd)))) (\<lambda>(fromBalance, fromAccountCurrency).
     bind (wrapf ''failed to fetch receiver account: ''
       (exec (GetAccountCurrency (xc_ToAccountID cmd)))) (\<lambda>toAccountCurrency.
     if fromAccountCurrency \<noteq> xc_FromCurrency cmd then
       throw (Msg (''sender account currency ('' @ fromAccountCurrency @
         '') does not match requested from_currency ('' @ xc_FromCurrency cmd @ '')''))
     else if toAccountCurrency \<noteq> xc_ToCurrency cmd then
       throw (Msg (''receiver account currency ('' @ toAccountCurrency @
         '') does not match requested to_currency ('' @ xc_ToCurrency cmd @ '')''))
     else if fromBalance < xc_Amount cmd then throw ErrInsufficientFunds
     else post_exchange L cmd rate liqSourceID liqTargetID transactionID)))"

definition TransferExchange ::
  "lib \<Rightarrow> (string \<Rightarrow> string \<Rightarrow> err + rat) \<Rightarrow> TransferExchangeCmd \<Rightarrow> model_transaction m" where
  "TransferExchange L fxRates cmd =
     (if xc_Amount cmd \<le> 0 then throw ErrInvalidAmount
      else if xc_ReferenceID cmd = '''' then throw ErrReferenceRequired
      else if xc_FromAccountID cmd = xc_ToAccountID cmd then throw ErrSameAccountTransfer
      else if xc_FromCurrency cmd = xc_ToCurrency cmd then throw ErrSameCurrencyExchange
      else
      bind (attempt (auto_exec (CheckTransactionIdempotency (xc_ReferenceID cmd)))) (\<lambda>found.
      case found of
        Inr existingTxRow \<Rightarrow> ret (mapExistingTransaction L existingTxRow)
      | Inl err \<Rightarrow>
        if \<not> errors_Is err ErrNoRows then throw (Wrap ''failed to check idempotency: '' err '''')
        else
        bind (wrapf ''failed to get exchange rate: ''
          (lift_sum (fxRates (xc_FromCurrency cmd) (xc_ToCurrency cmd)))) (\<lambda>rate.
        bind (wrapf ''failed to identify liquidity source account: ''
          (lift_sum (getSystemAccountID L (xc_FromCurrency cmd)))) (\<lambda>liqSourceID.
        bind (wrapf ''failed to identify liquidity target account: ''
          (lift_sum (getSystemAccountID L (xc_ToCurrency cmd)))) (\<lambda>liqTargetID.
        bind uuid_New (\<lambda>transactionID.
        bind (attempt (RunInTx (TransferExchange_tx L cmd rate liqSourceID liqTargetID transactionID)))
          (\<lambda>result.
        case result of
          Inl err \<Rightarrow> resolve_duplicate L (xc_ReferenceID cmd) err
        | Inr _ \<Rightarrow>
            ret \<lparr>mt_id = transactionID, mt_amount = xc_Amount cmd, mt_currency = xc_FromCurrency cmd,
                 mt_type = TxTypeExchange, mt_status = TxStatusCompleted,
                 mt_reference_id = xc_ReferenceID cmd, mt_fx_rate = Some rate, mt_metadata = None, mt_created_at = None\<rparr>)))))))"

subsection \<open>Built from the statements of the repository\<close>

context ledger_frame
begin

lemma frame_lock_for_exchange [frame_intros]: "frame R (lock_for_exchange i)"
  unfolding lock_for_exchange_def by (intro frame_intros)

lemma frame_exchange_entries [frame_intros]: "frame R (exchange_entries i f s t k a b)"
  unfolding exchange_entries_def by (intro frame_intros)

lemma frame_exchange_balances [frame_intros]: "frame R (exchange_balances f s t k a b)"
  unfolding exchange_balances_def by (intro frame_intros)

lemma frame_exchange_postings [frame_intros]: "frame R (exchange_postings i f s t k a b)"
  unfolding exchange_postings_def by (intro frame_intros)

lemma frame_post_exchange [frame_intros]: "frame R (post_exchange L cmd rate s t i)"
  unfolding post_exchange_def Let_def by (intro frame_intros)

lemma frame_TransferExchange_tx [frame_intros]: "frame R (TransferExchange_tx L cmd rate s t i)"
  unfolding TransferExchange_tx_def by (intro frame_intros)

lemma frame_TransferExchange [frame_intros]: "frame R (TransferExchange L fx cmd)"
  unfolding TransferExchange_def by (intro frame_intros)

end

subsection \<open>The lock order is sorted and has no repetition\<close>

lemma mset_sortUUIDs_inner:
  "i < length ids \<Longrightarrow> mset (sortUUIDs_inner i j ids) = mset ids"
proof (induction i j ids rule: sortUUIDs_inner.induct)
  case (1 i j ids)
  show ?case
  proof (cases "j < length ids")
    case True
    with 1 have "mset (sortUUIDs_inner i j ids) =
      mset (if ids ! i > ids ! j then ids[i := ids ! j, j := ids ! i] else ids)"
      by (subst sortUUIDs_inner.simps) auto
    with True 1(2) show ?thesis by (simp add: mset_swap)
  qed (simp add: sortUUIDs_inner.simps [of i j ids])
qed

text \<open>The inner loop leaves the positions before \<open>i\<close> and puts the least of the rest at \<open>i\<close>.\<close>

lemma sortUUIDs_inner_below:
  "k < i \<Longrightarrow> i < j \<Longrightarrow> sortUUIDs_inner i j ids ! k = ids ! k"
proof (induction i j ids rule: sortUUIDs_inner.induct)
  case (1 i j ids)
  then show ?case by (cases "j < length ids") (auto simp: sortUUIDs_inner.simps [of i j ids])
qed

lemma sortUUIDs_inner_least:
  assumes "i < j" and "i < length ids" and "\<forall>k. i < k \<and> k < j \<and> k < length ids \<longrightarrow> ids ! i \<le> ids ! k"
  shows "\<forall>k. i \<le> k \<and> k < length ids \<longrightarrow> sortUUIDs_inner i j ids ! i \<le> sortUUIDs_inner i j ids ! k"
  using assms
proof (induction i j ids rule: sortUUIDs_inner.induct)
  case (1 i j ids)
  define ids' where "ids' = (if ids ! i > ids ! j then ids[i := ids ! j, j := ids ! i] else ids)"
  show ?case
  proof (cases "j < length ids")
    case True
    have "\<forall>k. i < k \<and> k < Suc j \<and> k < length ids' \<longrightarrow> ids' ! i \<le> ids' ! k"
    proof (intro allI impI)
      fix k assume k: "i < k \<and> k < Suc j \<and> k < length ids'"
      have "k < j \<Longrightarrow> ids ! i \<le> ids ! k" using k 1(4) True by simp
      then show "ids' ! i \<le> ids' ! k"
        using k True 1(2,3) by (cases "k = j") (auto simp: ids'_def nth_list_update)
    qed
    then have "\<forall>k. i \<le> k \<and> k < length ids' \<longrightarrow>
        sortUUIDs_inner i (Suc j) ids' ! i \<le> sortUUIDs_inner i (Suc j) ids' ! k"
      using 1(1) [OF True] 1(2,3) by (simp add: ids'_def)
    with True show ?thesis by (simp add: sortUUIDs_inner.simps [of i j ids] ids'_def)
  next
    case False
    then have "sortUUIDs_inner i j ids = ids" by (simp add: sortUUIDs_inner.simps [of i j ids])
    moreover have "ids ! i \<le> ids ! k" if "i \<le> k" "k < length ids" for k
      using that False 1(4) by (cases "k = i") auto
    ultimately show ?thesis by simp
  qed
qed

lemma sortUUIDs_inner_rest:
  assumes "i < length ids"
  shows "take i (sortUUIDs_inner i (Suc i) ids) = take i ids"
    and "set (drop i (sortUUIDs_inner i (Suc i) ids)) = set (drop i ids)"
proof -
  let ?ids' = "sortUUIDs_inner i (Suc i) ids"
  show take: "take i ?ids' = take i ids"
    using assms by (intro nth_equalityI) (auto simp: sortUUIDs_inner_below)
  have "mset (take i ?ids') + mset (drop i ?ids') = mset (take i ids) + mset (drop i ids)"
    using mset_sortUUIDs_inner [OF assms, of "Suc i"] by (simp flip: mset_append)
  with take have "mset (drop i ?ids') = mset (drop i ids)" by simp
  then show "set (drop i ?ids') = set (drop i ids)" by (rule mset_eq_setD)
qed

lemma mset_sortUUIDs_outer: "mset (sortUUIDs_outer i ids) = mset ids"
proof (induction i ids rule: sortUUIDs_outer.induct)
  case (1 i ids)
  then show ?case
    by (cases "i < length ids") (simp_all add: sortUUIDs_outer.simps [of i ids] mset_sortUUIDs_inner)
qed

text \<open>Before round \<open>i\<close>, the first \<open>i\<close> positions are sorted and below the rest.\<close>

definition settled :: "nat \<Rightarrow> uuid list \<Rightarrow> bool" where
  "settled i ids \<longleftrightarrow> sorted (take i ids) \<and> (\<forall>x \<in> set (take i ids). \<forall>y \<in> set (drop i ids). x \<le> y)"

lemma settled_inner:
  assumes "settled i ids" and "i < length ids"
  shows "settled (Suc i) (sortUUIDs_inner i (Suc i) ids)"
proof -
  let ?ids' = "sortUUIDs_inner i (Suc i) ids"
  note rest = sortUUIDs_inner_rest [OF assms(2)]
  have split: "take (Suc i) ?ids' = take i ids @ [?ids' ! i]"
    using assms(2) rest(1) by (simp add: take_Suc_conv_app_nth)
  have "\<forall>k. i \<le> k \<and> k < length ids \<longrightarrow> ?ids' ! i \<le> ?ids' ! k"
    using assms(2) by (intro sortUUIDs_inner_least) auto
  then have least: "\<forall>y \<in> set (drop i ?ids'). ?ids' ! i \<le> y"
    by (auto simp: in_set_conv_nth)
  have "?ids' ! i \<in> set (drop i ids)"
    using rest(2) assms(2) by (metis Cons_nth_drop_Suc length_sortUUIDs_inner list.set_intros(1))
  moreover have "set (drop (Suc i) ?ids') \<subseteq> set (drop i ?ids')"
    by (rule set_drop_subset_set_drop) simp
  ultimately show ?thesis
    using assms(1) least rest(2) unfolding settled_def split
    by (auto simp: sorted_append)
qed

lemma sorted_sortUUIDs_outer: "settled i ids \<Longrightarrow> sorted (sortUUIDs_outer i ids)"
proof (induction i ids rule: sortUUIDs_outer.induct)
  case (1 i ids)
  show ?case
  proof (cases "i < length ids")
    case True
    with 1 settled_inner [OF 1(2) True] show ?thesis
      by (simp add: sortUUIDs_outer.simps [of i ids])
  next
    case False
    with 1(2) show ?thesis by (simp add: sortUUIDs_outer.simps [of i ids] settled_def)
  qed
qed

lemma sortUUIDs_sorts: "sorted (sortUUIDs ids)" "mset (sortUUIDs ids) = mset ids"
  unfolding sortUUIDs_def
  by (rule sorted_sortUUIDs_outer) (simp_all add: settled_def mset_sortUUIDs_outer)

lemma dedupe_loop_spec:
  assumes "seen = set out" and "distinct out"
  shows "distinct (dedupe_loop seen out ids) \<and> set (dedupe_loop seen out ids) = set out \<union> set ids"
  using assms by (induction seen out ids rule: dedupe_loop.induct) auto

lemma dedupeUUIDs_spec: "distinct (dedupeUUIDs ids)" "set (dedupeUUIDs ids) = set ids"
  using dedupe_loop_spec [of "{}" "[]" ids] by (auto simp: dedupeUUIDs_def)

subsection \<open>The money movement\<close>

lemma still_lock_for_exchange [frame_intros]: "frame same_ledger (lock_for_exchange i)"
  unfolding lock_for_exchange_def by (intro frame_intros)

lemma exchange_entries_moves:
  "moves (exchange_entries i f s t k a b) (\<lambda>v. post k b (post t (- b) (post s a (post f (- a) v))))"
  unfolding exchange_entries_def by (rule moves_rules | intro frame_intros)+

lemma exchange_balances_moves:
  "moves (exchange_balances f s t k a b)
     (\<lambda>v. credit k b (credit t (wrap64 (- b)) (credit s a (credit f (wrap64 (- a)) v))))"
  unfolding exchange_balances_def by (rule moves_rules | intro frame_intros)+

lemma exchange_entries_positive:
  assumes "exchange_entries i f s t k a b w = (Inr u, w')" shows "0 < a" and "0 < b"
  using assms unfolding exchange_entries_def
  by (auto elim!: bind_ok wrapf_ok exec_ok dest: CreateEntry_effect(3))

definition exchange_move :: "uuid \<Rightarrow> uuid \<Rightarrow> uuid \<Rightarrow> uuid \<Rightarrow> int \<Rightarrow> int \<Rightarrow> ledger \<Rightarrow> ledger" where
  "exchange_move f s t k a b v = move k b (move t (- b) (move s a (move f (- a) v)))"

lemma exchange_postings_moves:
  assumes "in_int64 a" and "in_int64 b"
  shows "moves (exchange_postings i f s t k a b) (exchange_move f s t k a b)"
proof -
  have "view (wdb w') = exchange_move f s t k a b (view (wdb w))"
    if "exchange_entries i f s t k a b w = (Inr u, w1)" and "exchange_balances f s t k a b w1 = (Inr v, w')"
    for w u w1 v w'
  proof -
    have "wrap64 (- a) = - a" and "wrap64 (- b) = - b"
      using exchange_entries_positive [OF that(1)] assms by (simp_all add: in_int64_def)
    then show ?thesis
      using movesD [OF exchange_entries_moves that(1)] movesD [OF exchange_balances_moves that(2)]
      by (simp add: exchange_move_def move_def post_credit)
  qed
  then show ?thesis by (auto simp: moves_def exchange_postings_def elim!: bind_ok)
qed

lemma exchange_postings_posts:
  "posts (exchange_postings i f s t k a b) [(i, f, a, DirectionDebit), (i, s, a, DirectionCredit),
     (i, t, b, DirectionDebit), (i, k, b, DirectionCredit)]"
  unfolding exchange_postings_def exchange_entries_def exchange_balances_def
  by (rule posts_eq, (rule posts_rules)+) simp

text \<open>The amount credited in the target currency.\<close>

definition target_amount :: "lib \<Rightarrow> TransferExchangeCmd \<Rightarrow> rat \<Rightarrow> int" where
  "target_amount L cmd rate =
     Amount (Convert L (NewMoney (xc_Amount cmd) (xc_FromCurrency cmd)) (xc_ToCurrency cmd) rate)"

lemma target_amount_int64: "decimal_lib L \<Longrightarrow> in_int64 (target_amount L cmd rate)"
  by (simp add: target_amount_def Convert_def FromDecimal_def decimal_lib_def)

lemma Amount_NewMoney [simp]: "Amount (NewMoney x c) = x"
  by (simp add: NewMoney_def)

lemma post_exchange_moves:
  assumes "decimal_lib L" and "in_int64 (xc_Amount cmd)"
  shows "moves (post_exchange L cmd rate s t i)
    (exchange_move (xc_FromAccountID cmd) s t (xc_ToAccountID cmd) (xc_Amount cmd) (target_amount L cmd rate))"
  unfolding post_exchange_def Let_def Amount_NewMoney target_amount_def [symmetric]
  by (rule exchange_postings_moves [OF assms(2) target_amount_int64 [OF assms(1)]] moves_rules
      | intro frame_intros)+

subsection \<open>The effect of the transaction\<close>

lemma UpdateTransactionFx_ok:
  assumes "wrapf text (exec (UpdateTransactionFx (Some n) md i)) w = (Inr 1, w')" and "txn (wdb w) i = Some r"
  shows "\<And>j. txn (wdb w') j = (if j = i then Some (r\<lparr>t_fx_rate := Some (numeric_18_8 n), t_metadata := md\<rparr>) else txn (wdb w) j)"
    and "\<exists>rows. wdb w' = (wdb w)\<lparr>transactions := rows\<rparr>" and "wnow w' = wnow w"
proof -
  have upd: "UpdateTransactionFx (Some n) md i (wnow w) (wdb w) = Inr (1, wdb w')" and "wnow w' = wnow w"
    using assms(1) by (auto elim!: wrapf_ok exec_ok)
  from upd have "\<exists>rows. wdb w' = (wdb w)\<lparr>transactions := rows\<rparr> \<and>
    (\<forall>j. txn (wdb w') j = (if j = i then Some (r\<lparr>t_fx_rate := Some (numeric_18_8 n), t_metadata := md\<rparr>) else txn (wdb w) j))"
    unfolding UpdateTransactionFx_def
    by (rule txn_after_update) (use assms(2) in \<open>auto split: if_splits\<close>)
  then show "\<And>j. txn (wdb w') j = (if j = i then Some (r\<lparr>t_fx_rate := Some (numeric_18_8 n), t_metadata := md\<rparr>) else txn (wdb w) j)"
    and "\<exists>rows. wdb w' = (wdb w)\<lparr>transactions := rows\<rparr>" by auto
  show "wnow w' = wnow w" by fact
qed

definition exchange_row :: "lib \<Rightarrow> TransferExchangeCmd \<Rightarrow> rat \<Rightarrow> rat \<Rightarrow> uuid \<Rightarrow> int \<Rightarrow> transaction_row" where
  "exchange_row L cmd rate n i now =
     (completed_row i (xc_Amount cmd) (xc_FromCurrency cmd) TxTypeExchange (xc_ReferenceID cmd) None now)
       \<lparr>t_fx_rate := Some (numeric_18_8 n), t_metadata := Some (fx_metadata cmd (target_amount L cmd rate))\<rparr>"

definition exchange_entry_list :: "TransferExchangeCmd \<Rightarrow> uuid \<Rightarrow> uuid \<Rightarrow> uuid \<Rightarrow> int \<Rightarrow> (uuid \<times> uuid \<times> int \<times> string) list" where
  "exchange_entry_list cmd s t i b =
     [(i, xc_FromAccountID cmd, xc_Amount cmd, DirectionDebit), (i, s, xc_Amount cmd, DirectionCredit),
      (i, t, b, DirectionDebit), (i, xc_ToAccountID cmd, b, DirectionCredit)]"

lemma post_exchange_completes:
  assumes "post_exchange L cmd rate s t i w = (Inr u, w')"
  obtains n where "parse_fx_rate L rate = Inr n" and "0 < xc_Amount cmd" and "0 < target_amount L cmd rate"
    and "completed_in (wdb w) (wdb w') (exchange_row L cmd rate n i (wnow w))
      (exchange_entry_list cmd s t i (target_amount L cmd rate)) (completed_trail (audit_seq (wdb w)) (wnow w) i None)"
  using assms unfolding post_exchange_def Let_def Amount_NewMoney target_amount_def [symmetric]
proof (rule open_ok)
  fix w1
  let ?b = "target_amount L cmd rate"
  let ?r = "opened_row i (xc_Amount cmd) (xc_FromCurrency cmd) TxTypeExchange (xc_ReferenceID cmd) None (wnow w)"
  assume run: "bind (wrapf ''failed to parse fx rate: '' (lift_sum (parse_fx_rate L rate))) (\<lambda>n.
      bind (wrapf ''failed to update transaction fx metadata: ''
        (exec (UpdateTransactionFx (Some n) (Some (fx_metadata cmd ?b)) i))) (\<lambda>rows.
      bind (requireExactlyOne rows ''update transaction fx metadata'') (\<lambda>_.
      bind (exchange_postings i (xc_FromAccountID cmd) s t (xc_ToAccountID cmd) (xc_Amount cmd) ?b) (\<lambda>_.
      wrapf ''failed to complete exchange transaction: ''
        (transitionTransactionState i TxStatusCompleted None ''completed'' None))))) w1 = (Inr u, w')"
    and 1: "txn (wdb w1) i = Some ?r"
    and 3: "same_ledger (wdb w) (wdb w1)" "wnow w1 = wnow w" "txn (wdb w) i = None" "0 < xc_Amount cmd"
      "xc_ReferenceID cmd \<notin> t_reference_id ` set (transactions (wdb w))"
      "\<And>j. j \<noteq> i \<Longrightarrow> txn (wdb w1) j = txn (wdb w) j"
      "payouts (wdb w1) = payouts (wdb w)" "audit_seq (wdb w1) = audit_seq (wdb w) + 2"
      "audit_log (wdb w1) = audit_log (wdb w) @ opening_trail (audit_seq (wdb w)) (wnow w) i None"
  obtain n w2 where n: "parse_fx_rate L rate = Inr n"
    and fx: "wrapf ''failed to update transaction fx metadata: ''
        (exec (UpdateTransactionFx (Some n) (Some (fx_metadata cmd ?b)) i)) w1 = (Inr 1, w2)"
    and rest: "bind (exchange_postings i (xc_FromAccountID cmd) s t (xc_ToAccountID cmd) (xc_Amount cmd) ?b) (\<lambda>_.
      bind (wrapf ''failed to complete exchange transaction: ''
        (transitionTransactionState i TxStatusCompleted None ''completed'' None)) ret) w2 = (Inr u, w')"
    using run by (auto elim!: bind_ok [of "wrapf _ (lift_sum _)"] bind_ok [of "wrapf _ (exec _)"]
      bind_ok [of "requireExactlyOne _ _"] wrapf_ok [of _ "lift_sum _"] lift_sum_ok requireExactlyOne_ok)
  note fxd = UpdateTransactionFx_ok [OF fx 1]
  obtain rows where rows: "wdb w2 = (wdb w1)\<lparr>transactions := rows\<rparr>" using fxd(2) by blast
  define r where "r = ?r\<lparr>t_fx_rate := Some (numeric_18_8 n), t_metadata := Some (fx_metadata cmd ?b)\<rparr>"
  have row: "txn (wdb w2) i = Some r" "t_status r = TxStatusProcessing"
    using fxd(1) by (simp_all add: r_def opened_row_def)
  have "0 < ?b"
    using rest by (auto elim!: bind_ok simp: exchange_postings_def dest: exchange_entries_positive(2))
  show thesis
  proof (rule close_ok [OF row exchange_postings_posts rest])
    fix w3
    assume 4: "ret () w3 = (Inr u, w')" "payouts (wdb w3) = payouts (wdb w2)"
        "\<And>j. txn (wdb w3) j = (if j = i then Some (r\<lparr>t_status := TxStatusCompleted\<rparr>) else txn (wdb w2) j)"
        "\<exists>es. entries (wdb w3) = entries (wdb w2) @ es \<and> map posting_of es =
          [(i, xc_FromAccountID cmd, xc_Amount cmd, DirectionDebit), (i, s, xc_Amount cmd, DirectionCredit),
           (i, t, ?b, DirectionDebit), (i, xc_ToAccountID cmd, ?b, DirectionCredit)]"
        "audit_log (wdb w3) = audit_log (wdb w2) @
          [audit_entry (audit_seq (wdb w2) + 1) (wnow w2) i None ''completed'' (Some TxStatusProcessing) TxStatusCompleted None]"
    have "completed_in (wdb w) (wdb w3) (exchange_row L cmd rate n i (wnow w))
        (exchange_entry_list cmd s t i ?b) (completed_trail (audit_seq (wdb w)) (wnow w) i None)"
      by (rule completed_chain [OF 3(1,3,5,6,7,9), of _ "exchange_row L cmd rate n i (wnow w)"])
        (use 3(2,8) 4 fxd(1,3) rows in \<open>simp_all add: exchange_row_def exchange_entry_list_def completed_row_def
           opened_row_def r_def add.commute\<close>)
    with n 3(4) \<open>0 < ?b\<close> 4(1) show thesis by (auto elim!: ret_ok intro: that)
  qed
qed

lemma lock_for_exchange_ok:
  assumes "lock_for_exchange i w = (Inr u, w')"
  shows "wdb w' = wdb w" and "wnow w' = wnow w" and "acct (wdb w) i \<noteq> None"
  using assms unfolding lock_for_exchange_def
  by (auto simp: attempt_def split: sum.splits prod.splits if_splits elim!: bind_ok exec_ok ret_ok throw_ok)

lemma locks_ok:
  "foreach lock_for_exchange ids w = (Inr u, w') \<Longrightarrow>
     wdb w' = wdb w \<and> wnow w' = wnow w \<and> (\<forall>i \<in> set ids. acct (wdb w) i \<noteq> None)"
proof (induction ids arbitrary: w)
  case (Cons x ids)
  then obtain w1 where 1: "lock_for_exchange x w = (Inr (), w1)" and 2: "foreach lock_for_exchange ids w1 = (Inr u, w')"
    by (auto elim!: bind_ok)
  show ?case using lock_for_exchange_ok [OF 1] Cons.IH [OF 2] by auto
qed (auto elim!: ret_ok)

text \<open>
  An exchange through the liquidity accounts \<open>s\<close> and \<open>t\<close>: the accounts have the requested
  currencies, the sender has the balance, four balances and nets move, and the transaction is
  recorded with its rate, its four entries and its audit trail.
\<close>

definition exchanged ::
  "lib \<Rightarrow> TransferExchangeCmd \<Rightarrow> rat \<Rightarrow> uuid \<Rightarrow> uuid \<Rightarrow> uuid \<Rightarrow> rat \<Rightarrow> int \<Rightarrow> db \<Rightarrow> db \<Rightarrow> bool" where
  "exchanged L cmd rate s t i n now d d' \<longleftrightarrow>
     (\<exists>ra rb. acct d (xc_FromAccountID cmd) = Some ra \<and> acct d (xc_ToAccountID cmd) = Some rb \<and>
        a_currency ra = xc_FromCurrency cmd \<and> a_currency rb = xc_ToCurrency cmd \<and> xc_Amount cmd \<le> a_balance ra) \<and>
     0 < target_amount L cmd rate \<and>
     view d' = exchange_move (xc_FromAccountID cmd) s t (xc_ToAccountID cmd) (xc_Amount cmd)
       (target_amount L cmd rate) (view d) \<and>
     completed_in d d' (exchange_row L cmd rate n i now)
       (exchange_entry_list cmd s t i (target_amount L cmd rate)) (completed_trail (audit_seq d) now i None)"

lemma TransferExchange_tx_exchanged:
  assumes "TransferExchange_tx L cmd rate s t i w = (Inr u, w')" and "decimal_lib L" and "in_int64 (xc_Amount cmd)"
  obtains n where "parse_fx_rate L rate = Inr n" and "0 < xc_Amount cmd"
    and "exchanged L cmd rate s t i n (wnow w) (wdb w) (wdb w')"
proof -
  obtain w1 where locks: "foreach lock_for_exchange (sortUUIDs (dedupeUUIDs
      [xc_FromAccountID cmd, s, t, xc_ToAccountID cmd])) w = (Inr (), w1)"
    and rest: "bind (wrapf ''failed to fetch sender account: ''
       (exec (GetAccountBalanceAndCurrency (xc_FromAccountID cmd)))) (\<lambda>(fromBalance, fromAccountCurrency).
     bind (wrapf ''failed to fetch receiver account: ''
       (exec (GetAccountCurrency (xc_ToAccountID cmd)))) (\<lambda>toAccountCurrency.
     if fromAccountCurrency \<noteq> xc_FromCurrency cmd then
       throw (Msg (''sender account currency ('' @ fromAccountCurrency @
         '') does not match requested from_currency ('' @ xc_FromCurrency cmd @ '')''))
     else if toAccountCurrency \<noteq> xc_ToCurrency cmd then
       throw (Msg (''receiver account currency ('' @ toAccountCurrency @
         '') does not match requested to_currency ('' @ xc_ToCurrency cmd @ '')''))
     else if fromBalance < xc_Amount cmd then throw ErrInsufficientFunds
     else post_exchange L cmd rate s t i)) w1 = (Inr u, w')"
    using assms(1) unfolding TransferExchange_tx_def by (rule bind_ok) auto
  have w1: "wdb w1 = wdb w" "wnow w1 = wnow w" using locks_ok [OF locks] by simp_all
  from rest obtain ra rb w2 where reads: "acct (wdb w1) (xc_FromAccountID cmd) = Some ra"
      "acct (wdb w1) (xc_ToAccountID cmd) = Some rb" "a_currency ra = xc_FromCurrency cmd"
      "a_currency rb = xc_ToCurrency cmd" "xc_Amount cmd \<le> a_balance ra" "wdb w2 = wdb w1" "wnow w2 = wnow w1"
    and post: "post_exchange L cmd rate s t i w2 = (Inr u, w')"
    by (auto split: prod.splits if_splits elim!: throw_ok bind_ok wrapf_ok exec_ok)
  have "view (wdb w') = exchange_move (xc_FromAccountID cmd) s t (xc_ToAccountID cmd) (xc_Amount cmd)
      (target_amount L cmd rate) (view (wdb w2))"
    using post_exchange_moves [OF assms(2,3)] post by (rule movesD)
  with post reads w1 that show thesis
    by (auto elim!: post_exchange_completes simp: exchanged_def)
qed

subsection \<open>The whole operation\<close>

lemma exchange_attempt:
  assumes "bind (attempt (RunInTx (TransferExchange_tx L cmd rate s t i))) (\<lambda>result.
      case result of Inl err \<Rightarrow> resolve_duplicate L (xc_ReferenceID cmd) err
      | Inr u \<Rightarrow> ret (transfer_answer i (xc_Amount cmd) (xc_FromCurrency cmd) TxTypeExchange (xc_ReferenceID cmd) (Some rate))) w = (r, w')"
    and "in_int64 (xc_Amount cmd)" and "schema_ok (wdb w)" and "decimal_lib L"
  shows "(unchanged (wdb w) (wdb w') \<and> existing_answer L (xc_ReferenceID cmd) (wdb w) r) \<or>
    (\<exists>n now d'. exchanged L cmd rate s t i n now (wdb w) d' \<and> unchanged d' (wdb w') \<and>
       (\<forall>mt. r = Inr mt \<longrightarrow> mt\<lparr>mt_fx_rate := None\<rparr> =
          transfer_answer i (xc_Amount cmd) (xc_FromCurrency cmd) TxTypeExchange (xc_ReferenceID cmd) None))"
  using assms(1)
proof (cases rule: tx_then_resolve)
  case (all u w3 w4)
  have start: "wdb w3 = wdb w" using all(1) by simp
  obtain n where eff: "exchanged L cmd rate s t i n (wnow w3) (wdb w) (wdb w4)"
    using TransferExchange_tx_exchanged [OF all(3) assms(4,2)] start by metis
  then have "txn (wdb w4) i = Some (exchange_row L cmd rate n i (wnow w3))"
    by (auto simp: exchanged_def completed_in_def exchange_row_def completed_row_def opened_row_def)
  moreover have "schema_ok (wdb w4)"
    using frameD [OF sch.worker.frame_TransferExchange_tx all(3)] assms(3) start by (simp add: keeps_schema_def)
  ultimately have "r = Inr mt \<Longrightarrow> mt\<lparr>mt_fx_rate := None\<rparr> =
      transfer_answer i (xc_Amount cmd) (xc_FromCurrency cmd) TxTypeExchange (xc_ReferenceID cmd) None" for mt
    using all(5) unique_reference by (fastforce simp: existing_answer_def exchange_row_def completed_row_def
        opened_row_def mapExistingTransaction_def transfer_answer_def)
  with eff all(4) show ?thesis by blast
qed simp

text \<open>
  C11. \<open>TransferExchange\<close> either leaves every table as it was, and then an answer is that of the
  transaction already recorded under the reference, or it has done one complete exchange: the
  sender pays the amount into the liquidity account of the source currency, the liquidity account
  of the target currency pays the converted amount to the receiver, each balance moves with its
  entry, and one COMPLETED transaction with rate, four entries and audit trail is recorded.
\<close>

theorem TransferExchange_all_or_nothing:
  assumes "TransferExchange L fxRates cmd w = (r, w')" and "in_int64 (xc_Amount cmd)"
    and "schema_ok (wdb w)" and "decimal_lib L"
  shows "(unchanged (wdb w) (wdb w') \<and> existing_answer L (xc_ReferenceID cmd) (wdb w) r) \<or>
    (\<exists>i n s t rate now d'. fxRates (xc_FromCurrency cmd) (xc_ToCurrency cmd) = Inr rate \<and>
       getSystemAccountID L (xc_FromCurrency cmd) = Inr s \<and> getSystemAccountID L (xc_ToCurrency cmd) = Inr t \<and>
       exchanged L cmd rate s t i n now (wdb w) d' \<and> unchanged d' (wdb w') \<and>
       (\<forall>mt. r = Inr mt \<longrightarrow> mt\<lparr>mt_fx_rate := None\<rparr> =
          transfer_answer i (xc_Amount cmd) (xc_FromCurrency cmd) TxTypeExchange (xc_ReferenceID cmd) None))"
proof (cases "0 < xc_Amount cmd \<and> xc_ReferenceID cmd \<noteq> '''' \<and> xc_FromAccountID cmd \<noteq> xc_ToAccountID cmd \<and>
    xc_FromCurrency cmd \<noteq> xc_ToCurrency cmd")
  case False
  with assms(1) have "w' = w \<and> (\<exists>e. r = Inl e)"
    by (auto simp: TransferExchange_def throw_def split: if_splits)
  then show ?thesis by auto
next
  case True
  let ?ref = "xc_ReferenceID cmd" and ?c = "xc_FromCurrency cmd"
  let ?k = "\<lambda>i rate _ :: unit. transfer_answer i (xc_Amount cmd) ?c TxTypeExchange ?ref (Some rate)"
  let ?run = "\<lambda>rate s t i. bind (attempt (RunInTx (TransferExchange_tx L cmd rate s t i))) (\<lambda>result.
    case result of Inl err \<Rightarrow> resolve_duplicate L ?ref err | Inr u \<Rightarrow> ret (?k i rate u))"
  have "bind (attempt (auto_exec (CheckTransactionIdempotency ?ref))) (\<lambda>found.
      case found of
        Inr row \<Rightarrow> ret (mapExistingTransaction L row)
      | Inl err \<Rightarrow> if \<not> errors_Is err ErrNoRows then throw (Wrap ''failed to check idempotency: '' err '''')
          else
          bind (wrapf ''failed to get exchange rate: '' (lift_sum (fxRates ?c (xc_ToCurrency cmd)))) (\<lambda>rate.
          bind (wrapf ''failed to identify liquidity source account: '' (lift_sum (getSystemAccountID L ?c))) (\<lambda>s.
          bind (wrapf ''failed to identify liquidity target account: ''
            (lift_sum (getSystemAccountID L (xc_ToCurrency cmd)))) (\<lambda>t.
          bind uuid_New (\<lambda>i. ?run rate s t i))))) w = (r, w')"
    using assms(1) True unfolding TransferExchange_def transfer_answer_def by simp
  then show ?thesis
  proof (cases rule: idempotency_guard)
    case (proceeds w1)
    show ?thesis
    proof (cases "(\<exists>rate. fxRates ?c (xc_ToCurrency cmd) = Inr rate) \<and> (\<exists>s. getSystemAccountID L ?c = Inr s) \<and>
        (\<exists>t. getSystemAccountID L (xc_ToCurrency cmd) = Inr t)")
      case False
      with proceeds(2) have "w' = w1 \<and> (\<exists>e. r = Inl e)"
        by (auto simp: bind_def wrapf_def lift_sum_def split: sum.splits)
      then show ?thesis using proceeds(1) by auto
    next
      case True
      then obtain rate s t where args: "fxRates ?c (xc_ToCurrency cmd) = Inr rate"
        "getSystemAccountID L ?c = Inr s" "getSystemAccountID L (xc_ToCurrency cmd) = Inr t" by blast
      define i w2 where "i = wuuids w1 0" and "w2 = w1\<lparr>wuuids := pop (wuuids w1)\<rparr>"
      have "bind uuid_New (\<lambda>i. ?run rate s t i) w1 = (r, w')"
        using proceeds(2) args by (simp add: bind_def [of "wrapf a b" for a b] wrapf_def lift_sum_def)
      then have "?run rate s t i w2 = (r, w')" unfolding i_def w2_def by (simp only: bind_uuid_New)
      from exchange_attempt [OF this assms(2) _ assms(4)] proceeds(1) assms(3) args show ?thesis
        by (simp add: w2_def) blast
    qed
  qed simp
qed

lemma remdups_snoc: "remdups (xs @ [x]) = remdups (filter (\<lambda>y. y \<noteq> x) xs) @ [x]"
  by (induction xs) auto

lemma dedupe_loop_remdups:
  "dedupe_loop seen out ids = out @ rev (remdups (rev (filter (\<lambda>x. x \<notin> seen) ids)))"
proof (induction seen out ids rule: dedupe_loop.induct)
  case (2 seen out x ids)
  then show ?case by (auto simp: remdups_snoc rev_filter conj_commute)
qed simp

text \<open>
  C33. The lock order: the exchange sort \<open>sortUUIDs\<close> is the sorting function of the library, and
  \<open>dedupeUUIDs\<close> keeps the first occurrence of each identifier, so the two lock every account once and
  in ascending order.
\<close>

theorem lock_order:
  "sortUUIDs ids = sort ids \<and> dedupeUUIDs ids = rev (remdups (rev ids))"
  using sortUUIDs_sorts [of ids]
  by (simp add: dedupeUUIDs_def dedupe_loop_remdups properties_for_sort)

end
