(* ===== verification/Payout.thy ===== *)
theory Payout
  imports ExchangeTransfer
begin

text \<open>
  Requesting payouts, claiming them in batches and recovering them (\<open>RequestPayout\<close>,
  \<open>claimPendingPayouts\<close>, \<open>recoverStaleProcessingPayouts\<close>, \<open>requeueClaimedPayouts\<close> of
  \<open>internal/service/payout.go\<close>). Each function passed to \<open>RunInTx\<close> is a definition of its own,
  with the suffix \<open>_tx\<close>. Times are in microseconds, the resolution of \<open>TIMESTAMPTZ\<close>.
\<close>

subsection \<open>Requests\<close>

record PayoutDestinationInput =
  IBAN :: string
  Name :: string

definition Validate :: "PayoutDestinationInput \<Rightarrow> err option" where
  "Validate d =
     (if IBAN d = '''' then Some (Msg ''destination.iban is required'')
      else if Name d = '''' then Some (Msg ''destination.name is required'')
      else None)"

record RequestPayoutRequest =
  rq_AccountID :: uuid
  rq_AmountMicros :: int
  rq_Currency :: string
  rq_Destination :: PayoutDestinationInput
  rq_ReferenceID :: string

record PayoutResponse =
  PayoutID :: uuid
  Status :: string
  Message :: string

definition destination_metadata :: "PayoutDestinationInput \<Rightarrow> json" where
  "destination_metadata dest =
     JObject [(''destination'', JObject [(''iban'', JString (IBAN dest)), (''name'', JString (Name dest))])]"

definition lock_for_payout :: "uuid \<Rightarrow> (int \<times> int \<times> string) m" where
  "lock_for_payout accountID =
     bind (attempt (exec (GetAccountBalanceAndLocked accountID))) (\<lambda>r.
     case r of
       Inr row \<Rightarrow> ret row
     | Inl err \<Rightarrow>
         if errors_Is err ErrNoRows then throw (Wrap ''account not found: '' ErrInsufficientFunds '''')
         else throw (Wrap ''failed to lock account: '' err ''''))"

definition record_payout :: "RequestPayoutRequest \<Rightarrow> uuid \<Rightarrow> uuid \<Rightarrow> unit m" where
  "record_payout req transactionID payoutID =
     (let metadata = Some (destination_metadata (rq_Destination req)) in
     bind (wrapf ''failed to create transaction: ''
       (exec (CreateTransaction transactionID (rq_AmountMicros req) (rq_Currency req) TxTypePayout
          TxStatusPending (rq_ReferenceID req) None metadata))) (\<lambda>_.
     bind (audit_Write ''transaction'' transactionID None ''created'' '''' TxStatusPending metadata) (\<lambda>_.
     bind (wrapf ''failed to create payout: ''
       (exec (InsertPayout payoutID transactionID (rq_AccountID req) (rq_AmountMicros req)
          (rq_Currency req) PayoutStatusPending))) (\<lambda>_.
     ret ()))))"

definition RequestPayout_tx :: "RequestPayoutRequest \<Rightarrow> uuid \<Rightarrow> uuid \<Rightarrow> unit m" where
  "RequestPayout_tx req transactionID payoutID =
     bind (lock_for_payout (rq_AccountID req)) (\<lambda>(balance, lockedMicros, currency).
     let availableBalance = wrap64 (balance - lockedMicros) in
     if availableBalance < rq_AmountMicros req then throw ErrInsufficientFunds
     else if currency \<noteq> rq_Currency req then
       throw (Msg (''currency mismatch: account is '' @ currency @ '', requested '' @ rq_Currency req))
     else
     bind (wrapf ''failed to lock funds: ''
       (exec (LockAccountFunds (rq_AmountMicros req) (rq_AccountID req)))) (\<lambda>rows.
     bind (requireExactlyOne rows ''lock account funds'') (\<lambda>_.
     record_payout req transactionID payoutID)))"

definition enqueue_payout :: "RequestPayoutRequest \<Rightarrow> PayoutResponse m" where
  "enqueue_payout req =
     bind uuid_New (\<lambda>transactionID.
     bind uuid_New (\<lambda>payoutID.
     bind (RunInTx (RequestPayout_tx req transactionID payoutID)) (\<lambda>_.
     ret \<lparr>PayoutID = payoutID, Status = PayoutStatusPending, Message = ''Payout queued for processing''\<rparr>)))"

definition RequestPayout :: "RequestPayoutRequest \<Rightarrow> PayoutResponse m" where
  "RequestPayout req =
     (if rq_AmountMicros req \<le> 0 then throw (Msg (''invalid amount: '' @ show_int (rq_AmountMicros req)))
      else if rq_ReferenceID req = '''' then throw (Msg ''reference_id is required'')
      else case Validate (rq_Destination req) of
        Some err \<Rightarrow> throw err
      | None \<Rightarrow>
        bind (attempt (auto_exec (CheckTransactionIdempotency (rq_ReferenceID req)))) (\<lambda>found.
        case found of
          Inr existingTxRow \<Rightarrow>
            bind (attempt (auto_exec (GetPayoutByTransactionID (t_id existingTxRow)))) (\<lambda>existing.
            case existing of
              Inr existingPayout \<Rightarrow>
                ret \<lparr>PayoutID = p_id existingPayout, Status = p_status existingPayout,
                     Message = ''Payout already exists''\<rparr>
            | Inl payoutErr \<Rightarrow>
                if \<not> errors_Is payoutErr ErrNoRows then
                  throw (Wrap ''failed to get payout by transaction: '' payoutErr '''')
                else enqueue_payout req)
        | Inl err \<Rightarrow>
            if \<not> errors_Is err ErrNoRows then throw (Wrap ''failed to check idempotency: '' err '''')
            else enqueue_payout req))"

subsection \<open>Batches\<close>

definition stalePayoutRecoveryWindow :: int where
  "stalePayoutRecoveryWindow = 2 * 60 * 1000000"

definition requeue_stale :: "payout_row \<Rightarrow> unit m" where
  "requeue_stale payout =
     bind (wrapf (''requeue stale payout '' @ String (p_id payout) @ '': '')
       (exec (UpdatePayoutStatus PayoutStatusPending None (p_id payout)))) (\<lambda>rows.
     bind (requireExactlyOne rows ''requeue stale payout'') (\<lambda>_.
     wrapf (''transition stale payout transaction '' @ String (p_transaction_id payout) @ '': '')
       (transitionTransactionState (p_transaction_id payout) TxStatusPending None ''requeue_stale'' None)))"

definition recoverStale_tx :: "int \<Rightarrow> int \<Rightarrow> payout_row list m" where
  "recoverStale_tx cutoff batchSize =
     bind locked_rows (\<lambda>skip.
     bind (wrapf ''load stale processing payouts: ''
       (exec (GetStaleProcessingPayouts skip cutoff batchSize))) (\<lambda>stale.
     bind (foreach requeue_stale stale) (\<lambda>_.
     ret stale)))"

definition recoverStaleProcessingPayouts :: "int \<Rightarrow> unit m" where
  "recoverStaleProcessingPayouts batchSize =
     bind time_Now (\<lambda>now.
     bind (RunInTx (recoverStale_tx (now - stalePayoutRecoveryWindow) batchSize)) (\<lambda>_.
     ret ()))"

definition requeue_claimed :: "payout_row \<Rightarrow> unit m" where
  "requeue_claimed payout =
     bind (wrapf (''requeue payout '' @ String (p_id payout) @ '': '')
       (exec (UpdatePayoutStatus PayoutStatusPending None (p_id payout)))) (\<lambda>rows.
     bind (requireExactlyOne rows ''requeue claimed payout'') (\<lambda>_.
     wrapf (''transition claimed transaction '' @ String (p_transaction_id payout) @ '': '')
       (transitionTransactionState (p_transaction_id payout) TxStatusPending None ''requeue_claimed'' None)))"

definition requeueClaimedPayouts :: "payout_row list \<Rightarrow> unit m" where
  "requeueClaimedPayouts claimed =
     (if claimed = [] then ret () else RunInTx (foreach requeue_claimed claimed))"

definition claim_one :: "payout_row \<Rightarrow> unit m" where
  "claim_one payout =
     bind (wrapf ''failed to mark payout processing: ''
       (exec (UpdatePayoutStatus PayoutStatusProcessing None (p_id payout)))) (\<lambda>rows.
     bind (requireExactlyOne rows ''mark payout processing'') (\<lambda>_.
     wrapf ''failed to transition transaction status: ''
       (transitionTransactionState (p_transaction_id payout) TxStatusProcessing None ''processing_started'' None)))"

definition claimPending_tx :: "int \<Rightarrow> payout_row list m" where
  "claimPending_tx batchSize =
     bind locked_rows (\<lambda>skip.
     bind (wrapf ''failed to fetch pending payouts: '' (exec (GetPendingPayouts skip batchSize))) (\<lambda>payouts.
     bind (foreach claim_one payouts) (\<lambda>_.
     ret (map (\<lambda>p. p\<lparr>p_status := PayoutStatusProcessing\<rparr>) payouts))))"

definition claimPendingPayouts :: "int \<Rightarrow> payout_row list m" where
  "claimPendingPayouts batchSize = RunInTx (claimPending_tx batchSize)"

subsection \<open>Built from the statements of the repository\<close>

context service_frame
begin

lemma frame_lock_for_payout [frame_intros]: "frame R (lock_for_payout i)"
  unfolding lock_for_payout_def by (intro frame_intros)

lemma frame_record_payout [frame_intros]: "frame R (record_payout req i j)"
  unfolding record_payout_def by (intro frame_intros)

lemma frame_RequestPayout_tx [frame_intros]: "frame R (RequestPayout_tx req i j)"
  unfolding RequestPayout_tx_def by (intro frame_intros)

lemma frame_enqueue_payout [frame_intros]: "frame R (enqueue_payout req)"
  unfolding enqueue_payout_def by (intro frame_intros)

lemma frame_RequestPayout [frame_intros]: "frame R (RequestPayout req)"
  unfolding RequestPayout_def by (intro frame_intros)

end

context ledger_frame
begin

lemma frame_batch_steps [frame_intros]:
  "frame R (requeue_stale p)" "frame R (requeue_claimed p)" "frame R (claim_one p)"
  unfolding requeue_stale_def requeue_claimed_def claim_one_def by (intro frame_intros)+

lemma frame_batches [frame_intros]:
  "frame R (recoverStale_tx c n)" "frame R (recoverStaleProcessingPayouts n)"
  "frame R (requeueClaimedPayouts ps)" "frame R (claimPending_tx n)" "frame R (claimPendingPayouts n)"
  unfolding recoverStale_tx_def recoverStaleProcessingPayouts_def requeueClaimedPayouts_def
    claimPending_tx_def claimPendingPayouts_def by (intro frame_intros)+

end

subsection \<open>Batches move no money\<close>

lemma still_batch_steps [frame_intros]:
  "frame same_ledger (requeue_stale p)" "frame same_ledger (requeue_claimed p)"
  "frame same_ledger (claim_one p)"
  unfolding requeue_stale_def requeue_claimed_def claim_one_def by (intro frame_intros)+

lemma still_batches [frame_intros]:
  "frame same_ledger (recoverStale_tx c n)" "frame same_ledger (recoverStaleProcessingPayouts n)"
  "frame same_ledger (requeueClaimedPayouts ps)" "frame same_ledger (claimPending_tx n)"
  "frame same_ledger (claimPendingPayouts n)"
  unfolding recoverStale_tx_def recoverStaleProcessingPayouts_def requeueClaimedPayouts_def
    claimPending_tx_def claimPendingPayouts_def by (intro frame_intros)+

lemma still_lock_for_payout [frame_intros]: "frame same_ledger (lock_for_payout i)"
  unfolding lock_for_payout_def by (intro frame_intros)

lemma still_record_payout [frame_intros]: "frame same_ledger (record_payout req i j)"
  unfolding record_payout_def by (intro frame_intros)

lemma RequestPayout_tx_moves:
  "moves (RequestPayout_tx req i j) (lock_funds (rq_AccountID req) (rq_AmountMicros req))"
  unfolding RequestPayout_tx_def Let_def by (rule moves_rules | intro frame_intros)+

subsection \<open>The effect of a request\<close>

definition requested_payout :: "RequestPayoutRequest \<Rightarrow> uuid \<Rightarrow> uuid \<Rightarrow> int \<Rightarrow> payout_row" where
  "requested_payout req i j now = \<lparr>p_id = j, p_transaction_id = i, p_account_id = rq_AccountID req,
     p_amount_micros = rq_AmountMicros req, p_currency = rq_Currency req, p_status = PayoutStatusPending,
     p_gateway_ref = None, p_created_at = now, p_updated_at = now\<rparr>"

definition requested_transaction :: "RequestPayoutRequest \<Rightarrow> uuid \<Rightarrow> int \<Rightarrow> transaction_row" where
  "requested_transaction req i now = \<lparr>t_id = i, t_amount = rq_AmountMicros req, t_currency = rq_Currency req,
     t_type = TxTypePayout, t_status = TxStatusPending, t_reference_id = rq_ReferenceID req, t_created_at = now,
     t_fx_rate = None, t_metadata = Some (destination_metadata (rq_Destination req))\<rparr>"

text \<open>
  A payout request: the account has the currency and the unlocked balance, the amount is locked,
  and a PENDING transaction with its audit record and a PENDING payout are stored.
\<close>

definition requested :: "RequestPayoutRequest \<Rightarrow> uuid \<Rightarrow> uuid \<Rightarrow> int \<Rightarrow> db \<Rightarrow> db \<Rightarrow> bool" where
  "requested req i j now d d' \<longleftrightarrow>
     (\<exists>r. acct d (rq_AccountID req) = Some r \<and> a_currency r = rq_Currency req \<and>
        rq_AmountMicros req \<le> wrap64 (a_balance r - a_locked_micros r)) \<and>
     view d' = lock_funds (rq_AccountID req) (rq_AmountMicros req) (view d) \<and>
     txn d i = None \<and> rq_ReferenceID req \<notin> t_reference_id ` set (transactions d) \<and>
     transactions d' = transactions d @ [requested_transaction req i now] \<and>
     entries d' = entries d \<and> payouts d' = payouts d @ [requested_payout req i j now] \<and>
     audit_log d' = audit_log d @ [audit_entry (audit_seq d + 1) now i None ''created'' None TxStatusPending
       (Some (destination_metadata (rq_Destination req)))]"

lemma lock_for_payout_ok:
  assumes "lock_for_payout k w = (Inr (b, l, c), w')"
  shows "wdb w' = wdb w" and "wnow w' = wnow w"
    and "\<exists>r. acct (wdb w) k = Some r \<and> b = a_balance r \<and> l = a_locked_micros r \<and> c = a_currency r"
  using assms unfolding lock_for_payout_def
  by (auto simp: attempt_def GetAccountBalanceAndLocked_def split: sum.splits prod.splits if_splits option.splits
        elim!: bind_ok exec_ok ret_ok throw_ok)

lemma InsertPayout_effect:
  "InsertPayout j i k x c st t d = Inr (row, d') \<Longrightarrow> d' = d\<lparr>payouts := payouts d @ [row]\<rparr> \<and>
     row = \<lparr>p_id = j, p_transaction_id = i, p_account_id = k, p_amount_micros = x, p_currency = c,
       p_status = st, p_gateway_ref = None, p_created_at = t, p_updated_at = t\<rparr>"
  by (auto simp: InsertPayout_def Let_def split: if_splits)

lemma exec_one_ok:
  assumes "bind (wrapf text (exec s)) (\<lambda>rows. bind (requireExactlyOne rows op) f) w = (Inr a, w')"
  obtains w1 where "s (wnow w) (wdb w) = Inr (1, wdb w1)" and "wnow w1 = wnow w" and "wtrace w1 = wtrace w"
    and "f () w1 = (Inr a, w')"
  using assms by (elim bind_ok wrapf_ok exec_ok requireExactlyOne_ok) (auto intro: that)

lemma exec_then_ok:
  assumes "bind (wrapf text (exec s)) f w = (Inr a, w')"
  obtains w1 b where "s (wnow w) (wdb w) = Inr (b, wdb w1)" and "wnow w1 = wnow w" and "wtrace w1 = wtrace w"
    and "f b w1 = (Inr a, w')"
  using assms by (elim bind_ok wrapf_ok exec_ok) (auto intro: that)

lemma record_payout_ok:
  assumes "record_payout req i j w = (Inr u, w')"
  shows "txn (wdb w) i = None" and "rq_ReferenceID req \<notin> t_reference_id ` set (transactions (wdb w))"
    and "transactions (wdb w') = transactions (wdb w) @ [requested_transaction req i (wnow w)]"
    and "payouts (wdb w') = payouts (wdb w) @ [requested_payout req i j (wnow w)]"
    and "audit_log (wdb w') = audit_log (wdb w) @ [audit_entry (audit_seq (wdb w) + 1) (wnow w) i None
      ''created'' None TxStatusPending (Some (destination_metadata (rq_Destination req)))]"
proof -
  let ?md = "Some (destination_metadata (rq_Destination req))"
  obtain w1 a where create: "CreateTransaction i (rq_AmountMicros req) (rq_Currency req) TxTypePayout
        TxStatusPending (rq_ReferenceID req) None ?md (wnow w) (wdb w) = Inr (a, wdb w1)" "wnow w1 = wnow w"
    and rest: "bind (audit_Write ''transaction'' i None ''created'' '''' TxStatusPending ?md) (\<lambda>_.
     bind (wrapf ''failed to create payout: '' (exec (InsertPayout j i (rq_AccountID req)
       (rq_AmountMicros req) (rq_Currency req) PayoutStatusPending))) (\<lambda>_. ret ())) w1 = (Inr u, w')"
    using assms unfolding record_payout_def Let_def by (rule exec_then_ok)
  obtain w2 row where audit: "audit_Write ''transaction'' i None ''created'' '''' TxStatusPending ?md w1 = (Inr (), w2)"
    and ins: "InsertPayout j i (rq_AccountID req) (rq_AmountMicros req) (rq_Currency req) PayoutStatusPending
        (wnow w2) (wdb w2) = Inr (row, wdb w')"
    using rest by (rule bind_ok) (auto elim!: exec_then_ok ret_ok)
  note new = CreateTransaction_effect [OF create(1)] and paid = InsertPayout_effect [OF ins]
  have d2: "wdb w2 = (wdb w1)\<lparr>audit_seq := audit_seq (wdb w) + 1, audit_log := audit_log (wdb w) @
      [audit_entry (audit_seq (wdb w) + 1) (wnow w) i None ''created'' None TxStatusPending ?md]\<rparr>"
    and now: "wnow w2 = wnow w"
    using audit new(1) create(2) by (auto elim!: audit_Write_ok simp: audit_entry_def)
  show "txn (wdb w) i = None" "rq_ReferenceID req \<notin> t_reference_id ` set (transactions (wdb w))"
    using new(2,3) by simp_all
  show "transactions (wdb w') = transactions (wdb w) @ [requested_transaction req i (wnow w)]"
    "payouts (wdb w') = payouts (wdb w) @ [requested_payout req i j (wnow w)]"
    "audit_log (wdb w') = audit_log (wdb w) @ [audit_entry (audit_seq (wdb w) + 1) (wnow w) i None
      ''created'' None TxStatusPending ?md]"
    using paid d2 new(1) now by (simp_all add: requested_transaction_def requested_payout_def)
qed

lemma RequestPayout_tx_requested:
  assumes "RequestPayout_tx req i j w = (Inr u, w')"
  shows "requested req i j (wnow w) (wdb w) (wdb w')"
proof -
  obtain b l c w1 w2 where lock: "lock_for_payout (rq_AccountID req) w = (Inr (b, l, c), w1)"
    and guards: "rq_AmountMicros req \<le> wrap64 (b - l)" "c = rq_Currency req"
    and funds: "LockAccountFunds (rq_AmountMicros req) (rq_AccountID req) (wnow w1) (wdb w1) = Inr (1, wdb w2)"
      "wnow w2 = wnow w1"
    and rec: "record_payout req i j w2 = (Inr u, w')"
    using assms unfolding RequestPayout_tx_def Let_def
    by (auto split: prod.splits if_splits elim!: throw_ok bind_ok [of "lock_for_payout k" for k] exec_one_ok)
  note r = lock_for_payout_ok [OF lock]
  note others = other_tables_same [OF LockAccountFunds_effect(2) [OF funds(1)]]
  note recorded = record_payout_ok [OF rec]
  have "view (wdb w') = lock_funds (rq_AccountID req) (rq_AmountMicros req) (view (wdb w))"
    using RequestPayout_tx_moves assms by (rule movesD)
  moreover have "entries (wdb w') = entries (wdb w)"
    using frameD [OF still_record_payout rec] others r(1) by (simp add: same_ledger_def)
  ultimately show ?thesis
    unfolding requested_def using recorded others r guards funds(2) by auto
qed

subsection \<open>The whole operation\<close>

lemma enqueue_payout_outcome:
  assumes "enqueue_payout req w = (r, w')"
  shows "(unchanged (wdb w) (wdb w') \<and> (\<exists>e. r = Inl e)) \<or>
    (\<exists>i j now. requested req i j now (wdb w) (wdb w') \<and> (\<forall>resp. r = Inr resp \<longrightarrow>
       resp = \<lparr>PayoutID = j, Status = PayoutStatusPending, Message = ''Payout queued for processing''\<rparr>))"
proof -
  define i w1 where "i = wuuids w 0" and "w1 = w\<lparr>wuuids := pop (wuuids w)\<rparr>"
  define j w2 where "j = wuuids w1 0" and "w2 = w1\<lparr>wuuids := pop (wuuids w1)\<rparr>"
  let ?resp = "\<lparr>PayoutID = j, Status = PayoutStatusPending, Message = ''Payout queued for processing''\<rparr>"
  obtain x w3 where tx: "RunInTx (RequestPayout_tx req i j) w2 = (x, w3)" by (metis surj_pair)
  have "bind (RunInTx (RequestPayout_tx req i j)) (\<lambda>_. ret ?resp) w2 = (r, w')"
    using assms unfolding enqueue_payout_def i_def w1_def j_def w2_def by (simp only: bind_uuid_New)
  with tx have res: "w' = w3" "r = (case x of Inl e \<Rightarrow> Inl e | Inr _ \<Rightarrow> Inr ?resp)"
    by (auto simp: bind_def ret_def split: sum.splits)
  have same: "wdb w2 = wdb w" by (simp add: w1_def w2_def)
  from tx show ?thesis
  proof (cases rule: RunInTx_atomic)
    case (rolled_back n e)
    then show ?thesis using res same by (auto simp: unchanged_def)
  next
    case (committed a w4 w5)
    have "requested req i j (wnow w4) (wdb w) (wdb w')"
      using RequestPayout_tx_requested [OF committed(3)] committed(2,4) same res(1) by simp
    then show ?thesis using res(2) by (auto split: sum.splits)
  qed
qed

text \<open>The answer to a request whose reference is known: the payout recorded under it.\<close>

definition existing_payout_answer :: "string \<Rightarrow> db \<Rightarrow> err + PayoutResponse \<Rightarrow> bool" where
  "existing_payout_answer ref d r \<longleftrightarrow> (\<forall>resp. r = Inr resp \<longrightarrow>
     (\<exists>tx p. sel_one t_reference_id ref (transactions d) = Some tx \<and>
        sel_one p_transaction_id (t_id tx) (payouts d) = Some p \<and>
        resp = \<lparr>PayoutID = p_id p, Status = p_status p, Message = ''Payout already exists''\<rparr>))"

lemma reads_only:
  "keeps (=) (CheckTransactionIdempotency ref)" "keeps (=) (GetPayoutByTransactionID i)"
  by (auto simp: keeps_def CheckTransactionIdempotency_def GetPayoutByTransactionID_def split: option.splits)

text \<open>
  C12. A payout request either stores nothing, and then an answer is that of the payout already
  recorded under the reference, or it locks the amount and queues one PENDING payout: the account
  exists in the requested currency, its balance less its locked funds covers the amount, the locked
  funds rise by the amount while the balance and the entries stay, and the PENDING transaction, its
  audit record and the payout are stored. A non-positive amount, an empty reference or an
  incomplete destination never reaches the database.
\<close>

theorem RequestPayout_all_or_nothing:
  assumes "RequestPayout req w = (r, w')"
  shows "(unchanged (wdb w) (wdb w') \<and> existing_payout_answer (rq_ReferenceID req) (wdb w) r) \<or>
    (\<exists>i j now. 0 < rq_AmountMicros req \<and> rq_ReferenceID req \<noteq> '''' \<and> Validate (rq_Destination req) = None \<and>
       requested req i j now (wdb w) (wdb w') \<and> (\<forall>resp. r = Inr resp \<longrightarrow>
       resp = \<lparr>PayoutID = j, Status = PayoutStatusPending, Message = ''Payout queued for processing''\<rparr>))"
proof (cases "0 < rq_AmountMicros req \<and> rq_ReferenceID req \<noteq> '''' \<and> Validate (rq_Destination req) = None")
  case False
  with assms show ?thesis
    by (auto simp: RequestPayout_def throw_def existing_payout_answer_def split: if_splits option.splits)
next
  case True
  obtain x w1 where check: "auto_exec (CheckTransactionIdempotency (rq_ReferenceID req)) w = (x, w1)"
    by (metis surj_pair)
  have d1: "wdb w1 = wdb w" using reads_only(1) check by (rule auto_exec_read)
  show ?thesis
  proof (cases x)
    case (Inl e)
    with assms True check d1 enqueue_payout_outcome [of req w1 r w'] show ?thesis
      by (cases "errors_Is e ErrNoRows")
        (auto simp: RequestPayout_def control_defs existing_payout_answer_def)
  next
    case (Inr tx)
    then have found: "sel_one t_reference_id (rq_ReferenceID req) (transactions (wdb w)) = Some tx"
      using check by (auto elim!: auto_exec_ok simp: CheckTransactionIdempotency_ok)
    obtain y w2 where get: "auto_exec (GetPayoutByTransactionID (t_id tx)) w1 = (y, w2)" by (metis surj_pair)
    have d2: "wdb w2 = wdb w" using auto_exec_read [OF reads_only(2) get] d1 by simp
    show ?thesis
    proof (cases y)
      case (Inl e)
      with assms True check get Inr d2 enqueue_payout_outcome [of req w2 r w'] show ?thesis
        by (cases "errors_Is e ErrNoRows")
          (auto simp: RequestPayout_def control_defs existing_payout_answer_def)
    next
      case (Inr p)
      then have "sel_one p_transaction_id (t_id tx) (payouts (wdb w)) = Some p"
        using get d1 by (auto elim!: auto_exec_ok simp: GetPayoutByTransactionID_def split: option.splits)
      with assms True check get \<open>x = Inr tx\<close> Inr d2 found show ?thesis
        by (auto simp: RequestPayout_def control_defs existing_payout_answer_def)
    qed
  qed
qed

end
