(* ===== verification/Json.thy ===== *)
theory Json
  imports Domain
begin

text \<open>
  \<open>json.Unmarshal\<close> of Go's standard library as far as the program reads requests with it: the
  text is checked as a whole and read into a \<open>json\<close> value. Characters are grouped into tokens,
  and the tokens drive a stack of open arrays and objects, as \<open>encoding/json\<close>'s scanner does with
  its \<open>parseState\<close>. Strings are bytes: escapes are decoded, and bytes that are not UTF-8 become
  U+FFFD. The texts of syntax errors are abbreviated.
\<close>

subsection \<open>Bytes and runes\<close>

definition byte :: "char \<Rightarrow> int" where
  "byte c = of_char c"

definition hex_value :: "char \<Rightarrow> int option" where
  "hex_value c = (let n = byte c in
     if 48 \<le> n \<and> n \<le> 57 then Some (n - 48)
     else if 97 \<le> n \<and> n \<le> 102 then Some (n - 87)
     else if 65 \<le> n \<and> n \<le> 70 then Some (n - 55) else None)"

fun hex4 :: "string \<Rightarrow> int option" where
  "hex4 (a # b # c # d # r) =
     (case (hex_value a, hex_value b, hex_value c, hex_value d) of
        (Some i, Some j, Some k, Some l) \<Rightarrow> Some (((i * 16 + j) * 16 + k) * 16 + l)
      | _ \<Rightarrow> None)"
| "hex4 _ = None"

definition EncodeRune :: "int \<Rightarrow> string" where
  "EncodeRune r =
     (if r < 128 then [char_of r]
      else if r < 2048 then [char_of (192 + r div 64), char_of (128 + r mod 64)]
      else if r < 65536 then
        [char_of (224 + r div 4096), char_of (128 + r div 64 mod 64), char_of (128 + r mod 64)]
      else [char_of (240 + r div 262144), char_of (128 + r div 4096 mod 64),
        char_of (128 + r div 64 mod 64), char_of (128 + r mod 64)])"

definition ReplacementChar :: string where
  "ReplacementChar = EncodeRune 65533"

text \<open>The length of the UTF-8 sequence at the head of a string, 0 when there is none.\<close>

definition within :: "int \<Rightarrow> int \<Rightarrow> char \<Rightarrow> bool" where
  "within lo hi c \<longleftrightarrow> lo \<le> byte c \<and> byte c \<le> hi"

definition second_byte :: "int \<Rightarrow> char \<Rightarrow> bool" where
  "second_byte n = within (if n = 224 then 160 else if n = 240 then 144 else 128)
     (if n = 237 then 159 else if n = 244 then 143 else 191)"

definition rune_len :: "string \<Rightarrow> nat" where
  "rune_len s =
     (case s of [] \<Rightarrow> 0
      | c # r \<Rightarrow> (let n = byte c in
          if n < 128 then 1
          else if 194 \<le> n \<and> n \<le> 223 then
            (case r of b # _ \<Rightarrow> if second_byte n b then 2 else 0 | _ \<Rightarrow> 0)
          else if 224 \<le> n \<and> n \<le> 239 then
            (case r of b # b' # _ \<Rightarrow> if second_byte n b \<and> within 128 191 b' then 3 else 0 | _ \<Rightarrow> 0)
          else if 240 \<le> n \<and> n \<le> 244 then
            (case r of b # b' # b'' # _ \<Rightarrow>
               if second_byte n b \<and> within 128 191 b' \<and> within 128 191 b'' then 4 else 0 | _ \<Rightarrow> 0)
          else 0))"

subsection \<open>String literals\<close>

definition unescape :: "char \<Rightarrow> char" where
  "unescape c = (let n = byte c in
     if n = 98 then char_of (8 :: int) else if n = 102 then char_of (12 :: int)
     else if n = 110 then char_of (10 :: int) else if n = 114 then char_of (13 :: int)
     else if n = 116 then char_of (9 :: int) else c)"

definition is_surrogate :: "int \<Rightarrow> bool" where
  "is_surrogate r \<longleftrightarrow> 55296 \<le> r \<and> r < 57344"

text \<open>A \<open>\u\<close> escape of the second half of a surrogate pair.\<close>

definition low_surrogate :: "string \<Rightarrow> int option" where
  "low_surrogate s =
     (if take 2 s = [CHR 0x5C, CHR ''u''] then
        (case hex4 (drop 2 s) of Some r \<Rightarrow> if 56320 \<le> r \<and> r < 57344 then Some r else None | None \<Rightarrow> None)
      else None)"

function unquote :: "string \<Rightarrow> string" where
  "unquote [] = []"
| "unquote (c # r) =
     (if c = CHR 0x5C then
        (case r of
           [] \<Rightarrow> []
         | e # r' \<Rightarrow>
             if e = CHR ''u'' then
               (case hex4 r' of
                  None \<Rightarrow> unquote r'
                | Some u \<Rightarrow>
                    if is_surrogate u then
                      (case (if u < 56320 then low_surrogate (drop 4 r') else None) of
                         Some l \<Rightarrow> EncodeRune ((u - 55296) * 1024 + (l - 56320) + 65536) @ unquote (drop 10 r')
                       | None \<Rightarrow> ReplacementChar @ unquote (drop 4 r'))
                    else EncodeRune u @ unquote (drop 4 r'))
             else unescape e # unquote r')
      else if rune_len (c # r) = 0 then ReplacementChar @ unquote r
      else take (rune_len (c # r)) (c # r) @ unquote (drop (rune_len (c # r) - 1) r))"
  by pat_completeness auto

termination
  by (relation "measure length") auto

subsection \<open>Tokens\<close>

datatype token = TPunct char | TString string | TWord string

text \<open>Between tokens, in a word (a number or a literal), in a string, after a backslash, in \<open>\u\<close>.\<close>

datatype lex_mode = LNone | LWord string | LString string | LEscape string | LHex nat string

definition is_json_space :: "char \<Rightarrow> bool" where
  "is_json_space c \<longleftrightarrow> byte c \<in> {9, 10, 13, 32}"

definition is_punct :: "char \<Rightarrow> bool" where
  "is_punct c \<longleftrightarrow> c \<in> {CHR ''['', CHR '']'', CHR ''{'', CHR ''}'', CHR '','', CHR '':''}"

definition is_digit :: "char \<Rightarrow> bool" where
  "is_digit c \<longleftrightarrow> within 48 57 c"

definition is_word_char :: "char \<Rightarrow> bool" where
  "is_word_char c \<longleftrightarrow> is_digit c \<or> within 97 122 c \<or> c \<in> {CHR ''E'', CHR ''+'', CHR ''-'', CHR ''.''}"

text \<open>The mode after one character between tokens, with the token it completes.\<close>

definition lex_start :: "char \<Rightarrow> (token list \<times> lex_mode) option" where
  "lex_start c =
     (if is_json_space c then Some ([], LNone)
      else if is_punct c then Some ([TPunct c], LNone)
      else if c = CHR 0x22 then Some ([], LString [])
      else if is_word_char c then Some ([], LWord [c])
      else None)"

fun lex_char :: "lex_mode \<Rightarrow> char \<Rightarrow> (token list \<times> lex_mode) option" where
  "lex_char LNone c = lex_start c"
| "lex_char (LWord acc) c =
     (if is_word_char c then Some ([], LWord (c # acc))
      else (case lex_start c of None \<Rightarrow> None | Some (ts, m) \<Rightarrow> Some (TWord (rev acc) # ts, m)))"
| "lex_char (LString acc) c =
     (if c = CHR 0x22 then Some ([TString (rev acc)], LNone)
      else if c = CHR 0x5C then Some ([], LEscape (c # acc))
      else if byte c < 32 then None else Some ([], LString (c # acc)))"
| "lex_char (LEscape acc) c =
     (if c = CHR ''u'' then Some ([], LHex 4 (c # acc))
      else if c \<in> {CHR ''b'', CHR ''f'', CHR ''n'', CHR ''r'', CHR ''t'', CHR 0x5C, CHR ''/'', CHR 0x22}
      then Some ([], LString (c # acc)) else None)"
| "lex_char (LHex n acc) c =
     (if hex_value c = None then None
      else if n \<le> 1 then Some ([], LString (c # acc)) else Some ([], LHex (n - 1) (c # acc)))"

fun lex_tokens :: "lex_mode \<Rightarrow> string \<Rightarrow> token list option" where
  "lex_tokens LNone [] = Some []"
| "lex_tokens (LWord acc) [] = Some [TWord (rev acc)]"
| "lex_tokens _ [] = None"
| "lex_tokens m (c # cs) =
     (case lex_char m c of
        None \<Rightarrow> None
      | Some (ts, m') \<Rightarrow> (case lex_tokens m' cs of None \<Rightarrow> None | Some ts' \<Rightarrow> Some (ts @ ts')))"

subsection \<open>Numbers\<close>

fun int_of_digits :: "int \<Rightarrow> string \<Rightarrow> int" where
  "int_of_digits acc [] = acc"
| "int_of_digits acc (c # cs) = int_of_digits (acc * 10 + (byte c - 48)) cs"

definition scan_exponent :: "string \<Rightarrow> bool" where
  "scan_exponent s =
     (case s of
        [] \<Rightarrow> True
      | e # r \<Rightarrow> (e = CHR ''e'' \<or> e = CHR ''E'') \<and>
          (let ds = (case r of c # r' \<Rightarrow> if c = CHR ''+'' \<or> c = CHR ''-'' then r' else r | [] \<Rightarrow> r)
           in ds \<noteq> [] \<and> list_all is_digit ds))"

definition scan_fraction :: "string \<Rightarrow> bool" where
  "scan_fraction s =
     (case s of
        c # r \<Rightarrow> if c = CHR ''.'' then takeWhile is_digit r \<noteq> [] \<and> scan_exponent (dropWhile is_digit r)
                 else scan_exponent s
      | [] \<Rightarrow> True)"

text \<open>Sign, integer part without leading zeros, fraction, exponent.\<close>

definition json_number :: "string \<Rightarrow> json option" where
  "json_number s =
     (let neg = (s \<noteq> [] \<and> hd s = CHR ''-''); u = (if neg then tl s else s);
          ds = takeWhile is_digit u; r = dropWhile is_digit u in
      if ds = [] \<or> (hd ds = CHR ''0'' \<and> length ds > 1) then None
      else if r = [] then Some (JInt (if neg then - int_of_digits 0 ds else int_of_digits 0 ds))
      else if scan_fraction r then Some (JNumber s) else None)"

definition json_word :: "string \<Rightarrow> json option" where
  "json_word s =
     (if s = ''null'' then Some JNull else if s = ''true'' then Some (JBool True)
      else if s = ''false'' then Some (JBool False) else json_number s)"

subsection \<open>Values\<close>

datatype jframe = FArray "json list" | FObject "(string \<times> json) list" string

datatype expect = XValue | XValueOrEnd | XKey | XKeyOrEnd | XColon | XCommaOrEnd | XDone json

text \<open>A complete value goes to the innermost open array or object.\<close>

fun deliver :: "json \<Rightarrow> jframe list \<Rightarrow> expect \<times> jframe list" where
  "deliver v [] = (XDone v, [])"
| "deliver v (FArray vs # st) = (XCommaOrEnd, FArray (v # vs) # st)"
| "deliver v (FObject ms k # st) = (XCommaOrEnd, FObject ((k, v) # ms) k # st)"

fun close_frame :: "char \<Rightarrow> jframe list \<Rightarrow> (expect \<times> jframe list) option" where
  "close_frame c (FArray vs # st) = (if c = CHR '']'' then Some (deliver (JArray (rev vs)) st) else None)"
| "close_frame c (FObject ms k # st) = (if c = CHR ''}'' then Some (deliver (JObject (rev ms)) st) else None)"
| "close_frame c [] = None"

definition maxNestingDepth :: int where
  "maxNestingDepth = 10000"

definition push_frame :: "expect \<Rightarrow> jframe \<Rightarrow> jframe list \<Rightarrow> (expect \<times> jframe list) option" where
  "push_frame x f st = (if int (length st) < maxNestingDepth then Some (x, f # st) else None)"

definition begin_value :: "token \<Rightarrow> jframe list \<Rightarrow> (expect \<times> jframe list) option" where
  "begin_value t st =
     (case t of
        TString s \<Rightarrow> Some (deliver (JString (unquote s)) st)
      | TWord s \<Rightarrow> (case json_word s of None \<Rightarrow> None | Some v \<Rightarrow> Some (deliver v st))
      | TPunct c \<Rightarrow>
          if c = CHR ''['' then push_frame XValueOrEnd (FArray []) st
          else if c = CHR ''{'' then push_frame XKeyOrEnd (FObject [] '''') st
          else None)"

definition begin_key :: "token \<Rightarrow> jframe list \<Rightarrow> (expect \<times> jframe list) option" where
  "begin_key t st =
     (case (t, st) of
        (TString s, FObject ms k # st') \<Rightarrow> Some (XColon, FObject ms (unquote s) # st')
      | _ \<Rightarrow> None)"

definition after_value :: "char \<Rightarrow> jframe list \<Rightarrow> (expect \<times> jframe list) option" where
  "after_value c st =
     (if c = CHR '','' then
        (case st of FArray vs # _ \<Rightarrow> Some (XValue, st) | FObject ms k # _ \<Rightarrow> Some (XKey, st) | [] \<Rightarrow> None)
      else close_frame c st)"

fun parse_step :: "token \<Rightarrow> expect \<Rightarrow> jframe list \<Rightarrow> (expect \<times> jframe list) option" where
  "parse_step t XValue st = begin_value t st"
| "parse_step t XValueOrEnd st =
     (if t = TPunct (CHR '']'') then close_frame (CHR '']'') st else begin_value t st)"
| "parse_step t XKey st = begin_key t st"
| "parse_step t XKeyOrEnd st =
     (if t = TPunct (CHR ''}'') then close_frame (CHR ''}'') st else begin_key t st)"
| "parse_step t XColon st = (if t = TPunct (CHR '':'') then Some (XValue, st) else None)"
| "parse_step t XCommaOrEnd st = (case t of TPunct c \<Rightarrow> after_value c st | _ \<Rightarrow> None)"
| "parse_step t (XDone v) st = None"

fun parse_tokens :: "token list \<Rightarrow> expect \<Rightarrow> jframe list \<Rightarrow> json option" where
  "parse_tokens [] (XDone v) st = Some v"
| "parse_tokens [] _ st = None"
| "parse_tokens (t # ts) x st =
     (case parse_step t x st of None \<Rightarrow> None | Some (x', st') \<Rightarrow> parse_tokens ts x' st')"

definition json_Unmarshal :: "string \<Rightarrow> string + json" where
  "json_Unmarshal s =
     (case lex_tokens LNone s of
        None \<Rightarrow> Inl ''invalid character or unexpected end of JSON input''
      | Some ts \<Rightarrow>
          (case parse_tokens ts XValue [] of
             None \<Rightarrow> Inl ''invalid character or unexpected end of JSON input''
           | Some v \<Rightarrow> Inr v))"

subsection \<open>Field names\<close>

text \<open>
  A member matches a struct field when the names are equal up to case folding; U+017F and U+212A
  fold to the letters S and K.
\<close>

fun foldName :: "string \<Rightarrow> string" where
  "foldName (a # b # c # r) =
     (if byte a = 197 \<and> byte b = 191 then CHR ''S'' # foldName (c # r)
      else if byte a = 226 \<and> byte b = 132 \<and> byte c = 170 then CHR ''K'' # foldName r
      else upper_char a # foldName (b # c # r))"
| "foldName [a, b] = (if byte a = 197 \<and> byte b = 191 then ''S'' else [upper_char a, upper_char b])"
| "foldName [a] = [upper_char a]"
| "foldName [] = []"

declare foldName.simps [simp del]

definition matches_field :: "string \<Rightarrow> string \<Rightarrow> bool" where
  "matches_field name k \<longleftrightarrow> foldName k = foldName name"

text \<open>
  \<open>json.Unmarshal\<close> into a struct: a member matches a field without regard to case, later
  members overwrite earlier ones, \<open>null\<close> leaves the field, and a value of another type is an
  error after which the remaining members are still read.
\<close>

fun unmarshal_string :: "string \<Rightarrow> (string \<times> json) list \<Rightarrow> bool \<times> string \<Rightarrow> bool \<times> string" where
  "unmarshal_string name [] acc = acc"
| "unmarshal_string name ((k, v) # ms) (good, s) =
     unmarshal_string name ms
       (if matches_field name k then
          (case v of JString t \<Rightarrow> (good, t) | JNull \<Rightarrow> (good, s) | _ \<Rightarrow> (False, s))
        else (good, s))"

fun unmarshal_int64 :: "string \<Rightarrow> (string \<times> json) list \<Rightarrow> bool \<times> int \<Rightarrow> bool \<times> int" where
  "unmarshal_int64 name [] acc = acc"
| "unmarshal_int64 name ((k, v) # ms) (good, i) =
     unmarshal_int64 name ms
       (if matches_field name k then
          (case v of JInt j \<Rightarrow> if in_int64 j then (good, j) else (False, i)
                   | JNull \<Rightarrow> (good, i) | _ \<Rightarrow> (False, i))
        else (good, i))"

end
