(* ===== verification/PayoutFinalize.thy ===== *)
theory PayoutFinalize
  imports Payout Json
begin

text \<open>
  The end of a payout: \<open>handlePayoutSuccess\<close>, \<open>handlePayoutFailure\<close> with its fallback
  \<open>updatePayoutFailed\<close>, \<open>markPayoutManualReview\<close>, the batch loop \<open>ProcessPayouts\<close>, and the worker's
  \<open>processBatch\<close> (\<open>internal/service/payout.go\<close>, \<open>internal/worker/payout_worker.go\<close>).
\<close>

subsection \<open>Helpers\<close>

definition marshalReasonMetadata :: "string \<Rightarrow> json" where
  "marshalReasonMetadata reason = JObject [(''reason'', JString reason)]"

text \<open>\<open>json.Unmarshal\<close> into \<open>payoutMetadata\<close>; its error is ignored, so what was read before stays.\<close>

fun unmarshal_destination ::
  "(string \<times> json) list \<Rightarrow> PayoutDestinationInput \<Rightarrow> PayoutDestinationInput" where
  "unmarshal_destination [] d = d"
| "unmarshal_destination ((k, v) # ms) d =
     unmarshal_destination ms
       (if matches_field ''destination'' k then
          (case v of
             JObject flds \<Rightarrow>
               \<lparr>IBAN = snd (unmarshal_string ''iban'' flds (True, IBAN d)),
                Name = snd (unmarshal_string ''name'' flds (True, Name d))\<rparr>
           | _ \<Rightarrow> d)
        else d)"

definition extractDestination :: "json option \<Rightarrow> PayoutDestinationInput" where
  "extractDestination metadata =
     (case metadata of
        Some (JObject ms) \<Rightarrow> unmarshal_destination ms \<lparr>IBAN = '''', Name = ''''\<rparr>
      | _ \<Rightarrow> \<lparr>IBAN = '''', Name = ''''\<rparr>)"

definition formatDestination :: "PayoutDestinationInput \<Rightarrow> string" where
  "formatDestination dest =
     (if IBAN dest = '''' \<and> Name dest = '''' then ''EXTERNAL_ACCOUNT''
      else if Name dest = '''' then IBAN dest
      else if IBAN dest = '''' then Name dest
      else Name dest @ '' ('' @ IBAN dest @ '')'')"

subsection \<open>Success\<close>

definition markPayoutManualReview :: "uuid \<Rightarrow> string \<Rightarrow> string \<Rightarrow> unit m" where
  "markPayoutManualReview payoutID gatewayRef reason =
     bind (attempt (bind (auto_exec (UpdatePayoutStatus PayoutStatusManualReview (Some gatewayRef) payoutID))
       (\<lambda>rows. requireExactlyOne rows ''mark payout manual review''))) (\<lambda>updated.
     case updated of
       Inl err \<Rightarrow> ret ()
     | Inr _ \<Rightarrow>
         bind (IncrementManualReviewTransition ''queued'') (\<lambda>_.
         bind (attempt (auto_exec (GetPayout payoutID))) (\<lambda>found.
         case found of
           Inl err \<Rightarrow> ret ()
         | Inr row \<Rightarrow>
             bind (attempt (RunInTx (audit_Write ''transaction'' (p_transaction_id row) None
               ''payout_manual_review'' TxStatusProcessing TxStatusProcessing
               (Some (marshalReasonMetadata reason))))) (\<lambda>_.
             ret ()))))"

text \<open>The deduction of the locked funds, the two entries and the credit of the system account.\<close>

definition payout_postings :: "lib \<Rightarrow> uuid \<Rightarrow> int \<Rightarrow> string \<Rightarrow> uuid \<Rightarrow> unit m" where
  "payout_postings L accountID amount currency transactionID =
     bind (wrapf ''failed to deduct locked funds: '' (exec (DeductLockedFunds amount accountID))) (\<lambda>rows.
     bind (requireExactlyOne rows ''deduct locked payout funds'') (\<lambda>_.
     bind (wrapf ''failed to get system account: '' (lift_sum (getSystemAccountID L currency)))
       (\<lambda>systemAccountID.
     bind uuid_New (\<lambda>debitID.
     bind (wrapf ''failed to create user debit entry: ''
       (exec (CreateEntry debitID transactionID accountID amount DirectionDebit))) (\<lambda>_.
     bind uuid_New (\<lambda>creditID.
     bind (wrapf ''failed to create system credit entry: ''
       (exec (CreateEntry creditID transactionID systemAccountID amount DirectionCredit))) (\<lambda>_.
     bind (wrapf ''failed to credit system account: ''
       (exec (UpdateAccountBalance amount systemAccountID))) (\<lambda>rows.
     requireExactlyOne rows ''credit system account''))))))))"

definition handlePayoutSuccess_tx ::
  "lib \<Rightarrow> uuid \<Rightarrow> uuid \<Rightarrow> int \<Rightarrow> string \<Rightarrow> uuid \<Rightarrow> string \<Rightarrow> unit m" where
  "handlePayoutSuccess_tx L payoutID accountID amount currency transactionID gatewayRef =
     bind (payout_postings L accountID amount currency transactionID) (\<lambda>_.
     bind (wrapf ''failed to transition transaction status: ''
       (transitionTransactionState transactionID TxStatusCompleted None ''payout_completed'' None)) (\<lambda>_.
     bind (wrapf ''failed to update payout status: ''
       (exec (UpdatePayoutStatus PayoutStatusCompleted (Some gatewayRef) payoutID))) (\<lambda>rows.
     requireExactlyOne rows ''mark payout completed'')))"

definition handlePayoutSuccess ::
  "lib \<Rightarrow> uuid \<Rightarrow> uuid \<Rightarrow> int \<Rightarrow> string \<Rightarrow> uuid \<Rightarrow> string \<Rightarrow> unit m" where
  "handlePayoutSuccess L payoutID accountID amount currency transactionID gatewayRef =
     bind (attempt (RunInTx (handlePayoutSuccess_tx L payoutID accountID amount currency transactionID
       gatewayRef))) (\<lambda>result.
     case result of
       Inr _ \<Rightarrow> ret ()
     | Inl err \<Rightarrow>
         bind (markPayoutManualReview payoutID gatewayRef (Error err)) (\<lambda>_.
         throw err))"

subsection \<open>Failure\<close>

definition updatePayoutFailed :: "uuid \<Rightarrow> string \<Rightarrow> unit m" where
  "updatePayoutFailed payoutID reason =
     bind (attempt (auto_exec (GetPayout payoutID))) (\<lambda>found.
     bind (case found of
         Inl err \<Rightarrow> ret ()
       | Inr payoutRow \<Rightarrow>
           bind (attempt (auto_exec (ReleaseAccountFundsSafe (p_amount_micros payoutRow)
             (p_account_id payoutRow)))) (\<lambda>_.
           bind (attempt (bind (auto_exec (UpdateTransactionStatus TxStatusFailed (p_transaction_id payoutRow)))
             (\<lambda>rows. requireExactlyOne rows ''fallback mark transaction failed''))) (\<lambda>updated.
           case updated of
             Inl err \<Rightarrow> ret ()
           | Inr _ \<Rightarrow>
               bind (attempt (RunInTx (audit_Write ''transaction'' (p_transaction_id payoutRow) None
                 ''payout_failed_fallback'' '''' TxStatusFailed (Some (marshalReasonMetadata reason))))) (\<lambda>_.
               ret ())))) (\<lambda>_.
     bind (attempt (bind (auto_exec (UpdatePayoutStatus PayoutStatusFailed None payoutID))
       (\<lambda>rows. requireExactlyOne rows ''fallback mark payout failed''))) (\<lambda>_.
     ret ())))"

definition handlePayoutFailure_tx :: "uuid \<Rightarrow> uuid \<Rightarrow> int \<Rightarrow> string \<Rightarrow> unit m" where
  "handlePayoutFailure_tx payoutID accountID amount reason =
     bind (wrapf ''release locked funds: '' (exec (ReleaseAccountFunds amount accountID))) (\<lambda>rows.
     bind (requireExactlyOne rows ''release locked payout funds'') (\<lambda>_.
     bind (wrapf ''load payout for failure handling: '' (exec (GetPayout payoutID))) (\<lambda>payoutRow.
     bind (wrapf ''transition transaction failed status: ''
       (transitionTransactionState (p_transaction_id payoutRow) TxStatusFailed None ''payout_failed''
          (Some (marshalReasonMetadata reason)))) (\<lambda>_.
     bind (wrapf ''update payout failed status: ''
       (exec (UpdatePayoutStatus PayoutStatusFailed None payoutID))) (\<lambda>rows.
     requireExactlyOne rows ''mark payout failed'')))))"

definition handlePayoutFailure :: "uuid \<Rightarrow> uuid \<Rightarrow> int \<Rightarrow> string \<Rightarrow> unit m" where
  "handlePayoutFailure payoutID accountID amount reason =
     bind (attempt (RunInTx (handlePayoutFailure_tx payoutID accountID amount reason))) (\<lambda>result.
     case result of
       Inr _ \<Rightarrow> ret ()
     | Inl err \<Rightarrow> updatePayoutFailed payoutID (Error err @ '': '' @ reason))"

subsection \<open>The batch loop\<close>

fun process_claimed :: "lib \<Rightarrow> payout_row list \<Rightarrow> unit m" where
  "process_claimed L [] = ret ()"
| "process_claimed L (payout # rest) =
     bind ctx_Err (\<lambda>ctxErr.
     case ctxErr of
       Some err \<Rightarrow>
         bind (attempt (requeueClaimedPayouts (payout # rest))) (\<lambda>_. throw err)
     | None \<Rightarrow>
       bind (attempt (auto_exec (GetTransaction (p_transaction_id payout)))) (\<lambda>found.
       case found of
         Inl err \<Rightarrow>
           bind (handlePayoutFailure (p_id payout) (p_account_id payout) (p_amount_micros payout)
             ''failed to fetch transaction metadata'') (\<lambda>_.
           process_claimed L rest)
       | Inr txRow \<Rightarrow>
           bind (attempt (SendPayout (formatDestination (extractDestination (t_metadata txRow)))
             (p_amount_micros payout) (p_currency payout))) (\<lambda>sent.
           case sent of
             Inl err \<Rightarrow>
               if errors_Is err ContextCanceled \<or> errors_Is err ContextDeadlineExceeded then
                 bind (attempt (requeueClaimedPayouts [payout])) (\<lambda>_. throw err)
               else
                 bind (handlePayoutFailure (p_id payout) (p_account_id payout) (p_amount_micros payout)
                   (Error err)) (\<lambda>_.
                 process_claimed L rest)
           | Inr gatewayRef \<Rightarrow>
               bind (attempt (handlePayoutSuccess L (p_id payout) (p_account_id payout)
                 (p_amount_micros payout) (p_currency payout) (p_transaction_id payout) gatewayRef)) (\<lambda>_.
               process_claimed L rest))))"

declare process_claimed.simps [simp del]

definition ProcessPayouts :: "lib \<Rightarrow> int \<Rightarrow> unit m" where
  "ProcessPayouts L batchSize =
     bind (recoverStaleProcessingPayouts batchSize) (\<lambda>_.
     bind (claimPendingPayouts batchSize) (\<lambda>claimed.
     if claimed = [] then ret () else process_claimed L claimed))"

definition ManualReviewQueueSize :: "int m" where
  "ManualReviewQueueSize =
     wrapf ''count manual review payouts: '' (auto_exec (CountPayoutsByStatus PayoutStatusManualReview))"

definition processBatch :: "lib \<Rightarrow> int \<Rightarrow> unit m" where
  "processBatch L batchSize =
     bind (attempt (ProcessPayouts L batchSize)) (\<lambda>result.
     bind (case result of
         Inl err \<Rightarrow> IncrementWorkerRun ''payout'' ''failed''
       | Inr _ \<Rightarrow> IncrementWorkerRun ''payout'' ''success'') (\<lambda>_.
     bind (attempt ManualReviewQueueSize) (\<lambda>queue.
     case queue of
       Inl queueErr \<Rightarrow> ret ()
     | Inr queueSize \<Rightarrow> SetManualReviewQueueSize queueSize)))"

subsection \<open>Built from the statements of the repository\<close>

context frame_rel
begin

lemma frame_ManualReviewQueueSize [frame_intros]: "frame R ManualReviewQueueSize"
  unfolding ManualReviewQueueSize_def by (intro frame_intros)

end

context ledger_frame
begin

lemma frame_markPayoutManualReview [frame_intros]: "frame R (markPayoutManualReview i g r)"
  unfolding markPayoutManualReview_def by (intro frame_intros)

lemma frame_handlePayoutSuccess_tx [frame_intros]: "frame R (handlePayoutSuccess_tx L i a x c t g)"
  unfolding handlePayoutSuccess_tx_def payout_postings_def by (intro frame_intros)

lemma frame_handlePayoutSuccess [frame_intros]: "frame R (handlePayoutSuccess L i a x c t g)"
  unfolding handlePayoutSuccess_def by (intro frame_intros)

lemma frame_handlePayoutFailure_tx [frame_intros]: "frame R (handlePayoutFailure_tx i a x r)"
  unfolding handlePayoutFailure_tx_def by (intro frame_intros)

end

text \<open>The fallback sets the status of the transaction without the state machine.\<close>

context worker_frame
begin

lemma frame_updatePayoutFailed [frame_intros]: "frame R (updatePayoutFailed i r)"
  unfolding updatePayoutFailed_def by (intro frame_intros)

lemma frame_handlePayoutFailure [frame_intros]: "frame R (handlePayoutFailure i a x r)"
  unfolding handlePayoutFailure_def by (intro frame_intros)

lemma frame_process_claimed [frame_intros]: "frame R (process_claimed L ps)"
  by (induction ps) (simp_all only: process_claimed.simps, (intro frame_intros | assumption)+)

lemma frame_ProcessPayouts [frame_intros]: "frame R (ProcessPayouts L n)"
  unfolding ProcessPayouts_def by (intro frame_intros)

lemma frame_processBatch [frame_intros]: "frame R (processBatch L n)"
  unfolding processBatch_def by (intro frame_intros)

end

subsection \<open>The money movements\<close>

lemma still_markPayoutManualReview [frame_intros]: "frame same_ledger (markPayoutManualReview i g r)"
  unfolding markPayoutManualReview_def by (intro frame_intros)

lemma handlePayoutFailure_tx_moves:
  "moves (handlePayoutFailure_tx i k x r) (lock_funds k (- x))"
  unfolding handlePayoutFailure_tx_def by (rule moves_rules | intro frame_intros)+

text \<open>The system account depends on the currency, so the movement is stated with it fixed.\<close>

lemma moves_lift_sum:
  "moves (f a) \<psi> \<Longrightarrow> moves (bind (wrapf text (lift_sum (Inr a))) f) \<psi>"
  "moves (f a) \<psi> \<Longrightarrow> moves (bind (lift_sum (Inr a)) f) \<psi>"
  by (auto simp: moves_def elim!: bind_ok wrapf_ok lift_sum_ok)

lemma posts_lift_sum:
  "posts (f a) ps \<Longrightarrow> posts (bind (wrapf text (lift_sum (Inr a))) f) ps"
  "posts (f a) ps \<Longrightarrow> posts (bind (lift_sum (Inr a)) f) ps"
  by (auto simp: posts_def control_defs lift_sum_def)

definition payout_move :: "uuid \<Rightarrow> uuid \<Rightarrow> int \<Rightarrow> ledger \<Rightarrow> ledger" where
  "payout_move k s x v = move s x (move k (- x) (lock_funds k (- x) v))"

lemma payout_postings_ok:
  assumes "payout_postings L k x c i w = (Inr u, w')"
  obtains s es where "getSystemAccountID L c = Inr s" and "x \<le> locked_of (wdb w) k"
    and "view (wdb w') = payout_move k s x (view (wdb w))" and "only_posts (wdb w) (wdb w')"
    and "audit_seq (wdb w') = audit_seq (wdb w)" and "wnow w' = wnow w"
    and "entries (wdb w') = entries (wdb w) @ es"
    and "map posting_of es = [(i, k, x, DirectionDebit), (i, s, x, DirectionCredit)]"
proof -
  obtain s where s: "getSystemAccountID L c = Inr s"
    using assms unfolding payout_postings_def by (auto elim!: exec_one_ok bind_ok wrapf_ok lift_sum_ok)
  have "x \<le> locked_of (wdb w) k"
    using assms unfolding payout_postings_def
    by (rule exec_one_ok) (auto dest: DeductLockedFunds_effect(3))
  moreover have "moves (payout_postings L k x c i)
    (\<lambda>v. credit s x (post s x (post k (- x) (credit k (- x) (lock_funds k (- x) v)))))"
    unfolding payout_postings_def s by (rule moves_lift_sum moves_rules | intro frame_intros)+
  then have "view (wdb w') = payout_move k s x (view (wdb w))"
    using assms by (auto simp: payout_move_def move_def post_credit dest: movesD)
  moreover have "posts (payout_postings L k x c i) [(i, k, x, DirectionDebit), (i, s, x, DirectionCredit)]"
    unfolding payout_postings_def s by (rule posts_eq, (rule posts_lift_sum posts_rules)+) simp
  ultimately show thesis using assms s by (auto elim!: postsD intro: that)
qed

lemma UpdatePayoutStatus_effect:
  assumes "UpdatePayoutStatus st g i t d = Inr (1, d')"
  obtains p rows where "payout_of d i = Some p" and "d' = d\<lparr>payouts := rows\<rparr>"
    and "\<And>j. payout_of d' j = (if j = i then Some (p\<lparr>p_status := st, p_gateway_ref := g, p_updated_at := t\<rparr>) else payout_of d j)"
    and "map payout_identity rows = map payout_identity (payouts d)"
proof -
  let ?f = "\<lambda>r. if \<not> payout_status_ok st then Inl check_violation
    else Inr (r\<lparr>p_status := st, p_gateway_ref := g, p_updated_at := t\<rparr>)"
  obtain rows where upd: "update_rows (\<lambda>r. p_id r = i) ?f (payouts d) = Inr (1, rows)" and d': "d' = d\<lparr>payouts := rows\<rparr>"
    using assms by (auto simp: UpdatePayoutStatus_def split: sum.splits)
  obtain p p' where p: "payout_of d i = Some p" "?f p = Inr p'"
    using update_rows_hit [OF upd] by auto
  have key: "p_id q' = p_id q" if "?f q = Inr q'" for q q' using that by (auto split: if_splits)
  show thesis
  proof (rule that [OF p(1) d'])
    show "payout_of d' j = (if j = i then Some (p\<lparr>p_status := st, p_gateway_ref := g, p_updated_at := t\<rparr>) else payout_of d j)" for j
      using update_rows_sel_one [OF upd key, of j] p d' by (auto split: if_splits)
    show "map payout_identity rows = map payout_identity (payouts d)"
      using upd by (rule update_rows_map) (auto simp: identity_defs split: if_splits)
  qed
qed

subsection \<open>The effect of the two outcomes\<close>

text \<open>
  A paid payout: the locked amount leaves balance and locked funds of the account and arrives on
  the system account of the currency, with a debit and a credit entry; transaction and payout are
  COMPLETED.
\<close>

definition paid_out :: "lib \<Rightarrow> uuid \<Rightarrow> uuid \<Rightarrow> int \<Rightarrow> string \<Rightarrow> uuid \<Rightarrow> string option \<Rightarrow> int \<Rightarrow> db \<Rightarrow> db \<Rightarrow> bool" where
  "paid_out L pid k x c i g now d d' \<longleftrightarrow>
     (\<exists>s p r es. getSystemAccountID L c = Inr s \<and> x \<le> locked_of d k \<and>
        view d' = payout_move k s x (view d) \<and>
        entries d' = entries d @ es \<and> map posting_of es = [(i, k, x, DirectionDebit), (i, s, x, DirectionCredit)] \<and>
        payout_of d pid = Some p \<and>
        (\<forall>j. payout_of d' j = (if j = pid then Some (p\<lparr>p_status := PayoutStatusCompleted, p_gateway_ref := g,
           p_updated_at := now\<rparr>) else payout_of d j)) \<and>
        txn d i = Some r \<and>
        (\<exists>r'. txn d' i = Some r' \<and> normalizeState (t_status r') = TxStatusCompleted) \<and>
        (\<forall>j. j \<noteq> i \<longrightarrow> txn d' j = txn d j))"

text \<open>A refunded payout: the amount is unlocked, transaction and payout are FAILED, nothing is posted.\<close>

definition refunded :: "uuid \<Rightarrow> uuid \<Rightarrow> int \<Rightarrow> string option \<Rightarrow> int \<Rightarrow> db \<Rightarrow> db \<Rightarrow> bool" where
  "refunded pid k x g now d d' \<longleftrightarrow>
     (\<exists>p. payout_of d pid = Some p \<and> view d' = lock_funds k (- x) (view d) \<and> entries d' = entries d \<and>
        (\<forall>j. payout_of d' j = (if j = pid then Some (p\<lparr>p_status := PayoutStatusFailed, p_gateway_ref := g,
           p_updated_at := now\<rparr>) else payout_of d j)) \<and>
        (\<exists>r'. txn d' (p_transaction_id p) = Some r' \<and> normalizeState (t_status r') = TxStatusFailed) \<and>
        (\<forall>j. j \<noteq> p_transaction_id p \<longrightarrow> txn d' j = txn d j))"

text \<open>A transition leaves the transaction in the state asked for, and the rest alone.\<close>

lemma transition_reaches:
  assumes "transitionTransactionState i ns actor a md w = (Inr u, w')"
  shows "\<exists>r. txn (wdb w) i = Some r" and "\<exists>r'. txn (wdb w') i = Some r' \<and> normalizeState (t_status r') = normalizeState ns"
    and "\<And>j. j \<noteq> i \<Longrightarrow> txn (wdb w') j = txn (wdb w) j" and "payouts (wdb w') = payouts (wdb w)"
    and "same_ledger (wdb w) (wdb w')" and "wnow w' = wnow w"
  using assms by (auto elim!: transition_ok simp: same_ledger_def)

lemma exec_last_ok:
  assumes "bind (wrapf text (exec s)) (\<lambda>rows. requireExactlyOne rows op) w = (Inr u, w')"
  shows "s (wnow w) (wdb w) = Inr (1, wdb w')" and "wnow w' = wnow w"
  using assms by (auto elim!: bind_ok wrapf_ok exec_ok requireExactlyOne_ok)

lemma transition_then_ok:
  assumes "bind (wrapf text (transitionTransactionState i ns actor a md)) f w = (Inr b, w')"
  obtains w1 where "transitionTransactionState i ns actor a md w = (Inr (), w1)" and "f () w1 = (Inr b, w')"
  using assms by (elim bind_ok wrapf_ok) (auto intro: that)

lemma handlePayoutSuccess_tx_paid:
  assumes "handlePayoutSuccess_tx L pid k x c i g w = (Inr u, w')"
  shows "paid_out L pid k x c i (Some g) (wnow w) (wdb w) (wdb w')"
proof -
  obtain w1 w2 where post: "payout_postings L k x c i w = (Inr (), w1)"
    and trans: "transitionTransactionState i TxStatusCompleted None ''payout_completed'' None w1 = (Inr (), w2)"
    and upd: "bind (wrapf ''failed to update payout status: ''
       (exec (UpdatePayoutStatus PayoutStatusCompleted (Some g) pid))) (\<lambda>rows.
       requireExactlyOne rows ''mark payout completed'') w2 = (Inr u, w')"
    using assms unfolding handlePayoutSuccess_tx_def
    by (auto elim!: bind_ok [of "payout_postings a b c d e" for a b c d e] transition_then_ok)
  note t = transition_reaches [OF trans]
  from payout_postings_ok [OF post] obtain s es where p: "getSystemAccountID L c = Inr s" "x \<le> locked_of (wdb w) k"
      "view (wdb w1) = payout_move k s x (view (wdb w))" "only_posts (wdb w) (wdb w1)" "wnow w1 = wnow w"
      "entries (wdb w1) = entries (wdb w) @ es"
      "map posting_of es = [(i, k, x, DirectionDebit), (i, s, x, DirectionCredit)]" by metis
  have view: "view (wdb w') = view (wdb w1)" and "entries (wdb w') = entries (wdb w1)"
    and "transactions (wdb w') = transactions (wdb w2)"
    using exec_last_ok(1) [OF upd] same_ledger_view [OF t(5)] t(5)
    by (auto elim!: UpdatePayoutStatus_effect simp: same_ledger_def view_def balance_of_def locked_of_def
        net_of_def fun_eq_iff)
  moreover have "transactions (wdb w1) = transactions (wdb w)" "payouts (wdb w1) = payouts (wdb w)"
    using p(4) by (simp_all add: only_posts_def)
  ultimately show ?thesis
    using p t exec_last_ok [OF upd] unfolding paid_out_def
    by (auto elim!: UpdatePayoutStatus_effect)
qed

lemma UpdatePayoutStatus_still:
  assumes "UpdatePayoutStatus st g i t d = Inr (1, d')"
  shows "view d' = view d" and "entries d' = entries d" and "transactions d' = transactions d"
  using assms by (auto elim!: UpdatePayoutStatus_effect simp: view_def balance_of_def locked_of_def net_of_def fun_eq_iff)

lemma handlePayoutFailure_tx_refunded:
  assumes "handlePayoutFailure_tx pid k x reason w = (Inr u, w')"
  shows "refunded pid k x None (wnow w) (wdb w) (wdb w')" and "x \<le> locked_of (wdb w) k"
proof -
  obtain w1 where rel: "ReleaseAccountFunds x k (wnow w) (wdb w) = Inr (1, wdb w1)" "wnow w1 = wnow w"
    and rest: "bind (wrapf ''load payout for failure handling: '' (exec (GetPayout pid))) (\<lambda>payoutRow.
     bind (wrapf ''transition transaction failed status: ''
       (transitionTransactionState (p_transaction_id payoutRow) TxStatusFailed None ''payout_failed''
          (Some (marshalReasonMetadata reason)))) (\<lambda>_.
     bind (wrapf ''update payout failed status: ''
       (exec (UpdatePayoutStatus PayoutStatusFailed None pid))) (\<lambda>rows.
     requireExactlyOne rows ''mark payout failed''))) w1 = (Inr u, w')"
    using assms unfolding handlePayoutFailure_tx_def by (rule exec_one_ok)
  obtain p w2 w3 where p: "payout_of (wdb w1) pid = Some p" and w2: "wdb w2 = wdb w1" "wnow w2 = wnow w1"
    and trans: "transitionTransactionState (p_transaction_id p) TxStatusFailed None ''payout_failed''
        (Some (marshalReasonMetadata reason)) w2 = (Inr (), w3)"
    and upd: "bind (wrapf ''update payout failed status: ''
       (exec (UpdatePayoutStatus PayoutStatusFailed None pid))) (\<lambda>rows.
       requireExactlyOne rows ''mark payout failed'') w3 = (Inr u, w')"
    using rest by (rule exec_then_ok) (auto simp: GetPayout_def split: option.splits elim!: transition_then_ok)
  note t = transition_reaches [OF trans] and last = exec_last_ok [OF upd] and r = ReleaseAccountFunds_effect [OF rel(1)]
  note still = UpdatePayoutStatus_still [OF last(1)] and others = other_tables_same [OF r(2)]
  show "x \<le> locked_of (wdb w) k" by (rule r(3))
  have "view (wdb w') = lock_funds k (- x) (view (wdb w))" "entries (wdb w') = entries (wdb w)"
    using still r(1) others same_ledger_view [OF t(5)] t(5) w2 by (simp_all add: same_ledger_def)
  then show "refunded pid k x None (wnow w) (wdb w) (wdb w')"
    using p t last still others w2 rel(2) unfolding refunded_def
    by (auto elim!: UpdatePayoutStatus_effect)
qed

subsection \<open>The destination\<close>

lemma destination_field: "matches_field ''destination'' ''destination''" by code_simp

lemma iban_field: "matches_field ''iban'' ''iban''" by code_simp

lemma name_field: "matches_field ''name'' ''name''" by code_simp

lemma iban_not_name: "\<not> matches_field ''iban'' ''name''" by code_simp

lemma name_not_iban: "\<not> matches_field ''name'' ''iban''" by code_simp

lemmas payout_fields = destination_field iban_field name_field iban_not_name name_not_iban

text \<open>
  The destination stored with a payout request is the one the worker reads back.
\<close>

theorem destination_round_trip: "extractDestination (Some (destination_metadata dest)) = dest"
  by (simp add: extractDestination_def destination_metadata_def payout_fields)

end
