(* ===== verification/ManualReview.thy ===== *)
theory ManualReview
  imports PayoutFinalize
begin

text \<open>
  Reading payouts and resolving the ones in manual review (\<open>GetPayout\<close>,
  \<open>ListManualReviewPayouts\<close>, \<open>ResolveManualReviewPayout\<close> of \<open>internal/service/payout.go\<close>).
\<close>

subsection \<open>Reading\<close>

record model_payout =
  mp_ID :: uuid
  mp_TransactionID :: uuid
  mp_AccountID :: uuid
  mp_AmountMicros :: int
  mp_Currency :: string
  mp_Status :: string
  mp_GatewayRef :: "string option"
  mp_CreatedAt :: int
  mp_UpdatedAt :: int

definition model_of_payout :: "payout_row \<Rightarrow> model_payout" where
  "model_of_payout row =
     \<lparr>mp_ID = p_id row, mp_TransactionID = p_transaction_id row, mp_AccountID = p_account_id row,
      mp_AmountMicros = p_amount_micros row, mp_Currency = p_currency row, mp_Status = p_status row,
      mp_GatewayRef = p_gateway_ref row, mp_CreatedAt = p_created_at row, mp_UpdatedAt = p_updated_at row\<rparr>"

definition PayoutService_GetPayout :: "uuid \<Rightarrow> model_payout m" where
  "PayoutService_GetPayout payoutID =
     bind (attempt (auto_exec (GetPayout payoutID))) (\<lambda>found.
     case found of
       Inl err \<Rightarrow>
         if errors_Is err ErrNoRows then throw ErrPayoutNotFound
         else throw (Wrap ''failed to get payout: '' err '''')
     | Inr row \<Rightarrow> ret (model_of_payout row))"

definition ListManualReviewPayouts :: "int \<Rightarrow> int \<Rightarrow> model_payout list m" where
  "ListManualReviewPayouts limit offset =
     (let limit = (if limit \<le> 0 then 50 else limit);
          limit = (if limit > 500 then 500 else limit);
          offset = (if offset < 0 then 0 else offset) in
      bind (wrapf ''list manual review payouts: ''
        (auto_exec (GetPayoutsByStatus PayoutStatusManualReview limit offset))) (\<lambda>rows.
      ret (map model_of_payout rows)))"

subsection \<open>Resolving\<close>

definition DecisionConfirmSent :: string where "DecisionConfirmSent = ''confirm_sent''"

definition DecisionRefundFailed :: string where "DecisionRefundFailed = ''refund_failed''"

record ResolveManualReviewRequest =
  rr_PayoutID :: uuid
  rr_Decision :: string
  rr_Reason :: string
  rr_ActorID :: "uuid option"
  rr_GatewayRef :: "string option"

definition confirmation_postings :: "lib \<Rightarrow> payout_row \<Rightarrow> unit m" where
  "confirmation_postings L payoutRow =
     bind (wrapf ''manual-review confirm: deduct locked funds: ''
       (exec (DeductLockedFunds (p_amount_micros payoutRow) (p_account_id payoutRow)))) (\<lambda>rows.
     bind (requireExactlyOne rows ''manual-review deduct locked funds'') (\<lambda>_.
     bind (lift_sum (getSystemAccountID L (p_currency payoutRow))) (\<lambda>systemAccountID.
     bind uuid_New (\<lambda>debitID.
     bind (wrapf ''manual-review confirm: create user debit entry: ''
       (exec (CreateEntry debitID (p_transaction_id payoutRow) (p_account_id payoutRow)
          (p_amount_micros payoutRow) DirectionDebit))) (\<lambda>_.
     bind uuid_New (\<lambda>creditID.
     bind (wrapf ''manual-review confirm: create system credit entry: ''
       (exec (CreateEntry creditID (p_transaction_id payoutRow) systemAccountID
          (p_amount_micros payoutRow) DirectionCredit))) (\<lambda>_.
     bind (wrapf ''manual-review confirm: credit system account: ''
       (exec (UpdateAccountBalance (p_amount_micros payoutRow) systemAccountID))) (\<lambda>rows.
     requireExactlyOne rows ''manual-review credit system account''))))))))"

definition applyManualReviewConfirmation ::
  "lib \<Rightarrow> payout_row \<Rightarrow> uuid \<Rightarrow> uuid option \<Rightarrow> json option \<Rightarrow> string option \<Rightarrow> unit m" where
  "applyManualReviewConfirmation L payoutRow transactionID actorID metadata overrideGatewayRef =
     bind (confirmation_postings L payoutRow) (\<lambda>_.
     bind (wrapf ''manual-review confirm: transition transaction: ''
       (transitionTransactionState transactionID TxStatusCompleted actorID ''manual_review_confirmed''
          metadata)) (\<lambda>_.
     let ref = (case overrideGatewayRef of
           Some g \<Rightarrow> if TrimSpace g \<noteq> '''' then Some (TrimSpace g) else p_gateway_ref payoutRow
         | None \<Rightarrow> p_gateway_ref payoutRow) in
     bind (wrapf ''manual-review confirm: update payout status: ''
       (exec (UpdatePayoutStatus PayoutStatusCompleted ref (p_id payoutRow)))) (\<lambda>rows.
     requireExactlyOne rows ''manual-review set payout completed'')))"

definition applyManualReviewRefund ::
  "payout_row \<Rightarrow> uuid \<Rightarrow> uuid option \<Rightarrow> json option \<Rightarrow> unit m" where
  "applyManualReviewRefund payoutRow transactionID actorID metadata =
     bind (wrapf ''manual-review refund: release locked funds: ''
       (exec (ReleaseAccountFundsSafe (p_amount_micros payoutRow) (p_account_id payoutRow)))) (\<lambda>rows.
     if rows > 1 then
       throw (Msg (''manual-review refund: released unexpected rows: '' @ show_int rows))
     else
     bind (wrapf ''manual-review refund: transition transaction: ''
       (transitionTransactionState transactionID TxStatusFailed actorID ''manual_review_refunded''
          metadata)) (\<lambda>_.
     bind (wrapf ''manual-review refund: update payout status: ''
       (exec (UpdatePayoutStatus PayoutStatusFailed (p_gateway_ref payoutRow) (p_id payoutRow)))) (\<lambda>rows.
     requireExactlyOne rows ''manual-review set payout failed'')))"

definition lock_payout :: "uuid \<Rightarrow> payout_row m" where
  "lock_payout payoutID =
     bind (attempt (exec (GetPayoutForUpdate payoutID))) (\<lambda>found.
     case found of
       Inr row \<Rightarrow> ret row
     | Inl err \<Rightarrow>
         if errors_Is err ErrNoRows then throw ErrPayoutNotFound
         else throw (Wrap ''get payout for update: '' err ''''))"

definition ResolveManualReview_tx :: "lib \<Rightarrow> ResolveManualReviewRequest \<Rightarrow> string \<Rightarrow> unit m" where
  "ResolveManualReview_tx L req decision =
     bind (lock_payout (rr_PayoutID req)) (\<lambda>payoutRow.
     if p_status payoutRow \<noteq> PayoutStatusManualReview then throw ErrPayoutNotInManualReview
     else
     let metadata = Some (marshalReasonMetadata (rr_Reason req)) in
     if decision = DecisionConfirmSent then
       applyManualReviewConfirmation L payoutRow (p_transaction_id payoutRow) (rr_ActorID req) metadata
         (rr_GatewayRef req)
     else if decision = DecisionRefundFailed then
       applyManualReviewRefund payoutRow (p_transaction_id payoutRow) (rr_ActorID req) metadata
     else ret ())"

definition ResolveManualReviewPayout :: "lib \<Rightarrow> ResolveManualReviewRequest \<Rightarrow> model_payout m" where
  "ResolveManualReviewPayout L req =
     (let decision = ToLower (TrimSpace (rr_Decision req)) in
      if decision \<noteq> DecisionConfirmSent \<and> decision \<noteq> DecisionRefundFailed then
        throw ErrInvalidManualReviewDecision
      else
      bind (RunInTx (ResolveManualReview_tx L req decision)) (\<lambda>_.
      bind (IncrementManualReviewTransition decision) (\<lambda>_.
      PayoutService_GetPayout (rr_PayoutID req))))"

subsection \<open>Built from the statements of the repository\<close>

context frame_rel
begin

lemma frame_PayoutService_GetPayout [frame_intros]: "frame R (PayoutService_GetPayout i)"
  unfolding PayoutService_GetPayout_def by (intro frame_intros)

lemma frame_ListManualReviewPayouts [frame_intros]: "frame R (ListManualReviewPayouts n j)"
  unfolding ListManualReviewPayouts_def by (intro frame_intros)

lemma frame_lock_payout [frame_intros]: "frame R (lock_payout i)"
  unfolding lock_payout_def by (intro frame_intros)

end

context ledger_frame
begin

lemma frame_applyManualReview [frame_intros]:
  "frame R (applyManualReviewConfirmation L p i a md g)" "frame R (applyManualReviewRefund p i a md)"
  unfolding applyManualReviewConfirmation_def confirmation_postings_def applyManualReviewRefund_def
  by (intro frame_intros)+

lemma frame_ResolveManualReview_tx [frame_intros]: "frame R (ResolveManualReview_tx L req de)"
  unfolding ResolveManualReview_tx_def by (intro frame_intros)

lemma frame_ResolveManualReviewPayout [frame_intros]: "frame R (ResolveManualReviewPayout L req)"
  unfolding ResolveManualReviewPayout_def by (intro frame_intros)

end

subsection \<open>The effect of a resolution\<close>

lemma lock_payout_ok:
  assumes "lock_payout i w = (Inr p, w')"
  shows "payout_of (wdb w) i = Some p" and "wdb w' = wdb w" and "wnow w' = wnow w"
  using assms unfolding lock_payout_def
  by (auto simp: attempt_def GetPayoutForUpdate_def split: sum.splits prod.splits if_splits option.splits
        elim!: bind_ok exec_ok ret_ok throw_ok)

text \<open>The deduction and the postings of a confirmation.\<close>

lemma confirmation_postings_ok:
  assumes "confirmation_postings L p w = (Inr u, w')"
  obtains s es where "getSystemAccountID L (p_currency p) = Inr s"
    and "p_amount_micros p \<le> locked_of (wdb w) (p_account_id p)"
    and "view (wdb w') = payout_move (p_account_id p) s (p_amount_micros p) (view (wdb w))"
    and "only_posts (wdb w) (wdb w')" and "wnow w' = wnow w"
    and "entries (wdb w') = entries (wdb w) @ es"
    and "map posting_of es = [(p_transaction_id p, p_account_id p, p_amount_micros p, DirectionDebit),
      (p_transaction_id p, s, p_amount_micros p, DirectionCredit)]"
proof -
  let ?k = "p_account_id p" and ?x = "p_amount_micros p" and ?i = "p_transaction_id p"
  obtain s where s: "getSystemAccountID L (p_currency p) = Inr s"
    using assms unfolding confirmation_postings_def by (auto elim!: exec_one_ok bind_ok lift_sum_ok)
  have "?x \<le> locked_of (wdb w) ?k"
    using assms unfolding confirmation_postings_def
    by (rule exec_one_ok) (auto dest: DeductLockedFunds_effect(3))
  moreover have "moves (confirmation_postings L p)
    (\<lambda>v. credit s ?x (post s ?x (post ?k (- ?x) (credit ?k (- ?x) (lock_funds ?k (- ?x) v)))))"
    unfolding confirmation_postings_def s by (rule moves_lift_sum moves_rules | intro frame_intros)+
  then have "view (wdb w') = payout_move ?k s ?x (view (wdb w))"
    using assms by (auto simp: payout_move_def move_def post_credit dest: movesD)
  moreover have "posts (confirmation_postings L p) [(?i, ?k, ?x, DirectionDebit), (?i, s, ?x, DirectionCredit)]"
    unfolding confirmation_postings_def s by (rule posts_eq, (rule posts_lift_sum posts_rules)+) simp
  ultimately show thesis using assms s by (auto elim!: postsD intro: that)
qed

definition confirmed_ref :: "payout_row \<Rightarrow> string option \<Rightarrow> string option" where
  "confirmed_ref p g = (case g of
     Some ref \<Rightarrow> if TrimSpace ref \<noteq> '''' then Some (TrimSpace ref) else p_gateway_ref p
   | None \<Rightarrow> p_gateway_ref p)"

lemma confirmation_paid:
  assumes "applyManualReviewConfirmation L p (p_transaction_id p) actor md g w = (Inr u, w')"
  shows "paid_out L (p_id p) (p_account_id p) (p_amount_micros p) (p_currency p) (p_transaction_id p)
    (confirmed_ref p g) (wnow w) (wdb w) (wdb w')"
proof -
  let ?i = "p_transaction_id p"
  obtain w1 w2 where post: "confirmation_postings L p w = (Inr (), w1)"
    and trans: "transitionTransactionState ?i TxStatusCompleted actor ''manual_review_confirmed'' md w1 = (Inr (), w2)"
    and upd: "bind (wrapf ''manual-review confirm: update payout status: ''
       (exec (UpdatePayoutStatus PayoutStatusCompleted (confirmed_ref p g) (p_id p)))) (\<lambda>rows.
       requireExactlyOne rows ''manual-review set payout completed'') w2 = (Inr u, w')"
    using assms unfolding applyManualReviewConfirmation_def Let_def confirmed_ref_def
    by (auto elim!: bind_ok [of "confirmation_postings a b" for a b] transition_then_ok)
  note t = transition_reaches [OF trans] and last = exec_last_ok [OF upd]
  note still = UpdatePayoutStatus_still [OF last(1)]
  from confirmation_postings_ok [OF post] obtain s es where q:
      "getSystemAccountID L (p_currency p) = Inr s" "p_amount_micros p \<le> locked_of (wdb w) (p_account_id p)"
      "view (wdb w1) = payout_move (p_account_id p) s (p_amount_micros p) (view (wdb w))"
      "only_posts (wdb w) (wdb w1)" "wnow w1 = wnow w" "entries (wdb w1) = entries (wdb w) @ es"
      "map posting_of es = [(?i, p_account_id p, p_amount_micros p, DirectionDebit),
        (?i, s, p_amount_micros p, DirectionCredit)]" by metis
  have "view (wdb w') = view (wdb w1)" "entries (wdb w') = entries (wdb w1)"
    using still same_ledger_view [OF t(5)] t(5) by (simp_all add: same_ledger_def)
  moreover have "transactions (wdb w1) = transactions (wdb w)" "payouts (wdb w1) = payouts (wdb w)"
    using q(4) by (simp_all add: only_posts_def)
  ultimately show ?thesis
    using q t last still unfolding paid_out_def by (auto elim!: UpdatePayoutStatus_effect)
qed

text \<open>The safe release: it frees the amount when that much is locked, and otherwise nothing.\<close>

lemma update_rows_cong:
  assumes "\<forall>r \<in> set rs. P r = Q r" shows "update_rows P f rs = update_rows Q f rs"
  using assms by (induction rs) (auto split: sum.splits)

lemma update_rows_none: "(\<And>r. r \<in> set rs \<Longrightarrow> \<not> P r) \<Longrightarrow> update_rows P f rs = Inr (0, rs)"
  by (induction rs) auto

lemma acct_unique:
  "distinct (map a_id (accounts d)) \<Longrightarrow> acct d k = Some r \<Longrightarrow> q \<in> set (accounts d) \<Longrightarrow> a_id q = k \<Longrightarrow> q = r"
  using sel_one_Some [of a_id k "accounts d" r] by (auto simp: distinct_map dest: inj_onD)

lemma ReleaseAccountFundsSafe_effect:
  assumes "ReleaseAccountFundsSafe x k t d = Inr (n, d')" and "distinct (map a_id (accounts d))"
  shows "other_tables d d'"
    and "view d' = (if (\<exists>r. acct d k = Some r \<and> x \<le> a_locked_micros r) then lock_funds k (- x) (view d) else view d)"
proof -
  have "other_tables d d' \<and>
    view d' = (if (\<exists>r. acct d k = Some r \<and> x \<le> a_locked_micros r) then lock_funds k (- x) (view d) else view d)"
  proof (cases "\<exists>r. acct d k = Some r \<and> x \<le> a_locked_micros r")
    case True
    then obtain r where r: "acct d k = Some r" "x \<le> a_locked_micros r" by blast
    have "update_rows (\<lambda>r. a_id r = k \<and> a_locked_micros r \<ge> x) f (accounts d) = update_rows (\<lambda>r. a_id r = k) f (accounts d)" for f :: "account_row \<Rightarrow> err + account_row"
      by (rule update_rows_cong) (use acct_unique [OF assms(2) r(1)] r(2) in auto)
    then have rel: "ReleaseAccountFunds x k t d = Inr (n, d')"
      using assms(1) by (simp add: ReleaseAccountFundsSafe_def ReleaseAccountFunds_def update_accounts_def)
    then have "n = int (length (filter (\<lambda>r. a_id r = k) (accounts d)))"
      by (auto simp: ReleaseAccountFunds_def update_accounts_def split: sum.splits dest!: update_rows_count)
    moreover have "filter (\<lambda>r. a_id r = k) (accounts d) \<noteq> []"
      using sel_one_Some [OF r(1)] by (auto simp: filter_empty_conv)
    ultimately have "n \<noteq> 0" by simp
    with rel True show ?thesis
      unfolding ReleaseAccountFunds_def by (auto elim!: funds_effect dest: view_of_funds)
  next
    case False
    have "update_rows (\<lambda>r. a_id r = k \<and> a_locked_micros r \<ge> x) f (accounts d) = Inr (0, accounts d)" for f :: "account_row \<Rightarrow> err + account_row"
    proof (rule update_rows_none, rule notI, elim conjE)
      fix r assume "r \<in> set (accounts d)" "a_id r = k" "x \<le> a_locked_micros r"
      moreover then obtain q where "acct d k = Some q" by (cases "acct d k") (auto simp: sel_one_None_iff)
      ultimately show False using False acct_unique [OF assms(2)] by blast
    qed
    then have "d' = d" using assms(1) by (simp add: ReleaseAccountFundsSafe_def update_accounts_def)
    moreover have "other_tables d d" unfolding other_tables_def by (rule exI [of _ "accounts d"]) simp
    ultimately show ?thesis using False by auto
  qed
  then show "other_tables d d'"
    and "view d' = (if (\<exists>r. acct d k = Some r \<and> x \<le> a_locked_micros r) then lock_funds k (- x) (view d) else view d)"
    by simp_all
qed

text \<open>A resolution as refund: like \<open>refunded\<close>, with the funds freed only when they are locked.\<close>

definition review_refunded :: "payout_row \<Rightarrow> int \<Rightarrow> db \<Rightarrow> db \<Rightarrow> bool" where
  "review_refunded p now d d' \<longleftrightarrow>
     view d' = (if (\<exists>r. acct d (p_account_id p) = Some r \<and> p_amount_micros p \<le> a_locked_micros r)
       then lock_funds (p_account_id p) (- p_amount_micros p) (view d) else view d) \<and>
     entries d' = entries d \<and>
     (\<forall>j. payout_of d' j = (if j = p_id p then Some (p\<lparr>p_status := PayoutStatusFailed, p_updated_at := now\<rparr>)
        else payout_of d j)) \<and>
     (\<exists>r'. txn d' (p_transaction_id p) = Some r' \<and> normalizeState (t_status r') = TxStatusFailed) \<and>
     (\<forall>j. j \<noteq> p_transaction_id p \<longrightarrow> txn d' j = txn d j)"

lemma refund_refunded:
  assumes "applyManualReviewRefund p (p_transaction_id p) actor md w = (Inr u, w')"
    and "payout_of (wdb w) (p_id p) = Some p" and "distinct (map a_id (accounts (wdb w)))"
  shows "review_refunded p (wnow w) (wdb w) (wdb w')"
proof -
  obtain n w1 w2 where rel: "ReleaseAccountFundsSafe (p_amount_micros p) (p_account_id p) (wnow w) (wdb w) = Inr (n, wdb w1)"
      "wnow w1 = wnow w"
    and trans: "transitionTransactionState (p_transaction_id p) TxStatusFailed actor ''manual_review_refunded'' md w1 = (Inr (), w2)"
    and upd: "bind (wrapf ''manual-review refund: update payout status: ''
       (exec (UpdatePayoutStatus PayoutStatusFailed (p_gateway_ref p) (p_id p)))) (\<lambda>rows.
       requireExactlyOne rows ''manual-review set payout failed'') w2 = (Inr u, w')"
    using assms(1) unfolding applyManualReviewRefund_def
    by (rule exec_then_ok) (auto split: if_splits elim!: throw_ok transition_then_ok)
  note t = transition_reaches [OF trans] and last = exec_last_ok [OF upd]
  note still = UpdatePayoutStatus_still [OF last(1)] and r = ReleaseAccountFundsSafe_effect [OF rel(1) assms(3)]
  note others = other_tables_same [OF r(1)]
  have "view (wdb w') = view (wdb w1)" "entries (wdb w') = entries (wdb w)"
    using still others same_ledger_view [OF t(5)] t(5) by (simp_all add: same_ledger_def)
  then show ?thesis
    unfolding review_refunded_def
    using assms(2) t last still others rel(2) r(2) by (auto elim!: UpdatePayoutStatus_effect)
qed

subsection \<open>The whole operation\<close>

definition resolved :: "lib \<Rightarrow> ResolveManualReviewRequest \<Rightarrow> string \<Rightarrow> payout_row \<Rightarrow> int \<Rightarrow> db \<Rightarrow> db \<Rightarrow> bool" where
  "resolved L req decision p now d d' \<longleftrightarrow>
     payout_of d (rr_PayoutID req) = Some p \<and> p_status p = PayoutStatusManualReview \<and>
     (if decision = DecisionConfirmSent then
        paid_out L (p_id p) (p_account_id p) (p_amount_micros p) (p_currency p) (p_transaction_id p)
          (confirmed_ref p (rr_GatewayRef req)) now d d'
      else review_refunded p now d d')"

lemma ResolveManualReview_tx_resolved:
  assumes "ResolveManualReview_tx L req decision w = (Inr u, w')" and "schema_ok (wdb w)"
    and "decision = DecisionConfirmSent \<or> decision = DecisionRefundFailed"
  obtains p where "resolved L req decision p (wnow w) (wdb w) (wdb w')"
proof -
  let ?md = "Some (marshalReasonMetadata (rr_Reason req))"
  obtain p w1 where lock: "lock_payout (rr_PayoutID req) w = (Inr p, w1)"
    and status: "p_status p = PayoutStatusManualReview"
    and rest: "(if decision = DecisionConfirmSent then
       applyManualReviewConfirmation L p (p_transaction_id p) (rr_ActorID req) ?md (rr_GatewayRef req)
     else applyManualReviewRefund p (p_transaction_id p) (rr_ActorID req) ?md) w1 = (Inr u, w')"
    using assms(1,3) unfolding ResolveManualReview_tx_def Let_def
    by (auto split: if_splits elim!: throw_ok bind_ok [of "lock_payout i" for i])
  note l = lock_payout_ok [OF lock]
  have "p_id p = rr_PayoutID req" using sel_one_Some [OF l(1)] by simp
  moreover have "distinct (map a_id (accounts (wdb w)))" using assms(2) by (simp add: schema_ok_def)
  ultimately show thesis
    using that [of p] l status rest confirmation_paid [of L p "rr_ActorID req" ?md "rr_GatewayRef req" w1 u w']
      refund_refunded [of p "rr_ActorID req" ?md w1 u w']
    by (auto simp: resolved_def split: if_splits)
qed

text \<open>
  C13. Resolving a payout either changes nothing, or the payout was in MANUAL_REVIEW and the
  decision has been carried out completely: on \<open>confirm_sent\<close> the locked amount is paid out with its
  two entries and transaction and payout are COMPLETED; on \<open>refund_failed\<close> the amount is unlocked
  if it is locked, and transaction and payout are FAILED. The decision is read without regard to
  case and surrounding space, and any other decision changes nothing.
\<close>

theorem ResolveManualReviewPayout_all_or_nothing:
  assumes "ResolveManualReviewPayout L req w = (r, w')" and "schema_ok (wdb w)"
  shows "unchanged (wdb w) (wdb w') \<or>
    (\<exists>p now d'. ToLower (TrimSpace (rr_Decision req)) \<in> {''confirm_sent'', ''refund_failed''} \<and>
       resolved L req (ToLower (TrimSpace (rr_Decision req))) p now (wdb w) d' \<and> unchanged d' (wdb w'))"
proof -
  define decision where "decision = ToLower (TrimSpace (rr_Decision req))"
  show ?thesis
  proof (cases "decision = DecisionConfirmSent \<or> decision = DecisionRefundFailed")
    case False
    with assms(1) show ?thesis
      by (auto simp: ResolveManualReviewPayout_def Let_def decision_def throw_def)
  next
    case True
    define tail where "tail = (\<lambda>u :: unit. bind (IncrementManualReviewTransition decision) (\<lambda>_.
      PayoutService_GetPayout (rr_PayoutID req)))"
    have run: "bind (RunInTx (ResolveManualReview_tx L req decision)) tail w = (r, w')"
      using assms(1) True by (auto simp: ResolveManualReviewPayout_def Let_def decision_def tail_def)
    have idle_tail: "unchanged (wdb w1) (wdb (snd (tail u w1)))" for u w1
    proof -
      have "frame unchanged (tail u)" unfolding tail_def by (intro frame_intros)
      then show ?thesis by (simp add: frame_def)
    qed
    obtain x w1 where tx: "RunInTx (ResolveManualReview_tx L req decision) w = (x, w1)" by (metis surj_pair)
    have rest: "unchanged (wdb w1) (wdb w')"
      using run tx idle_tail [of w1] by (cases x) (auto simp: bind_def)
    from tx show ?thesis
    proof (cases rule: RunInTx_atomic)
      case (rolled_back n e)
      then show ?thesis using rest by (auto simp: unchanged_def)
    next
      case (committed a w2 w3)
      obtain p where "resolved L req decision p (wnow w2) (wdb w) (wdb w3)"
        using ResolveManualReview_tx_resolved [OF committed(3)] assms(2) True committed(2) by auto
      then show ?thesis
        using True rest committed(4) unfolding decision_def DecisionConfirmSent_def DecisionRefundFailed_def by auto
    qed
  qed
qed

end
