(* ===== verification/Digest.thy ===== *)
theory Digest
  imports Prelude "HOL-Library.Word"
begin

text \<open>
  The digests of Go's standard library that the program uses: \<open>crypto/sha256\<close> and
  \<open>crypto/hmac\<close> (FIPS 180-4 and RFC 2104) on strings of bytes, and \<open>encoding/hex\<close>.
\<close>

unbundle bit_operations_syntax

subsection \<open>Hexadecimal text\<close>

definition hex_digit :: "nat \<Rightarrow> char" where
  "hex_digit n = (if n < 10 then char_of (48 + n) else char_of (87 + n))"

definition EncodeToString :: "string \<Rightarrow> string" where
  "EncodeToString bs =
     concat (map (\<lambda>b. let n = (of_char b :: nat) in [hex_digit (n div 16), hex_digit (n mod 16)]) bs)"

subsection \<open>SHA-256\<close>

type_synonym word32 = "32 word"

definition sha256_K :: "word32 list" where
  "sha256_K =
    [0x428a2f98, 0x71374491, 0xb5c0fbcf, 0xe9b5dba5, 0x3956c25b, 0x59f111f1, 0x923f82a4, 0xab1c5ed5,
     0xd807aa98, 0x12835b01, 0x243185be, 0x550c7dc3, 0x72be5d74, 0x80deb1fe, 0x9bdc06a7, 0xc19bf174,
     0xe49b69c1, 0xefbe4786, 0x0fc19dc6, 0x240ca1cc, 0x2de92c6f, 0x4a7484aa, 0x5cb0a9dc, 0x76f988da,
     0x983e5152, 0xa831c66d, 0xb00327c8, 0xbf597fc7, 0xc6e00bf3, 0xd5a79147, 0x06ca6351, 0x14292967,
     0x27b70a85, 0x2e1b2138, 0x4d2c6dfc, 0x53380d13, 0x650a7354, 0x766a0abb, 0x81c2c92e, 0x92722c85,
     0xa2bfe8a1, 0xa81a664b, 0xc24b8b70, 0xc76c51a3, 0xd192e819, 0xd6990624, 0xf40e3585, 0x106aa070,
     0x19a4c116, 0x1e376c08, 0x2748774c, 0x34b0bcb5, 0x391c0cb3, 0x4ed8aa4a, 0x5b9cca4f, 0x682e6ff3,
     0x748f82ee, 0x78a5636f, 0x84c87814, 0x8cc70208, 0x90befffa, 0xa4506ceb, 0xbef9a3f7, 0xc67178f2]"

definition sha256_init :: "word32 list" where
  "sha256_init =
    [0x6a09e667, 0xbb67ae85, 0x3c6ef372, 0xa54ff53a,
     0x510e527f, 0x9b05688c, 0x1f83d9ab, 0x5be0cd19]"

definition rotr :: "nat \<Rightarrow> word32 \<Rightarrow> word32" where
  "rotr n x = drop_bit n x OR push_bit (32 - n) x"

definition bytes_to_word :: "char \<Rightarrow> char \<Rightarrow> char \<Rightarrow> char \<Rightarrow> word32" where
  "bytes_to_word a b c d =
     word_of_int (((of_char a * 256 + of_char b) * 256 + of_char c) * 256 + of_char d)"

fun block_words :: "string \<Rightarrow> word32 list" where
  "block_words (a # b # c # d # bs) = bytes_to_word a b c d # block_words bs"
| "block_words _ = []"

text \<open>
  The message schedule, with the last sixteen words kept with the newest first, and the
  compression of one block.
\<close>

definition next_word :: "word32 list \<Rightarrow> word32" where
  "next_word ws =
     (let w2 = ws ! 1; w7 = ws ! 6; w15 = ws ! 14; w16 = ws ! 15;
          s0 = rotr 7 w15 XOR rotr 18 w15 XOR drop_bit 3 w15;
          s1 = rotr 17 w2 XOR rotr 19 w2 XOR drop_bit 10 w2
      in w16 + s0 + w7 + s1)"

fun extend :: "nat \<Rightarrow> word32 list \<Rightarrow> word32 list" where
  "extend 0 ws = ws"
| "extend (Suc n) ws = extend n (next_word ws # ws)"

definition schedule :: "string \<Rightarrow> word32 list" where
  "schedule block = rev (extend 48 (rev (block_words block)))"

fun sha256_round :: "word32 \<times> word32 \<Rightarrow> word32 list \<Rightarrow> word32 list" where
  "sha256_round (k, w) [a, b, c, d, e, f, g, h] =
     (let S1 = rotr 6 e XOR rotr 11 e XOR rotr 25 e;
          ch = (e AND f) XOR (NOT e AND g);
          t1 = h + S1 + ch + k + w;
          S0 = rotr 2 a XOR rotr 13 a XOR rotr 22 a;
          maj = (a AND b) XOR (a AND c) XOR (b AND c);
          t2 = S0 + maj
      in [t1 + t2, a, b, c, d + t1, e, f, g])"
| "sha256_round kw s = s"

definition compress :: "string \<Rightarrow> word32 list \<Rightarrow> word32 list" where
  "compress block hs = map2 (+) hs (fold sha256_round (zip sha256_K (schedule block)) hs)"

fun blocks :: "nat \<Rightarrow> string \<Rightarrow> string list" where
  "blocks 0 bs = []"
| "blocks (Suc n) bs = take 64 bs # blocks n (drop 64 bs)"

definition word_bytes :: "nat \<Rightarrow> int \<Rightarrow> string" where
  "word_bytes n x = map (\<lambda>i. char_of (x div 256 ^ (n - 1 - i))) [0..<n]"

definition sha256_pad :: "string \<Rightarrow> string" where
  "sha256_pad m = m @ [char_of (128 :: int)] @ replicate ((119 - length m mod 64) mod 64) (char_of (0 :: int)) @
     word_bytes 8 (8 * int (length m))"

definition sha256_Sum :: "string \<Rightarrow> string" where
  "sha256_Sum m =
     (let p = sha256_pad m in
      concat (map (\<lambda>w. word_bytes 4 (uint w)) (fold compress (blocks (length p div 64) p) sha256_init)))"

subsection \<open>HMAC\<close>

definition xor_byte :: "int \<Rightarrow> char \<Rightarrow> char" where
  "xor_byte n c = char_of (n XOR of_char c)"

definition hmac_sha256 :: "string \<Rightarrow> string \<Rightarrow> string" where
  "hmac_sha256 key m =
     (let k = (if length key > 64 then sha256_Sum key else key);
          k' = k @ replicate (64 - length k) (char_of (0 :: int))
      in sha256_Sum (map (xor_byte 0x5C) k' @ sha256_Sum (map (xor_byte 0x36) k' @ m)))"

lemma sha256_round_length [simp]: "length (sha256_round kw s) = length s"
  by (cases "(kw, s)" rule: sha256_round.cases) (simp_all add: Let_def)

end
