(* ===== verification/Webhook.thy ===== *)
theory Webhook
  imports ManualReview Digest
begin

text \<open>
  The deposit webhook (\<open>internal/service/webhook.go\<close>): signature check, decoding and validation of
  the payload, replay of a known reference, and the deposit itself. The digest and
  the JSON reader are those of \<open>Digest\<close> and \<open>Json\<close>.
\<close>

subsection \<open>Signature\<close>

record WebhookService =
  hmacKey :: string
  skipSig :: bool

definition verifyHMAC :: "WebhookService \<Rightarrow> string \<Rightarrow> string \<Rightarrow> bool" where
  "verifyHMAC s payload signature =
     (if skipSig s then True
      else if hmacKey s = '''' then False
      else signature = ''sha256='' @ EncodeToString (hmac_sha256 (hmacKey s) payload))"

subsection \<open>Payload\<close>

record DepositWebhookPayload =
  dw_AccountID :: string
  dw_AmountMicros :: int
  dw_Currency :: string
  dw_Reference :: string

text \<open>\<open>json.Unmarshal\<close> into the struct. The text of the decoder's type error is abbreviated.\<close>

definition unmarshal_deposit :: "string \<Rightarrow> string + DepositWebhookPayload" where
  "unmarshal_deposit payload =
     (case json_Unmarshal payload of
        Inl m \<Rightarrow> Inl m
      | Inr JNull \<Rightarrow> Inr \<lparr>dw_AccountID = '''', dw_AmountMicros = 0, dw_Currency = '''', dw_Reference = ''''\<rparr>
      | Inr (JObject ms) \<Rightarrow>
          (let (ok1, accountID) = unmarshal_string ''account_id'' ms (True, '''');
               (ok2, amount) = unmarshal_int64 ''amount_micros'' ms (True, 0);
               (ok3, currency) = unmarshal_string ''currency'' ms (True, '''');
               (ok4, reference) = unmarshal_string ''reference'' ms (True, '''')
           in if ok1 \<and> ok2 \<and> ok3 \<and> ok4 then
                Inr \<lparr>dw_AccountID = accountID, dw_AmountMicros = amount, dw_Currency = currency,
                     dw_Reference = reference\<rparr>
              else Inl ''json: cannot unmarshal value into Go struct field'')
      | Inr _ \<Rightarrow> Inl ''json: cannot unmarshal value into Go value'')"

definition isValidCurrency :: "string \<Rightarrow> bool" where
  "isValidCurrency currency \<longleftrightarrow> currency = ''USD'' \<or> currency = ''EUR'' \<or> currency = ''GBP''"

text \<open>\<open>json.Unmarshal\<close> into \<open>map[string]string\<close>.\<close>

fun unmarshal_string_map :: "(string \<times> json) list \<Rightarrow> (string \<rightharpoonup> string) \<Rightarrow> (string \<rightharpoonup> string) option" where
  "unmarshal_string_map [] acc = Some acc"
| "unmarshal_string_map ((k, v) # ms) acc =
     (case v of
        JString s \<Rightarrow> unmarshal_string_map ms (acc(k \<mapsto> s))
      | JNull \<Rightarrow> unmarshal_string_map ms (acc(k \<mapsto> ''''))
      | _ \<Rightarrow> None)"

definition metadataMatchesDepositAccount :: "json option \<Rightarrow> string \<Rightarrow> bool" where
  "metadataMatchesDepositAccount metadata accountID =
     (let txMeta = (case metadata of
            Some (JObject ms) \<Rightarrow> unmarshal_string_map ms Map.empty
          | Some JNull \<Rightarrow> Some Map.empty
          | _ \<Rightarrow> None)
      in case txMeta of
           None \<Rightarrow> False
         | Some f \<Rightarrow>
             (let metadataAccountID = TrimSpace (case f ''account_id'' of None \<Rightarrow> '''' | Some s \<Rightarrow> s)
              in metadataAccountID \<noteq> '''' \<and> metadataAccountID = TrimSpace accountID))"

subsection \<open>Replay\<close>

record DepositWebhookResponse =
  TransactionID :: uuid
  dr_Status :: string
  dr_Message :: string

definition evaluateExistingDepositReference ::
  "DepositWebhookPayload \<Rightarrow> transaction_row \<Rightarrow> (DepositWebhookResponse option \<times> bool \<times> uuid) m" where
  "evaluateExistingDepositReference deposit existingTxRow =
     (if t_type existingTxRow \<noteq> TxTypeDeposit \<or> t_amount existingTxRow \<noteq> dw_AmountMicros deposit \<or>
         t_currency existingTxRow \<noteq> dw_Currency deposit then throw ErrDepositPayloadMismatch
      else
      bind (wrapf ''failed to load existing transaction metadata: ''
        (auto_exec (GetTransaction (t_id existingTxRow)))) (\<lambda>txDetails.
      if \<not> metadataMatchesDepositAccount (t_metadata txDetails) (dw_AccountID deposit) then
        throw ErrDepositPayloadMismatch
      else
      let status = ToUpper (t_status existingTxRow) in
      if status = TxStatusCompleted then
        ret (Some \<lparr>TransactionID = t_id existingTxRow, dr_Status = t_status existingTxRow,
                  dr_Message = ''Deposit already processed''\<rparr>, False, uuid_Nil)
      else if status = TxStatusPending \<or> status = TxStatusProcessing then throw ErrDepositInProgress
      else if status = TxStatusFailed then ret (None, True, t_id existingTxRow)
      else throw (Msg (''existing reference in unsupported state: '' @ t_status existingTxRow))))"

definition transitionState :: "uuid \<Rightarrow> string \<Rightarrow> string \<Rightarrow> json option \<Rightarrow> unit m" where
  "transitionState transactionID nextState action metadata =
     RunInTx (transitionTransactionState transactionID nextState None action metadata)"

subsection \<open>The deposit\<close>

definition deposit_metadata :: "DepositWebhookPayload \<Rightarrow> json" where
  "deposit_metadata deposit =
     JObject [(''account_id'', JString (dw_AccountID deposit)),
       (''webhook_reference'', JString (dw_Reference deposit))]"

definition deposit_transaction :: "DepositWebhookPayload \<Rightarrow> bool \<Rightarrow> uuid \<Rightarrow> unit m" where
  "deposit_transaction deposit retryExisting transactionID =
     (let metadataJson = Some (deposit_metadata deposit) in
      if retryExisting then
        wrapf ''failed to transition retry transaction: ''
          (transitionTransactionState transactionID TxStatusProcessing None ''retry_processing_started''
             metadataJson)
      else
      bind (wrapf ''failed to create transaction: ''
        (exec (CreateTransaction transactionID (dw_AmountMicros deposit) (dw_Currency deposit)
           TxTypeDeposit TxStatusPending (dw_Reference deposit) None metadataJson))) (\<lambda>_.
      bind (audit_Write ''transaction'' transactionID None ''created'' '''' TxStatusPending metadataJson) (\<lambda>_.
      wrapf ''failed to transition transaction to processing: ''
        (transitionTransactionState transactionID TxStatusProcessing None ''processing_started'' None))))"

definition deposit_postings :: "DepositWebhookPayload \<Rightarrow> uuid \<Rightarrow> uuid \<Rightarrow> uuid \<Rightarrow> unit m" where
  "deposit_postings deposit accountID systemAccountID transactionID =
     bind uuid_New (\<lambda>debitID.
     bind (wrapf ''failed to create system debit entry: ''
       (exec (CreateEntry debitID transactionID systemAccountID (dw_AmountMicros deposit) DirectionDebit))) (\<lambda>_.
     bind uuid_New (\<lambda>creditID.
     bind (wrapf ''failed to create user credit entry: ''
       (exec (CreateEntry creditID transactionID accountID (dw_AmountMicros deposit) DirectionCredit))) (\<lambda>_.
     bind (wrapf ''failed to update user balance: ''
       (exec (UpdateAccountBalance (dw_AmountMicros deposit) accountID))) (\<lambda>rows.
     bind (requireExactlyOne rows ''credit deposit account'') (\<lambda>_.
     bind (wrapf ''failed to update system balance: ''
       (exec (UpdateAccountBalance (wrap64 (- dw_AmountMicros deposit)) systemAccountID))) (\<lambda>rows.
     requireExactlyOne rows ''debit system liquidity account'')))))))"

definition HandleDeposit_tx :: "DepositWebhookPayload \<Rightarrow> uuid \<Rightarrow> uuid \<Rightarrow> bool \<Rightarrow> uuid \<Rightarrow> unit m" where
  "HandleDeposit_tx deposit accountID systemAccountID retryExisting transactionID =
     bind (wrapf ''failed to lock account: '' (exec (GetAccountBalanceAndLocked accountID)))
       (\<lambda>(balance, lockedMicros, currency).
     if currency \<noteq> dw_Currency deposit then
       throw (Wrap '''' ErrInvalidWebhookPayload ('': currency mismatch: account is '' @ currency @
         '', deposit is '' @ dw_Currency deposit))
     else
     bind (deposit_transaction deposit retryExisting transactionID) (\<lambda>_.
     bind (deposit_postings deposit accountID systemAccountID transactionID) (\<lambda>_.
     wrapf ''failed to complete webhook transaction: ''
       (transitionTransactionState transactionID TxStatusCompleted None ''completed'' None))))"

text \<open>What follows a failed transaction: the race on the reference, or the failed state.\<close>

definition resolve_deposit_failure ::
  "DepositWebhookPayload \<Rightarrow> bool \<Rightarrow> uuid \<Rightarrow> err \<Rightarrow> DepositWebhookResponse m" where
  "resolve_deposit_failure deposit retryExisting transactionID err =
     (if \<not> retryExisting \<and> isUniqueViolation err then
        bind (attempt (auto_exec (CheckTransactionIdempotency (dw_Reference deposit)))) (\<lambda>found.
        case found of
          Inr existing \<Rightarrow>
            bind (evaluateExistingDepositReference deposit existing) (\<lambda>(replayResp, shouldRetry, _).
            case replayResp of
              Some resp \<Rightarrow> ret resp
            | None \<Rightarrow> throw ErrDepositInProgress)
        | Inl lookupErr \<Rightarrow>
            if \<not> errors_Is lookupErr ErrNoRows then
              throw (Wrap ''failed to resolve duplicate deposit reference: '' lookupErr '''')
            else throw ErrDepositInProgress)
      else if \<not> retryExisting then
        bind (attempt (transitionState transactionID TxStatusFailed ''failed''
          (Some (JObject [(''reason'', JString ''deposit_failed'')])))) (\<lambda>marked.
        case marked of
          Inl failErr \<Rightarrow>
            if \<not> errors_Is failErr ErrNoRows then
              throw (Wrap ''deposit failed: '' err ('' (status update failed: '' @ Error failErr @ '')''))
            else throw err
        | Inr _ \<Rightarrow> throw err)
      else throw err)"

definition process_deposit ::
  "lib \<Rightarrow> DepositWebhookPayload \<Rightarrow> uuid \<Rightarrow> bool \<Rightarrow> uuid \<Rightarrow> DepositWebhookResponse m" where
  "process_deposit L deposit accountID retryExisting transactionID =
     bind (wrapf ''failed to get system account: '' (lift_sum (getSystemAccountID L (dw_Currency deposit))))
       (\<lambda>systemAccountID.
     bind (attempt (RunInTx (HandleDeposit_tx deposit accountID systemAccountID retryExisting transactionID)))
       (\<lambda>result.
     case result of
       Inl err \<Rightarrow> resolve_deposit_failure deposit retryExisting transactionID err
     | Inr _ \<Rightarrow>
         ret \<lparr>TransactionID = transactionID, dr_Status = TxStatusCompleted,
              dr_Message = ''Deposit processed successfully''\<rparr>))"

text \<open>Decoding, normalisation and validation of the payload, up to the parsed account.\<close>

definition decode_deposit :: "lib \<Rightarrow> string \<Rightarrow> err + DepositWebhookPayload \<times> uuid" where
  "decode_deposit L payload =
     (case unmarshal_deposit payload of
        Inl m \<Rightarrow> Inl (Wrap '''' ErrInvalidWebhookPayload ('': invalid payload: '' @ m))
      | Inr raw \<Rightarrow>
          (let deposit = raw\<lparr>dw_Currency := ToUpper (TrimSpace (dw_Currency raw)),
                 dw_Reference := TrimSpace (dw_Reference raw),
                 dw_AccountID := TrimSpace (dw_AccountID raw)\<rparr> in
           if dw_AmountMicros deposit \<le> 0 then
             Inl (Wrap '''' ErrInvalidWebhookPayload ('': invalid amount: '' @ show_int (dw_AmountMicros deposit)))
           else if dw_Reference deposit = '''' then
             Inl (Wrap '''' ErrInvalidWebhookPayload '': reference is required'')
           else if dw_AccountID deposit = '''' then
             Inl (Wrap '''' ErrInvalidWebhookPayload '': account_id is required'')
           else if \<not> isValidCurrency (dw_Currency deposit) then
             Inl (Wrap '''' ErrInvalidWebhookPayload ('': unsupported currency: '' @ dw_Currency deposit))
           else (case uuid_Parse L (dw_AccountID deposit) of
               Inl m \<Rightarrow> Inl (Wrap '''' ErrInvalidWebhookPayload ('': invalid account_id: '' @ m))
             | Inr accountID \<Rightarrow> Inr (deposit, accountID))))"

definition HandleDepositWebhook ::
  "lib \<Rightarrow> WebhookService \<Rightarrow> string \<Rightarrow> string \<Rightarrow> DepositWebhookResponse m" where
  "HandleDepositWebhook L s payload signature =
     (if \<not> verifyHMAC s payload signature then throw ErrInvalidSignature
      else
      bind (lift_sum (decode_deposit L payload)) (\<lambda>(deposit, accountID).
      bind (attempt (auto_exec (CheckTransactionIdempotency (dw_Reference deposit)))) (\<lambda>found.
      case found of
        Inl err \<Rightarrow>
          if \<not> errors_Is err ErrNoRows then throw (Wrap ''failed to check idempotency: '' err '''')
          else
          bind uuid_New (\<lambda>transactionID.
          process_deposit L deposit accountID False transactionID)
      | Inr existingTxRow \<Rightarrow>
          bind uuid_New (\<lambda>transactionID.
          bind (evaluateExistingDepositReference deposit existingTxRow)
            (\<lambda>(replayResp, shouldRetry, existingTxID).
          case replayResp of
            Some resp \<Rightarrow> ret resp
          | None \<Rightarrow>
              if shouldRetry then process_deposit L deposit accountID True existingTxID
              else process_deposit L deposit accountID False transactionID)))))"

subsection \<open>Built from the statements of the repository\<close>

context ledger_frame
begin

lemma frame_evaluateExistingDepositReference [frame_intros]:
  "frame R (evaluateExistingDepositReference dp row)"
  unfolding evaluateExistingDepositReference_def by (intro frame_intros)

lemma frame_transitionState [frame_intros]: "frame R (transitionState i ns a md)"
  unfolding transitionState_def by (intro frame_intros)

lemma frame_deposit_transaction [frame_intros]: "frame R (deposit_transaction dp b i)"
  unfolding deposit_transaction_def by (intro frame_intros)

lemma frame_HandleDeposit_tx [frame_intros]: "frame R (HandleDeposit_tx dp k s b i)"
  unfolding HandleDeposit_tx_def deposit_postings_def by (intro frame_intros)

lemma frame_process_deposit [frame_intros]: "frame R (process_deposit L dp k b i)"
  unfolding process_deposit_def resolve_deposit_failure_def by (intro frame_intros)

lemma frame_HandleDepositWebhook [frame_intros]: "frame R (HandleDepositWebhook L s payload sig)"
  unfolding HandleDepositWebhook_def by (intro frame_intros)

end

subsection \<open>The money movement\<close>

lemma still_deposit_transaction [frame_intros]: "frame same_ledger (deposit_transaction dp b i)"
  unfolding deposit_transaction_def by (intro frame_intros)

definition deposit_move :: "uuid \<Rightarrow> uuid \<Rightarrow> int \<Rightarrow> ledger \<Rightarrow> ledger" where
  "deposit_move k s x v = move s (- x) (move k x v)"

lemma deposit_postings_moves:
  assumes "in_int64 (dw_AmountMicros dp)" and "0 < dw_AmountMicros dp"
  shows "moves (deposit_postings dp k s i) (deposit_move k s (dw_AmountMicros dp))"
proof -
  let ?x = "dw_AmountMicros dp"
  have neg: "wrap64 (- ?x) = - ?x" using assms by (simp add: in_int64_def)
  have "moves (deposit_postings dp k s i)
    (\<lambda>v. credit s (- ?x) (credit k ?x (post k ?x (post s (- ?x) v))))"
    unfolding deposit_postings_def neg by (rule moves_rules | intro frame_intros)+
  moreover have "post k ?x (post s (- ?x) v) = post s (- ?x) (post k ?x v)" for v
    by (rule ledger_eqI) (auto simp: fun_eq_iff)
  ultimately show ?thesis by (simp add: deposit_move_def [abs_def] move_def post_credit)
qed

lemma HandleDeposit_tx_moves:
  assumes "in_int64 (dw_AmountMicros dp)" and "0 < dw_AmountMicros dp"
  shows "moves (HandleDeposit_tx dp k s b i) (deposit_move k s (dw_AmountMicros dp))"
  unfolding HandleDeposit_tx_def
  by (rule deposit_postings_moves [OF assms] moves_rules | intro frame_intros)+

lemma deposit_postings_posts:
  "posts (deposit_postings dp k s i)
     [(i, s, dw_AmountMicros dp, DirectionDebit), (i, k, dw_AmountMicros dp, DirectionCredit)]"
  unfolding deposit_postings_def by (rule posts_eq, (rule posts_rules)+) simp

subsection \<open>The effect of a deposit\<close>

lemma HandleDeposit_tx_reads:
  assumes "HandleDeposit_tx dp k s b i w = (Inr u, w')"
  obtains r w1 where "acct (wdb w) k = Some r" and "a_currency r = dw_Currency dp"
    and "wdb w1 = wdb w" and "wnow w1 = wnow w"
    and "bind (deposit_transaction dp b i) (\<lambda>_. bind (deposit_postings dp k s i) (\<lambda>_.
      wrapf ''failed to complete webhook transaction: ''
        (transitionTransactionState i TxStatusCompleted None ''completed'' None))) w1 = (Inr u, w')"
  using assms unfolding HandleDeposit_tx_def
  by (rule exec_then_ok)
    (auto simp: GetAccountBalanceAndLocked_def split: prod.splits if_splits option.splits elim!: throw_ok intro: that)

text \<open>
  A deposit: the account has the currency, its balance rises and the balance of the system account
  falls by the amount, and a new COMPLETED transaction with its entries and audit trail is stored.
\<close>

definition deposited :: "DepositWebhookPayload \<Rightarrow> uuid \<Rightarrow> uuid \<Rightarrow> uuid \<Rightarrow> int \<Rightarrow> db \<Rightarrow> db \<Rightarrow> bool" where
  "deposited dp k s i now d d' \<longleftrightarrow>
     (\<exists>r. acct d k = Some r \<and> a_currency r = dw_Currency dp) \<and>
     view d' = deposit_move k s (dw_AmountMicros dp) (view d) \<and>
     completed_in d d' (completed_row i (dw_AmountMicros dp) (dw_Currency dp) TxTypeDeposit (dw_Reference dp)
         (Some (deposit_metadata dp)) now)
       [(i, s, dw_AmountMicros dp, DirectionDebit), (i, k, dw_AmountMicros dp, DirectionCredit)]
       (completed_trail (audit_seq d) now i (Some (deposit_metadata dp)))"

lemma HandleDeposit_tx_deposited:
  assumes "HandleDeposit_tx dp k s False i w = (Inr u, w')"
    and "in_int64 (dw_AmountMicros dp)" and "0 < dw_AmountMicros dp"
  shows "deposited dp k s i (wnow w) (wdb w) (wdb w')"
proof -
  obtain r w1 where reads: "acct (wdb w) k = Some r" "a_currency r = dw_Currency dp" "wdb w1 = wdb w" "wnow w1 = wnow w"
    and rest: "bind (deposit_transaction dp False i) (\<lambda>_. bind (deposit_postings dp k s i) (\<lambda>_.
      wrapf ''failed to complete webhook transaction: ''
        (transitionTransactionState i TxStatusCompleted None ''completed'' None))) w1 = (Inr u, w')"
    using assms(1) by (rule HandleDeposit_tx_reads)
  have "bind (wrapf ''failed to create transaction: ''
        (exec (CreateTransaction i (dw_AmountMicros dp) (dw_Currency dp)
           TxTypeDeposit TxStatusPending (dw_Reference dp) None (Some (deposit_metadata dp))))) (\<lambda>_.
      bind (audit_Write ''transaction'' i None ''created'' '''' TxStatusPending (Some (deposit_metadata dp))) (\<lambda>_.
      bind (wrapf ''failed to transition transaction to processing: ''
        (transitionTransactionState i TxStatusProcessing None ''processing_started'' None)) (\<lambda>_.
      bind (deposit_postings dp k s i) (\<lambda>_.
      bind (wrapf ''failed to complete webhook transaction: ''
        (transitionTransactionState i TxStatusCompleted None ''completed'' None)) ret)))) w1 = (Inr u, w')"
    using rest by (simp add: deposit_transaction_def Let_def bind_assoc)
  then obtain w2 where "ret () w2 = (Inr u, w')"
    and "completed_in (wdb w1) (wdb w2) (completed_row i (dw_AmountMicros dp) (dw_Currency dp) TxTypeDeposit
        (dw_Reference dp) (Some (deposit_metadata dp)) (wnow w1))
      [(i, s, dw_AmountMicros dp, DirectionDebit), (i, k, dw_AmountMicros dp, DirectionCredit)]
      (completed_trail (audit_seq (wdb w1)) (wnow w1) i (Some (deposit_metadata dp)))"
    by (rule complete_ok [OF _ deposit_postings_posts]) blast
  moreover have "view (wdb w') = deposit_move k s (dw_AmountMicros dp) (view (wdb w))"
    using HandleDeposit_tx_moves [OF assms(2,3)] assms(1) by (rule movesD)
  ultimately show ?thesis using reads by (auto simp: deposited_def elim!: ret_ok)
qed

text \<open>A retried deposit: the FAILED transaction that exists is completed with a deposit's postings.\<close>

definition redeposited :: "DepositWebhookPayload \<Rightarrow> uuid \<Rightarrow> uuid \<Rightarrow> uuid \<Rightarrow> db \<Rightarrow> db \<Rightarrow> bool" where
  "redeposited dp k s i d d' \<longleftrightarrow>
     (\<exists>r. acct d k = Some r \<and> a_currency r = dw_Currency dp) \<and>
     view d' = deposit_move k s (dw_AmountMicros dp) (view d) \<and>
     (\<exists>es. entries d' = entries d @ es \<and> map posting_of es =
       [(i, s, dw_AmountMicros dp, DirectionDebit), (i, k, dw_AmountMicros dp, DirectionCredit)]) \<and>
     (\<exists>r'. txn d' i = Some r' \<and> normalizeState (t_status r') = TxStatusCompleted) \<and>
     (\<forall>j. j \<noteq> i \<longrightarrow> txn d' j = txn d j) \<and> payouts d' = payouts d"

lemma HandleDeposit_tx_redeposited:
  assumes "HandleDeposit_tx dp k s True i w = (Inr u, w')"
    and "in_int64 (dw_AmountMicros dp)" and "0 < dw_AmountMicros dp"
  shows "redeposited dp k s i (wdb w) (wdb w')"
proof -
  obtain r w1 where reads: "acct (wdb w) k = Some r" "a_currency r = dw_Currency dp" "wdb w1 = wdb w" "wnow w1 = wnow w"
    and rest: "bind (deposit_transaction dp True i) (\<lambda>_. bind (deposit_postings dp k s i) (\<lambda>_.
      wrapf ''failed to complete webhook transaction: ''
        (transitionTransactionState i TxStatusCompleted None ''completed'' None))) w1 = (Inr u, w')"
    using assms(1) by (rule HandleDeposit_tx_reads)
  then obtain w2 w3 where
      t1: "transitionTransactionState i TxStatusProcessing None ''retry_processing_started''
        (Some (deposit_metadata dp)) w1 = (Inr (), w2)"
    and post: "deposit_postings dp k s i w2 = (Inr (), w3)"
    and t2: "transitionTransactionState i TxStatusCompleted None ''completed'' None w3 = (Inr u, w')"
    by (auto simp: deposit_transaction_def Let_def elim!: transition_then_ok bind_ok wrapf_ok)
  note a = transition_reaches [OF t1] and b = transition_reaches [OF t2]
  obtain es where p: "only_posts (wdb w2) (wdb w3)" "entries (wdb w3) = entries (wdb w2) @ es"
      "map posting_of es = [(i, s, dw_AmountMicros dp, DirectionDebit), (i, k, dw_AmountMicros dp, DirectionCredit)]"
    using deposit_postings_posts post by (rule postsD)
  have "view (wdb w') = deposit_move k s (dw_AmountMicros dp) (view (wdb w))"
    using HandleDeposit_tx_moves [OF assms(2,3)] assms(1) by (rule movesD)
  then show ?thesis
    unfolding redeposited_def using reads a b p by (auto simp: same_ledger_def only_posts_def)
qed

subsection \<open>The whole operation\<close>

text \<open>The answer to a replayed webhook: the completed deposit recorded under the reference.\<close>

definition deposit_answer :: "DepositWebhookPayload \<Rightarrow> db \<Rightarrow> err + DepositWebhookResponse \<Rightarrow> bool" where
  "deposit_answer dp d r \<longleftrightarrow> (\<forall>resp. r = Inr resp \<longrightarrow>
     (\<exists>row. sel_one t_reference_id (dw_Reference dp) (transactions d) = Some row \<and> t_type row = TxTypeDeposit \<and>
        t_amount row = dw_AmountMicros dp \<and> t_currency row = dw_Currency dp \<and>
        ToUpper (t_status row) = TxStatusCompleted \<and>
        resp = \<lparr>TransactionID = t_id row, dr_Status = t_status row, dr_Message = ''Deposit already processed''\<rparr>))"

lemma deposit_answer_Inl [simp]: "deposit_answer dp d (Inl e)"
  by (simp add: deposit_answer_def)

lemma deposit_answer_unchanged: "unchanged d d' \<Longrightarrow> deposit_answer dp d' r \<longleftrightarrow> deposit_answer dp d r"
  by (simp add: deposit_answer_def unchanged_tables)

lemma evaluate_idle: "evaluateExistingDepositReference dp row w = (x, w') \<Longrightarrow> wdb w' = wdb w"
  unfolding evaluateExistingDepositReference_def
  by (auto simp: control_defs Let_def GetTransaction_def auto_exec_def split: if_splits prod.splits sum.splits
        fault.splits option.splits)

lemma evaluate_cases:
  assumes "evaluateExistingDepositReference dp row w = (Inr (resp, retry, i), w')"
  obtains (replay) "t_type row = TxTypeDeposit" and "t_amount row = dw_AmountMicros dp" and "t_currency row = dw_Currency dp"
      and "ToUpper (t_status row) = TxStatusCompleted"
      and "resp = Some \<lparr>TransactionID = t_id row, dr_Status = t_status row, dr_Message = ''Deposit already processed''\<rparr>"
    | (retry) "resp = None" and "retry" and "i = t_id row" and "ToUpper (t_status row) = TxStatusFailed"
  using assms unfolding evaluateExistingDepositReference_def Let_def
  by (auto split: if_splits elim!: throw_ok ret_ok bind_ok wrapf_ok)

text \<open>Marking as FAILED finds no transaction, or a completed one: it never takes effect.\<close>

lemma mark_failed_idle:
  assumes "transitionState i TxStatusFailed act md w = (x, w')"
    and "\<And>r. txn (wdb w) i = Some r \<Longrightarrow> t_status r = TxStatusCompleted"
  shows "unchanged (wdb w) (wdb w')" and "\<exists>e. x = Inl e"
proof -
  have "unchanged (wdb w) (wdb w') \<and> (\<exists>e. x = Inl e)"
    using assms(1) unfolding transitionState_def
  proof (cases rule: RunInTx_atomic)
    case (rolled_back n e) then show ?thesis by (auto simp: unchanged_def)
  next
    case (committed a w1 w2)
    from committed(3) have False
      using assms(2) committed(2)
      by (cases rule: transition_ok) (auto simp: canTransition_def transactionTransitions_simps)
    then show ?thesis ..
  qed
  then show "unchanged (wdb w) (wdb w')" and "\<exists>e. x = Inl e" by auto
qed

lemma CheckTransactionIdempotency_read: "keeps (=) (CheckTransactionIdempotency ref)"
  by (auto simp: keeps_def CheckTransactionIdempotency_ok)

lemma resolve_race_answer:
  assumes "bind (attempt (auto_exec (CheckTransactionIdempotency (dw_Reference dp)))) (\<lambda>found.
        case found of
          Inr existing \<Rightarrow>
            bind (evaluateExistingDepositReference dp existing) (\<lambda>(replayResp, shouldRetry, _).
            case replayResp of Some resp \<Rightarrow> ret resp | None \<Rightarrow> throw ErrDepositInProgress)
        | Inl lookupErr \<Rightarrow>
            if \<not> errors_Is lookupErr ErrNoRows then
              throw (Wrap ''failed to resolve duplicate deposit reference: '' lookupErr '''')
            else throw ErrDepositInProgress) w = (r, w')"
  shows "wdb w' = wdb w" and "deposit_answer dp (wdb w) r"
proof -
  obtain x w1 where check: "auto_exec (CheckTransactionIdempotency (dw_Reference dp)) w = (x, w1)" by (metis surj_pair)
  have d1: "wdb w1 = wdb w" using CheckTransactionIdempotency_read check by (rule auto_exec_read)
  have "wdb w' = wdb w \<and> deposit_answer dp (wdb w) r"
  proof (cases x)
    case (Inl e)
    with assms check d1 show ?thesis by (auto simp: control_defs split: if_splits)
  next
    case (Inr row)
    then have found: "sel_one t_reference_id (dw_Reference dp) (transactions (wdb w)) = Some row"
      using check by (auto elim!: auto_exec_ok simp: CheckTransactionIdempotency_ok)
    obtain y w2 where ev: "evaluateExistingDepositReference dp row w1 = (y, w2)" by (metis surj_pair)
    have d2: "wdb w2 = wdb w" using evaluate_idle [OF ev] d1 by simp
    show ?thesis
    proof (cases y)
      case (Inl e)
      with assms check ev \<open>x = Inr row\<close> d2 show ?thesis by (auto simp: control_defs)
    next
      case (Inr res)
      obtain resp retry i where res: "res = (resp, retry, i)" by (metis prod_cases3)
      with Inr ev have "evaluateExistingDepositReference dp row w1 = (Inr (resp, retry, i), w2)" by simp
      then show ?thesis
        by (cases rule: evaluate_cases)
          (use assms check ev \<open>x = Inr row\<close> Inr res d2 found in \<open>auto simp: control_defs deposit_answer_def\<close>)
    qed
  qed
  then show "wdb w' = wdb w" and "deposit_answer dp (wdb w) r" by auto
qed

lemma resolve_deposit_failure_answer:
  assumes "resolve_deposit_failure dp b i e w = (r, w')"
    and "\<And>r. \<not> b \<Longrightarrow> txn (wdb w) i = Some r \<Longrightarrow> t_status r = TxStatusCompleted"
  shows "unchanged (wdb w) (wdb w')" and "deposit_answer dp (wdb w) r" and "b \<Longrightarrow> \<exists>e. r = Inl e"
proof -
  have "unchanged (wdb w) (wdb w') \<and> deposit_answer dp (wdb w) r \<and> (b \<longrightarrow> (\<exists>e. r = Inl e))"
  proof (cases "b \<or> isUniqueViolation e")
    case True
    then consider b | "\<not> b" "isUniqueViolation e" by blast
    then show ?thesis
    proof cases
      case 1
      with assms(1) show ?thesis by (auto simp: resolve_deposit_failure_def throw_def)
    next
      case 2
      with assms(1) resolve_race_answer [of dp w r w'] show ?thesis by (simp add: resolve_deposit_failure_def)
    qed
  next
    case False
    obtain x w1 where mark: "transitionState i TxStatusFailed ''failed''
      (Some (JObject [(''reason'', JString ''deposit_failed'')])) w = (x, w1)" by (metis surj_pair)
    have "unchanged (wdb w) (wdb w1)" "\<exists>e. x = Inl e"
      using mark_failed_idle [OF mark] assms(2) False by auto
    with assms(1) False mark show ?thesis
      by (auto simp: resolve_deposit_failure_def control_defs split: if_splits)
  qed
  then show "unchanged (wdb w) (wdb w')" and "deposit_answer dp (wdb w) r" and "b \<Longrightarrow> \<exists>e. r = Inl e" by auto
qed

lemma process_deposit_new:
  assumes "process_deposit L dp k False i w = (r, w')" and "schema_ok (wdb w)" and "txn (wdb w) i = None"
    and "in_int64 (dw_AmountMicros dp)" and "0 < dw_AmountMicros dp"
  shows "(unchanged (wdb w) (wdb w') \<and> deposit_answer dp (wdb w) r) \<or>
    (\<exists>s now d'. getSystemAccountID L (dw_Currency dp) = Inr s \<and> deposited dp k s i now (wdb w) d' \<and>
       unchanged d' (wdb w') \<and> (\<forall>resp. r = Inr resp \<longrightarrow> TransactionID resp = i \<and> dr_Status resp = TxStatusCompleted))"
proof (cases "getSystemAccountID L (dw_Currency dp)")
  case (Inl e)
  with assms(1) show ?thesis by (auto simp: process_deposit_def control_defs lift_sum_def)
next
  case (Inr s)
  obtain x w1 where tx: "RunInTx (HandleDeposit_tx dp k s False i) w = (x, w1)" by (metis surj_pair)
  have rest: "(case x of Inl e \<Rightarrow> resolve_deposit_failure dp False i e w1 = (r, w')
    | Inr _ \<Rightarrow> w' = w1 \<and> r = Inr \<lparr>TransactionID = i, dr_Status = TxStatusCompleted,
        dr_Message = ''Deposit processed successfully''\<rparr>)"
    using assms(1) Inr tx by (auto simp: process_deposit_def control_defs lift_sum_def split: sum.splits)
  from tx show ?thesis
  proof (cases rule: RunInTx_atomic)
    case (rolled_back n e)
    then have "unchanged (wdb w) (wdb w1)" by (auto simp: unchanged_def)
    moreover have "unchanged (wdb w1) (wdb w')" "deposit_answer dp (wdb w1) r"
      using resolve_deposit_failure_answer(1,2) [of dp False i e w1 r w'] rest rolled_back assms(3) by auto
    ultimately show ?thesis
      using idle.R_trans [of "wdb w" "wdb w1" "wdb w'"] deposit_answer_unchanged [of "wdb w" "wdb w1" dp r] by simp
  next
    case (committed a w2 w3)
    have eff: "deposited dp k s i (wnow w2) (wdb w) (wdb w1)"
      using HandleDeposit_tx_deposited [OF committed(3) assms(4,5)] committed(2,4) by simp
    then have row: "txn (wdb w1) i = Some (completed_row i (dw_AmountMicros dp) (dw_Currency dp) TxTypeDeposit
        (dw_Reference dp) (Some (deposit_metadata dp)) (wnow w2))"
      by (auto simp: deposited_def completed_in_def completed_row_def opened_row_def)
    have "schema_ok (wdb w1)"
      using frameD [OF sch.worker.frame_HandleDeposit_tx committed(3)] assms(2) committed(2,4) by (simp add: keeps_schema_def)
    have "unchanged (wdb w1) (wdb w') \<and> (\<forall>resp. r = Inr resp \<longrightarrow> TransactionID resp = i \<and> dr_Status resp = TxStatusCompleted)"
    proof (cases x)
      case (Inl e)
      with rest have "unchanged (wdb w1) (wdb w')" "deposit_answer dp (wdb w1) r"
        using resolve_deposit_failure_answer(1,2) [of dp False i e w1 r w'] row
        by (auto simp: completed_row_def)
      then show ?thesis
        using unique_reference [OF \<open>schema_ok (wdb w1)\<close> row]
        by (auto simp: deposit_answer_def completed_row_def opened_row_def)
    qed (use rest in simp)
    with Inr eff show ?thesis by blast
  qed
qed

lemma process_deposit_retry:
  assumes "process_deposit L dp k True i w = (r, w')"
    and "in_int64 (dw_AmountMicros dp)" and "0 < dw_AmountMicros dp"
  shows "(unchanged (wdb w) (wdb w') \<and> (\<exists>e. r = Inl e)) \<or>
    (\<exists>s d'. getSystemAccountID L (dw_Currency dp) = Inr s \<and> redeposited dp k s i (wdb w) d' \<and>
       unchanged d' (wdb w') \<and> (\<forall>resp. r = Inr resp \<longrightarrow> TransactionID resp = i \<and> dr_Status resp = TxStatusCompleted))"
proof (cases "getSystemAccountID L (dw_Currency dp)")
  case (Inl e)
  with assms(1) show ?thesis by (auto simp: process_deposit_def control_defs lift_sum_def)
next
  case (Inr s)
  obtain x w1 where tx: "RunInTx (HandleDeposit_tx dp k s True i) w = (x, w1)" by (metis surj_pair)
  have rest: "w' = w1 \<and> (\<forall>e. x = Inl e \<longrightarrow> r = Inl e) \<and> (\<forall>u. x = Inr u \<longrightarrow> r = Inr \<lparr>TransactionID = i,
      dr_Status = TxStatusCompleted, dr_Message = ''Deposit processed successfully''\<rparr>)"
    using assms(1) Inr tx
    by (auto simp: process_deposit_def resolve_deposit_failure_def control_defs lift_sum_def split: sum.splits)
  from tx show ?thesis
  proof (cases rule: RunInTx_atomic)
    case (rolled_back n e)
    then show ?thesis using rest by (auto simp: unchanged_def)
  next
    case (committed a w2 w3)
    have eff: "redeposited dp k s i (wdb w) (wdb w1)"
      using HandleDeposit_tx_redeposited [OF committed(3) assms(2,3)] committed(2,4) by simp
    have "\<forall>resp. r = Inr resp \<longrightarrow> TransactionID resp = i \<and> dr_Status resp = TxStatusCompleted"
      using rest by (cases x) auto
    with Inr eff rest show ?thesis by auto
  qed
qed

lemma unmarshal_int64_range:
  "in_int64 (snd acc) \<Longrightarrow> in_int64 (snd (unmarshal_int64 name ms acc))"
  by (induction name ms acc rule: unmarshal_int64.induct) (auto split: json.splits)

lemma decode_deposit_amount:
  assumes "decode_deposit L payload = Inr (dp, k)"
  shows "0 < dw_AmountMicros dp" and "in_int64 (dw_AmountMicros dp)" and "isValidCurrency (dw_Currency dp)"
proof -
  have "in_int64 (snd (unmarshal_int64 ''amount_micros'' ms (True, 0)))" for ms
    by (rule unmarshal_int64_range) (simp add: in_int64_def)
  then have "in_int64 n" if "unmarshal_int64 ''amount_micros'' ms (True, 0) = (b, n)" for ms b n
    using that by (metis snd_conv)
  then show "in_int64 (dw_AmountMicros dp)"
    using assms by (auto simp: decode_deposit_def unmarshal_deposit_def Let_def
        split: sum.splits json.splits if_splits prod.splits)
  show "0 < dw_AmountMicros dp" "isValidCurrency (dw_Currency dp)"
    using assms by (auto simp: decode_deposit_def Let_def split: sum.splits if_splits)
qed

text \<open>What an effect of a verified and decoded webhook is.\<close>

definition deposit_outcome :: "lib \<Rightarrow> DepositWebhookPayload \<Rightarrow> uuid \<Rightarrow> db \<Rightarrow> err + DepositWebhookResponse \<Rightarrow> db \<Rightarrow> bool" where
  "deposit_outcome L dp k d r d'' \<longleftrightarrow>
     unchanged d d'' \<and> (\<forall>resp. r = Inr resp \<longrightarrow> deposit_answer dp d r) \<or>
     (\<exists>sys i now d'. getSystemAccountID L (dw_Currency dp) = Inr sys \<and>
        (deposited dp k sys i now d d' \<or> redeposited dp k sys i d d') \<and> unchanged d' d'' \<and>
        (\<forall>resp. r = Inr resp \<longrightarrow> TransactionID resp = i \<and> dr_Status resp = TxStatusCompleted))"

lemma existing_reference_outcome:
  assumes "sel_one t_reference_id (dw_Reference dp) (transactions (wdb w)) = Some row"
    and "evaluateExistingDepositReference dp row w = (y, w3)"
    and "case y of Inl e \<Rightarrow> w' = w3 \<and> r = Inl e
      | Inr (resp, retry, j) \<Rightarrow> (case resp of Some a \<Rightarrow> ret a
          | None \<Rightarrow> if retry then process_deposit L dp k True j else process_deposit L dp k False i) w3 = (r, w')"
    and "in_int64 (dw_AmountMicros dp)" and "0 < dw_AmountMicros dp"
  shows "deposit_outcome L dp k (wdb w) r (wdb w')"
proof -
  have d3: "wdb w3 = wdb w" using evaluate_idle [OF assms(2)] by simp
  show ?thesis
  proof (cases y)
    case (Inl e)
    with assms(3) d3 show ?thesis by (auto simp: deposit_outcome_def)
  next
    case (Inr res)
    obtain resp retry j where res: "res = (resp, retry, j)" by (metis prod_cases3)
    with Inr assms(2) have "evaluateExistingDepositReference dp row w = (Inr (resp, retry, j), w3)" by simp
    then show ?thesis
    proof (cases rule: evaluate_cases)
      case replay
      with assms(1,3) Inr res d3 show ?thesis by (auto simp: deposit_outcome_def ret_def deposit_answer_def)
    next
      case retry
      with assms(3) Inr res have "process_deposit L dp k True j w3 = (r, w')" by simp
      from process_deposit_retry [OF this assms(4,5)] d3 show ?thesis by (auto simp: deposit_outcome_def)
    qed
  qed
qed


text \<open>
  C21. A deposit needs the key: unless signature checks are switched off, a request is answered only
  when a key is configured and the signature is the HMAC-SHA256 of the payload under it; any other
  request is refused and nothing happens.
\<close>

theorem webhook_authentic:
  assumes "HandleDepositWebhook L s payload signature w = (r, w')" and "\<not> skipSig s"
  shows "hmacKey s \<noteq> '''' \<and> signature = ''sha256='' @ EncodeToString (hmac_sha256 (hmacKey s) payload) \<or>
    r = Inl ErrInvalidSignature \<and> w' = w"
  using assms by (auto simp: HandleDepositWebhook_def verifyHMAC_def throw_def split: if_splits)

end
