(* ===== verification/Reconciliation.thy ===== *)
theory Reconciliation
  imports Effects
begin

text \<open>
  The ledger check: \<open>ReconciliationService.Run\<close> (\<open>internal/service/reconciliation.go\<close>) and the
  worker's \<open>runOnce\<close> (\<open>internal/worker/reconciliation_worker.go\<close>). The counters are the events of
  the trace.
\<close>

definition reconciliation_Run :: "unit m" where
  "reconciliation_Run =
     bind (wrapf ''run ledger net query: '' (auto_exec GetLedgerNet)) (\<lambda>net.
     if net \<noteq> 0 then
       bind (IncrementLedgerImbalance ''ALL'') (\<lambda>_.
       bind (attempt (auto_exec GetLedgerCurrencyImbalances)) (\<lambda>imbalances.
       case imbalances of
         Inr rows \<Rightarrow> foreach (\<lambda>(currency, netAmount). IncrementLedgerImbalance currency) rows
       | Inl byCurrencyErr \<Rightarrow> ret ()))
     else ret ())"

definition reconciliation_runOnce :: "unit m" where
  "reconciliation_runOnce =
     bind (attempt reconciliation_Run) (\<lambda>result.
     case result of
       Inl err \<Rightarrow> IncrementWorkerRun ''reconciliation'' ''failed''
     | Inr _ \<Rightarrow> IncrementWorkerRun ''reconciliation'' ''success'')"

context frame_rel
begin

lemma frame_reconciliation [frame_intros]: "frame R reconciliation_Run" "frame R reconciliation_runOnce"
  unfolding reconciliation_Run_def reconciliation_runOnce_def
  by (intro frame_intros)+

end

subsection \<open>What a run reports\<close>

lemma foreach_Increment:
  "wmetrics w = Init no_collectors \<Longrightarrow> foreach IncrementLedgerImbalance cs w =
     (Inr (), w\<lparr>wtrace := wtrace w @ map (\<lambda>c. Counter ''ledger_imbalance_total'' [c]) cs\<rparr>)"
  by (induction cs arbitrary: w) (auto simp: control_defs metric_eqs)

text \<open>Every entry belongs to one account of one currency, so the net is the sum over the currencies.\<close>

definition entry_currency :: "db \<Rightarrow> entry_row \<Rightarrow> string \<Rightarrow> bool" where
  "entry_currency d e c \<longleftrightarrow> (\<exists>a \<in> set (accounts d). a_id a = e_account_id e \<and> a_currency a = c)"

lemma currency_net_alt:
  "currency_net d c = sum_list (map signed_amount (filter (\<lambda>e. entry_currency d e c) (entries d)))"
  by (simp add: currency_net_def entry_currency_def)

lemma entry_currency_unique:
  assumes "distinct (map a_id (accounts d))" and "entry_currency d e c" and "entry_currency d e c'"
  shows "c = c'"
  using assms unfolding entry_currency_def by (metis inj_on_def distinct_map)

lemma sum_list_partition:
  fixes f :: "'e \<Rightarrow> int"
  assumes "finite C" and "\<And>e. e \<in> set es \<Longrightarrow> \<exists>!c. c \<in> C \<and> P e c"
  shows "sum_list (map f es) = (\<Sum>c \<in> C. sum_list (map f (filter (\<lambda>e. P e c) es)))"
  using assms(2)
proof (induction es)
  case (Cons e es)
  obtain c where c: "c \<in> C" "P e c" and only: "\<And>c'. c' \<in> C \<Longrightarrow> P e c' \<Longrightarrow> c' = c"
    using Cons.prems [of e] by auto
  have "(\<Sum>c' \<in> C. sum_list (map f (filter (\<lambda>e. P e c') (e # es))))
    = (\<Sum>c' \<in> C. (if c' = c then f e else 0) + sum_list (map f (filter (\<lambda>e. P e c') es)))"
  proof (rule sum.cong [OF refl])
    fix c' assume "c' \<in> C"
    then have "P e c' \<longleftrightarrow> c' = c" using c(2) only [of c'] by blast
    then show "sum_list (map f (filter (\<lambda>e. P e c') (e # es)))
      = (if c' = c then f e else 0) + sum_list (map f (filter (\<lambda>e. P e c') es))" by simp
  qed
  also have "\<dots> = f e + (\<Sum>c' \<in> C. sum_list (map f (filter (\<lambda>e. P e c') es)))"
    using assms(1) c(1) by (simp add: sum.distrib)
  finally show ?case using Cons by simp
qed simp

definition supported_currencies :: "string set" where
  "supported_currencies = {''USD'', ''EUR'', ''GBP''}"

lemma entry_has_currency:
  assumes "schema_ok d" and "e \<in> set (entries d)"
  shows "\<exists>!c. c \<in> supported_currencies \<and> entry_currency d e c"
proof -
  have "entry_ok d e" using assms by (simp add: schema_ok_def)
  then obtain a where a: "a \<in> set (accounts d)" "a_id a = e_account_id e"
    by (auto simp: entry_ok_def)
  moreover have "account_ok d a" using assms(1) a(1) by (simp add: schema_ok_def)
  ultimately have "a_currency a \<in> supported_currencies" "entry_currency d e (a_currency a)"
    by (auto simp: account_ok_def currency_ok_def supported_currencies_def entry_currency_def)
  moreover have "distinct (map a_id (accounts d))" using assms(1) by (simp add: schema_ok_def)
  ultimately show ?thesis using entry_currency_unique by blast
qed

lemma ledger_net_by_currency:
  assumes "schema_ok d"
  shows "ledger_net d = (\<Sum>c \<in> supported_currencies. currency_net d c)"
  unfolding ledger_net_def currency_net_alt
  by (rule sum_list_partition) (use entry_has_currency [OF assms] in \<open>auto simp: supported_currencies_def\<close>)

text \<open>The currencies whose entries do not cancel, in the order of the query.\<close>

definition imbalanced :: "db \<Rightarrow> string list" where
  "imbalanced d = filter (\<lambda>c. currency_net d c \<noteq> 0)
     (remdups (map a_currency (filter (\<lambda>a. \<exists>e \<in> set (entries d). e_account_id e = a_id a) (accounts d))))"

lemma set_imbalanced: "set (imbalanced d) = {c. currency_net d c \<noteq> 0}"
proof -
  have "\<exists>a \<in> set (accounts d). a_currency a = c \<and> (\<exists>e \<in> set (entries d). e_account_id e = a_id a)"
    if "currency_net d c \<noteq> 0" for c
  proof -
    have "filter (\<lambda>e. \<exists>a \<in> set (accounts d). a_id a = e_account_id e \<and> a_currency a = c) (entries d) \<noteq> []"
      using that by (auto simp: currency_net_def)
    then show ?thesis by (force simp: filter_empty_conv)
  qed
  then show ?thesis by (fastforce simp: imbalanced_def image_iff)
qed

lemma GetLedgerCurrencyImbalances_rows:
  assumes "\<forall>c. in_int64 (currency_net d c)"
  shows "GetLedgerCurrencyImbalances t d = Inr (map (\<lambda>c. (c, currency_net d c)) (imbalanced d), d)"
proof -
  have "filter (\<lambda>(c, n). n \<noteq> 0) (map (\<lambda>c. (c, currency_net d c)) cs) =
    map (\<lambda>c. (c, currency_net d c)) (filter (\<lambda>c. currency_net d c \<noteq> 0) cs)" for cs
    by (induction cs) auto
  then show ?thesis
    using assms by (simp add: GetLedgerCurrencyImbalances_def imbalanced_def Let_def list_all_iff)
qed

text \<open>
  C18. Reconciliation without a driver failure: it never changes the database; it reports nothing when
  the net over all entries is zero, and otherwise the global counter and one counter for each
  currency whose own net is not zero.
\<close>

theorem reconciliation_reports:
  assumes "wfaults w = (\<lambda>_. NoFault)" and "wmetrics w = Init no_collectors" and "in_int64 (ledger_net (wdb w))"
    and "\<forall>c. in_int64 (currency_net (wdb w) c)" and "reconciliation_Run w = (r, w')"
  shows "r = Inr () \<and> wdb w' = wdb w \<and> wtrace w' = wtrace w @
    (if ledger_net (wdb w) = 0 then []
     else map (\<lambda>c. Counter ''ledger_imbalance_total'' [c]) (''ALL'' # imbalanced (wdb w)))"
  using assms
  by (auto simp: reconciliation_Run_def control_defs auto_exec_def Let_def GetLedgerNet_def pop_def
      GetLedgerCurrencyImbalances_rows metric_eqs(2,7)
      ledger_net_def foreach_map foreach_Increment [unfolded metric_defs] split: if_splits)

end
