(* ===== verification/Accounts.thy ===== *)
theory Accounts
  imports Effects
begin

text \<open>
  Users, accounts and statements: the wrappers of \<open>internal/repository/repository.go\<close> and the
  \<open>AccountService\<close> of \<open>internal/service/account.go\<close>. Go's \<open>int\<close> has 64 bits; the repository passes
  limits and offsets as \<open>int32\<close>.
\<close>

subsection \<open>Repository\<close>

record model_user =
  mu_ID :: uuid
  mu_Username :: string
  mu_Email :: string
  mu_Role :: string
  mu_CreatedAt :: int

record model_account =
  ma_ID :: uuid
  ma_UserID :: uuid
  ma_Currency :: string
  ma_Balance :: int
  ma_CreatedAt :: int

record model_entry =
  me_ID :: uuid
  me_TransactionID :: uuid
  me_AccountID :: uuid
  me_Amount :: int
  me_Direction :: string
  me_CreatedAt :: int

text \<open>The functions that fill in fields of their argument return it updated.\<close>

definition Repository_CreateUser :: "model_user \<Rightarrow> model_user m" where
  "Repository_CreateUser user =
     (let user = (if mu_Role user = '''' then user\<lparr>mu_Role := ''user''\<rparr> else user) in
      bind (wrapf ''failed to create user: ''
        (auto_exec (CreateUser (mu_ID user) (mu_Username user) (mu_Email user) (mu_Role user)))) (\<lambda>createdAt.
      ret (user\<lparr>mu_CreatedAt := createdAt\<rparr>)))"

definition Repository_CreateAccount :: "model_account \<Rightarrow> model_account m" where
  "Repository_CreateAccount account =
     bind (wrapf ''failed to create account: ''
       (auto_exec (CreateAccount (ma_ID account) (ma_UserID account) (ma_Currency account)
          (ma_Balance account)))) (\<lambda>createdAt.
     ret (account\<lparr>ma_CreatedAt := createdAt\<rparr>))"

definition Repository_GetUser :: "uuid \<Rightarrow> model_user m" where
  "Repository_GetUser i =
     bind (wrapf ''failed to get user: '' (auto_exec (GetUser i))) (\<lambda>row.
     ret \<lparr>mu_ID = u_id row, mu_Username = u_username row, mu_Email = u_email row, mu_Role = u_role row,
          mu_CreatedAt = u_created_at row\<rparr>)"

definition Repository_GetAccount :: "uuid \<Rightarrow> model_account m" where
  "Repository_GetAccount i =
     bind (wrapf ''failed to get account: '' (auto_exec (GetAccount i))) (\<lambda>row.
     ret \<lparr>ma_ID = a_id row, ma_UserID = a_user_id row, ma_Currency = a_currency row,
          ma_Balance = a_balance row, ma_CreatedAt = a_created_at row\<rparr>)"

definition model_of_entry :: "entry_row \<Rightarrow> model_entry" where
  "model_of_entry row =
     \<lparr>me_ID = e_id row, me_TransactionID = e_transaction_id row, me_AccountID = e_account_id row,
      me_Amount = e_amount row, me_Direction = e_direction row, me_CreatedAt = e_created_at row\<rparr>"

definition Repository_GetEntries :: "uuid \<Rightarrow> int \<Rightarrow> int \<Rightarrow> model_entry list m" where
  "Repository_GetEntries accountID limit offset =
     bind (wrapf ''failed to get entries: ''
       (auto_exec (GetEntries accountID (wrap32 limit) (wrap32 offset)))) (\<lambda>rows.
     ret (map model_of_entry rows))"

subsection \<open>Service\<close>

definition GetBalance :: "uuid \<Rightarrow> model_account m" where
  "GetBalance accountID = Repository_GetAccount accountID"

definition GetStatement :: "uuid \<Rightarrow> int \<Rightarrow> int \<Rightarrow> model_entry list m" where
  "GetStatement accountID page pageSize =
     (let page = (if page < 1 then 1 else page);
          pageSize = (if pageSize < 1 then 10 else pageSize);
          offset = wrap64 (wrap64 (page - 1) * pageSize) in
      Repository_GetEntries accountID pageSize offset)"

definition AccountService_CreateAccount :: "uuid \<Rightarrow> string \<Rightarrow> int \<Rightarrow> model_account m" where
  "AccountService_CreateAccount userID currency balance =
     bind uuid_New (\<lambda>i.
     Repository_CreateAccount \<lparr>ma_ID = i, ma_UserID = userID, ma_Currency = currency,
       ma_Balance = balance, ma_CreatedAt = 0\<rparr>)"

context frame_rel
begin

lemma frame_account_reads [frame_intros]:
  "frame R (Repository_GetUser i)" "frame R (Repository_GetAccount i)"
  "frame R (Repository_GetEntries i n j)" "frame R (GetBalance i)" "frame R (GetStatement i p q)"
  unfolding Repository_GetUser_def Repository_GetAccount_def Repository_GetEntries_def GetBalance_def
    GetStatement_def Let_def by (intro frame_intros)+

end

context stmt_frame
begin

lemma frame_account_writes [frame_intros]:
  "frame R (Repository_CreateUser u)" "frame R (Repository_CreateAccount a)"
  "frame R (AccountService_CreateAccount i c b)"
  unfolding Repository_CreateUser_def Repository_CreateAccount_def AccountService_CreateAccount_def
    Let_def by (intro frame_intros)+

end

end
