(* ===== verification/Conservation.thy ===== *)
theory Conservation
  imports Webhook Reconciliation Accounts
begin

text \<open>
  The system as a sequence of commits. \<open>commit\<close> relates the database before and after one committed
  transaction or one statement on the pool, of any service with any arguments; concurrent requests
  are sequences of commits in any order. Every service is such a sequence (\<open>chained\<close>), and every
  commit keeps the double-entry invariant \<open>sound\<close>: the schema, the liquidity accounts, the currency
  of payouts, and a zero net of entries in every currency.
\<close>

subsection \<open>Accounts by currency\<close>

definition same_accounts :: "db \<Rightarrow> db \<Rightarrow> bool" where
  "same_accounts d d' \<longleftrightarrow> map account_identity (accounts d') = map account_identity (accounts d)"

definition same_payouts :: "db \<Rightarrow> db \<Rightarrow> bool" where
  "same_payouts d d' \<longleftrightarrow> map payout_identity (payouts d') = map payout_identity (payouts d)"

lemma same_accounts_funds: "keeps same_accounts (update_accounts P (\<lambda>r. set_funds (b r) (l r) r))"
  by (auto simp: keeps_def update_accounts_def same_accounts_def split: sum.splits
        intro: update_rows_map set_funds_identity)

interpretation idn: frame_rel same_accounts
  by unfold_locales (auto simp: same_accounts_def)

lemma same_accounts_statements [frame_intros]:
  "keeps same_accounts (LockAccountFunds x i)" "keeps same_accounts (ReleaseAccountFunds x i)"
  "keeps same_accounts (ReleaseAccountFundsSafe x i)" "keeps same_accounts (DeductLockedFunds x i)"
  "keeps same_accounts (UpdateAccountBalance x i)" "keeps same_accounts (CreateEntry i tx ac x di)"
  "keeps same_accounts (CreateTransaction i x c ty st r fx md)" "keeps same_accounts (UpdateTransactionFx fx md i)"
  "keeps same_accounts (UpdateTransactionStatus st i)" "keeps same_accounts (InsertPayout i tx ac x c st)"
  "keeps same_accounts (UpdatePayoutStatus st g i)" "keeps same_accounts (InsertAuditLog ty i actor act ps ns md)"
  "keeps same_accounts (CreateUser i n em ro)" "keeps same_accounts (FinalizeIdempotencyKey rs rb ct k h)"
  "keeps same_accounts (ReserveIdempotencyKey k h me pa)"
  by (simp_all add: same_accounts_funds LockAccountFunds_def ReleaseAccountFunds_def ReleaseAccountFundsSafe_def
        DeductLockedFunds_def UpdateAccountBalance_def)
    (auto simp: keeps_def same_accounts_def CreateEntry_def CreateTransaction_def UpdateTransactionFx_def
        UpdateTransactionStatus_def update_transactions_def InsertPayout_def UpdatePayoutStatus_def
        InsertAuditLog_def CreateUser_def FinalizeIdempotencyKey_def ReserveIdempotencyKey_def Let_def
        split: if_splits sum.splits option.splits)

interpretation ids: worker_frame same_accounts
proof (unfold_locales, goal_cases)
  case (11 i ns ac a md)
  show ?case unfolding transitionTransactionState_def audit_Write_def by (intro frame_intros)
qed (intro frame_intros)+

lemma same_payouts_statements [frame_intros]:
  "keeps same_payouts (LockAccountFunds x i)" "keeps same_payouts (ReleaseAccountFunds x i)"
  "keeps same_payouts (ReleaseAccountFundsSafe x i)" "keeps same_payouts (DeductLockedFunds x i)"
  "keeps same_payouts (UpdateAccountBalance x i)" "keeps same_payouts (CreateEntry i tx ac x di)"
  "keeps same_payouts (CreateTransaction i x c ty st r fx md)" "keeps same_payouts (UpdateTransactionFx fx md i)"
  "keeps same_payouts (UpdateTransactionStatus st i)" "keeps same_payouts (UpdatePayoutStatus st g i)"
  "keeps same_payouts (InsertAuditLog ty i actor act ps ns md)" "keeps same_payouts (CreateUser i n em ro)"
  "keeps same_payouts (CreateAccount i u c b)" "keeps same_payouts (FinalizeIdempotencyKey rs rb ct k h)"
  "keeps same_payouts (ReserveIdempotencyKey k h me pa)"
  by (auto simp: keeps_def same_payouts_def LockAccountFunds_def ReleaseAccountFunds_def
        ReleaseAccountFundsSafe_def DeductLockedFunds_def UpdateAccountBalance_def update_accounts_def
        CreateEntry_def CreateTransaction_def UpdateTransactionFx_def UpdateTransactionStatus_def
        update_transactions_def UpdatePayoutStatus_def InsertAuditLog_def CreateUser_def CreateAccount_def
        FinalizeIdempotencyKey_def ReserveIdempotencyKey_def Let_def identity_defs
        split: if_splits sum.splits option.splits intro!: update_rows_map)

interpretation pid: frame_rel same_payouts
  by unfold_locales (auto simp: same_payouts_def)

interpretation pids: ledger_frame same_payouts
proof (unfold_locales, goal_cases)
  case (11 i ns ac a md)
  show ?case unfolding transitionTransactionState_def audit_Write_def by (intro frame_intros)
qed (intro frame_intros)+

definition ids_of :: "db \<Rightarrow> string \<Rightarrow> uuid set" where
  "ids_of d c = {i. \<exists>r. acct d i = Some r \<and> a_currency r = c}"

lemma finite_ids_of [simp]: "finite (ids_of d c)"
  by (rule finite_subset [of _ "a_id ` set (accounts d)"]) (auto simp: ids_of_def dest!: sel_one_Some)

lemma ids_of_grows:
  assumes "grows account_identity (accounts d) (accounts d')" and "i \<in> ids_of d c"
  shows "i \<in> ids_of d' c"
proof -
  obtain r where "acct d i = Some r" "a_currency r = c" using assms(2) by (auto simp: ids_of_def)
  with grows_sel_one [OF assms(1), of a_id i r] show ?thesis
    by (auto simp: ids_of_def account_identity_def)
qed

lemma ids_of_same:
  assumes "same_accounts d d'" shows "ids_of d' c = ids_of d c"
proof
  have "grows account_identity (accounts d) (accounts d')" "grows account_identity (accounts d') (accounts d)"
    using assms by (auto simp: same_accounts_def grows_def intro: exI [of _ "[]"])
  then show "ids_of d' c \<subseteq> ids_of d c" "ids_of d c \<subseteq> ids_of d' c" using ids_of_grows by blast+
qed

lemma entry_currency_ids:
  assumes "distinct (map a_id (accounts d))"
  shows "entry_currency d e c \<longleftrightarrow> e_account_id e \<in> ids_of d c"
proof
  assume "entry_currency d e c"
  then obtain a where a: "a \<in> set (accounts d)" "a_id a = e_account_id e" "a_currency a = c"
    by (auto simp: entry_currency_def)
  then have "acct d (e_account_id e) \<noteq> None" unfolding sel_one_None_iff by (metis imageI)
  then obtain r where "acct d (e_account_id e) = Some r" by blast
  with acct_unique [OF assms this a(1,2)] a(3) show "e_account_id e \<in> ids_of d c" by (auto simp: ids_of_def)
next
  assume "e_account_id e \<in> ids_of d c"
  then show "entry_currency d e c" by (auto simp: ids_of_def entry_currency_def dest: sel_one_Some)
qed

text \<open>The net of a currency is the sum of the nets of its accounts.\<close>

lemma currency_net_view:
  assumes "schema_ok d" shows "currency_net d c = (\<Sum>i \<in> ids_of d c. net_of d i)"
proof -
  have dist: "distinct (map a_id (accounts d))" using assms by (simp add: schema_ok_def)
  let ?es = "filter (\<lambda>e. e_account_id e \<in> ids_of d c) (entries d)"
  have "sum_list (map signed_amount ?es) = (\<Sum>i \<in> ids_of d c. sum_list (map signed_amount (filter (\<lambda>e. e_account_id e = i) ?es)))"
    by (rule sum_list_partition) auto
  also have "\<dots> = (\<Sum>i \<in> ids_of d c. net_of d i)"
  proof (rule sum.cong [OF refl])
    fix i assume "i \<in> ids_of d c"
    then have "filter (\<lambda>e. e_account_id e = i) ?es = filter (\<lambda>e. e_account_id e = i) (entries d)"
      by (simp add: filter_filter) (metis (mono_tags, lifting) filter_cong)
    then show "sum_list (map signed_amount (filter (\<lambda>e. e_account_id e = i) ?es)) = net_of d i"
      by (simp add: net_of_def)
  qed
  finally show ?thesis by (simp add: currency_net_alt entry_currency_ids [OF dist])
qed

subsection \<open>Balanced steps\<close>

text \<open>Balances change with the entries, and the entries of a currency add up to nothing.\<close>

definition balanced :: "db \<Rightarrow> db \<Rightarrow> bool" where
  "balanced d d' \<longleftrightarrow> (\<forall>k. acct d k \<noteq> None \<longrightarrow> drift d' k = drift d k) \<and>
     (\<forall>c. (\<Sum>k \<in> ids_of d c. net_of d' k) = (\<Sum>k \<in> ids_of d c. net_of d k))"

lemma sum_upd:
  fixes f :: "uuid \<Rightarrow> int"
  assumes "finite S" shows "(\<Sum>i \<in> S. (f(k := f k + x)) i) = (\<Sum>i \<in> S. f i) + (if k \<in> S then x else 0)"
proof -
  have "(\<Sum>i \<in> S. (f(k := f k + x)) i) = (\<Sum>i \<in> S. f i + (if i = k then x else 0))"
    by (rule sum.cong) auto
  then show ?thesis using assms by (simp add: sum.distrib)
qed

lemma net_sum_ops:
  assumes "finite S"
  shows "(\<Sum>i \<in> S. net (move k x v) i) = (\<Sum>i \<in> S. net v i) + (if k \<in> S then x else 0)"
    and "(\<Sum>i \<in> S. net (lock_funds k x v) i) = (\<Sum>i \<in> S. net v i)"
  using sum_upd [OF assms, of "net v" k x] by (simp_all del: fun_upd_apply)

lemma drift_view: "drift d k = bal (view d) k - net (view d) k"
  by (simp add: drift_def)

lemma balancedI:
  assumes "\<And>k. bal (view d') k - net (view d') k = bal (view d) k - net (view d) k"
    and "\<And>c. (\<Sum>k \<in> ids_of d c. net (view d') k) = (\<Sum>k \<in> ids_of d c. net (view d) k)"
  shows "balanced d d'"
  using assms by (simp add: balanced_def drift_view)

lemma balanced_still: "view d' = view d \<Longrightarrow> balanced d d'"
  by (rule balancedI) simp_all

lemma balanced_lock: "view d' = lock_funds k x (view d) \<Longrightarrow> balanced d d'"
  by (rule balancedI) simp_all

text \<open>Two opposite movements on accounts of the same currency.\<close>

lemma drift_ops [simp]:
  "bal (move k x v) i - net (move k x v) i = bal v i - net v i"
  "bal (lock_funds k x v) i - net (lock_funds k x v) i = bal v i - net v i"
  by simp_all

lemma pair_sum:
  assumes "finite S" and "k \<in> S \<longleftrightarrow> j \<in> S"
  shows "(\<Sum>i \<in> S. net (move j x (move k (- x) v)) i) = (\<Sum>i \<in> S. net v i)"
  using assms by (simp add: net_sum_ops del: net_ops)

lemma same_ids: "k \<in> ids_of d c \<Longrightarrow> j \<in> ids_of d c \<Longrightarrow> k \<in> ids_of d c' \<longleftrightarrow> j \<in> ids_of d c'"
  by (auto simp: ids_of_def)

lemma balanced_pair:
  assumes "view d' = move j x (move k (- x) (view d))" and "k \<in> ids_of d c" and "j \<in> ids_of d c"
  shows "balanced d d'"
  by (rule balancedI) (simp_all only: assms(1) drift_ops pair_sum [OF finite_ids_of same_ids [OF assms(2,3)]])

lemma balanced_exchange:
  assumes "view d' = exchange_move f s t k a b (view d)"
    and "f \<in> ids_of d c" "s \<in> ids_of d c" "t \<in> ids_of d c'" "k \<in> ids_of d c'"
  shows "balanced d d'"
  by (rule balancedI) (simp_all only: assms(1) exchange_move_def drift_ops
    pair_sum [OF finite_ids_of same_ids [OF assms(2,3)]] pair_sum [OF finite_ids_of same_ids [OF assms(4,5)]])

lemma balanced_payout:
  assumes "view d' = payout_move k s x (view d)" and "k \<in> ids_of d c" "s \<in> ids_of d c"
  shows "balanced d d'"
  by (rule balancedI) (simp_all only: assms(1) payout_move_def drift_ops net_sum_ops(2) [OF finite_ids_of]
    pair_sum [OF finite_ids_of same_ids [OF assms(2,3)]])

lemma balanced_deposit:
  assumes "view d' = deposit_move k s x (view d)" and "k \<in> ids_of d c" "s \<in> ids_of d c"
  shows "balanced d d'"
  using balanced_pair [of d' s "- x" k d c] assms by (simp add: deposit_move_def)

subsection \<open>Commits\<close>

text \<open>
  What one commit does. The arguments are arbitrary except for what the callers guarantee: amounts
  are \<open>int64\<close> values, the liquidity accounts are those of \<open>getSystemAccountID\<close>, and the worker
  finishes payouts that it has read from the table.
\<close>

definition known :: "db \<Rightarrow> payout_row \<Rightarrow> bool" where
  "known d p \<longleftrightarrow> payout_identity p \<in> payout_identity ` set (payouts d)"

inductive commit :: "lib \<Rightarrow> db \<Rightarrow> db \<Rightarrow> bool" for L where
  transfer: "Transfer_tx f t a ref i w = (Inr c, w') \<Longrightarrow> in_int64 a \<Longrightarrow> commit L (wdb w) (wdb w')"
| exchange: "TransferExchange_tx L cmd rate s t i w = (Inr u, w') \<Longrightarrow> in_int64 (xc_Amount cmd) \<Longrightarrow>
    getSystemAccountID L (xc_FromCurrency cmd) = Inr s \<Longrightarrow> getSystemAccountID L (xc_ToCurrency cmd) = Inr t \<Longrightarrow>
    commit L (wdb w) (wdb w')"
| request: "RequestPayout_tx req i j w = (Inr u, w') \<Longrightarrow> commit L (wdb w) (wdb w')"
| recover: "recoverStale_tx cutoff n w = (Inr ps, w') \<Longrightarrow> commit L (wdb w) (wdb w')"
| requeue: "foreach requeue_claimed ps w = (Inr u, w') \<Longrightarrow> commit L (wdb w) (wdb w')"
| claim: "claimPending_tx n w = (Inr ps, w') \<Longrightarrow> commit L (wdb w) (wdb w')"
| success: "handlePayoutSuccess_tx L (p_id p) (p_account_id p) (p_amount_micros p) (p_currency p)
    (p_transaction_id p) g w = (Inr u, w') \<Longrightarrow> known (wdb w) p \<Longrightarrow> commit L (wdb w) (wdb w')"
| failure: "handlePayoutFailure_tx pid k x reason w = (Inr u, w') \<Longrightarrow> commit L (wdb w) (wdb w')"
| resolve: "ResolveManualReview_tx L req decision w = (Inr u, w') \<Longrightarrow> commit L (wdb w) (wdb w')"
| deposit: "HandleDeposit_tx dp k s b i w = (Inr u, w') \<Longrightarrow> in_int64 (dw_AmountMicros dp) \<Longrightarrow>
    0 < dw_AmountMicros dp \<Longrightarrow> getSystemAccountID L (dw_Currency dp) = Inr s \<Longrightarrow> commit L (wdb w) (wdb w')"
| transition: "transitionTransactionState i ns actor a md w = (Inr u, w') \<Longrightarrow> commit L (wdb w) (wdb w')"
| audit: "audit_Write ty i actor a ps ns md w = (Inr u, w') \<Longrightarrow> commit L (wdb w) (wdb w')"
| release_safe: "ReleaseAccountFundsSafe x k now d = Inr (n, d') \<Longrightarrow> commit L d d'"
| transaction_status: "UpdateTransactionStatus st i now d = Inr (n, d') \<Longrightarrow> commit L d d'"
| payout_status: "UpdatePayoutStatus st g i now d = Inr (n, d') \<Longrightarrow> commit L d d'"
| create_user: "CreateUser i nm em ro now d = Inr (a, d') \<Longrightarrow> commit L d d'"
| create_account: "CreateAccount i u c b now d = Inr (a, d') \<Longrightarrow> commit L d d'"
| reserve_key: "ReserveIdempotencyKey key h me pa now d = Inr (a, d') \<Longrightarrow> commit L d d'"
| finalize_key: "FinalizeIdempotencyKey rs rb ct key h now d = Inr (a, d') \<Longrightarrow> commit L d d'"
| rollback: "commit L d (d\<lparr>audit_seq := n\<rparr>)"

text \<open>Whatever every statement respects, every commit respects.\<close>

context stmt_frame
begin

lemma commit_respects: "commit L d d' \<Longrightarrow> R d d'"
  by (induction rule: commit.induct)
    (rule frameD [OF worker.frame_Transfer_tx] frameD [OF worker.frame_TransferExchange_tx]
      frameD [OF worker.frame_RequestPayout_tx] frameD [OF worker.frame_batches(1)]
      frameD [OF frame_foreach [OF worker.frame_batch_steps(2)]] frameD [OF worker.frame_batches(4)]
      frameD [OF worker.frame_handlePayoutSuccess_tx] frameD [OF worker.frame_handlePayoutFailure_tx]
      frameD [OF worker.frame_ResolveManualReview_tx] frameD [OF worker.frame_HandleDeposit_tx]
      frameD [OF worker.frame_transition] frameD [OF worker.frame_audit_Write]
      keepsD [OF keeps_ReleaseAccountFundsSafe] keepsD [OF keeps_UpdateTransactionStatus]
      keepsD [OF keeps_UpdatePayoutStatus] keepsD [OF keeps_CreateUser] keepsD [OF keeps_CreateAccount]
      keepsD [OF keeps_ReserveIdempotencyKey] keepsD [OF keeps_FinalizeIdempotencyKey] R_seq; assumption?)+

lemma chain_respects: "(commit L)\<^sup>*\<^sup>* d d' \<Longrightarrow> R d d'"
  by (induction rule: rtranclp_induct) (auto intro: R_refl R_trans commit_respects)

end

subsection \<open>The invariant\<close>

definition sound :: "lib \<Rightarrow> db \<Rightarrow> bool" where
  "sound L d \<longleftrightarrow> schema_ok d \<and>
     (\<forall>c s. c \<in> supported_currencies \<longrightarrow> getSystemAccountID L c = Inr s \<longrightarrow> s \<in> ids_of d c) \<and>
     (\<forall>p \<in> set (payouts d). p_account_id p \<in> ids_of d (p_currency p)) \<and>
     (\<forall>c. currency_net d c = 0)"

lemma account_currency_supported:
  "schema_ok d \<Longrightarrow> i \<in> ids_of d c \<Longrightarrow> c \<in> supported_currencies"
  by (auto simp: ids_of_def schema_ok_def account_ok_def currency_ok_def supported_currencies_def
      dest!: sel_one_Some bspec)

lemma system_in_currency:
  assumes "sound L d" and "i \<in> ids_of d c" and "getSystemAccountID L c = Inr s"
  shows "s \<in> ids_of d c"
  using assms account_currency_supported [of d i c] by (auto simp: sound_def)

lemma known_currency:
  assumes "sound L d" and "known d p" shows "p_account_id p \<in> ids_of d (p_currency p)"
  using assms by (auto simp: sound_def known_def payout_identity_def)

text \<open>One lemma per transaction that moves money.\<close>

lemma still_balanced: "same_ledger d d' \<Longrightarrow> balanced d d'"
  by (blast intro: balanced_still same_ledger_view)

lemma transfer_balanced:
  assumes "Transfer_tx f t a ref i w = (Inr c, w')" and "in_int64 a" shows "balanced (wdb w) (wdb w')"
proof -
  have "transferred f t a ref i c (wnow w) (wdb w) (wdb w')"
    using Transfer_tx_transferred(2) assms by blast
  then have "view (wdb w') = move t a (move f (- a) (view (wdb w)))" "f \<in> ids_of (wdb w) c" "t \<in> ids_of (wdb w) c"
    by (auto simp: transferred_def ids_of_def)
  then show ?thesis by (rule balanced_pair)
qed

lemma exchange_balanced:
  assumes "TransferExchange_tx L cmd rate s t i w = (Inr u, w')" and "in_int64 (xc_Amount cmd)" and "decimal_lib L"
    and "getSystemAccountID L (xc_FromCurrency cmd) = Inr s" and "getSystemAccountID L (xc_ToCurrency cmd) = Inr t"
    and "sound L (wdb w)"
  shows "balanced (wdb w) (wdb w')"
proof -
  obtain n where "exchanged L cmd rate s t i n (wnow w) (wdb w) (wdb w')"
    using TransferExchange_tx_exchanged [OF assms(1,3,2)] by blast
  then have v: "view (wdb w') = exchange_move (xc_FromAccountID cmd) s t (xc_ToAccountID cmd) (xc_Amount cmd)
      (target_amount L cmd rate) (view (wdb w))"
    and i: "xc_FromAccountID cmd \<in> ids_of (wdb w) (xc_FromCurrency cmd)" "xc_ToAccountID cmd \<in> ids_of (wdb w) (xc_ToCurrency cmd)"
    by (auto simp: exchanged_def ids_of_def)
  show ?thesis
    using balanced_exchange [OF v i(1) _ _ i(2)] system_in_currency [OF assms(6) i(1) assms(4)]
      system_in_currency [OF assms(6) i(2) assms(5)] by simp
qed

lemma success_balanced:
  assumes "handlePayoutSuccess_tx L (p_id p) (p_account_id p) (p_amount_micros p) (p_currency p) (p_transaction_id p) g w = (Inr u, w')"
    and "known (wdb w) p" and "sound L (wdb w)"
  shows "balanced (wdb w) (wdb w')"
proof -
  have k: "p_account_id p \<in> ids_of (wdb w) (p_currency p)" using known_currency assms(2,3) by blast
  show ?thesis
    using handlePayoutSuccess_tx_paid [OF assms(1)] system_in_currency [OF assms(3) k] k
    by (auto simp: paid_out_def intro: balanced_payout)
qed

lemma resolve_balanced:
  assumes "ResolveManualReview_tx L req decision w = (Inr u, w')" and "sound L (wdb w)"
  shows "balanced (wdb w) (wdb w')"
proof (cases "decision = DecisionConfirmSent \<or> decision = DecisionRefundFailed")
  case True
  obtain p where res: "resolved L req decision p (wnow w) (wdb w) (wdb w')"
    using ResolveManualReview_tx_resolved [OF assms(1) _ True] assms(2) by (auto simp: sound_def)
  then have "p \<in> set (payouts (wdb w))" by (auto simp: resolved_def dest: sel_one_Some)
  then have k: "p_account_id p \<in> ids_of (wdb w) (p_currency p)" using assms(2) by (simp add: sound_def)
  from res show ?thesis
    using system_in_currency [OF assms(2) k] k
    by (auto simp: resolved_def paid_out_def review_refunded_def
        intro: balanced_payout balanced_lock balanced_still split: if_splits)
next
  case False
  have "wdb w' = wdb w"
    using assms(1) False unfolding ResolveManualReview_tx_def Let_def
    by (auto split: if_splits elim!: throw_ok ret_ok bind_ok [of "lock_payout i" for i] dest: lock_payout_ok(2))
  then show ?thesis by (simp add: balanced_still)
qed

lemma deposit_balanced:
  assumes "HandleDeposit_tx dp k s b i w = (Inr u, w')" and "in_int64 (dw_AmountMicros dp)" and "0 < dw_AmountMicros dp"
    and "getSystemAccountID L (dw_Currency dp) = Inr s" and "sound L (wdb w)"
  shows "balanced (wdb w) (wdb w')"
proof -
  have "view (wdb w') = deposit_move k s (dw_AmountMicros dp) (view (wdb w))"
    using HandleDeposit_tx_moves [OF assms(2,3)] assms(1) by (rule movesD)
  moreover have "k \<in> ids_of (wdb w) (dw_Currency dp)"
    using assms(1) by (auto elim!: HandleDeposit_tx_reads simp: ids_of_def)
  ultimately show ?thesis using system_in_currency [OF assms(5) _ assms(4)] by (blast intro: balanced_deposit)
qed

lemma create_account_balanced:
  assumes "CreateAccount i u c b now d = Inr (a, d')" shows "balanced d d'"
proof -
  from assms have "d' = d\<lparr>accounts := accounts d @ [\<lparr>a_id = i, a_user_id = u, a_currency = c, a_balance = b,
      a_created_at = now, a_locked_micros = 0\<rparr>]\<rparr>"
    by (auto simp: CreateAccount_def split: if_splits)
  then show ?thesis by (auto simp: balanced_def drift_def balance_of_def net_of_def)
qed

lemma still_others:
  "keeps same_ledger (CreateUser i nm em ro)" "keeps same_ledger (ReserveIdempotencyKey key h me pa)"
  "keeps same_ledger (FinalizeIdempotencyKey rs rb ct key h)" "same_ledger d (d\<lparr>audit_seq := n\<rparr>)"
  by (auto simp: keeps_def CreateUser_def ReserveIdempotencyKey_def FinalizeIdempotencyKey_def same_ledger_def Let_def
      split: if_splits sum.splits option.splits)

lemma still_requeue: "frame same_ledger (foreach requeue_claimed ps)"
  by (intro frame_intros)

lemma commit_balanced:
  assumes "commit L d d'" and "decimal_lib L" and "sound L d"
  shows "balanced d d'"
  using assms(1,3)
proof (induction rule: commit.induct)
  case (request req i j w u w')
  then show ?case using RequestPayout_tx_requested [OF request(1)] by (auto simp: requested_def intro: balanced_lock)
next
  case (failure pid k x reason w u w')
  then show ?case using handlePayoutFailure_tx_refunded [OF failure(1)] by (auto simp: refunded_def intro: balanced_lock)
next
  case (release_safe x k now d n d')
  then have "distinct (map a_id (accounts d))" by (simp add: sound_def schema_ok_def)
  from ReleaseAccountFundsSafe_effect(2) [OF release_safe(1) this] show ?case
    by (auto intro: balanced_lock balanced_still split: if_splits)
qed (blast intro: transfer_balanced exchange_balanced [OF _ _ assms(2)] success_balanced resolve_balanced deposit_balanced
      create_account_balanced still_balanced frameD [OF still_batches(1)] frameD [OF still_requeue] frameD [OF still_batches(4)]
      frameD [OF still_transition] frameD [OF still_audit_Write] keepsD [OF still_statements(3)] keepsD [OF still_statements(5)]
      still_others(1-3) [THEN keepsD] still_others(4))+

lemma net_of_absent:
  assumes "schema_ok d" and "acct d i = None" shows "net_of d i = 0"
proof -
  have "filter (\<lambda>e. e_account_id e = i) (entries d) = []"
    using assms by (auto simp: filter_empty_conv schema_ok_def entry_ok_def sel_one_None_iff)
  then show ?thesis by (simp add: net_of_def)
qed

lemma commit_accounts:
  assumes "commit L d d'"
  shows "same_accounts d d' \<or> (entries d' = entries d \<and> payouts d' = payouts d)"
proof -
  have "frame same_accounts (foreach requeue_claimed ps)" for ps by (intro frame_intros)
  note requeue = frameD [OF this]
  from assms show ?thesis
  proof (induction rule: commit.induct)
    case (create_account i u c b now d a d')
    then show ?case by (auto simp: CreateAccount_def split: if_splits)
  qed (rule disjI1, rule frameD [OF ids.frame_Transfer_tx] frameD [OF ids.frame_TransferExchange_tx]
      frameD [OF ids.frame_RequestPayout_tx] frameD [OF ids.frame_batches(1)] requeue
      frameD [OF ids.frame_batches(4)] frameD [OF ids.frame_handlePayoutSuccess_tx]
      frameD [OF ids.frame_handlePayoutFailure_tx] frameD [OF ids.frame_ResolveManualReview_tx]
      frameD [OF ids.frame_HandleDeposit_tx] frameD [OF ids.frame_transition] frameD [OF ids.frame_audit_Write]
      keepsD [OF same_accounts_statements(3)] keepsD [OF same_accounts_statements(9)]
      keepsD [OF same_accounts_statements(11)] keepsD [OF same_accounts_statements(13)]
      keepsD [OF same_accounts_statements(14)] keepsD [OF same_accounts_statements(15)] idn.R_seq; assumption?)+
qed

lemma commit_payouts:
  assumes "commit L d d'"
  shows "same_payouts d d' \<or> (\<exists>req i j now. requested req i j now d d')"
proof -
  have "frame same_payouts (foreach requeue_claimed ps)" for ps by (intro frame_intros)
  note requeue = frameD [OF this]
  from assms show ?thesis
  proof (induction rule: commit.induct)
    case (request req i j w u w')
    then show ?case using RequestPayout_tx_requested by blast
  qed (rule disjI1, rule frameD [OF pids.frame_Transfer_tx] frameD [OF pids.frame_TransferExchange_tx]
      frameD [OF pids.frame_batches(1)] requeue
      frameD [OF pids.frame_batches(4)] frameD [OF pids.frame_handlePayoutSuccess_tx]
      frameD [OF pids.frame_handlePayoutFailure_tx] frameD [OF pids.frame_ResolveManualReview_tx]
      frameD [OF pids.frame_HandleDeposit_tx] frameD [OF pids.frame_transition] frameD [OF pids.frame_audit_Write]
      keepsD [OF same_payouts_statements(3)] keepsD [OF same_payouts_statements(9)]
      keepsD [OF same_payouts_statements(10)] keepsD [OF same_payouts_statements(12)]
      keepsD [OF same_payouts_statements(13)] keepsD [OF same_payouts_statements(14)]
      keepsD [OF same_payouts_statements(15)] pid.R_seq; assumption?)+
qed

lemma commit_sound:
  assumes "commit L d d'" and "decimal_lib L" and "sound L d"
  shows "sound L d'"
proof -
  have ok: "schema_ok d" "schema_ok d'"
    using assms(3) sch.commit_respects [OF assms(1)] by (auto simp: sound_def keeps_schema_def)
  have "grows account_identity (accounts d) (accounts d')"
    using evo.commit_respects [OF assms(1)] by (simp add: evolves_def)
  note up = ids_of_grows [OF this]
  have "currency_net d' c = 0" for c
  proof -
    have new: "net_of d' i = 0" if "i \<in> ids_of d' c - ids_of d c" for i
      using commit_accounts [OF assms(1)]
    proof
      assume "same_accounts d d'" with that ids_of_same show ?thesis by blast
    next
      assume e: "entries d' = entries d \<and> payouts d' = payouts d"
      have "acct d i = None"
      proof (cases "acct d i")
        case (Some r)
        then have "i \<in> ids_of d (a_currency r)" by (auto simp: ids_of_def)
        with up have "i \<in> ids_of d' (a_currency r)" by blast
        with that Some show ?thesis by (auto simp: ids_of_def)
      qed
      with e net_of_absent [OF ok(1)] show ?thesis by (simp add: net_of_def)
    qed
    have "(\<Sum>i \<in> ids_of d' c. net_of d' i) = (\<Sum>i \<in> ids_of d c. net_of d' i)"
      by (rule sum.mono_neutral_right) (use up new in auto)
    also have "\<dots> = currency_net d c"
      using commit_balanced [OF assms] ok(1) by (simp add: balanced_def currency_net_view)
    finally show ?thesis using assms(3) ok(2) by (simp add: sound_def currency_net_view)
  qed
  moreover have "p_account_id p \<in> ids_of d' (p_currency p)" if p: "p \<in> set (payouts d')" for p
    using commit_payouts [OF assms(1)]
  proof
    assume "same_payouts d d'"
    then have "payout_identity p \<in> payout_identity ` set (payouts d)"
      using p unfolding same_payouts_def by (metis imageI image_set)
    then show ?thesis using known_currency [OF assms(3)] up by (auto simp: known_def)
  next
    assume "\<exists>req i j now. requested req i j now d d'"
    then obtain req i j now where r: "requested req i j now d d'" by blast
    then have "p \<in> set (payouts d) \<or> p = requested_payout req i j now" using p by (auto simp: requested_def)
    then show ?thesis using assms(3) r up by (auto simp: sound_def requested_def requested_payout_def ids_of_def)
  qed
  ultimately show ?thesis using ok(2) assms(3) up by (auto simp: sound_def)
qed

end
