(* ===== verification/Interleaving.thy ===== *)
theory Interleaving
  imports Conservation
begin

text \<open>
  Every operation of the services is a sequence of commits, whatever the outside answers and
  however it ends: the frame relation \<open>chained\<close> is an instance of \<open>frame_rel\<close>, with the transactions
  counted only when they are complete.
\<close>

subsection \<open>Chains of commits\<close>

lemma known_chain:
  assumes "(commit L)\<^sup>*\<^sup>* d d'" and "known d p" shows "known d' p"
proof -
  have "grows payout_identity (payouts d) (payouts d')"
    using evo.chain_respects [OF assms(1)] by (simp add: evolves_def)
  then obtain zs where "map payout_identity (payouts d') = map payout_identity (payouts d) @ zs"
    by (auto simp: grows_def)
  then have "set (map payout_identity (payouts d)) \<subseteq> set (map payout_identity (payouts d'))" by simp
  with assms(2) show ?thesis by (auto simp: known_def)
qed

definition chained :: "lib \<Rightarrow> payout_row list \<Rightarrow> db \<Rightarrow> db \<Rightarrow> bool" where
  "chained L ps d d' \<longleftrightarrow> ((\<forall>p \<in> set ps. known d p) \<longrightarrow> (commit L)\<^sup>*\<^sup>* d d')"

interpretation run: frame_rel "chained L ps" for L ps
proof (unfold_locales, goal_cases)
  case (2 d d' d'')
  then show ?case unfolding chained_def using known_chain by (meson rtranclp_trans)
qed (auto simp: chained_def intro: commit.rollback)

lemma chained_commit: "commit L d d' \<Longrightarrow> chained L ps d d'"
  by (auto simp: chained_def)

lemma run_statements [frame_intros]:
  "keeps (chained L ps) (ReleaseAccountFundsSafe x k)" "keeps (chained L ps) (UpdateTransactionStatus st i)"
  "keeps (chained L ps) (UpdatePayoutStatus st g i)" "keeps (chained L ps) (CreateUser i nm em ro)"
  "keeps (chained L ps) (CreateAccount i u c b)" "keeps (chained L ps) (ReserveIdempotencyKey key h me pa)"
  "keeps (chained L ps) (FinalizeIdempotencyKey rs rb ct key h)"
  unfolding keeps_def by (blast intro: chained_commit commit.intros)+

text \<open>One rule per transaction of the program.\<close>

lemma run_transfer: "in_int64 a \<Longrightarrow> frame (chained L ps) (RunInTx (Transfer_tx f t a ref i))"
  by (rule run.frame_RunInTx_atomic) (blast intro: chained_commit commit.transfer)

lemma run_exchange:
  assumes "in_int64 (xc_Amount cmd)" and "getSystemAccountID L (xc_FromCurrency cmd) = Inr s"
    and "getSystemAccountID L (xc_ToCurrency cmd) = Inr t"
  shows "frame (chained L ps) (RunInTx (TransferExchange_tx L cmd rate s t i))"
  by (rule run.frame_RunInTx_atomic) (use assms in \<open>blast intro: chained_commit commit.exchange\<close>)

lemma run_success:
  assumes "p \<in> set ps"
  shows "frame (chained L ps) (RunInTx (handlePayoutSuccess_tx L (p_id p) (p_account_id p) (p_amount_micros p)
    (p_currency p) (p_transaction_id p) g))"
  by (rule run.frame_RunInTx_atomic) (use assms commit.success in \<open>fastforce simp: chained_def\<close>)

lemma run_deposit:
  assumes "in_int64 (dw_AmountMicros dp)" and "0 < dw_AmountMicros dp" and "getSystemAccountID L (dw_Currency dp) = Inr s"
  shows "frame (chained L ps) (RunInTx (HandleDeposit_tx dp k s b i))"
  by (rule run.frame_RunInTx_atomic) (use assms in \<open>blast intro: chained_commit commit.deposit\<close>)

lemma run_payout_transactions:
  "frame (chained L ps) (RunInTx (RequestPayout_tx req i j))"
  "frame (chained L ps) (RunInTx (recoverStale_tx cutoff n))"
  "frame (chained L ps) (RunInTx (foreach requeue_claimed qs))"
  "frame (chained L ps) (RunInTx (claimPending_tx n))"
  "frame (chained L ps) (RunInTx (handlePayoutFailure_tx pid k x reason))"
  "frame (chained L ps) (RunInTx (ResolveManualReview_tx L rreq decision))"
  "frame (chained L ps) (RunInTx (transitionTransactionState i ns actor a md))"
  "frame (chained L ps) (RunInTx (audit_Write ty i actor a pst ns md))"
  by (rule run.frame_RunInTx_atomic, blast intro: chained_commit commit.intros)+

subsection \<open>The services\<close>

lemma chain_Transfer: "in_int64 a \<Longrightarrow> frame (chained L ps) (Transfer L f t a ref)"
  unfolding Transfer_def by (rule run_transfer frame_intros | assumption)+

lemma chain_lift:
  assumes "\<And>a. r = Inr a \<Longrightarrow> frame (chained L ps) (f a)"
  shows "frame (chained L ps) (bind (wrapf text (lift_sum r)) f)" and "frame (chained L ps) (bind (lift_sum r) f)"
  using assms by (cases r; auto simp: frame_def control_defs lift_sum_def run.R_refl)+

lemma chain_TransferExchange:
  "in_int64 (xc_Amount cmd) \<Longrightarrow> frame (chained L ps) (TransferExchange L fx cmd)"
  unfolding TransferExchange_def by (rule run_exchange chain_lift frame_intros | assumption)+

lemma chain_RequestPayout: "frame (chained L ps) (RequestPayout req)"
  unfolding RequestPayout_def enqueue_payout_def by (rule run_payout_transactions frame_intros | assumption)+

lemma chain_ResolveManualReviewPayout: "frame (chained L ps) (ResolveManualReviewPayout L req)"
  unfolding ResolveManualReviewPayout_def Let_def by (rule run_payout_transactions frame_intros | assumption)+

lemma chain_evaluate: "frame (chained L ps) (evaluateExistingDepositReference dp row)"
  unfolding evaluateExistingDepositReference_def by (intro frame_intros)

lemma chain_process_deposit:
  assumes "in_int64 (dw_AmountMicros dp)" and "0 < dw_AmountMicros dp"
  shows "frame (chained L ps) (process_deposit L dp k b i)"
  unfolding process_deposit_def resolve_deposit_failure_def transitionState_def
  by (rule run_deposit [OF assms] run_payout_transactions chain_evaluate chain_lift frame_intros | assumption)+

lemma chain_HandleDepositWebhook: "frame (chained L ps) (HandleDepositWebhook L s payload sig)"
proof -
  have "frame (chained L ps) (bind (attempt (auto_exec (CheckTransactionIdempotency (dw_Reference dp)))) (\<lambda>found.
      case found of
        Inl err \<Rightarrow>
          if \<not> errors_Is err ErrNoRows then throw (Wrap ''failed to check idempotency: '' err '''')
          else bind uuid_New (\<lambda>transactionID. process_deposit L dp k False transactionID)
      | Inr existingTxRow \<Rightarrow>
          bind uuid_New (\<lambda>transactionID.
          bind (evaluateExistingDepositReference dp existingTxRow)
            (\<lambda>(replayResp, shouldRetry, existingTxID).
          case replayResp of
            Some resp \<Rightarrow> ret resp
          | None \<Rightarrow>
              if shouldRetry then process_deposit L dp k True existingTxID
              else process_deposit L dp k False transactionID))))"
    if "decode_deposit L payload = Inr (dp, k)" for dp k
    by (rule chain_process_deposit [OF decode_deposit_amount(2,1) [OF that]] chain_evaluate frame_intros | assumption)+
  then show ?thesis
    unfolding HandleDepositWebhook_def
    by (intro run.frame_if run.frame_pure chain_lift) (auto split: prod.splits)
qed

subsection \<open>The payout worker\<close>

lemma chain_markPayoutManualReview: "frame (chained L ps) (markPayoutManualReview i g r)"
  unfolding markPayoutManualReview_def by (rule run_payout_transactions frame_intros | assumption)+

lemma chain_handlePayoutSuccess:
  "p \<in> set ps \<Longrightarrow> frame (chained L ps) (handlePayoutSuccess L (p_id p) (p_account_id p) (p_amount_micros p)
     (p_currency p) (p_transaction_id p) g)"
  unfolding handlePayoutSuccess_def
  by (rule run_success chain_markPayoutManualReview frame_intros | assumption)+

lemma chain_handlePayoutFailure: "frame (chained L ps) (handlePayoutFailure pid k x reason)"
  unfolding handlePayoutFailure_def updatePayoutFailed_def
  by (rule run_payout_transactions frame_intros | assumption)+

lemma chain_requeueClaimedPayouts: "frame (chained L ps) (requeueClaimedPayouts qs)"
  unfolding requeueClaimedPayouts_def by (rule run_payout_transactions frame_intros | assumption)+

lemma chain_process_claimed:
  "set qs \<subseteq> set ps \<Longrightarrow> frame (chained L ps) (process_claimed L qs)"
proof (induction qs)
  case (Cons p qs)
  then have p: "p \<in> set ps" and rest: "frame (chained L ps) (process_claimed L qs)" by simp_all
  show ?case
    unfolding process_claimed.simps
    by (rule rest chain_handlePayoutSuccess [OF p] chain_handlePayoutFailure chain_requeueClaimedPayouts
        frame_intros | assumption)+
qed (simp add: process_claimed.simps run.frame_pure)

text \<open>The payouts a worker has claimed are in the table, and stay there.\<close>

lemma claimPending_tx_ok:
  assumes "claimPending_tx n w = (Inr ps, w')"
  obtains rows skip t d w2 where "GetPendingPayouts skip n t d = Inr (rows, wdb w2)"
    and "ps = map (\<lambda>p. p\<lparr>p_status := PayoutStatusProcessing\<rparr>) rows" and "foreach claim_one rows w2 = (Inr (), w')"
proof -
  from assms obtain skip w1 where "bind (wrapf ''failed to fetch pending payouts: ''
      (exec (GetPendingPayouts skip n))) (\<lambda>rows. bind (foreach claim_one rows) (\<lambda>_.
      ret (map (\<lambda>p. p\<lparr>p_status := PayoutStatusProcessing\<rparr>) rows))) w1 = (Inr ps, w')"
    unfolding claimPending_tx_def by (rule bind_ok)
  then obtain rows w2 where "GetPendingPayouts skip n (wnow w1) (wdb w1) = Inr (rows, wdb w2)"
    and loop: "bind (foreach claim_one rows) (\<lambda>_. ret (map (\<lambda>p. p\<lparr>p_status := PayoutStatusProcessing\<rparr>) rows)) w2 = (Inr ps, w')"
    by (rule exec_then_ok)
  from loop have "ps = map (\<lambda>p. p\<lparr>p_status := PayoutStatusProcessing\<rparr>) rows"
    and "foreach claim_one rows w2 = (Inr (), w')" by (auto elim!: bind_ok ret_ok)
  with \<open>GetPendingPayouts skip n (wnow w1) (wdb w1) = Inr (rows, wdb w2)\<close> show thesis by (rule that)
qed

lemma claimed_known:
  assumes "claimPendingPayouts n w = (Inr ps, w')" and "p \<in> set ps"
  shows "known (wdb w') p"
  using assms(1) unfolding claimPendingPayouts_def
proof (rule RunInTx_ok)
  fix w1 w2 assume tx: "claimPending_tx n w1 = (Inr ps, w2)" and d': "wdb w' = wdb w2"
  then obtain rows skip t d w4 where rows: "GetPendingPayouts skip n t d = Inr (rows, wdb w4)"
    and ps: "ps = map (\<lambda>p. p\<lparr>p_status := PayoutStatusProcessing\<rparr>) rows"
    and loop: "foreach claim_one rows w4 = (Inr (), w2)"
    by (metis claimPending_tx_ok)
  have "set rows \<subseteq> set (payouts (wdb w4))"
    using rows by (auto simp: GetPendingPayouts_def split: if_splits dest: in_set_takeD)
  with ps assms(2) have "known (wdb w4) p" by (auto simp: known_def payout_identity_def)
  moreover have "same_payouts (wdb w4) (wdb w2)"
    by (rule frameD [OF pid.frame_foreach [OF pids.frame_batch_steps(3)], of "\<lambda>p. p", simplified, OF loop])
  ultimately show ?thesis
    using d' unfolding known_def same_payouts_def by (metis image_set)
qed

lemma chain_ProcessPayouts: "frame (chained L []) (ProcessPayouts L n)"
proof -
  have claim: "frame (chained L ps) (claimPendingPayouts n)" for ps
    unfolding claimPendingPayouts_def by (rule run_payout_transactions)
  have "frame (chained L []) (bind (claimPendingPayouts n) (\<lambda>claimed.
      if claimed = [] then ret () else process_claimed L claimed))"
    unfolding frame_def
  proof
    fix w
    obtain x w1 where c: "claimPendingPayouts n w = (x, w1)" by (metis surj_pair)
    have first: "(commit L)\<^sup>*\<^sup>* (wdb w) (wdb w1)" using frameD [OF claim c, of "[]"] by (simp add: chained_def)
    show "chained L [] (wdb w) (wdb (snd (bind (claimPendingPayouts n) (\<lambda>claimed.
      if claimed = [] then ret () else process_claimed L claimed) w)))"
    proof (cases x)
      case (Inl e)
      with c first show ?thesis by (simp add: bind_def chained_def)
    next
      case (Inr ps)
      have "chained L ps (wdb w1) (wdb (snd (process_claimed L ps w1)))"
        using chain_process_claimed [of ps ps L] by (simp add: frame_def)
      moreover have "\<forall>p \<in> set ps. known (wdb w1) p" using claimed_known c Inr by blast
      ultimately show ?thesis using c Inr first
        by (auto simp: bind_def chained_def ret_def)
    qed
  qed
  moreover have "frame (chained L []) (recoverStaleProcessingPayouts n)"
    unfolding recoverStaleProcessingPayouts_def by (rule run_payout_transactions frame_intros | assumption)+
  ultimately show ?thesis unfolding ProcessPayouts_def by (rule run.frame_bind [rotated])
qed

lemma chain_processBatch: "frame (chained L []) (processBatch L n)"
  unfolding processBatch_def by (rule chain_ProcessPayouts frame_intros | assumption)+

lemma chain_accounts:
  "frame (chained L ps) (Repository_CreateUser u)" "frame (chained L ps) (AccountService_CreateAccount i c b)"
  unfolding Repository_CreateUser_def AccountService_CreateAccount_def Repository_CreateAccount_def Let_def
  by (rule frame_intros | assumption)+

end
