(* ===== verification/Witnesses.thy ===== *)
theory Witnesses
  imports Interleaving
begin

text \<open>
  Concrete runs of the services on the sample database, evaluated, and the theorems of the
  components applied to them: every hypothesis can hold, and the interesting disjunct occurs.
\<close>

subsection \<open>Runs\<close>

definition transfer_example :: "(err + model_transaction) \<times> world" where
  "transfer_example = Transfer sample_lib alice_usd bob_usd 200 ''r1'' (sample_world sample_db)"

definition exchange_example_cmd :: TransferExchangeCmd where
  "exchange_example_cmd = \<lparr>xc_FromAccountID = alice_usd, xc_ToAccountID = alice_eur, xc_Amount = 100,
     xc_FromCurrency = ''USD'', xc_ToCurrency = ''EUR'', xc_ReferenceID = ''r2''\<rparr>"

definition exchange_example :: "(err + model_transaction) \<times> world" where
  "exchange_example = TransferExchange sample_lib (GetExchangeRate sample_lib) exchange_example_cmd
     (sample_world sample_db)"

definition payout_example_req :: RequestPayoutRequest where
  "payout_example_req = \<lparr>rq_AccountID = alice_usd, rq_AmountMicros = 100, rq_Currency = ''USD'',
     rq_Destination = \<lparr>IBAN = ''DE1'', Name = ''Alice''\<rparr>, rq_ReferenceID = ''r3''\<rparr>"

definition payout_example :: "(err + PayoutResponse) \<times> world" where
  "payout_example = RequestPayout payout_example_req (sample_world sample_db)"

text \<open>The database after the request, as it is evaluated below (\<open>requested_db_run\<close>).\<close>

definition requested_db :: db where
  "requested_db = sample_db\<lparr>
     accounts := accounts seed_db @ [account_row_of ''a-usd'' ''alice'' ''USD'' 500 100,
       account_row_of ''a-eur'' ''alice'' ''EUR'' 0 0, account_row_of ''b-usd'' ''bob'' ''USD'' 0 0],
     transactions := [\<lparr>t_id = UUID ''x'', t_amount = 100, t_currency = ''USD'', t_type = ''payout'',
       t_status = ''PENDING'', t_reference_id = ''r3'', t_created_at = 0, t_fx_rate = None,
       t_metadata = Some (destination_metadata (rq_Destination payout_example_req))\<rparr>],
     payouts := [\<lparr>p_id = UUID ''xx'', p_transaction_id = UUID ''x'', p_account_id = alice_usd,
       p_amount_micros = 100, p_currency = ''USD'', p_status = ''PENDING'', p_gateway_ref = None,
       p_created_at = 0, p_updated_at = 0\<rparr>],
     audit_log := [\<lparr>l_id = 1, l_entity_type = ''transaction'', l_entity_id = UUID ''x'', l_actor_id = None,
       l_action = ''created'', l_prev_state = None, l_next_state = Some ''PENDING'',
       l_metadata = Some (destination_metadata (rq_Destination payout_example_req)), l_created_at = 0\<rparr>],
     audit_seq := 1\<rparr>"

definition claim_example :: "(err + payout_row list) \<times> world" where
  "claim_example = claimPendingPayouts 10 (sample_world requested_db)"

definition review_db :: db where
  "review_db = wdb (snd (markPayoutManualReview (UUID ''xx'') ''G1'' ''timeout''
     (sample_world (wdb (snd claim_example)))))"

definition resolve_example_req :: ResolveManualReviewRequest where
  "resolve_example_req = \<lparr>rr_PayoutID = UUID ''xx'', rr_Decision = ''confirm_sent'', rr_Reason = ''seen'',
     rr_ActorID = None, rr_GatewayRef = None\<rparr>"

definition resolve_example :: "(err + model_payout) \<times> world" where
  "resolve_example = ResolveManualReviewPayout sample_lib resolve_example_req (sample_world review_db)"

definition quoted :: "string \<Rightarrow> string" where
  "quoted s = CHR 0x22 # s @ [CHR 0x22]"

definition deposit_example_payload :: string where
  "deposit_example_payload = ''{'' @ quoted ''account_id'' @ '': '' @ quoted ''a-usd'' @ '', '' @
     quoted ''amount_micros'' @ '': 50, '' @ quoted ''currency'' @ '': '' @ quoted ''usd'' @ '', '' @
     quoted ''reference'' @ '': '' @ quoted ''d1'' @ ''}''"

definition open_service :: WebhookService where
  "open_service = \<lparr>hmacKey = '''', skipSig = True\<rparr>"

definition deposit_example :: "(err + DepositWebhookResponse) \<times> world" where
  "deposit_example = HandleDepositWebhook sample_lib open_service deposit_example_payload ''''
     (sample_world sample_db)"

subsection \<open>Their outcomes\<close>

lemma transfer_example_ok: "\<not> isl (fst transfer_example)" by code_simp

lemma transfer_example_balance: "balance_of (wdb (snd transfer_example)) alice_usd = 300" by code_simp

lemma exchange_example_ok: "\<not> isl (fst exchange_example)" by code_simp

lemma exchange_example_balance: "balance_of (wdb (snd exchange_example)) alice_eur = 92" by code_simp

lemma payout_example_ok: "\<not> isl (fst payout_example)" by code_simp

lemma payout_example_locked: "locked_of (wdb (snd payout_example)) alice_usd = 100" by code_simp

lemma requested_db_run: "wdb (snd payout_example) = requested_db" by code_simp

lemma resolve_example_ok: "\<not> isl (fst resolve_example)" by code_simp

lemma resolve_example_balance: "balance_of (wdb (snd resolve_example)) alice_usd = 400" by code_simp

lemma review_balance: "balance_of review_db alice_usd = 500" by code_simp

lemma deposit_example_ok: "\<not> isl (fst deposit_example)" by code_simp

lemma deposit_example_balance: "balance_of (wdb (snd deposit_example)) alice_usd = 550" by code_simp

lemma sample_balances: "balance_of sample_db alice_usd = 500" "balance_of sample_db alice_eur = 0"
  "locked_of sample_db alice_usd = 0"
  by (simp_all add: balance_of_def locked_of_def sample_defs)

lemma unchanged_money: "unchanged d d' \<Longrightarrow> balance_of d' k = balance_of d k \<and> locked_of d' k = locked_of d k"
  by (auto simp: unchanged_def balance_of_def locked_of_def)

lemma not_isl: "\<not> isl r \<Longrightarrow> \<exists>x. r = Inr x"
  by (cases r) auto

subsection \<open>The theorems at these runs\<close>

theorem Transfer_all_or_nothing_witness:
  "\<exists>i c now d'. transferred alice_usd bob_usd 200 ''r1'' i c now sample_db d' \<and>
     unchanged d' (wdb (snd transfer_example)) \<and>
     fst transfer_example = Inr (transfer_answer i 200 c TxTypeTransfer ''r1'' None)"
proof -
  have moved: "\<not> unchanged sample_db (wdb (snd transfer_example))"
    using unchanged_money [of sample_db "wdb (snd transfer_example)" alice_usd] transfer_example_balance
      sample_balances by auto
  have "Transfer sample_lib alice_usd bob_usd 200 ''r1'' (sample_world sample_db)
      = (fst transfer_example, snd transfer_example)" by (simp add: transfer_example_def)
  from Transfer_all_or_nothing [OF this] moved not_isl [OF transfer_example_ok] show ?thesis by simp blast
qed

theorem TransferExchange_all_or_nothing_witness:
  "\<exists>i n s t rate now d'. exchanged sample_lib exchange_example_cmd rate s t i n now sample_db d' \<and>
     unchanged d' (wdb (snd exchange_example)) \<and> balance_of (wdb (snd exchange_example)) alice_eur = 92"
proof -
  have moved: "\<not> unchanged sample_db (wdb (snd exchange_example))"
    using unchanged_money [of sample_db "wdb (snd exchange_example)" alice_eur] exchange_example_balance
      sample_balances by auto
  have int64: "in_int64 (xc_Amount exchange_example_cmd)" by (simp add: exchange_example_cmd_def)
  have "TransferExchange sample_lib (GetExchangeRate sample_lib) exchange_example_cmd
      (sample_world sample_db) = (fst exchange_example, snd exchange_example)" by (simp add: exchange_example_def)
  from TransferExchange_all_or_nothing [OF this int64] moved exchange_example_balance show ?thesis by simp blast
qed

theorem RequestPayout_all_or_nothing_witness:
  "\<exists>i j now. requested payout_example_req i j now sample_db (wdb (snd payout_example)) \<and>
     fst payout_example = Inr \<lparr>PayoutID = j, Status = PayoutStatusPending, Message = ''Payout queued for processing''\<rparr>"
proof -
  have moved: "\<not> unchanged sample_db (wdb (snd payout_example))"
    using unchanged_money [of sample_db "wdb (snd payout_example)" alice_usd] payout_example_locked
      sample_balances by auto
  have "RequestPayout payout_example_req (sample_world sample_db) = (fst payout_example, snd payout_example)"
    by (simp add: payout_example_def)
  from RequestPayout_all_or_nothing [OF this] moved not_isl [OF payout_example_ok] show ?thesis by simp blast
qed

lemma review_schema: "schema_ok review_db"
proof -
  note keep = sch.worker.frame_RequestPayout [of payout_example_req]
    sch.worker.frame_batches(5) [of 10]
    sch.worker.frame_markPayoutManualReview [of "UUID ''xx''" "''G1''" "''timeout''"]
  show ?thesis
    using keep requested_db_run
    by (simp add: review_db_def claim_example_def payout_example_def frame_def keeps_schema_def) (metis sample_schema(2) sample_world_sel(1))
qed

theorem ResolveManualReviewPayout_all_or_nothing_witness:
  "\<exists>p now d'. resolved sample_lib resolve_example_req ''confirm_sent'' p now review_db d' \<and>
     unchanged d' (wdb (snd resolve_example))"
proof -
  have moved: "\<not> unchanged review_db (wdb (snd resolve_example))"
    using unchanged_money [of review_db "wdb (snd resolve_example)" alice_usd] resolve_example_balance
      review_balance by auto
  have decision: "ToLower (TrimSpace (rr_Decision resolve_example_req)) = ''confirm_sent''" by code_simp
  have "ResolveManualReviewPayout sample_lib resolve_example_req (sample_world review_db)
      = (fst resolve_example, snd resolve_example)" by (simp add: resolve_example_def)
  from ResolveManualReviewPayout_all_or_nothing [OF this] moved review_schema show ?thesis
    by (auto simp: decision)
qed


theorem Convert_floors_witness:
  "Amount (Convert sample_lib (NewMoney 333 ''USD'') ''EUR'' (92 / 100)) = 306"
proof -
  have "\<lfloor>of_int (Amount (NewMoney 333 ''USD'')) * (92 / 100 :: rat)\<rfloor> = 306"
    by (simp add: NewMoney_def floor_eq_iff)
  then show ?thesis
    using Convert_floors [of sample_lib "NewMoney 333 ''USD''" "92 / 100" "''EUR''"] by (simp add: NewMoney_def)
qed

theorem decimal_round_trip_witness: "FromDecimal sample_lib (ToDecimal sample_lib (NewMoney (- 7) ''USD'')) = - 7"
  using decimal_round_trip [of sample_lib "NewMoney (- 7) ''USD''"] by (simp add: NewMoney_def in_int64_def)

theorem GetExchangeRate_value_witness:
  "\<exists>r. GetExchangeRate sample_lib ''GBP'' ''EUR'' = Inr r \<and> \<bar>r - 92 / 79\<bar> \<le> 1 / 10 ^ 16 \<and> 0 < r"
  using GetExchangeRate_value [of sample_lib "''GBP''" "''EUR''"] by (simp add: currency_ok_def base_rate_def)

theorem webhook_authentic_witness:
  "HandleDepositWebhook sample_lib \<lparr>hmacKey = '''', skipSig = False\<rparr> deposit_example_payload ''sha256=0'' (sample_world sample_db)
     = (Inl ErrInvalidSignature, sample_world sample_db)"
  using webhook_authentic [of sample_lib "\<lparr>hmacKey = '''', skipSig = False\<rparr>" deposit_example_payload "''sha256=0''"
     "sample_world sample_db", OF prod.collapse [symmetric]] by (simp add: prod_eq_iff)

theorem Transfer_replay_witness:
  "fst (Transfer sample_lib alice_usd bob_usd 200 ''r1'' (sample_world (wdb (snd transfer_example)))) =
     Inr (transfer_answer (UUID ''x'') 200 ''USD'' TxTypeTransfer ''r1'' None)"
proof -
  have row: "map_option (mapExistingTransaction sample_lib)
    (sel_one t_reference_id ''r1'' (transactions (wdb (snd transfer_example)))) =
      Some (transfer_answer (UUID ''x'') 200 ''USD'' TxTypeTransfer ''r1'' None)" by code_simp
  then obtain r where "sel_one t_reference_id ''r1'' (transactions (wdb (snd transfer_example))) = Some r"
    "mapExistingTransaction sample_lib r = transfer_answer (UUID ''x'') 200 ''USD'' TxTypeTransfer ''r1'' None"
    by auto
  then show ?thesis
    using Transfer_replay [of 200 "''r1''" alice_usd bob_usd "sample_world (wdb (snd transfer_example))" r sample_lib]
    by simp
qed

theorem reconciliation_reports_witness:
  "wtrace (snd (reconciliation_Run (sample_world (sample_db\<lparr>entries := [\<lparr>e_id = UUID ''e'', e_transaction_id = UUID ''t'',
     e_account_id = alice_usd, e_amount = 5, e_direction = ''credit'', e_created_at = 0\<rparr>]\<rparr>)))) =
   [Counter ''ledger_imbalance_total'' [''ALL''], Counter ''ledger_imbalance_total'' [''USD'']]"
proof -
  let ?d = "sample_db\<lparr>entries := [\<lparr>e_id = UUID ''e'', e_transaction_id = UUID ''t'',
     e_account_id = alice_usd, e_amount = 5, e_direction = ''credit'', e_created_at = 0\<rparr>]\<rparr>"
  have net: "ledger_net ?d = 5" by (simp add: ledger_net_def signed_amount_def)
  have nets: "\<forall>c. in_int64 (currency_net ?d c)"
    by (simp add: currency_net_def signed_amount_def in_int64_def)
  have "imbalanced ?d = [''USD'']"
    by (simp add: imbalanced_def currency_net_def signed_amount_def sample_defs)
  with net nets show ?thesis
    using reconciliation_reports [of "sample_world ?d", OF _ _ _ _ prod.collapse [symmetric]] by (simp add: in_int64_def)
qed

end
