(* ===== verification/Progress.thy ===== *)
theory Progress
  imports Webhook
begin

text \<open>
  What succeeds: in a world without driver faults the statements, the transitions and the services
  do their work whenever their conditions hold. \<open>st w d u\<close> is the world with its database and its
  source of identifiers replaced, so that a run is a chain of such states.
\<close>

definition quiet :: "world \<Rightarrow> bool" where
  "quiet w \<longleftrightarrow> wfaults w = (\<lambda>_. NoFault)"

definition st :: "world \<Rightarrow> db \<Rightarrow> (nat \<Rightarrow> uuid) \<Rightarrow> world" where
  "st w d u = w\<lparr>wdb := d, wuuids := u\<rparr>"

lemma st_sel [simp]: "wdb (st w d u) = d" "wnow (st w d u) = wnow w" "wuuids (st w d u) = u"
  "wfaults (st w d u) = wfaults w" "quiet (st w d u) = quiet w"
  by (simp_all add: st_def quiet_def)

lemma quiet_faults [simp]: "quiet w \<Longrightarrow> pop (wfaults w) = wfaults w" "quiet w \<Longrightarrow> wfaults w n = NoFault"
  by (simp_all add: quiet_def pop_def)

lemma exec_st:
  "quiet w \<Longrightarrow> exec s (st w d u) = (case s (wnow w) d of
     Inl e \<Rightarrow> (Inl e, st w d u) | Inr (a, d') \<Rightarrow> (Inr a, st w d' u))"
  by (auto simp: exec_def st_def quiet_def pop_def Let_def split: sum.splits)

lemma uuid_New_st: "bind uuid_New f (st w d u) = f (u 0) (st w d (pop u))"
  by (simp add: bind_def uuid_New_def st_def)

lemma exec_then_st:
  "quiet w \<Longrightarrow> bind (wrapf text (exec s)) f (st w d u) = (case s (wnow w) d of
     Inl e \<Rightarrow> (Inl (Wrap text e ''''), st w d u) | Inr (a, d') \<Rightarrow> f a (st w d' u))"
  by (auto simp: exec_st bind_def wrapf_def split: sum.splits)

lemma rows_then_st [simp]: "bind (requireExactlyOne 1 op) f w = f () w" "requireExactlyOne 1 op w = (Inr (), w)"
  by (simp_all add: requireExactlyOne_def control_defs)

subsection \<open>Statements\<close>

lemma update_one_runs:
  assumes "distinct (map key rs)" and "sel_one key k rs = Some r" and "f r = Inr r'"
  shows "\<exists>rs'. update_rows (\<lambda>q. key q = k) f rs = Inr (1, rs')"
  using assms
proof (induction rs)
  case (Cons q rs)
  show ?case
  proof (cases "key q = k")
    case True
    with Cons.prems have "k \<notin> key ` set rs" by auto
    then have "update_rows (\<lambda>q. key q = k) f rs = Inr (0, rs)" by (intro update_rows_none) auto
    with True Cons.prems show ?thesis by simp
  next
    case False
    with Cons show ?thesis by auto
  qed
qed simp

lemma UpdateAccountBalance_runs:
  assumes "schema_ok d" and "acct d k = Some r" and "in_int64 (a_balance r + x)" and "in_int64 (a_locked_micros r)"
  obtains d' where "UpdateAccountBalance x k t d = Inr (1, d')" and "schema_ok d'" and "other_tables d d'"
    and "\<And>j. acct d' j = (if j = k then Some (r\<lparr>a_balance := a_balance r + x\<rparr>) else acct d j)"
proof -
  have dist: "distinct (map a_id (accounts d))" using assms(1) by (simp add: schema_ok_def)
  have "account_ok d r" using assms(1) sel_one_Some [OF assms(2)] by (simp add: schema_ok_def)
  then have "set_funds (a_balance r + x) (a_locked_micros r) r = Inr (r\<lparr>a_balance := a_balance r + x\<rparr>)"
    using assms(3,4) by (simp add: set_funds_def account_ok_def)
  then obtain rows where "update_rows (\<lambda>q. a_id q = k)
      (\<lambda>r. set_funds (a_balance r + x) (a_locked_micros r) r) (accounts d) = Inr (1, rows)"
    using update_one_runs [OF dist assms(2), of "\<lambda>r. set_funds (a_balance r + x) (a_locked_micros r) r"] by blast
  then have run: "UpdateAccountBalance x k t d = Inr (1, d\<lparr>accounts := rows\<rparr>)" (is "_ = Inr (1, ?d)")
    by (simp add: UpdateAccountBalance_def update_accounts_def)
  have "schema_ok ?d" using keepsD [OF sch.keeps_UpdateAccountBalance run] assms(1) by (simp add: keeps_schema_def)
  moreover obtain q where "acct d k = Some q" and "other_tables d ?d"
    and "\<And>j. acct ?d j = (if j = k then Some (q\<lparr>a_balance := a_balance q + x, a_locked_micros := a_locked_micros q\<rparr>) else acct d j)"
    using funds_effect [OF run [unfolded UpdateAccountBalance_def]] by (metis zero_neq_one)
  ultimately show thesis using that [OF run] assms(2) by simp
qed

lemma UpdateTransactionStatus_runs:
  assumes "schema_ok d" and "txn d i = Some r" and "tx_status_ok ns"
  obtains d' where "UpdateTransactionStatus ns i t d = Inr (1, d')"
proof -
  have "distinct (map t_id (transactions d))" using assms(1) by (simp add: schema_ok_def)
  moreover have "length ns \<le> 50" using assms(3) by (auto simp: tx_status_ok_def)
  ultimately obtain rows where "update_rows (\<lambda>q. t_id q = i) (\<lambda>r. (if length ns > 50 then Inl string_too_long
        else if \<not> tx_status_ok ns then Inl check_violation else Inr (r\<lparr>t_status := ns\<rparr>))) (transactions d) = Inr (1, rows)"
    using update_one_runs [of t_id "transactions d" i r] assms(2,3) by fastforce
  then show thesis by (intro that) (simp add: UpdateTransactionStatus_def update_transactions_def)
qed

subsection \<open>Transitions\<close>

lemma audit_Write_st:
  assumes "quiet w"
  shows "\<exists>d'. audit_Write ty i ac a ps ns md (st w d u) = (Inr (), st w d' u)"
  using assms by (auto simp: audit_Write_def exec_then_st ret_def InsertAuditLog_def Let_def)

lemma transition_runs:
  assumes "quiet w" and "schema_ok d" and "txn d i = Some r" and "canTransition (t_status r) ns"
    and "normalizeState (t_status r) \<noteq> normalizeState ns" and "tx_status_ok ns"
  obtains d' where "transitionTransactionState i ns ac a md (st w d u) = (Inr (), st w d' u)"
    and "schema_ok d'" and "same_ledger d d'" and "txn d' i = Some (r\<lparr>t_status := ns\<rparr>)" and "payouts d' = payouts d"
proof -
  obtain d1 where upd: "UpdateTransactionStatus ns i (wnow w) d = Inr (1, d1)"
    using UpdateTransactionStatus_runs [OF assms(2,3,6)] .
  obtain d2 where aud: "audit_Write ''transaction'' i ac a (t_status r) ns md (st w d1 u) = (Inr (), st w d2 u)"
    using audit_Write_st [OF assms(1)] by blast
  have get: "GetTransactionStatusForUpdate i (wnow w) d = Inr (t_status r, d)"
    using assms(3) by (simp add: GetTransactionStatusForUpdate_def)
  have run: "transitionTransactionState i ns ac a md (st w d u) = (Inr (), st w d2 u)"
    unfolding transitionTransactionState_def
    using assms(4,5) aud by (simp add: exec_then_st [OF assms(1)] get upd)
  have r: "t_status r \<noteq> ''''" "ns \<noteq> ''''"
    using assms(2,3,6) by (auto simp: schema_ok_def transaction_ok_def tx_status_ok_def dest!: sel_one_Some bspec)
  have "schema_ok d2"
    using frameD [OF sch.transition_respects run] assms(2) by (simp add: keeps_schema_def)
  moreover have "same_ledger d d2" "txn d2 i = Some (r\<lparr>t_status := ns\<rparr>)" "payouts d2 = payouts d"
    using moved_to(1,4,5) [OF run _ assms(5) r(2,1)] assms(3) by simp_all
  ultimately show thesis using that run by blast
qed


text \<open>A transaction is opened: recorded as PENDING with its audit record and moved to PROCESSING.\<close>

lemma status_steps:
  "canTransition TxStatusPending TxStatusProcessing" "canTransition TxStatusProcessing TxStatusCompleted"
  "TxStatusPending \<noteq> TxStatusProcessing" "TxStatusProcessing \<noteq> TxStatusCompleted"
  "tx_status_ok TxStatusPending" "tx_status_ok TxStatusProcessing" "tx_status_ok TxStatusCompleted"
  by (simp_all add: canTransition_def transactionTransitions_simps tx_status_ok_def) (simp_all add: tx_status_defs)

lemma open_runs:
  assumes "quiet w" and "schema_ok d" and "i \<notin> t_id ` set (transactions d)"
    and "ref \<notin> t_reference_id ` set (transactions d)" and "length ref \<le> 255"
    and "0 < x" and "currency_ok c" and "tx_type_ok ty"
  obtains d1 where "schema_ok d1" and "same_ledger d d1" and "txn d1 i = Some (opened_row i x c ty ref md (wnow w))"
    and "bind (wrapf m1 (exec (CreateTransaction i x c ty TxStatusPending ref None md))) (\<lambda>_.
      bind (audit_Write ''transaction'' i None ''created'' '''' TxStatusPending md) (\<lambda>_.
      bind (wrapf m2 (transitionTransactionState i TxStatusProcessing None ''processing_started'' None)) f)) (st w d u)
      = f () (st w d1 u)"
proof -
  let ?r = "\<lparr>t_id = i, t_amount = x, t_currency = c, t_type = ty, t_status = TxStatusPending,
    t_reference_id = ref, t_created_at = wnow w, t_fx_rate = None, t_metadata = md\<rparr>"
  let ?d = "d\<lparr>transactions := transactions d @ [?r]\<rparr>"
  have "length c \<le> 3" "length ty \<le> 50" using assms(7,8) by (auto simp: currency_ok_def tx_type_ok_def)
  then have create: "CreateTransaction i x c ty TxStatusPending ref None md (wnow w) d = Inr (i, ?d)"
    using assms(3-8) by (simp add: CreateTransaction_def tx_status_ok_def tx_status_defs)
  obtain d1 where audit: "audit_Write ''transaction'' i None ''created'' '''' TxStatusPending md (st w ?d u) = (Inr (), st w d1 u)"
    using audit_Write_st [OF assms(1)] by blast
  have same: "transactions d1 = transactions d @ [?r]" "same_ledger d d1"
    using audit by (auto elim!: audit_Write_ok simp: same_ledger_def)
  have "schema_ok d1"
    using keepsD [OF sch.keeps_CreateTransaction create] frameD [OF sch.worker.frame_audit_Write audit] assms(2)
    by (simp add: keeps_schema_def)
  moreover have row: "txn d1 i = Some ?r" using same assms(3) by (simp add: sel_one_None_iff [symmetric])
  ultimately obtain d2 where trans: "transitionTransactionState i TxStatusProcessing None ''processing_started'' None
      (st w d1 u) = (Inr (), st w d2 u)"
    and d2: "schema_ok d2" "same_ledger d1 d2" "txn d2 i = Some (?r\<lparr>t_status := TxStatusProcessing\<rparr>)"
    using transition_runs [OF assms(1), of d1 i ?r TxStatusProcessing None "''processing_started''" None u]
    by (auto simp: status_steps)
  have "same_ledger d d2" using same(2) d2(2) by (rule same_ledger_trans)
  moreover have "bind (wrapf m1 (exec (CreateTransaction i x c ty TxStatusPending ref None md))) (\<lambda>_.
      bind (audit_Write ''transaction'' i None ''created'' '''' TxStatusPending md) (\<lambda>_.
      bind (wrapf m2 (transitionTransactionState i TxStatusProcessing None ''processing_started'' None)) f)) (st w d u)
      = f () (st w d2 u)"
    by (simp add: exec_then_st assms(1) create) (simp add: bind_def audit wrapf_def trans)
  ultimately show thesis using that d2 by (simp add: opened_row_def)
qed


subsection \<open>A transfer\<close>

text \<open>The identifiers still to be generated are new.\<close>

definition fresh_ids :: "(nat \<Rightarrow> uuid) \<Rightarrow> db \<Rightarrow> bool" where
  "fresh_ids u d \<longleftrightarrow> inj u \<and> range u \<inter> (t_id ` set (transactions d) \<union> e_id ` set (entries d)) = {}"

lemma fresh_ids_pop: "fresh_ids u d \<Longrightarrow> fresh_ids (pop u) d"
proof -
  have "range (pop u) \<subseteq> range u" by (auto simp: pop_def)
  moreover have "inj u \<Longrightarrow> inj (pop u)" by (auto simp: inj_def pop_def)
  ultimately show "fresh_ids u d \<Longrightarrow> fresh_ids (pop u) d" unfolding fresh_ids_def by blast
qed

lemma entry_runs:
  assumes "e \<notin> e_id ` set (entries d)" and "txn d i \<noteq> None" and "acct d k \<noteq> None" and "0 < x" and "direction_ok di"
  shows "CreateEntry e i k x di t d = Inr (e, d\<lparr>entries := entries d @
    [\<lparr>e_id = e, e_transaction_id = i, e_account_id = k, e_amount = x, e_direction = di, e_created_at = t\<rparr>]\<rparr>)"
proof -
  have "length di \<le> 10" using assms(5) by (auto simp: direction_ok_def)
  then show ?thesis using assms by (auto simp: CreateEntry_def sel_one_None_iff)
qed

lemma transfer_postings_runs:
  assumes "quiet w" and "schema_ok d" and "txn d i = Some r" and "0 < x" and "in_int64 x" and "f \<noteq> t"
    and "inj u" and "range u \<inter> e_id ` set (entries d) = {}"
    and "acct d f = Some ra" and "in_int64 (a_balance ra - x)" and "in_int64 (a_locked_micros ra)"
    and "acct d t = Some rb" and "in_int64 (a_balance rb + x)" and "in_int64 (a_locked_micros rb)"
  obtains d' u' where "transfer_postings f t x i (st w d u) = (Inr (), st w d' u')" and "schema_ok d'"
    and "txn d' i = Some r"
proof -
  define e1 e2 where "e1 = \<lparr>e_id = u 0, e_transaction_id = i, e_account_id = f, e_amount = x, e_direction = DirectionDebit, e_created_at = wnow w\<rparr>"
    and "e2 = \<lparr>e_id = pop u 0, e_transaction_id = i, e_account_id = t, e_amount = x, e_direction = DirectionCredit, e_created_at = wnow w\<rparr>"
  define d1 d2 where "d1 = d\<lparr>entries := entries d @ [e1]\<rparr>" and "d2 = d1\<lparr>entries := entries d1 @ [e2]\<rparr>"
  have new: "u n \<notin> e_id ` set (entries d)" for n using assms(8) by (metis disjoint_iff rangeI)
  have "pop u 0 \<noteq> u 0" using injD [OF assms(7), of 1 0] by (auto simp: pop_def)
  moreover have "pop u 0 \<notin> e_id ` set (entries d)" using new by (simp add: pop_def)
  ultimately have fresh: "pop u 0 \<notin> e_id ` set (entries d1)" by (simp add: d1_def e1_def)
  have debit: "CreateEntry (u 0) i f x DirectionDebit (wnow w) d = Inr (u 0, d1)"
    using entry_runs [OF new] assms(3,4,9) by (simp add: d1_def e1_def direction_ok_def direction_defs)
  have credit: "CreateEntry (pop u 0) i t x DirectionCredit (wnow w) d1 = Inr (pop u 0, d2)"
    using entry_runs [OF fresh] assms(3,4,12) by (simp add: d1_def d2_def e2_def direction_ok_def direction_defs)
  have same: "accounts d2 = accounts d" "transactions d2 = transactions d" by (simp_all add: d1_def d2_def)
  have s2: "schema_ok d2"
    using keepsD [OF sch.keeps_CreateEntry debit] keepsD [OF sch.keeps_CreateEntry credit] assms(2)
    by (simp add: keeps_schema_def)
  have "acct d2 f = Some ra" and "in_int64 (a_balance ra + - x)" using same(1) assms(9,10) by simp_all
  then obtain d3 where u1: "UpdateAccountBalance (- x) f (wnow w) d2 = Inr (1, d3)" and s3: "schema_ok d3" and o3: "other_tables d2 d3"
    and a3: "\<And>j. acct d3 j = (if j = f then Some (ra\<lparr>a_balance := a_balance ra + - x\<rparr>) else acct d2 j)"
    by (rule UpdateAccountBalance_runs [OF s2 _ _ assms(11), where t = "wnow w"]) blast
  from a3 [of t] have "acct d3 t = Some rb" using assms(6,12) same(1) by simp
  then obtain d4 where u2: "UpdateAccountBalance x t (wnow w) d3 = Inr (1, d4)" and "schema_ok d4" and o4: "other_tables d3 d4"
    by (rule UpdateAccountBalance_runs [OF s3 _ assms(13,14), where t = "wnow w"]) blast
  have neg: "wrap64 (- x) = - x" using assms(4,5) by (simp add: in_int64_def)
  have "transfer_postings f t x i (st w d u) = (Inr (), st w d4 (pop (pop u)))"
    unfolding transfer_postings_def neg by (simp add: uuid_New_st exec_then_st assms(1) debit credit u1 u2)
  moreover have "txn d4 i = Some r" using o3 o4 same(2) assms(3) by (simp add: other_tables_same)
  ultimately show thesis using that \<open>schema_ok d4\<close> by blast
qed


text \<open>What a transfer of \<open>x\<close> asks of the two accounts.\<close>

definition can_pay :: "db \<Rightarrow> uuid \<Rightarrow> uuid \<Rightarrow> int \<Rightarrow> string \<Rightarrow> bool" where
  "can_pay d f t x c \<longleftrightarrow> (case (acct d f, acct d t) of
     (Some ra, Some rb) \<Rightarrow> a_currency ra = c \<and> a_currency rb = c \<and> x \<le> a_balance ra \<and>
       in_int64 (a_balance ra) \<and> in_int64 (a_locked_micros ra) \<and>
       in_int64 (a_balance rb + x) \<and> in_int64 (a_locked_micros rb)
   | _ \<Rightarrow> False)"

lemma Transfer_tx_runs:
  assumes "quiet w" and "schema_ok d" and "0 < x" and "in_int64 x" and "f \<noteq> t" and "can_pay d f t x c"
    and "i \<notin> t_id ` set (transactions d)" and "ref \<notin> t_reference_id ` set (transactions d)" and "length ref \<le> 255"
    and "inj u" and "range u \<inter> e_id ` set (entries d) = {}"
  obtains d' u' where "Transfer_tx f t x ref i (st w d u) = (Inr c, st w d' u')"
proof -
  obtain ra rb where ra: "acct d f = Some ra" and rb: "acct d t = Some rb" and c: "a_currency ra = c" "a_currency rb = c"
    and bal: "x \<le> a_balance ra" "in_int64 (a_balance ra)" "in_int64 (a_locked_micros ra)"
      "in_int64 (a_balance rb + x)" "in_int64 (a_locked_micros rb)"
    using assms(6) by (auto simp: can_pay_def split: option.splits)
  have cok: "currency_ok c" using assms(2) sel_one_Some [OF ra] c by (auto simp: schema_ok_def account_ok_def)
  have ty: "tx_type_ok TxTypeTransfer" by (simp add: tx_type_ok_def tx_type_defs)
  let ?rest = "\<lambda>_. bind (transfer_postings f t x i) (\<lambda>_. bind (wrapf ''failed to complete transaction: ''
       (transitionTransactionState i TxStatusCompleted None ''completed'' None)) (\<lambda>_. ret c))"
  obtain d1 where d1: "schema_ok d1" "same_ledger d d1" "txn d1 i = Some (opened_row i x c TxTypeTransfer ref None (wnow w))"
    and run1: "post_transfer f t x ref i c (st w d u) = ?rest () (st w d1 u)"
    unfolding post_transfer_def
    by (rule open_runs [OF assms(1,2,7,8,9,3) cok ty, where md = None and f = ?rest and u = u
        and ?m1.0 = "''failed to create transaction: ''" and ?m2.0 = "''failed to transition transaction to processing: ''"]) blast
  have after: "range u \<inter> e_id ` set (entries d1) = {}" "acct d1 f = Some ra" "in_int64 (a_balance ra - x)"
      "acct d1 t = Some rb"
    using d1(2) ra rb bal(1,2) assms(3,11) by (simp_all add: same_ledger_def in_int64_def)
  obtain d2 u2 where run2: "transfer_postings f t x i (st w d1 u) = (Inr (), st w d2 u2)" and s2: "schema_ok d2"
    and row: "txn d2 i = Some (opened_row i x c TxTypeTransfer ref None (wnow w))"
    by (rule transfer_postings_runs [OF assms(1) d1(1,3) assms(3,4,5,10) after(1,2,3) bal(3) after(4) bal(4,5)])
  obtain d3 where run3: "transitionTransactionState i TxStatusCompleted None ''completed'' None (st w d2 u2) = (Inr (), st w d3 u2)"
    by (rule transition_runs [OF assms(1) s2 row, of TxStatusCompleted]) (simp_all add: status_steps opened_row_def)
  have "post_transfer f t x ref i c (st w d u) = (Inr c, st w d3 u2)"
    unfolding run1 by (simp add: bind_def run2 wrapf_def run3 ret_def)
  moreover have "Transfer_tx f t x ref i (st w d u) = post_transfer f t x ref i c (st w d u)"
    using assms(5) ra rb c bal(1)
    by (auto simp: Transfer_tx_def exec_then_st assms(1) LockAccount_def GetAccountBalanceAndCurrency_def GetAccountCurrency_def)
  ultimately show thesis using that by simp
qed


lemma auto_exec_quiet:
  "quiet w \<Longrightarrow> auto_exec s w = (case s (wclock w 0) (wdb w) of
     Inl e \<Rightarrow> (Inl e, w\<lparr>wclock := pop (wclock w), wnow := wclock w 0\<rparr>)
   | Inr (a, d) \<Rightarrow> (Inr a, w\<lparr>wclock := pop (wclock w), wnow := wclock w 0, wdb := d\<rparr>))"
  by (auto simp: auto_exec_def quiet_def pop_def Let_def split: sum.splits)

lemma RunInTx_quiet:
  assumes "quiet w" and "fn (w\<lparr>wclock := pop (wclock w), wnow := wclock w 0\<rparr>) = (Inr a, w2)" and "quiet w2"
  shows "RunInTx fn w = (Inr a, w2)"
  using assms by (simp add: RunInTx_def begin_tx_def Let_def)

lemma RunInTx_quiet_error:
  assumes "quiet w" and "fn (w\<lparr>wclock := pop (wclock w), wnow := wclock w 0\<rparr>) = (Inl e, w2)" and "wdb w2 = wdb w"
  shows "RunInTx fn w = (Inl e, w2)"
  using assms by (simp add: RunInTx_def begin_tx_def Let_def rollback_def)

text \<open>
  C34. A transfer that can be made is made: without driver faults, in a database that satisfies its
  constraints, a positive amount within the balance of the sender, between two different accounts of
  one currency, under a new reference of at most 255 bytes and with new identifiers, is transferred
  and answered with the completed transaction.
\<close>

theorem Transfer_succeeds:
  assumes "quiet w" and "schema_ok (wdb w)" and "0 < x" and "in_int64 x" and "f \<noteq> t" and "can_pay (wdb w) f t x c"
    and "fresh_ids (wuuids w) (wdb w)" and "ref \<noteq> ''''" and "length ref \<le> 255"
    and "ref \<notin> t_reference_id ` set (transactions (wdb w))"
  shows "\<exists>w'. Transfer L f t x ref w = (Inr (transfer_answer (wuuids w 0) x c TxTypeTransfer ref None), w') \<and>
    (\<exists>now. transferred f t x ref (wuuids w 0) c now (wdb w) (wdb w'))"
proof -
  define i u w1 where "i = wuuids w 0" and "u = pop (wuuids w)"
    and "w1 = w\<lparr>wclock := pop (pop (wclock w)), wnow := wclock w 1\<rparr>"
  have ids: "i \<notin> t_id ` set (transactions (wdb w))" "inj u" "range u \<inter> e_id ` set (entries (wdb w)) = {}"
    using assms(7) fresh_ids_pop [OF assms(7)] unfolding fresh_ids_def i_def u_def by blast+
  have q: "quiet w1" using assms(1) by (simp add: quiet_def w1_def)
  obtain d' u' where run: "Transfer_tx f t x ref i (st w1 (wdb w) u) = (Inr c, st w1 d' u')"
    using Transfer_tx_runs [OF q assms(2-6) ids(1) assms(10,9) ids(2,3)] .
  define w2 where "w2 = w\<lparr>wclock := pop (wclock w), wnow := wclock w 0, wuuids := u\<rparr>"
  have start: "w2\<lparr>wclock := pop (wclock w2), wnow := wclock w2 0\<rparr> = st w1 (wdb w) u"
    by (cases w) (simp add: st_def w1_def w2_def pop_def)
  have tx: "RunInTx (Transfer_tx f t x ref i) w2 = (Inr c, st w1 d' u')"
    by (rule RunInTx_quiet) (use assms(1) q run in \<open>simp_all add: start, simp add: w2_def quiet_def\<close>)
  have "CheckTransactionIdempotency ref (wclock w 0) (wdb w) = Inl ErrNoRows"
    using assms(10) by (simp add: CheckTransactionIdempotency_def sel_one_None_iff [symmetric])
  then have "Transfer L f t x ref w = (Inr (transfer_answer i x c TxTypeTransfer ref None), st w1 d' u')"
    using assms(3,5,8) tx
    by (simp add: Transfer_def bind_def attempt_def auto_exec_quiet assms(1) uuid_New_def i_def u_def w2_def ret_def transfer_answer_def)
  moreover have "transferred f t x ref i c (wnow w1) (wdb w) d'"
    using Transfer_tx_transferred(2) [OF run assms(4)] by simp
  ultimately show ?thesis unfolding i_def by auto
qed

definition transfer_refusal :: "uuid \<Rightarrow> uuid \<Rightarrow> int \<Rightarrow> string \<Rightarrow> db \<Rightarrow> err option" where
  "transfer_refusal f t x ref d =
     (if x \<le> 0 then Some ErrInvalidAmount
      else if ref = '''' then Some ErrReferenceRequired
      else if f = t then Some ErrSameAccountTransfer
      else if sel_one t_reference_id ref (transactions d) \<noteq> None then None
      else case (acct d f, acct d t) of
        (Some ra, Some rb) \<Rightarrow>
          if a_currency ra \<noteq> a_currency rb then
            Some (Wrap '''' ErrCurrencyMismatch ('': sender is '' @ a_currency ra @ '', receiver is '' @ a_currency rb))
          else if a_balance ra < x then Some ErrInsufficientFunds else None
      | _ \<Rightarrow> Some (Wrap (''failed to lock account '' @
            String (if acct d (min f t) = None then min f t else max f t) @ '': '') ErrNoRows ''''))"

text \<open>
  C36. A transfer that cannot be made says why: a non-positive amount, an empty reference and equal
  accounts are refused before any statement; without driver faults an unknown sender or receiver, two
  different currencies and a balance below the amount give their errors, and nothing is stored.
\<close>

theorem Transfer_refused:
  assumes "quiet w" and "transfer_refusal f t x ref (wdb w) = Some e"
  shows "fst (Transfer L f t x ref w) = Inl e \<and> unchanged (wdb w) (wdb (snd (Transfer L f t x ref w)))"
proof (cases "x \<le> 0 \<or> ref = '''' \<or> f = t")
  case True
  with assms(2) show ?thesis by (auto simp: transfer_refusal_def Transfer_def throw_def split: if_splits)
next
  case False
  with assms(2) have new: "sel_one t_reference_id ref (transactions (wdb w)) = None"
    by (auto simp: transfer_refusal_def split: if_splits)
  define u w1 where "u = pop (wuuids w)" and "w1 = w\<lparr>wclock := pop (pop (wclock w)), wnow := wclock w 1\<rparr>"
  define w2 where "w2 = w\<lparr>wclock := pop (wclock w), wnow := wclock w 0, wuuids := u\<rparr>"
  have start: "w2\<lparr>wclock := pop (wclock w2), wnow := wclock w2 0\<rparr> = st w1 (wdb w) u"
    by (cases w) (simp add: st_def w1_def w2_def pop_def)
  have q: "quiet w1" "quiet w2" using assms(1) by (simp_all add: quiet_def w1_def w2_def)
  have "Transfer_tx f t x ref i (st w1 (wdb w) u) = (Inl e, st w1 (wdb w) u)" for i
    using False assms(2) new
    by (auto simp: transfer_refusal_def Transfer_tx_def exec_then_st q(1) LockAccount_def GetAccountBalanceAndCurrency_def
        GetAccountCurrency_def throw_def min_def max_def split: option.splits if_splits)
  then have "RunInTx (Transfer_tx f t x ref i) w2 = (Inl e, st w1 (wdb w) u)" for i
    by (intro RunInTx_quiet_error) (use q(2) in \<open>simp_all add: start, simp add: w2_def\<close>)
  moreover have "\<not> isUniqueViolation e"
    using False assms(2) new
    by (auto simp: transfer_refusal_def isUniqueViolation_def split: option.splits if_splits)
  ultimately show ?thesis using False new
    by (simp add: Transfer_def bind_def attempt_def auto_exec_quiet assms(1) CheckTransactionIdempotency_def uuid_New_def
        u_def [symmetric] w2_def [symmetric] resolve_duplicate_def throw_def)
qed

subsection \<open>Witnesses\<close>

lemma sample_quiet [simp]: "quiet (sample_world d)"
  by (simp add: quiet_def)

lemma sample_fresh: "fresh_ids (wuuids (sample_world sample_db)) sample_db"
  by (auto simp: fresh_ids_def inj_def sample_defs)

lemma sample_no_transactions: "transactions sample_db = []"
  by (simp add: sample_defs)

lemma sample_can_pay: "can_pay sample_db alice_usd bob_usd 200 ''USD''" by code_simp

theorem Transfer_succeeds_witness:
  "\<exists>w'. Transfer sample_lib alice_usd bob_usd 200 ''r1'' (sample_world sample_db) =
     (Inr (transfer_answer (UUID ''x'') 200 ''USD'' TxTypeTransfer ''r1'' None), w') \<and>
     (\<exists>now. transferred alice_usd bob_usd 200 ''r1'' (UUID ''x'') ''USD'' now sample_db (wdb w'))"
  using Transfer_succeeds [of "sample_world sample_db" 200 alice_usd bob_usd "''USD''" "''r1''" sample_lib]
    sample_fresh sample_can_pay sample_no_transactions by simp

lemma sample_refusal: "transfer_refusal alice_usd bob_usd 501 ''r1'' sample_db = Some ErrInsufficientFunds" by code_simp

theorem Transfer_refused_witness:
  "fst (Transfer sample_lib alice_usd bob_usd 501 ''r1'' (sample_world sample_db)) = Inl ErrInsufficientFunds"
  using Transfer_refused [of "sample_world sample_db" alice_usd bob_usd 501 "''r1''" ErrInsufficientFunds sample_lib] sample_refusal
  by simp

end
