(* ===== verification/PayoutProgress.thy ===== *)
theory PayoutProgress
  imports Progress
begin

text \<open>
  A payout is paid: the way of one pending payout through a batch of the worker in a world without
  driver faults, from the claim over the call of the gateway to the settlement.
\<close>

text \<open>The calls of the gateway in a trace.\<close>

definition sends :: "event list \<Rightarrow> event list" where
  "sends es = filter (\<lambda>e. case e of GatewaySend d a c \<Rightarrow> True | _ \<Rightarrow> False) es"

subsection \<open>Statements\<close>

lemma funds_runs:
  assumes "schema_ok d" and "acct d k = Some r" and "in_int64 (b r)" and "in_int64 (l r)" and "0 \<le> l r"
    and "keeps keeps_schema (update_accounts (\<lambda>r. a_id r = k) (\<lambda>r. set_funds (b r) (l r) r))"
  obtains d' where "update_accounts (\<lambda>r. a_id r = k) (\<lambda>r. set_funds (b r) (l r) r) t d = Inr (1, d')" and "schema_ok d'"
    and "other_tables d d'" and "\<And>j. acct d' j = (if j = k then Some (r\<lparr>a_balance := b r, a_locked_micros := l r\<rparr>) else acct d j)"
proof -
  have dist: "distinct (map a_id (accounts d))" using assms(1) by (simp add: schema_ok_def)
  have "set_funds (b r) (l r) r = Inr (r\<lparr>a_balance := b r, a_locked_micros := l r\<rparr>)"
    using assms(3-5) by (simp add: set_funds_def)
  then obtain rows where "update_rows (\<lambda>q. a_id q = k) (\<lambda>r. set_funds (b r) (l r) r) (accounts d) = Inr (1, rows)"
    using update_one_runs [OF dist assms(2), of "\<lambda>r. set_funds (b r) (l r) r"] by blast
  then have run: "update_accounts (\<lambda>r. a_id r = k) (\<lambda>r. set_funds (b r) (l r) r) t d = Inr (1, d\<lparr>accounts := rows\<rparr>)" (is "_ = Inr (1, ?d)")
    by (simp add: update_accounts_def)
  have "schema_ok ?d" using keepsD [OF assms(6) run] assms(1) by (simp add: keeps_schema_def)
  moreover obtain q where "acct d k = Some q" and "other_tables d ?d"
    and "\<And>j. acct ?d j = (if j = k then Some (q\<lparr>a_balance := b q, a_locked_micros := l q\<rparr>) else acct d j)"
    using funds_effect [OF run] by (metis zero_neq_one)
  ultimately show thesis using that [OF run] assms(2) by simp
qed

lemma UpdatePayoutStatus_runs:
  assumes "schema_ok d" and "payout_of d i = Some p" and "payout_status_ok s"
  obtains d' where "UpdatePayoutStatus s g i t d = Inr (1, d')" and "schema_ok d'"
    and "payout_of d' i = Some (p\<lparr>p_status := s, p_gateway_ref := g, p_updated_at := t\<rparr>)"
    and "accounts d' = accounts d" and "entries d' = entries d" and "transactions d' = transactions d"
proof -
  have "distinct (map p_id (payouts d))" using assms(1) by (simp add: schema_ok_def)
  then obtain rows where "update_rows (\<lambda>r. p_id r = i) (\<lambda>r. (if \<not> payout_status_ok s then Inl check_violation
      else Inr (r\<lparr>p_status := s, p_gateway_ref := g, p_updated_at := t\<rparr>))) (payouts d) = Inr (1, rows)"
    using update_one_runs [of p_id "payouts d" i p "\<lambda>r. (if \<not> payout_status_ok s then Inl check_violation
      else Inr (r\<lparr>p_status := s, p_gateway_ref := g, p_updated_at := t\<rparr>))"] assms(2,3) by auto
  then have run: "UpdatePayoutStatus s g i t d = Inr (1, d\<lparr>payouts := rows\<rparr>)" by (simp add: UpdatePayoutStatus_def)
  moreover have "schema_ok (d\<lparr>payouts := rows\<rparr>)"
    using keepsD [OF schema_payouts run] assms(1) by (simp add: keeps_schema_def)
  moreover have "payout_of (d\<lparr>payouts := rows\<rparr>) i = Some (p\<lparr>p_status := s, p_gateway_ref := g, p_updated_at := t\<rparr>)"
    using run assms(2) by (auto elim!: UpdatePayoutStatus_effect dest: arg_cong [of _ _ payouts])
  ultimately show thesis by (intro that [of "d\<lparr>payouts := rows\<rparr>"]) simp_all
qed

lemma lift_then: "bind (wrapf text (lift_sum (Inr a))) f w = f a w"
  by (simp add: lift_sum_def control_defs)

subsection \<open>Settlement\<close>

text \<open>What the settlement of \<open>x\<close> from account \<open>k\<close> to the system account asks of the two.\<close>

definition settleable :: "lib \<Rightarrow> db \<Rightarrow> uuid \<Rightarrow> int \<Rightarrow> string \<Rightarrow> bool" where
  "settleable L d k x c \<longleftrightarrow> (case getSystemAccountID L c of
     Inl _ \<Rightarrow> False
   | Inr s \<Rightarrow> k \<noteq> s \<and> 0 < x \<and> (case (acct d k, acct d s) of
       (Some ra, Some rs) \<Rightarrow> x \<le> a_locked_micros ra \<and> in_int64 (a_locked_micros ra) \<and> in_int64 (a_balance ra - x) \<and>
         in_int64 (a_balance rs + x) \<and> in_int64 (a_locked_micros rs)
     | _ \<Rightarrow> False))"

lemma payout_postings_runs:
  assumes "quiet w" and "schema_ok d" and "txn d i = Some r" and "settleable L d k x c"
    and "inj u" and "range u \<inter> e_id ` set (entries d) = {}"
  obtains d' u' where "payout_postings L k x c i (st w d u) = (Inr (), st w d' u')" and "schema_ok d'"
    and "transactions d' = transactions d" and "payouts d' = payouts d"
proof -
  obtain s ra rs where s: "getSystemAccountID L c = Inr s" "k \<noteq> s" "0 < x" and ra: "acct d k = Some ra" and rs: "acct d s = Some rs"
    and b: "x \<le> a_locked_micros ra" "in_int64 (a_locked_micros ra)" "in_int64 (a_balance ra - x)"
      "in_int64 (a_balance rs + x)" "in_int64 (a_locked_micros rs)"
    using assms(4) by (auto simp: settleable_def split: sum.splits option.splits)
  have "keeps keeps_schema (DeductLockedFunds x k)" by (rule sch.keeps_DeductLockedFunds)
  moreover have "in_int64 (a_locked_micros ra - x)" "0 \<le> a_locked_micros ra - x"
    using b(1,2) s(3) by (simp_all add: in_int64_def)
  ultimately obtain d1 where deduct: "DeductLockedFunds x k (wnow w) d = Inr (1, d1)" and s1: "schema_ok d1" and o1: "other_tables d d1"
    and a1: "\<And>j. acct d1 j = (if j = k then Some (ra\<lparr>a_balance := a_balance ra - x, a_locked_micros := a_locked_micros ra - x\<rparr>) else acct d j)"
    unfolding DeductLockedFunds_def
    by (rule_tac funds_runs [OF assms(2) ra, of "\<lambda>r. a_balance r - x" "\<lambda>r. a_locked_micros r - x" "wnow w"]) (use b(3) in auto)
  define e1 e2 where "e1 = \<lparr>e_id = u 0, e_transaction_id = i, e_account_id = k, e_amount = x, e_direction = DirectionDebit, e_created_at = wnow w\<rparr>"
    and "e2 = \<lparr>e_id = pop u 0, e_transaction_id = i, e_account_id = s, e_amount = x, e_direction = DirectionCredit, e_created_at = wnow w\<rparr>"
  define d2 d3 where "d2 = d1\<lparr>entries := entries d1 @ [e1]\<rparr>" and "d3 = d2\<lparr>entries := entries d2 @ [e2]\<rparr>"
  note same1 = other_tables_same [OF o1]
  have new: "u n \<notin> e_id ` set (entries d1)" for n using assms(6) same1(1) by (metis disjoint_iff rangeI)
  have "pop u 0 \<noteq> u 0" using injD [OF assms(5), of 1 0] by (auto simp: pop_def)
  moreover have "pop u 0 \<notin> e_id ` set (entries d1)" using new by (simp add: pop_def)
  ultimately have fresh: "pop u 0 \<notin> e_id ` set (entries d2)" by (simp add: d2_def e1_def)
  have debit: "CreateEntry (u 0) i k x DirectionDebit (wnow w) d1 = Inr (u 0, d2)"
    using entry_runs [OF new] assms(3) same1(2) s(3) a1 [of k] by (simp add: d2_def e1_def direction_ok_def direction_defs)
  have credit: "CreateEntry (pop u 0) i s x DirectionCredit (wnow w) d2 = Inr (pop u 0, d3)"
    using entry_runs [OF fresh] assms(3) same1(2) s(2,3) rs a1 [of s]
    by (simp add: d2_def d3_def e2_def direction_ok_def direction_defs)
  have s3: "schema_ok d3"
    using keepsD [OF sch.keeps_CreateEntry debit] keepsD [OF sch.keeps_CreateEntry credit] s1 by (simp add: keeps_schema_def)
  have "acct d3 s = Some rs" using a1 [of s] rs s(2) by (simp add: d2_def d3_def)
  then obtain d4 where upd: "UpdateAccountBalance x s (wnow w) d3 = Inr (1, d4)" and s4: "schema_ok d4" and o4: "other_tables d3 d4"
    by (rule UpdateAccountBalance_runs [OF s3 _ b(4,5), where t = "wnow w"]) blast
  have "payout_postings L k x c i (st w d u) = (Inr (), st w d4 (pop (pop u)))"
    unfolding payout_postings_def
    by (simp add: uuid_New_st exec_then_st lift_then s(1) assms(1) deduct debit credit upd)
  moreover have "transactions d4 = transactions d" "payouts d4 = payouts d"
    using other_tables_same [OF o4] same1 by (simp_all add: d2_def d3_def)
  ultimately show thesis using that s4 by blast
qed

lemma payout_statuses: "payout_status_ok PayoutStatusProcessing" "payout_status_ok PayoutStatusCompleted"
  by (simp_all add: payout_status_ok_def payout_status_defs)

lemma handlePayoutSuccess_tx_runs:
  assumes "quiet w" and "schema_ok d" and "txn d i = Some r" and "t_status r = TxStatusProcessing"
    and "payout_of d pid = Some p" and "settleable L d k x c" and "inj u" and "range u \<inter> e_id ` set (entries d) = {}"
  obtains d' u' where "handlePayoutSuccess_tx L pid k x c i g (st w d u) = (Inr (), st w d' u')"
proof -
  obtain d1 u1 where run1: "payout_postings L k x c i (st w d u) = (Inr (), st w d1 u1)" and s1: "schema_ok d1"
    and same: "transactions d1 = transactions d" "payouts d1 = payouts d"
    using payout_postings_runs [OF assms(1-3,6-8)] .
  have "txn d1 i = Some r" using same assms(3) by simp
  then obtain d2 where run2: "transitionTransactionState i TxStatusCompleted None ''payout_completed'' None (st w d1 u1) = (Inr (), st w d2 u1)"
    and s2: "schema_ok d2" and p2: "payouts d2 = payouts d1"
    by (rule transition_runs [OF assms(1) s1, of i r TxStatusCompleted]) (use assms(4) in \<open>simp_all add: status_steps\<close>)
  have "payout_of d2 pid = Some p" using p2 same assms(5) by simp
  then obtain d3 where "UpdatePayoutStatus PayoutStatusCompleted (Some g) pid (wnow w) d2 = Inr (1, d3)"
    by (rule UpdatePayoutStatus_runs [OF s2 _ payout_statuses(2), where g = "Some g" and t = "wnow w"]) blast
  then have "handlePayoutSuccess_tx L pid k x c i g (st w d u) = (Inr (), st w d3 u1)"
    unfolding handlePayoutSuccess_tx_def
    by (simp add: bind_def [of "payout_postings L k x c i"] bind_def [of "wrapf m (transitionTransactionState i j a b e)" for m j a b e]
        run1 run2 wrapf_def [of _ "transitionTransactionState i j a b e" for j a b e] exec_then_st assms(1))
  then show thesis by (rule that)
qed

subsection \<open>Claim\<close>

lemma claim_one_runs:
  assumes "quiet w" and "schema_ok d" and "payout_of d (p_id p) = Some p" and "txn d (p_transaction_id p) = Some r"
    and "t_status r = TxStatusPending"
  obtains d' where "claim_one p (st w d u) = (Inr (), st w d' u)" and "schema_ok d'" and "same_ledger d d'"
    and "payout_of d' (p_id p) = Some (p\<lparr>p_status := PayoutStatusProcessing, p_gateway_ref := None, p_updated_at := wnow w\<rparr>)"
    and "txn d' (p_transaction_id p) = Some (r\<lparr>t_status := TxStatusProcessing\<rparr>)"
proof -
  obtain d1 where upd: "UpdatePayoutStatus PayoutStatusProcessing None (p_id p) (wnow w) d = Inr (1, d1)" and s1: "schema_ok d1"
    and row: "payout_of d1 (p_id p) = Some (p\<lparr>p_status := PayoutStatusProcessing, p_gateway_ref := None, p_updated_at := wnow w\<rparr>)"
    and same: "accounts d1 = accounts d" "entries d1 = entries d" "transactions d1 = transactions d"
    by (rule UpdatePayoutStatus_runs [OF assms(2,3) payout_statuses(1), where g = None and t = "wnow w"]) blast
  have "txn d1 (p_transaction_id p) = Some r" using same(3) assms(4) by simp
  then obtain d2 where run: "transitionTransactionState (p_transaction_id p) TxStatusProcessing None ''processing_started'' None (st w d1 u)
      = (Inr (), st w d2 u)" and d2: "schema_ok d2" "same_ledger d1 d2"
      "txn d2 (p_transaction_id p) = Some (r\<lparr>t_status := TxStatusProcessing\<rparr>)" "payouts d2 = payouts d1"
    by (rule transition_runs [OF assms(1) s1, of _ r TxStatusProcessing]) (use assms(5) in \<open>simp_all add: status_steps\<close>)
  have "claim_one p (st w d u) = (Inr (), st w d2 u)"
    unfolding claim_one_def by (simp add: exec_then_st assms(1) upd wrapf_def run)
  then show thesis using that d2 row same by (simp add: same_ledger_def)
qed

text \<open>The world inside a transaction that begins, and the fields no statement touches.\<close>

definition begun :: "world \<Rightarrow> world" where
  "begun w = w\<lparr>wclock := pop (wclock w), wnow := wclock w 0\<rparr>"

lemma st_self: "st w (wdb w) (wuuids w) = w"
  by (simp add: st_def)

lemma begun_sel [simp]: "wdb (begun w) = wdb w" "wuuids (begun w) = wuuids w" "wnow (begun w) = wclock w 0"
  by (simp_all add: begun_def)

lemma begun_st: "st (begun w) (wdb w) (wuuids w) = begun w"
  using st_self [of "begun w"] by simp

lemma exec_read:
  assumes "quiet w" and "s (wnow w) (wdb w) = Inr (a, wdb w)" shows "exec s w = (Inr a, w)"
  using exec_st [OF assms(1), of s "wdb w" "wuuids w"] assms(2) by (simp add: st_self)

lemma quiet_begun [simp]: "quiet (begun w) = quiet w"
  by (simp add: begun_def quiet_def)

lemma RunInTx_st:
  assumes "quiet w" and "fn (st (begun w) (wdb w) (wuuids w)) = (Inr a, w2)" and "quiet w2"
  shows "RunInTx fn w = (Inr a, w2)"
  using RunInTx_quiet [OF assms(1) _ assms(3), of fn a] assms(2) by (simp add: begun_st) (simp add: begun_def)

definition outside :: "world \<Rightarrow> (nat \<Rightarrow> err option) \<times> (nat \<Rightarrow> err + string) \<times> event list" where
  "outside w = (wctx w, wgateway w, wtrace w)"

lemma outside_simps [simp]: "outside (st w d u) = outside w" "outside (begun w) = outside w"
  "outside (w\<lparr>wskip := s\<rparr>) = outside w" "outside (w\<lparr>wclock := c\<rparr>) = outside w"
  by (simp_all add: outside_def st_def begun_def)

lemma recover_idle:
  assumes "quiet w" and "0 \<le> n" and "\<forall>p \<in> set (payouts (wdb w)). p_status p \<noteq> PayoutStatusProcessing"
  obtains w1 where "recoverStaleProcessingPayouts n w = (Inr (), w1)" and "quiet w1" and "wdb w1 = wdb w"
    and "wuuids w1 = wuuids w" and "wskip w1 = pop (wskip w)" and "outside w1 = outside w"
proof -
  define w0 where "w0 = w\<lparr>wclock := pop (wclock w)\<rparr>"
  define w1 where "w1 = (begun w0)\<lparr>wskip := pop (wskip w)\<rparr>"
  have q: "quiet w0" "quiet w1" using assms(1) by (simp_all add: quiet_def w0_def w1_def begun_def)
  have none: "filter (\<lambda>p. p_status p = ''PROCESSING'' \<and> p_updated_at p < c \<and> \<not> skip (p_id p)) (payouts (wdb w)) = []" for c skip
    using assms(3) by (auto simp: filter_empty_conv payout_status_defs)
  have "locked_rows (begun w0) = (Inr (wskip w 0), w1)"
    by (simp add: locked_rows_def w1_def w0_def begun_def)
  moreover have "exec (GetStaleProcessingPayouts skip c n) w1 = (Inr [], w1)" for skip c
    by (rule exec_read [OF q(2)]) (use assms(2) none in \<open>simp add: GetStaleProcessingPayouts_def w1_def w0_def\<close>)
  ultimately have "RunInTx (recoverStale_tx c n) w0 = (Inr [], w1)" for c
    by (intro RunInTx_st [OF q(1) _ q(2)])
      (simp add: begun_st recoverStale_tx_def bind_def [of locked_rows] bind_def [of "wrapf m s" for m s] wrapf_def ret_def)
  then have "recoverStaleProcessingPayouts n w = (Inr (), w1)"
    by (simp add: recoverStaleProcessingPayouts_def bind_def [of time_Now] bind_def [of "RunInTx m" for m] time_Now_def w0_def [symmetric] ret_def)
  then show thesis by (rule that) (use q in \<open>simp_all add: w1_def w0_def begun_def outside_def\<close>)
qed

lemma claim_pending_runs:
  assumes "quiet w" and "schema_ok (wdb w)" and "1 \<le> n" and "wskip w 0 = (\<lambda>_. False)"
    and "filter (\<lambda>q. p_status q = PayoutStatusPending) (payouts (wdb w)) = [p]"
    and "payout_of (wdb w) (p_id p) = Some p" and "txn (wdb w) (p_transaction_id p) = Some r" and "t_status r = TxStatusPending"
  obtains w1 where "claimPendingPayouts n w = (Inr [p\<lparr>p_status := PayoutStatusProcessing\<rparr>], w1)" and "quiet w1"
    and "schema_ok (wdb w1)" and "same_ledger (wdb w) (wdb w1)" and "outside w1 = outside w" and "wuuids w1 = wuuids w"
    and "payout_of (wdb w1) (p_id p) = Some (p\<lparr>p_status := PayoutStatusProcessing, p_gateway_ref := None, p_updated_at := wclock w 0\<rparr>)"
    and "txn (wdb w1) (p_transaction_id p) = Some (r\<lparr>t_status := TxStatusProcessing\<rparr>)"
proof -
  define w0 where "w0 = (begun w)\<lparr>wskip := pop (wskip w)\<rparr>"
  have q: "quiet w0" using assms(1) by (simp add: quiet_def w0_def begun_def)
  have self: "st w0 (wdb w) (wuuids w) = w0" by (simp add: w0_def st_def begun_def)
  obtain d1 where run: "claim_one p (st w0 (wdb w) (wuuids w)) = (Inr (), st w0 d1 (wuuids w))" and s1: "schema_ok d1"
    and same: "same_ledger (wdb w) d1"
    and row: "payout_of d1 (p_id p) = Some (p\<lparr>p_status := PayoutStatusProcessing, p_gateway_ref := None, p_updated_at := wnow w0\<rparr>)"
      "txn d1 (p_transaction_id p) = Some (r\<lparr>t_status := TxStatusProcessing\<rparr>)"
    using claim_one_runs [OF q assms(2,6-8)] .
  have skip: "locked_rows (begun w) = (Inr (\<lambda>_. False), w0)"
    using assms(4) by (simp add: locked_rows_def w0_def begun_def)
  have "take (nat n) [p] = [p]" using assms(3) by (cases "nat n") simp_all
  then have pending: "exec (GetPendingPayouts (\<lambda>_. False) n) w0 = (Inr [p], w0)"
    by (intro exec_read [OF q]) (use assms(3,5) in \<open>simp add: GetPendingPayouts_def w0_def payout_status_defs\<close>)
  have "RunInTx (claimPending_tx n) w = (Inr [p\<lparr>p_status := PayoutStatusProcessing\<rparr>], st w0 d1 (wuuids w))"
    by (rule RunInTx_st [OF assms(1)])
      (use q skip pending run in \<open>simp_all add: begun_st claimPending_tx_def bind_def wrapf_def self ret_def\<close>)
  then show thesis
    by (intro that [of "st w0 d1 (wuuids w)"])
      (use q s1 same row in \<open>simp_all add: claimPendingPayouts_def w0_def\<close>)
qed

subsection \<open>The whole batch\<close>

lemma handlePayoutSuccess_runs:
  assumes "quiet w" and "schema_ok (wdb w)" and "txn (wdb w) i = Some r" and "t_status r = TxStatusProcessing"
    and "payout_of (wdb w) pid = Some p" and "settleable L (wdb w) k x c" and "inj (wuuids w)"
    and "range (wuuids w) \<inter> e_id ` set (entries (wdb w)) = {}"
  obtains w1 where "handlePayoutSuccess L pid k x c i g w = (Inr (), w1)" and "quiet w1" and "outside w1 = outside w"
    and "paid_out L pid k x c i (Some g) (wclock w 0) (wdb w) (wdb w1)"
proof -
  have q: "quiet (begun w)" using assms(1) by simp
  obtain d' u' where run: "handlePayoutSuccess_tx L pid k x c i g (st (begun w) (wdb w) (wuuids w)) = (Inr (), st (begun w) d' u')"
    using handlePayoutSuccess_tx_runs [OF q assms(2-8)] .
  have "RunInTx (handlePayoutSuccess_tx L pid k x c i g) w = (Inr (), st (begun w) d' u')"
    by (rule RunInTx_st [OF assms(1)]) (use run q in simp_all)
  then have "handlePayoutSuccess L pid k x c i g w = (Inr (), st (begun w) d' u')"
    by (simp add: handlePayoutSuccess_def bind_def attempt_def ret_def)
  moreover have "paid_out L pid k x c i (Some g) (wclock w 0) (wdb w) d'"
    using handlePayoutSuccess_tx_paid [OF run] by simp
  ultimately show thesis using q by (intro that [of "st (begun w) d' u'"]) simp_all
qed

lemma process_one_runs:
  assumes "quiet w" and "schema_ok (wdb w)" and "txn (wdb w) (p_transaction_id p) = Some r" and "t_status r = TxStatusProcessing"
    and "payout_of (wdb w) (p_id p) = Some q" and "settleable L (wdb w) (p_account_id p) (p_amount_micros p) (p_currency p)"
    and "inj (wuuids w)" and "range (wuuids w) \<inter> e_id ` set (entries (wdb w)) = {}"
    and "wctx w 0 = None" and "wgateway w 0 = Inr g"
  obtains w1 now where "process_claimed L [p] w = (Inr (), w1)" and "quiet w1"
    and "wtrace w1 = wtrace w @ [GatewaySend (formatDestination (extractDestination (t_metadata r))) (p_amount_micros p) (p_currency p)]"
    and "paid_out L (p_id p) (p_account_id p) (p_amount_micros p) (p_currency p) (p_transaction_id p) (Some g) now (wdb w) (wdb w1)"
proof -
  let ?dest = "formatDestination (extractDestination (t_metadata r))"
  define wa where "wa = w\<lparr>wctx := pop (wctx w)\<rparr>"
  define wb where "wb = begun wa"
  define wc where "wc = wb\<lparr>wgateway := pop (wgateway w), wtrace := wtrace w @ [GatewaySend ?dest (p_amount_micros p) (p_currency p)]\<rparr>"
  have quiet: "quiet wa" "quiet wc" using assms(1) by (simp_all add: quiet_def wa_def wb_def wc_def begun_def)
  have same: "wdb wc = wdb w" "wuuids wc = wuuids w" by (simp_all add: wa_def wb_def wc_def)
  obtain w1 where run: "handlePayoutSuccess L (p_id p) (p_account_id p) (p_amount_micros p) (p_currency p) (p_transaction_id p) g wc = (Inr (), w1)"
    and w1: "quiet w1" "outside w1 = outside wc"
      "paid_out L (p_id p) (p_account_id p) (p_amount_micros p) (p_currency p) (p_transaction_id p) (Some g) (wclock wc 0) (wdb w) (wdb w1)"
    by (rule handlePayoutSuccess_runs [OF quiet(2), unfolded same, OF assms(2-8), where g = g])
  have get: "auto_exec (GetTransaction (p_transaction_id p)) wa = (Inr r, wb)"
    using assms(3) by (simp add: auto_exec_quiet quiet(1) GetTransaction_def) (simp add: wa_def wb_def begun_def)
  have send: "SendPayout ?dest (p_amount_micros p) (p_currency p) wb = (Inr g, wc)"
    using assms(10) by (simp add: SendPayout_def wc_def wb_def wa_def begun_def)
  have "ctx_Err w = (Inr None, wa)" using assms(9) by (simp add: ctx_Err_def wa_def)
  then have "process_claimed L [p] w = (Inr (), w1)"
    by (simp add: process_claimed.simps bind_def attempt_def get send run ret_def)
  moreover have "wtrace w1 = wtrace wc" using w1(2) by (simp add: outside_def)
  ultimately show thesis using w1(1,3) by (intro that) (simp_all add: wc_def)
qed

lemma sel_one_member: "distinct (map key rs) \<Longrightarrow> r \<in> set rs \<Longrightarrow> sel_one key (key r) rs = Some r"
  by (induction rs) (auto simp: image_iff)

definition report_batch :: "unit m" where
  "report_batch = bind (IncrementWorkerRun ''payout'' ''success'') (\<lambda>_. bind (attempt ManualReviewQueueSize) (\<lambda>queue.
      case queue of Inl queueErr \<Rightarrow> ret () | Inr queueSize \<Rightarrow> SetManualReviewQueueSize queueSize))"

lemma report_batch_runs:
  assumes "quiet w"
  shows "fst (report_batch w) = Inr ()" "wdb (snd (report_batch w)) = wdb w"
    "sends (wtrace (snd (report_batch w))) = sends (wtrace w)"
proof -
  have q: "quiet (w\<lparr>wtrace := t\<rparr>)" for t using assms by (simp add: quiet_def)
  show "fst (report_batch w) = Inr ()" "wdb (snd (report_batch w)) = wdb w"
    "sends (wtrace (snd (report_batch w))) = sends (wtrace w)"
    by (auto simp: report_batch_def metric_eqs bind_def attempt_def ManualReviewQueueSize_def wrapf_def auto_exec_quiet [OF q]
        CountPayoutsByStatus_def sends_def metric_events_def split: option.splits)
qed

text \<open>
  C35. A payout is paid: without driver faults, in a database that satisfies its constraints, a batch
  of the worker takes the one pending payout whose funds are locked, sends it to the gateway once,
  to the stored destination, and when the gateway accepts it settles it: the locked funds are
  deducted, the two entries posted, transaction and payout completed with the gateway's reference.
\<close>

theorem payout_is_paid:
  assumes "quiet w" and "schema_ok (wdb w)" and "1 \<le> n"
    and "filter (\<lambda>q. p_status q = PayoutStatusPending) (payouts (wdb w)) = [p]"
    and "\<forall>q \<in> set (payouts (wdb w)). p_status q \<noteq> PayoutStatusProcessing"
    and "txn (wdb w) (p_transaction_id p) = Some r" and "t_status r = TxStatusPending"
    and "settleable L (wdb w) (p_account_id p) (p_amount_micros p) (p_currency p)"
    and "fresh_ids (wuuids w) (wdb w)" and "wskip w = (\<lambda>_ _. False)" and "wctx w 0 = None" and "wgateway w 0 = Inr g"
  shows "\<exists>w' d1 now. processBatch L n w = (Inr (), w') \<and> same_ledger (wdb w) d1 \<and>
    sends (wtrace w') = sends (wtrace w) @
      [GatewaySend (formatDestination (extractDestination (t_metadata r))) (p_amount_micros p) (p_currency p)] \<and>
    paid_out L (p_id p) (p_account_id p) (p_amount_micros p) (p_currency p) (p_transaction_id p) (Some g) now d1 (wdb w')"
proof -
  let ?p = "p\<lparr>p_status := PayoutStatusProcessing\<rparr>"
  have "p \<in> set (payouts (wdb w))" using assms(4) [THEN arg_cong, of set] by auto
  then have row: "payout_of (wdb w) (p_id p) = Some p" using assms(2) by (intro sel_one_member) (auto simp: schema_ok_def)
  obtain w1 where run1: "recoverStaleProcessingPayouts n w = (Inr (), w1)" and w1: "quiet w1" "wdb w1 = wdb w"
      "wuuids w1 = wuuids w" "wskip w1 = pop (wskip w)" "outside w1 = outside w"
    using recover_idle [OF assms(1) _ assms(5), of n] assms(3) by auto
  have skip: "wskip w1 0 = (\<lambda>_. False)" using w1(4) assms(10) by (simp add: pop_def)
  obtain w2 where run2: "claimPendingPayouts n w1 = (Inr [p\<lparr>p_status := PayoutStatusProcessing\<rparr>], w2)"
    and w2: "quiet w2" "schema_ok (wdb w2)" "same_ledger (wdb w) (wdb w2)" "outside w2 = outside w1" "wuuids w2 = wuuids w"
    and rows: "payout_of (wdb w2) (p_id ?p) = Some (p\<lparr>p_status := PayoutStatusProcessing, p_gateway_ref := None, p_updated_at := wclock w1 0\<rparr>)"
      "txn (wdb w2) (p_transaction_id ?p) = Some (r\<lparr>t_status := TxStatusProcessing\<rparr>)"
    using claim_pending_runs [OF w1(1), unfolded w1(2,3), OF assms(2,3) skip assms(4) row assms(6,7)] by auto
  have settle: "settleable L (wdb w2) (p_account_id ?p) (p_amount_micros ?p) (p_currency ?p)"
    using assms(8) w2(3) by (simp add: settleable_def same_ledger_def split: sum.splits)
  have ids: "inj (wuuids w2)" "range (wuuids w2) \<inter> e_id ` set (entries (wdb w2)) = {}"
    using assms(9) w2(3,5) by (auto simp: fresh_ids_def same_ledger_def)
  have ctx: "wctx w2 0 = None" "wgateway w2 0 = Inr g" "wtrace w2 = wtrace w"
    using w1(5) w2(4) assms(11,12) by (simp_all add: outside_def)
  have "t_status (r\<lparr>t_status := TxStatusProcessing\<rparr>) = TxStatusProcessing" by simp
  then obtain w3 now where run3: "process_claimed L [?p] w2 = (Inr (), w3)" and w3: "quiet w3"
      "wtrace w3 = wtrace w @ [GatewaySend (formatDestination (extractDestination (t_metadata r))) (p_amount_micros p) (p_currency p)]"
      "paid_out L (p_id p) (p_account_id p) (p_amount_micros p) (p_currency p) (p_transaction_id p) (Some g) now (wdb w2) (wdb w3)"
    using process_one_runs [OF w2(1,2) rows(2) _ rows(1) settle ids ctx(1,2)] ctx(3) by auto
  have "ProcessPayouts L n w = (Inr (), w3)"
    by (simp add: ProcessPayouts_def bind_def run1 run2 run3)
  then have "processBatch L n w = report_batch w3"
    by (simp add: processBatch_def bind_def [of "attempt (ProcessPayouts L n)"] attempt_def report_batch_def)
  then have "processBatch L n w = (Inr (), snd (report_batch w3))"
    using report_batch_runs(1) [OF w3(1)] by (metis prod.collapse)
  moreover have "sends (wtrace (snd (report_batch w3))) = sends (wtrace w) @
      [GatewaySend (formatDestination (extractDestination (t_metadata r))) (p_amount_micros p) (p_currency p)]"
    unfolding report_batch_runs(3) [OF w3(1)] w3(2) by (simp add: sends_def)
  ultimately show ?thesis using report_batch_runs(2) [OF w3(1)] w3(3) w2(3) by metis
qed

subsection \<open>Witness\<close>

definition payout_sample :: payout_row where
  "payout_sample = \<lparr>p_id = UUID ''p'', p_transaction_id = UUID ''t'', p_account_id = alice_usd, p_amount_micros = 100,
     p_currency = ''USD'', p_status = PayoutStatusPending, p_gateway_ref = None, p_created_at = 0, p_updated_at = 0\<rparr>"

definition payout_sample_transaction :: transaction_row where
  "payout_sample_transaction = \<lparr>t_id = UUID ''t'', t_amount = 100, t_currency = ''USD'', t_type = TxTypePayout,
     t_status = TxStatusPending, t_reference_id = ''r1'', t_created_at = 0, t_fx_rate = None,
     t_metadata = Some (destination_metadata \<lparr>IBAN = ''DE1'', Name = ''Alice''\<rparr>)\<rparr>"

definition payout_sample_db :: db where
  "payout_sample_db = sample_db\<lparr>accounts := map (\<lambda>a. if a_id a = alice_usd then a\<lparr>a_locked_micros := 100\<rparr> else a) (accounts sample_db),
     transactions := [payout_sample_transaction], payouts := [payout_sample]\<rparr>"

lemmas payout_sample_defs = payout_sample_db_def payout_sample_def payout_sample_transaction_def

lemma payout_sample_schema: "schema_ok payout_sample_db"
  by (simp add: payout_sample_defs sample_defs schema_ok_def row_ok_defs currency_ok_def tx_type_ok_def
      tx_status_ok_def payout_status_ok_def tx_type_defs tx_status_defs payout_status_defs)

lemma payout_sample_settleable: "settleable sample_lib payout_sample_db alice_usd 100 ''USD''"
  by code_simp

theorem payout_is_paid_witness:
  "\<exists>w' d1 now. processBatch sample_lib 10 (sample_world payout_sample_db) = (Inr (), w') \<and>
     sends (wtrace w') = [GatewaySend ''Alice (DE1)'' 100 ''USD''] \<and>
     paid_out sample_lib (UUID ''p'') alice_usd 100 ''USD'' (UUID ''t'') (Some ''MOCK-1'') now d1 (wdb w')"
proof -
  let ?w = "sample_world payout_sample_db"
  have dest: "formatDestination (extractDestination (t_metadata payout_sample_transaction)) = ''Alice (DE1)''" by code_simp
  have "fresh_ids (wuuids ?w) payout_sample_db"
    by (auto simp: fresh_ids_def inj_def payout_sample_defs sample_defs)
  moreover have "wskip ?w = (\<lambda>_ _. False)" by (simp add: sample_world_def)
  moreover have "filter (\<lambda>q. p_status q = PayoutStatusPending) (payouts payout_sample_db) = [payout_sample]"
    "\<forall>q \<in> set (payouts payout_sample_db). p_status q \<noteq> PayoutStatusProcessing"
    "txn payout_sample_db (p_transaction_id payout_sample) = Some payout_sample_transaction"
    by (simp_all add: payout_sample_defs payout_status_defs)
  ultimately show ?thesis
    using payout_is_paid [of ?w 10 payout_sample payout_sample_transaction sample_lib "''MOCK-1''"]
      payout_sample_schema payout_sample_settleable dest
    by (auto simp: payout_sample_def payout_sample_transaction_def sends_def [of "[]"])
qed

end
