(* ===== verification/Hazards.thy ===== *)
theory Hazards
  imports Witnesses PayoutProgress
begin

text \<open>
  Runs that the code allows and that its authors would not want, each a closed theorem evaluated
  from the definitions: what the invariants of the development do not exclude.
\<close>

definition funds :: "uuid \<Rightarrow> db \<Rightarrow> int \<times> int" where
  "funds k d = (balance_of d k, locked_of d k)"

text \<open>The status of the example's transaction and payout, and the funds of its account.\<close>

definition payout_state :: "world \<Rightarrow> string option \<times> string option \<times> int \<times> int" where
  "payout_state w = (map_option t_status (txn (wdb w) (UUID ''x'')),
     map_option p_status (payout_of (wdb w) (UUID ''xx'')), funds alice_usd (wdb w))"

definition fresh_world :: "db \<Rightarrow> world" where
  "fresh_world d = (sample_world d)\<lparr>wuuids := (\<lambda>n. UUID (replicate (Suc n) (CHR ''y'')))\<rparr>"

subsection \<open>Locked funds\<close>

definition overspend_world :: world where
  "overspend_world = snd (Transfer sample_lib alice_usd bob_usd 500 ''r5'' (fresh_world requested_db))"

definition overdrawn_world :: world where
  "overdrawn_world = snd (processBatch sample_lib 10 overspend_world)"

lemma overspend_funds: "funds alice_usd (wdb overspend_world) = (0, 100)" by code_simp

lemma overdrawn_funds: "funds alice_usd (wdb overdrawn_world) = (- 100, 0)" by code_simp


subsection \<open>The failure fallback\<close>

definition settled_world :: world where
  "settled_world = snd (processBatch sample_lib 10 (fresh_world requested_db))"

definition late_failure_world :: world where
  "late_failure_world = snd (handlePayoutFailure (UUID ''xx'') alice_usd 100 ''late'' settled_world)"

lemma settled_state:
  "payout_state settled_world = (Some TxStatusCompleted, Some PayoutStatusCompleted, 400, 0)" by code_simp

lemma late_failure_state:
  "payout_state late_failure_world = (Some TxStatusFailed, Some PayoutStatusFailed, 400, 0)" by code_simp

lemma no_such_edge: "\<not> canTransition TxStatusCompleted TxStatusFailed" by code_simp


subsection \<open>Gateway timeouts\<close>

definition timeout_world :: world where
  "timeout_world = snd (processBatch sample_lib 10 ((fresh_world requested_db)
     \<lparr>wgateway := (\<lambda>_. Inl ContextDeadlineExceeded)\<rparr>))"

definition timeout_view :: "world \<Rightarrow> event list \<times> string option" where
  "timeout_view w = (sends (wtrace w), map_option p_status (payout_of (wdb w) (UUID ''xx'')))"

lemma timeout_run:
  "timeout_view timeout_world = ([GatewaySend ''Alice (DE1)'' 100 ''USD''], Some PayoutStatusPending)" by code_simp


subsection \<open>A lost commit reply\<close>

text \<open>A second payout of 100 is requested; the reply of the commit that settles the first is lost.\<close>

definition lost_reply_world :: world where
  "lost_reply_world = snd (processBatch sample_lib 1
     ((snd (RequestPayout (payout_example_req\<lparr>rq_ReferenceID := ''r4''\<rparr>) (fresh_world requested_db)))
     \<lparr>wfaults := (\<lambda>n. if n = 20 then LostReply (ConnLost ''eof'') else NoFault)\<rparr>))"

definition confirmed_world :: world where
  "confirmed_world = snd (ResolveManualReviewPayout sample_lib resolve_example_req
     (lost_reply_world\<lparr>wfaults := (\<lambda>_. NoFault)\<rparr>))"

lemma lost_reply_state:
  "payout_state lost_reply_world = (Some TxStatusCompleted, Some PayoutStatusManualReview, 400, 100)" by code_simp

definition charge_view :: "world \<Rightarrow> int \<times> nat" where
  "charge_view w = (balance_of (wdb w) alice_usd, length (sends (wtrace w)))"

lemma confirmed_charge: "charge_view confirmed_world = (300, 1)" by code_simp


end
