(* ===== verification/Encode.thy ===== *)
theory Encode
  imports Json
begin

text \<open>
  What the HTTP layer and the idempotency cache use of the standard library to write and read text:
  \<open>json.Marshal\<close> and \<open>Encoder.Encode\<close> with HTML escaping, \<open>Decoder.Decode\<close>, \<open>base64.StdEncoding\<close>,
  \<open>time.Time.MarshalJSON\<close> in UTC and \<open>strconv.Atoi\<close>. The library theorem is that \<open>json_Unmarshal\<close>
  reads back every value \<open>json_Marshal\<close> writes.
\<close>

subsection \<open>String literals\<close>

definition hex_char :: "int \<Rightarrow> char" where
  "hex_char n = char_of (if n < 10 then 48 + n else 87 + n)"

definition html_safe :: "char \<Rightarrow> bool" where
  "html_safe c \<longleftrightarrow> 32 \<le> byte c \<and> byte c \<notin> {34, 38, 60, 62, 92}"

definition escape_byte :: "char \<Rightarrow> string" where
  "escape_byte c = (let n = byte c in
     if n = 34 \<or> n = 92 then [CHR 0x5C, c]
     else if n = 8 then [CHR 0x5C, CHR ''b''] else if n = 12 then [CHR 0x5C, CHR ''f'']
     else if n = 10 then [CHR 0x5C, CHR ''n''] else if n = 13 then [CHR 0x5C, CHR ''r'']
     else if n = 9 then [CHR 0x5C, CHR ''t'']
     else [CHR 0x5C, CHR ''u'', CHR ''0'', CHR ''0'', hex_char (n div 16), hex_char (n mod 16)])"

text \<open>U+2028 and U+2029.\<close>

definition line_separator :: "string \<Rightarrow> bool" where
  "line_separator s \<longleftrightarrow> map byte (take 3 s) \<in> {[226, 128, 168], [226, 128, 169]}"

function escape :: "string \<Rightarrow> string" where
  "escape [] = []"
| "escape (c # r) =
     (if byte c < 128 then (if html_safe c then [c] else escape_byte c) @ escape r
      else if rune_len (c # r) = 0 then CHR 0x5C # ''ufffd'' @ escape r
      else if line_separator (c # r) then
        CHR 0x5C # ''u202'' @ [hex_char (byte (r ! 1) - 160)] @ escape (drop 2 r)
      else take (rune_len (c # r)) (c # r) @ escape (drop (rune_len (c # r) - 1) r))"
  by pat_completeness auto

termination
  by (relation "measure length") auto

definition quote :: "string \<Rightarrow> string" where
  "quote s = CHR 0x22 # escape s @ [CHR 0x22]"

subsection \<open>Values\<close>

fun commas :: "string list \<Rightarrow> string" where
  "commas [] = []"
| "commas [x] = x"
| "commas (x # xs) = x @ CHR '','' # commas xs"

text \<open>Members are written in the order of the struct's fields, those of a map in the order of its keys.\<close>

primrec json_Marshal :: "json \<Rightarrow> string" where
  "json_Marshal JNull = ''null''"
| "json_Marshal (JBool b) = (if b then ''true'' else ''false'')"
| "json_Marshal (JInt i) = show_int i"
| "json_Marshal (JNumber s) = s"
| "json_Marshal (JString s) = quote s"
| "json_Marshal (JArray vs) = CHR ''['' # commas (map json_Marshal vs) @ '']''"
| "json_Marshal (JObject ms) = CHR ''{'' #
     commas (map (\<lambda>m. quote (fst m) @ CHR '':'' # snd m) (map (map_prod id json_Marshal) ms)) @ ''}''"

text \<open>\<open>json.NewEncoder(w).Encode(v)\<close>: the text and a newline, nothing when the value has no JSON form.\<close>

definition Encode :: "json option \<Rightarrow> string" where
  "Encode v = (case v of None \<Rightarrow> [] | Some j \<Rightarrow> json_Marshal j @ [CHR 0x0A])"

subsection \<open>Decoding the first value of a stream\<close>

text \<open>
  The bytes of the first value: an array or object up to its last bracket, a string up to its
  closing quote, a word up to the next separator.
\<close>

fun value_end :: "nat \<Rightarrow> bool \<Rightarrow> bool \<Rightarrow> string \<Rightarrow> string" where
  "value_end depth quoted escaped [] = []"
| "value_end depth quoted escaped (c # r) =
     (if quoted then
        c # (if escaped then value_end depth True False r
             else if c = CHR 0x5C then value_end depth True True r
             else if c = CHR 0x22 then (if depth = 0 then [] else value_end depth False False r)
             else value_end depth True False r)
      else if c = CHR 0x22 then c # value_end depth True False r
      else if c = CHR ''['' \<or> c = CHR ''{'' then c # value_end (Suc depth) False False r
      else if c = CHR '']'' \<or> c = CHR ''}'' then c # (if depth \<le> 1 then [] else value_end (depth - 1) False False r)
      else if depth = 0 \<and> \<not> is_word_char c then [] else c # value_end depth False False r)"

text \<open>
  The literal \<open>null\<close> ends with its last letter. The program decodes into structs only, where any
  other word is an error however far it reaches.
\<close>

definition Decode :: "string \<Rightarrow> string + json" where
  "Decode s = (let u = dropWhile is_json_space s in
     json_Unmarshal (if take 4 u = ''null'' then ''null'' else value_end 0 False False u))"

subsection \<open>base64\<close>

definition b64_char :: "int \<Rightarrow> char" where
  "b64_char n = char_of (if n < 26 then 65 + n else if n < 52 then 71 + n else if n < 62 then n - 4
     else if n = 62 then 43 else 47)"

definition b64_value :: "char \<Rightarrow> int option" where
  "b64_value c = (let n = byte c in
     if 65 \<le> n \<and> n \<le> 90 then Some (n - 65) else if 97 \<le> n \<and> n \<le> 122 then Some (n - 71)
     else if 48 \<le> n \<and> n \<le> 57 then Some (n + 4) else if n = 43 then Some 62
     else if n = 47 then Some 63 else None)"

fun base64_Encode :: "string \<Rightarrow> string" where
  "base64_Encode (a # b # c # r) =
     b64_char (byte a div 4) # b64_char (byte a mod 4 * 16 + byte b div 16) #
     b64_char (byte b mod 16 * 4 + byte c div 64) # b64_char (byte c mod 64) # base64_Encode r"
| "base64_Encode [a, b] =
     [b64_char (byte a div 4), b64_char (byte a mod 4 * 16 + byte b div 16), b64_char (byte b mod 16 * 4), CHR ''='']"
| "base64_Encode [a] = [b64_char (byte a div 4), b64_char (byte a mod 4 * 16), CHR ''='', CHR ''='']"
| "base64_Encode [] = []"

definition b64_group :: "int \<Rightarrow> int \<Rightarrow> int \<Rightarrow> int \<Rightarrow> string" where
  "b64_group i j k l = [char_of (i * 4 + j div 16), char_of (j mod 16 * 16 + k div 4), char_of (k mod 4 * 64 + l)]"

fun base64_groups :: "string \<Rightarrow> string option" where
  "base64_groups [] = Some []"
| "base64_groups (a # b # c # d # r) =
     (case (b64_value a, b64_value b) of
        (Some i, Some j) \<Rightarrow>
          if c = CHR ''='' then (if d = CHR ''='' \<and> r = [] then Some (take 1 (b64_group i j 0 0)) else None)
          else (case b64_value c of
              None \<Rightarrow> None
            | Some k \<Rightarrow>
                if d = CHR ''='' then (if r = [] then Some (take 2 (b64_group i j k 0)) else None)
                else (case (b64_value d, base64_groups r) of
                    (Some l, Some s) \<Rightarrow> Some (b64_group i j k l @ s) | _ \<Rightarrow> None))
      | _ \<Rightarrow> None)"
| "base64_groups _ = None"

definition base64_Decode :: "string \<Rightarrow> string option" where
  "base64_Decode s = base64_groups (filter (\<lambda>c. c \<noteq> CHR 0x0D \<and> c \<noteq> CHR 0x0A) s)"

subsection \<open>Times\<close>

text \<open>
  The civil date of a day since 1970-01-01 in the proleptic Gregorian calendar: the year, month and
  day from the position in the 400-year cycle that begins on 0000-03-01.
\<close>

definition civil_date :: "int \<Rightarrow> int \<times> int \<times> int" where
  "civil_date days =
     (let z = days + 719468; era = z div 146097; doe = z mod 146097;
          yoe = (doe - doe div 1460 + doe div 36524 - doe div 146096) div 365;
          doy = doe - (365 * yoe + yoe div 4 - yoe div 100);
          mp = (5 * doy + 2) div 153;
          d = doy - (153 * mp + 2) div 5 + 1;
          m = (if mp < 10 then mp + 3 else mp - 9)
      in (yoe + era * 400 + (if m \<le> 2 then 1 else 0), m, d))"

definition pad :: "nat \<Rightarrow> int \<Rightarrow> string" where
  "pad n i = (let s = show_int i in replicate (n - length s) (CHR ''0'') @ s)"

text \<open>The fraction of a second in microseconds, without trailing zeros.\<close>

definition fraction :: "int \<Rightarrow> string" where
  "fraction us = (if us = 0 then [] else CHR ''.'' # rev (dropWhile (\<lambda>c. c = CHR ''0'') (rev (pad 6 us))))"

text \<open>\<open>MarshalJSON\<close> of a time in microseconds since the epoch; a year beyond 9999 is an error.\<close>

definition time_MarshalJSON :: "int \<Rightarrow> json option" where
  "time_MarshalJSON t =
     (let s = t div 1000000; (y, m, d) = civil_date (s div 86400); sec = s mod 86400 in
      if y < 0 \<or> y > 9999 then None
      else Some (JString (pad 4 y @ ''-'' @ pad 2 m @ ''-'' @ pad 2 d @ ''T'' @ pad 2 (sec div 3600) @ '':'' @
        pad 2 (sec div 60 mod 60) @ '':'' @ pad 2 (sec mod 60) @ fraction (t mod 1000000) @ ''Z'')))"

definition zero_time :: json where
  "zero_time = JString ''0001-01-01T00:00:00Z''"

subsection \<open>Numbers\<close>

text \<open>\<open>strconv.Atoi\<close>: the value and whether there is no error; out of range the nearest \<open>int\<close>.\<close>

definition Atoi :: "string \<Rightarrow> int \<times> bool" where
  "Atoi s =
     (let neg = (s \<noteq> [] \<and> hd s = CHR ''-''); ds = (if s \<noteq> [] \<and> (hd s = CHR ''-'' \<or> hd s = CHR ''+'') then tl s else s) in
      if ds = [] \<or> \<not> list_all is_digit ds then (0, False)
      else let n = (if neg then - int_of_digits 0 ds else int_of_digits 0 ds) in
        if in_int64 n then (n, True) else (if neg then - (2 ^ 63) else 2 ^ 63 - 1, False))"

subsection \<open>Reading back a string literal\<close>

lemma byte_range [simp]: "0 \<le> byte c" "byte c < 256"
proof -
  have "byte c = int (of_char c)" by (simp add: byte_def of_nat_of_char)
  moreover have "of_char c < (256 :: nat)" by simp
  ultimately show "0 \<le> byte c" "byte c < 256" by linarith+
qed

lemma byte_char_of [simp]: "0 \<le> n \<Longrightarrow> n < 256 \<Longrightarrow> byte (char_of n) = n"
  by (simp add: byte_def of_char_of)

lemma char_of_byte [simp]: "char_of (byte c) = c"
  by (simp add: byte_def)

lemma byte_eq_iff: "c = d \<longleftrightarrow> byte c = byte d"
  by (metis char_of_byte)

lemma hex_value_hex_char: "0 \<le> n \<Longrightarrow> n < 16 \<Longrightarrow> hex_value (hex_char n) = Some n"
  by (auto simp: hex_value_def hex_char_def Let_def)

definition plain :: "char \<Rightarrow> bool" where
  "plain c \<longleftrightarrow> 32 \<le> byte c \<and> byte c \<noteq> 34 \<and> byte c \<noteq> 92"

lemma plain_neq: "plain c \<Longrightarrow> c \<noteq> CHR 0x22 \<and> c \<noteq> CHR 0x5C \<and> \<not> byte c < 32"
  by (auto simp: plain_def byte_def)

text \<open>Pieces of a literal: what the lexer keeps and what \<open>unquote\<close> makes of it.\<close>

definition string_piece :: "string \<Rightarrow> bool" where
  "string_piece xs \<longleftrightarrow> (\<forall>acc r. lex_tokens (LString acc) (xs @ r) = lex_tokens (LString (rev xs @ acc)) r)"

definition reads :: "string \<Rightarrow> string \<Rightarrow> bool" where
  "reads xs ys \<longleftrightarrow> (\<forall>r. unquote (xs @ r) = ys @ unquote r)"

lemma piece_append: "string_piece xs \<Longrightarrow> string_piece ys \<Longrightarrow> string_piece (xs @ ys)"
  by (simp add: string_piece_def)

lemma reads_append: "reads xs ys \<Longrightarrow> reads xs' ys' \<Longrightarrow> reads (xs @ xs') (ys @ ys')"
  by (simp add: reads_def)

lemma piece_plain: "list_all plain xs \<Longrightarrow> string_piece xs"
proof (induction xs)
  case (Cons c xs)
  with plain_neq [of c] show ?case by (simp add: string_piece_def split: option.splits)
qed (simp add: string_piece_def)

lemma hex_zero: "hex_value (CHR ''0'') = Some 0"
  by (simp add: hex_value_def byte_def)

lemma piece_unicode:
  "list_all (\<lambda>c. hex_value c \<noteq> None) [a, b, c, d] \<Longrightarrow> string_piece [CHR 0x5C, CHR ''u'', a, b, c, d]"
  by (auto simp: string_piece_def split: option.splits)

lemma reads_unicode:
  assumes "hex4 [a, b, c, d] = Some u" and "\<not> is_surrogate u"
  shows "reads [CHR 0x5C, CHR ''u'', a, b, c, d] (EncodeRune u)"
  using assms by (simp add: reads_def split: option.splits prod.splits)

lemma char_of_of: "of_char c = (n :: int) \<Longrightarrow> char_of n = c"
  by auto

lemma escape_byte_ok:
  assumes "byte c < 128" and "\<not> html_safe c"
  shows "string_piece (escape_byte c)" and "reads (escape_byte c) [c]"
proof -
  consider "byte c = 34" | "byte c = 92" | "byte c = 8" | "byte c = 12" | "byte c = 10" | "byte c = 13" | "byte c = 9"
    | (hex) "byte c \<notin> {34, 92, 8, 12, 10, 13, 9}" by blast
  then have "string_piece (escape_byte c) \<and> reads (escape_byte c) [c]"
  proof cases
    case hex
    have digits: "0 \<le> byte c div 16" "byte c div 16 < 16" using byte_range [of c] by presburger+
    have "byte c = byte c div 16 * 16 + byte c mod 16" by simp
    then have "hex4 [CHR ''0'', CHR ''0'', hex_char (byte c div 16), hex_char (byte c mod 16)] = Some (byte c)"
      by (simp add: hex_zero hex_value_hex_char digits)
    moreover have "\<not> is_surrogate (byte c)" unfolding is_surrogate_def using byte_range(2) [of c] by linarith
    moreover have "EncodeRune (byte c) = [c]" using assms(1) by (simp add: EncodeRune_def)
    ultimately show ?thesis
      using hex piece_unicode [of "CHR ''0''" "CHR ''0''" "hex_char (byte c div 16)" "hex_char (byte c mod 16)"]
        reads_unicode [of "CHR ''0''" "CHR ''0''" "hex_char (byte c div 16)" "hex_char (byte c mod 16)" "byte c"]
      by (simp add: escape_byte_def Let_def hex_zero hex_value_hex_char digits)
  qed (auto simp: escape_byte_def Let_def string_piece_def reads_def unescape_def byte_eq_iff [of c] byte_def
         split: option.splits intro: char_of_of)
  then show "string_piece (escape_byte c)" "reads (escape_byte c) [c]" by simp_all
qed

text \<open>Sequences of valid runes.\<close>

function valid_utf8 :: "string \<Rightarrow> bool" where
  "valid_utf8 [] = True"
| "valid_utf8 (c # r) = (rune_len (c # r) \<noteq> 0 \<and> valid_utf8 (drop (rune_len (c # r) - 1) r))"
  by pat_completeness auto

termination
  by (relation "measure length") auto

lemma rune_len_ascii: "byte c < 128 \<Longrightarrow> rune_len (c # r) = 1"
  by (simp add: rune_len_def)

lemma rune_len_more:
  "194 \<le> byte c \<Longrightarrow> byte c \<le> 223 \<Longrightarrow> second_byte (byte c) b \<Longrightarrow> rune_len (c # b # q) = 2"
  "224 \<le> byte c \<Longrightarrow> byte c \<le> 239 \<Longrightarrow> second_byte (byte c) b \<Longrightarrow> within 128 191 b' \<Longrightarrow> rune_len (c # b # b' # q) = 3"
  "240 \<le> byte c \<Longrightarrow> byte c \<le> 244 \<Longrightarrow> second_byte (byte c) b \<Longrightarrow> within 128 191 b' \<Longrightarrow> within 128 191 b'' \<Longrightarrow>
     rune_len (c # b # b' # b'' # q) = 4"
  by (simp_all add: rune_len_def)

lemma rune_cases:
  assumes "rune_len (c # r) \<noteq> 0"
  obtains (1) "byte c < 128"
    | (2) b q where "r = b # q" "194 \<le> byte c" "byte c \<le> 223" "second_byte (byte c) b"
    | (3) b b' q where "r = b # b' # q" "224 \<le> byte c" "byte c \<le> 239" "second_byte (byte c) b" "within 128 191 b'"
    | (4) b b' b'' q where "r = b # b' # b'' # q" "240 \<le> byte c" "byte c \<le> 244" "second_byte (byte c) b"
        "within 128 191 b'" "within 128 191 b''"
  using assms by (simp add: rune_len_def Let_def split: if_splits list.splits)

lemma continuation_plain: "second_byte n b \<Longrightarrow> plain b" "within 128 191 b \<Longrightarrow> plain b"
  by (auto simp: second_byte_def within_def plain_def split: if_splits)

lemma rune_len_take:
  assumes "rune_len (c # r) \<noteq> 0"
  shows "rune_len (take (rune_len (c # r)) (c # r) @ x) = rune_len (c # r) \<and> rune_len (c # r) \<le> length (c # r) \<and>
    (128 \<le> byte c \<longrightarrow> list_all plain (take (rune_len (c # r)) (c # r)))"
  using assms
  by (cases rule: rune_cases) (simp_all add: rune_len_ascii rune_len_more continuation_plain plain_def [of c])

lemma reads_rune:
  assumes "c \<noteq> CHR 0x5C" and "rune_len (c # r) \<noteq> 0"
  shows "reads (take (rune_len (c # r)) (c # r)) (take (rune_len (c # r)) (c # r))"
proof -
  define n where "n = rune_len (c # r)"
  obtain m where n: "n = Suc m" "m \<le> length r"
    using assms(2) rune_len_take [OF assms(2)] by (cases n) (auto simp: n_def)
  have "rune_len (c # take m r @ x) = Suc m" for x
    using rune_len_take [OF assms(2), of x] n by (simp add: n_def [symmetric])
  then show ?thesis using assms(1) n by (simp add: n_def [symmetric] reads_def)
qed


lemma escape_safe:
  assumes "byte c < 128" and "html_safe c"
  shows "string_piece [c]" and "reads [c] [c]"
proof -
  have c: "plain c" using assms(2) by (auto simp: html_safe_def plain_def)
  then show "string_piece [c]" by (intro piece_plain) simp
  show "reads [c] [c]"
    using reads_rune [of c "[]"] plain_neq [OF c] by (simp add: rune_len_ascii [OF assms(1)])
qed

lemma escape_separator:
  assumes "line_separator (c # r)" and "rune_len (c # r) \<noteq> 0"
  defines "xs \<equiv> CHR 0x5C # ''u202'' @ [hex_char (byte (r ! 1) - 160)]"
  shows "string_piece xs" and "reads xs (take (rune_len (c # r)) (c # r))" and "rune_len (c # r) = 3"
proof -
  obtain b b' q where r: "r = b # b' # q" and bytes: "byte c = 226" "byte b = 128" "byte b' = 168 \<or> byte b' = 169"
    using assms(1) by (cases r; cases "tl r") (auto simp: line_separator_def)
  then have len: "rune_len (c # r) = 3" by (auto intro!: rune_len_more simp: second_byte_def within_def)
  then show "rune_len (c # r) = 3" .
  have "0 \<le> byte b' - 160" "byte b' - 160 < 16" using bytes(3) by auto
  then have hex: "hex_value (hex_char (byte b' - 160)) = Some (byte b' - 160)" by (rule hex_value_hex_char)
  have word: "hex_value (CHR ''2'') = Some 2" by (simp add: hex_value_def byte_def)
  have xs: "xs = [CHR 0x5C, CHR ''u'', CHR ''2'', CHR ''0'', CHR ''2'', hex_char (byte b' - 160)]"
    by (simp add: xs_def r)
  show "string_piece xs" unfolding xs by (rule piece_unicode) (simp add: hex hex_zero word)
  have "c = char_of (226 :: int)" "b = char_of (128 :: int)" "b' = char_of (byte b')"
    using bytes(1,2) char_of_byte by metis+
  then have "EncodeRune (byte b' + 8064) = [c, b, b']"
    using bytes(3) by (auto simp: EncodeRune_def byte_def intro: char_of_of)
  moreover have "reads xs (EncodeRune (byte b' + 8064))"
    unfolding xs using bytes(3) by (intro reads_unicode) (auto simp: hex hex_zero word is_surrogate_def)
  ultimately show "reads xs (take (rune_len (c # r)) (c # r))" using len r by simp
qed

text \<open>The lexer keeps an escaped string as one literal, and unquoting it gives the string back.\<close>

lemma escape_ok: "string_piece (escape s) \<and> (valid_utf8 s \<longrightarrow> reads (escape s) s)"
proof (induction s rule: escape.induct)
  case 1
  show ?case by (simp add: string_piece_def reads_def)
next
  case (2 c r)
  let ?n = "rune_len (c # r)"
  consider (ascii) "byte c < 128" | (bad) "\<not> byte c < 128" "?n = 0"
    | (sep) "\<not> byte c < 128" "?n \<noteq> 0" "line_separator (c # r)"
    | (rune) "\<not> byte c < 128" "?n \<noteq> 0" "\<not> line_separator (c # r)" by blast
  then show ?case
  proof cases
    case ascii
    then have ih: "string_piece (escape r)" "valid_utf8 r \<Longrightarrow> reads (escape r) r" using 2(1) by simp_all
    have "string_piece (if html_safe c then [c] else escape_byte c) \<and> reads (if html_safe c then [c] else escape_byte c) [c]"
      using escape_safe escape_byte_ok ascii by simp
    with ih ascii show ?thesis
      using piece_append reads_append [of _ "[c]" "escape r" r] by (simp add: rune_len_ascii)
  next
    case bad
    then have "string_piece (escape r)" using 2(2) by simp
    moreover have "string_piece (CHR 0x5C # ''ufffd'')"
      using piece_unicode [of "CHR ''f''" "CHR ''f''" "CHR ''f''" "CHR ''d''"] by (simp add: hex_value_def byte_def)
    ultimately show ?thesis using bad piece_append [of "CHR 0x5C # ''ufffd''"] by simp
  next
    case sep
    note e = escape_separator [OF sep(3,2)]
    have ih: "string_piece (escape (drop 2 r))" "valid_utf8 (drop 2 r) \<Longrightarrow> reads (escape (drop 2 r)) (drop 2 r)"
      using 2(3) sep by simp_all
    have "take 3 (c # r) @ drop 2 r = c # r" by (metis append_take_drop_id drop_Suc_Cons numeral_2_eq_2 numeral_3_eq_3)
    with sep e ih show ?thesis
      using piece_append [OF e(1) ih(1)] reads_append [OF e(2) ih(2)] by simp
  next
    case rune
    obtain m where m: "?n = Suc m" using rune(2) by (cases ?n) auto
    have ih: "string_piece (escape (drop m r))" "valid_utf8 (drop m r) \<Longrightarrow> reads (escape (drop m r)) (drop m r)"
      using 2(4) rune m by simp_all
    have high: "c \<noteq> CHR 0x5C" using rune(1) by (auto simp: byte_def)
    have "string_piece (take ?n (c # r))"
      using rune_len_take [OF rune(2)] rune(1) by (intro piece_plain) simp
    moreover have "reads (take ?n (c # r)) (take ?n (c # r))" using high rune(2) by (rule reads_rune)
    moreover have "take (Suc m) (c # r) @ drop m r = c # r" by simp
    ultimately show ?thesis
      using rune m piece_append [OF _ ih(1)] reads_append [OF _ ih(2)] by (metis append_take_drop_id diff_Suc_1 drop_Suc_Cons escape.simps(2) valid_utf8.simps(2))
  qed
qed

lemma quote_lexed: "lex_tokens LNone (quote s @ r) = map_option ((#) (TString (escape s))) (lex_tokens LNone r)"
proof -
  have "lex_tokens (LString []) (escape s @ CHR 0x22 # r) = map_option ((#) (TString (escape s))) (lex_tokens LNone r)"
    using escape_ok [of s] by (simp add: string_piece_def split: option.splits)
  moreover have "lex_start (CHR 0x22) = Some ([], LString [])"
    by (simp add: lex_start_def is_json_space_def is_punct_def byte_def)
  ultimately show ?thesis by (simp add: quote_def split: option.splits)
qed

lemma unquote_escape: "valid_utf8 s \<Longrightarrow> unquote (escape s) = s"
  using escape_ok [of s] by (auto simp: reads_def dest: spec [of _ "[]"])

subsection \<open>Reading back a number\<close>

lemma digit_char: "n < 10 \<Longrightarrow> byte (char_of (48 + n)) = 48 + int n" for n :: nat
proof -
  assume "n < 10"
  then have "of_char (char_of (48 + n) :: char) = (48 + n :: nat)" by simp
  then show ?thesis unfolding byte_def by (metis of_nat_add of_nat_numeral of_nat_of_char)
qed

lemma int_of_digits_append: "int_of_digits a (xs @ [c]) = int_of_digits a xs * 10 + (byte c - 48)"
  by (induction xs arbitrary: a) simp_all

lemma show_nat_0 [simp]: "show_nat 0 = ''0''" by code_simp

lemma show_nat_digits:
  "list_all is_digit (show_nat n) \<and> show_nat n \<noteq> [] \<and> int_of_digits 0 (show_nat n) = int n \<and>
     (hd (show_nat n) = CHR ''0'' \<longrightarrow> n = 0)"
proof (induction n rule: show_nat.induct)
  case (1 n)
  have digit: "is_digit (char_of (48 + d))" if "d < 10" for d :: nat
    using digit_char [OF that] that by (simp add: is_digit_def within_def)
  show ?case
  proof (cases "n < 10")
    case True
    have "n = 0" if "char_of (48 + n) = CHR ''0''"
      using digit_char [OF True] that by (simp add: byte_def)
    with True show ?thesis using digit [of n] digit_char [of n]
      by (auto simp: show_nat.simps [of n])
  next
    case False
    then have "n div 10 \<noteq> 0" by simp
    moreover have "int (n div 10) * 10 + int (n mod 10) = int n" by presburger
    ultimately show ?thesis using False 1 digit [of "n mod 10"] digit_char [of "n mod 10"]
      by (auto simp: show_nat.simps [of n] int_of_digits_append)
  qed
qed

lemma json_number_digits:
  assumes "list_all is_digit ds" and "ds \<noteq> []" and "hd ds = CHR ''0'' \<Longrightarrow> length ds = 1"
  shows "json_number ds = Some (JInt (int_of_digits 0 ds))"
    and "json_number (CHR ''-'' # ds) = Some (JInt (- int_of_digits 0 ds))"
proof -
  have tw: "takeWhile is_digit ds = ds" "dropWhile is_digit ds = []"
    using assms(1) by (auto simp: list_all_iff)
  have "hd ds \<noteq> CHR ''-''" using assms(1,2) by (cases ds) (auto simp: is_digit_def within_def byte_def)
  then show "json_number ds = Some (JInt (int_of_digits 0 ds))"
    and "json_number (CHR ''-'' # ds) = Some (JInt (- int_of_digits 0 ds))"
    using assms(2,3) by (auto simp: json_number_def Let_def tw)
qed

lemma json_number_show_int: "json_number (show_int i) = Some (JInt i)"
proof -
  have d: "list_all is_digit (show_nat n)" "show_nat n \<noteq> []" "hd (show_nat n) = CHR ''0'' \<Longrightarrow> length (show_nat n) = 1"
    "int_of_digits 0 (show_nat n) = int n" for n
    using show_nat_digits [of n] by auto
  show ?thesis using json_number_digits [OF d(1-3)] d(4) by (simp add: show_int_def)
qed

lemma word_chars_show_int: "list_all is_word_char (show_int i)" "show_int i \<noteq> []"
proof -
  have "list_all is_word_char (show_nat n)" "show_nat n \<noteq> []" for n
    using show_nat_digits [of n] by (auto simp: list_all_iff is_word_char_def)
  then show "list_all is_word_char (show_int i)" "show_int i \<noteq> []"
    by (simp_all add: show_int_def is_word_char_def)
qed

text \<open>A word is one token when a separator or nothing follows.\<close>

definition ends :: "string \<Rightarrow> bool" where
  "ends r \<longleftrightarrow> r = [] \<or> is_punct (hd r)"

lemma char_classes:
  "is_punct c \<longleftrightarrow> byte c \<in> {91, 93, 123, 125, 44, 58}" "c = CHR 0x22 \<longleftrightarrow> byte c = 34"
  "is_word_char c \<longleftrightarrow> byte c \<in> {69, 43, 45, 46} \<or> (48 \<le> byte c \<and> byte c \<le> 57) \<or> (97 \<le> byte c \<and> byte c \<le> 122)"
proof -
  have "CHR ''['' = char_of (91 :: int)" "CHR '']'' = char_of (93 :: int)" "CHR ''{'' = char_of (123 :: int)"
    "CHR ''}'' = char_of (125 :: int)" "CHR '','' = char_of (44 :: int)" "CHR '':'' = char_of (58 :: int)"
    "CHR ''E'' = char_of (69 :: int)" "CHR ''+'' = char_of (43 :: int)" "CHR ''-'' = char_of (45 :: int)"
    "CHR ''.'' = char_of (46 :: int)" "CHR 0x22 = char_of (34 :: int)" by (simp_all add: char_of_def)
  moreover have "c = char_of n \<longleftrightarrow> byte c = n" if "0 \<le> n" "n < 256" for n :: int
    using that by (metis byte_char_of char_of_byte)
  ultimately show "is_punct c \<longleftrightarrow> byte c \<in> {91, 93, 123, 125, 44, 58}" "c = CHR 0x22 \<longleftrightarrow> byte c = 34"
    "is_word_char c \<longleftrightarrow> byte c \<in> {69, 43, 45, 46} \<or> (48 \<le> byte c \<and> byte c \<le> 57) \<or> (97 \<le> byte c \<and> byte c \<le> 122)"
    unfolding is_punct_def is_word_char_def is_digit_def within_def by auto
qed

lemma punct_not_word: "is_punct c \<Longrightarrow> \<not> is_word_char c \<and> lex_start c = Some ([TPunct c], LNone)"
  unfolding lex_start_def is_json_space_def char_classes by auto

lemma word_lexed_acc:
  "list_all is_word_char xs \<Longrightarrow> ends r \<Longrightarrow>
     lex_tokens (LWord acc) (xs @ r) = map_option ((#) (TWord (rev acc @ xs))) (lex_tokens LNone r)"
proof (induction xs arbitrary: acc)
  case Nil
  then show ?case
    by (cases r) (auto simp: ends_def punct_not_word split: option.splits)
qed (simp split: option.splits)

lemma word_start: "is_word_char c \<Longrightarrow> lex_start c = Some ([], LWord [c])"
  unfolding lex_start_def is_json_space_def char_classes by auto

lemma word_lexed:
  assumes "list_all is_word_char s" and "s \<noteq> []" and "ends r"
  shows "lex_tokens LNone (s @ r) = map_option ((#) (TWord s)) (lex_tokens LNone r)"
proof -
  obtain c cs where "s = c # cs" using assms(2) by (cases s) auto
  with assms show ?thesis
    by (simp add: word_start word_lexed_acc split: option.splits)
qed

lemma punct_lexed: "is_punct c \<Longrightarrow> lex_tokens LNone (c # r) = map_option ((#) (TPunct c)) (lex_tokens LNone r)"
  by (simp add: punct_not_word split: option.splits)

subsection \<open>Reading back a value\<close>

fun comma_tokens :: "token list list \<Rightarrow> token list" where
  "comma_tokens [] = []"
| "comma_tokens [x] = x"
| "comma_tokens (x # xs) = x @ TPunct (CHR '','') # comma_tokens xs"

primrec tokens :: "json \<Rightarrow> token list" where
  "tokens JNull = [TWord ''null'']"
| "tokens (JBool b) = [TWord (if b then ''true'' else ''false'')]"
| "tokens (JInt i) = [TWord (show_int i)]"
| "tokens (JNumber s) = [TWord s]"
| "tokens (JString s) = [TString (escape s)]"
| "tokens (JArray vs) = TPunct (CHR ''['') # comma_tokens (map tokens vs) @ [TPunct (CHR '']'')]"
| "tokens (JObject ms) = TPunct (CHR ''{'') #
     comma_tokens (map (\<lambda>m. TString (escape (fst m)) # TPunct (CHR '':'') # snd m) (map (map_prod id tokens) ms)) @ [TPunct (CHR ''}'')]"

text \<open>Values with UTF-8 strings and well-formed numbers, and how deep they are nested.\<close>

primrec encodable :: "json \<Rightarrow> bool" where
  "encodable JNull = True"
| "encodable (JBool b) = True"
| "encodable (JInt i) = True"
| "encodable (JNumber s) = (s \<noteq> [] \<and> list_all is_word_char s \<and> json_word s = Some (JNumber s))"
| "encodable (JString s) = valid_utf8 s"
| "encodable (JArray vs) = list_all id (map encodable vs)"
| "encodable (JObject ms) = list_all (\<lambda>m. valid_utf8 (fst m) \<and> snd m) (map (map_prod id encodable) ms)"

primrec depth :: "json \<Rightarrow> nat" where
  "depth JNull = 0" | "depth (JBool b) = 0" | "depth (JInt i) = 0" | "depth (JNumber s) = 0" | "depth (JString s) = 0"
| "depth (JArray vs) = Suc (foldr max (map depth vs) 0)"
| "depth (JObject ms) = Suc (foldr (\<lambda>m. max (snd m)) (map (map_prod id depth) ms) 0)"

declare lex_tokens.simps [simp del]

definition before :: "token list \<Rightarrow> token list option \<Rightarrow> token list option" where
  "before ts x = map_option ((@) ts) x"

lemma before_simps [simp]: "before [] x = x" "before ts (before us x) = before (ts @ us) x"
  by (cases x; simp add: before_def)+

lemma before_Cons: "map_option ((#) t) x = before [t] x"
  by (cases x) (simp_all add: before_def)

definition lexes_to :: "string \<Rightarrow> token list \<Rightarrow> bool" where
  "lexes_to s ts \<longleftrightarrow> (\<forall>r. ends r \<longrightarrow> lex_tokens LNone (s @ r) = before ts (lex_tokens LNone r))"

lemma ends_punct [simp]: "is_punct c \<Longrightarrow> ends (c # r)"
  by (simp add: ends_def)

lemma lexes_word: "list_all is_word_char s \<Longrightarrow> s \<noteq> [] \<Longrightarrow> lexes_to s [TWord s]"
  by (simp add: lexes_to_def word_lexed before_Cons)

lemma lexes_quote: "lexes_to (quote s) [TString (escape s)]"
  by (simp add: lexes_to_def quote_lexed before_Cons)

lemma lexes_append:
  "lexes_to xs ts \<Longrightarrow> is_punct c \<Longrightarrow> lexes_to ys us \<Longrightarrow> lexes_to (xs @ c # ys) (ts @ TPunct c # us)"
  by (simp add: lexes_to_def punct_lexed before_Cons)

lemma lexes_commas:
  "list_all2 lexes_to xs ts \<Longrightarrow> lexes_to (commas xs) (comma_tokens ts)"
proof (induction xs ts rule: list_all2_induct)
  case Nil
  show ?case by (simp add: lexes_to_def)
next
  case (Cons x xs t ts)
  then show ?case
    using lexes_append [OF Cons(1) _ Cons(3), of "CHR '',''"]
    by (cases xs; cases ts) (auto simp: is_punct_def)
qed

lemma lexes_bracket:
  assumes "lexes_to xs ts" and "is_punct a" and "is_punct b"
  shows "lexes_to (a # xs @ [b]) (TPunct a # ts @ [TPunct b])"
  using assms by (simp add: lexes_to_def punct_lexed before_Cons)

lemma json_lexed: "encodable v \<Longrightarrow> lexes_to (json_Marshal v) (tokens v)"
proof (induction v)
  case (JInt i)
  show ?case using lexes_word [OF word_chars_show_int] by simp
next
  case (JArray vs)
  then have "list_all2 lexes_to (map json_Marshal vs) (map tokens vs)"
    by (auto simp: list_all2_conv_all_nth list_all_length)
  from lexes_bracket [OF lexes_commas [OF this]] show ?case by (simp add: is_punct_def)
next
  case (JObject ms)
  have "lexes_to (quote (fst m) @ CHR '':'' # json_Marshal (snd m)) (TString (escape (fst m)) # TPunct (CHR '':'') # tokens (snd m))"
    if "m \<in> set ms" for m
    using lexes_append [OF lexes_quote, of "CHR '':''" "json_Marshal (snd m)" "tokens (snd m)" "fst m"] JObject that
    by (cases m) (auto simp: is_punct_def list_all_iff)
  then have "list_all2 lexes_to (map (\<lambda>m. quote (fst m) @ CHR '':'' # snd m) (map (map_prod id json_Marshal) ms))
      (map (\<lambda>m. TString (escape (fst m)) # TPunct (CHR '':'') # snd m) (map (map_prod id tokens) ms))"
    by (auto simp: list_all2_conv_all_nth)
  from lexes_bracket [OF lexes_commas [OF this]] show ?case by (simp add: is_punct_def)
qed (auto intro!: lexes_word lexes_quote simp: is_word_char_def within_def byte_def)


definition parses_to :: "json \<Rightarrow> bool" where
  "parses_to v \<longleftrightarrow> (\<forall>ts st. int (length st + depth v) \<le> maxNestingDepth \<longrightarrow>
     parse_tokens (tokens v @ ts) XValue st = parse_tokens ts (fst (deliver v st)) (snd (deliver v st)))"

lemma parses_word: "json_word s = Some v \<Longrightarrow> tokens v = [TWord s] \<Longrightarrow> parses_to v"
  by (auto simp: parses_to_def begin_value_def split: prod.splits)

lemma parses_string: "valid_utf8 s \<Longrightarrow> parses_to (JString s)"
  by (auto simp: parses_to_def begin_value_def unquote_escape split: prod.splits)

lemma json_word_literals:
  "json_word ''null'' = Some JNull" "json_word ''true'' = Some (JBool True)" "json_word ''false'' = Some (JBool False)"
  by (simp_all add: json_word_def)

lemma json_number_letters: "json_number ''null'' = None" "json_number ''true'' = None" "json_number ''false'' = None"
  by (simp_all add: json_number_def is_digit_def within_def byte_def)

lemma json_word_show_int: "json_word (show_int i) = Some (JInt i)"
proof -
  have "show_int i \<notin> {''null'', ''true'', ''false''}"
    using json_number_show_int [of i] json_number_letters by auto
  then show ?thesis by (simp add: json_word_def json_number_show_int)
qed

lemma first_token: "\<exists>t ts. tokens v = t # ts \<and> t \<noteq> TPunct (CHR '']'')"
  by (cases v) auto

lemma value_or_end: "parse_tokens (tokens v @ ts) XValueOrEnd st = parse_tokens (tokens v @ ts) XValue st"
  using first_token [of v] by auto

lemma depth_member: "v \<in> set vs \<Longrightarrow> depth v \<le> foldr max (map depth vs) 0"
  by (induction vs) auto

lemma depth_field: "m \<in> set ms \<Longrightarrow> depth (snd m) \<le> foldr (\<lambda>m. max (snd m)) (map (map_prod id depth) ms) 0"
  by (induction ms) auto

lemma parse_elements:
  assumes "vs \<noteq> []" and "\<And>v. v \<in> set vs \<Longrightarrow> parses_to v \<and> int (Suc (length st) + depth v) \<le> maxNestingDepth"
  shows "parse_tokens (comma_tokens (map tokens vs) @ TPunct (CHR '']'') # ts) XValue (FArray acc # st) =
    parse_tokens ts (fst (deliver (JArray (rev acc @ vs)) st)) (snd (deliver (JArray (rev acc @ vs)) st))"
  using assms
proof (induction vs arbitrary: acc)
  case (Cons v vs)
  have v: "parse_tokens (tokens v @ us) XValue (FArray acc # st) = parse_tokens us XCommaOrEnd (FArray (v # acc) # st)" for us
    using Cons.prems(2) [of v] by (simp add: parses_to_def)
  show ?case
  proof (cases vs)
    case Nil
    then show ?thesis
      by (cases "deliver (JArray (rev acc @ [v])) st") (simp add: v after_value_def)
  next
    case (Cons v' vs')
    then show ?thesis using Cons.IH [of "v # acc"] Cons.prems by (simp add: v after_value_def)
  qed
qed simp

lemma parse_members:
  assumes "ms \<noteq> []" and "\<And>m. m \<in> set ms \<Longrightarrow> parses_to (snd m) \<and> valid_utf8 (fst m) \<and>
    int (Suc (length st) + depth (snd m)) \<le> maxNestingDepth"
  shows "parse_tokens (comma_tokens (map (\<lambda>m. TString (escape (fst m)) # TPunct (CHR '':'') # snd m) (map (map_prod id tokens) ms))
      @ TPunct (CHR ''}'') # ts) XKey (FObject acc k # st) =
    parse_tokens ts (fst (deliver (JObject (rev acc @ ms)) st)) (snd (deliver (JObject (rev acc @ ms)) st))"
  using assms
proof (induction ms arbitrary: acc k)
  case (Cons m ms)
  obtain n v where m: "m = (n, v)" by (cases m)
  have v: "parse_tokens (tokens v @ us) XValue (FObject acc n # st) = parse_tokens us XCommaOrEnd (FObject ((n, v) # acc) n # st)" for us
    using Cons.prems(2) [of m] m by (simp add: parses_to_def)
  have n: "unquote (escape n) = n" using Cons.prems(2) [of m] m by (simp add: unquote_escape)
  show ?case
  proof (cases ms)
    case Nil
    then show ?thesis using m
      by (cases "deliver (JObject (rev acc @ [(n, v)])) st") (simp add: begin_key_def after_value_def v n)
  next
    case (Cons m' ms')
    then show ?thesis using Cons.IH [of "(n, v) # acc" n] Cons.prems m by (simp add: begin_key_def after_value_def v n)
  qed
qed simp

lemma json_parsed: "encodable v \<Longrightarrow> parses_to v"
proof (induction v)
  case (JArray vs)
  have *: "parses_to v" if "v \<in> set vs" for v using JArray that by (auto simp: list_all_iff)
  show ?case
    unfolding parses_to_def
  proof (intro allI impI)
    fix ts and st :: "jframe list" assume d: "int (length st + depth (JArray vs)) \<le> maxNestingDepth"
    have "int (Suc (length st) + depth v) \<le> maxNestingDepth" if "v \<in> set vs" for v
      using depth_member [OF that] d by simp
    with * have e: "vs \<noteq> [] \<Longrightarrow> parse_tokens (comma_tokens (map tokens vs) @ TPunct (CHR '']'') # ts) XValue (FArray [] # st) =
        parse_tokens ts (fst (deliver (JArray vs) st)) (snd (deliver (JArray vs) st))"
      using parse_elements [of vs st ts "[]"] by simp
    have "parse_tokens (comma_tokens (map tokens vs) @ us) XValueOrEnd (FArray [] # st) =
        parse_tokens (comma_tokens (map tokens vs) @ us) XValue (FArray [] # st)" if "vs \<noteq> []" for us
      using that value_or_end [of "hd vs"] by (cases vs; cases "tl vs") simp_all
    with d e show "parse_tokens (tokens (JArray vs) @ ts) XValue st =
        parse_tokens ts (fst (deliver (JArray vs) st)) (snd (deliver (JArray vs) st))"
      by (cases "vs = []"; cases "deliver (JArray []) st") (simp_all add: begin_value_def push_frame_def)
  qed
next
  case (JObject ms)
  have *: "parses_to (snd m) \<and> valid_utf8 (fst m)" if "m \<in> set ms" for m
    using JObject that by (cases m) (auto simp: list_all_iff)
  show ?case
    unfolding parses_to_def
  proof (intro allI impI)
    fix ts and st :: "jframe list" assume d: "int (length st + depth (JObject ms)) \<le> maxNestingDepth"
    have "int (Suc (length st) + depth (snd m)) \<le> maxNestingDepth" if "m \<in> set ms" for m
      using depth_field [OF that] d by simp
    with * have e: "ms \<noteq> [] \<Longrightarrow> parse_tokens (comma_tokens (map (\<lambda>m. TString (escape (fst m)) # TPunct (CHR '':'') # snd m)
          (map (map_prod id tokens) ms)) @ TPunct (CHR ''}'') # ts) XKey (FObject [] [] # st) =
        parse_tokens ts (fst (deliver (JObject ms) st)) (snd (deliver (JObject ms) st))"
      using parse_members [of ms st ts "[]" "[]"] by simp
    have "parse_tokens (comma_tokens (map (\<lambda>m. TString (escape (fst m)) # TPunct (CHR '':'') # snd m)
          (map (map_prod id tokens) ms)) @ us) XKeyOrEnd (FObject [] [] # st) =
        parse_tokens (comma_tokens (map (\<lambda>m. TString (escape (fst m)) # TPunct (CHR '':'') # snd m)
          (map (map_prod id tokens) ms)) @ us) XKey (FObject [] [] # st)" if "ms \<noteq> []" for us
      using that by (cases ms; cases "tl ms") simp_all
    with d e show "parse_tokens (tokens (JObject ms) @ ts) XValue st =
        parse_tokens ts (fst (deliver (JObject ms) st)) (snd (deliver (JObject ms) st))"
      by (cases "ms = []"; cases "deliver (JObject []) st") (simp_all add: begin_value_def push_frame_def)
  qed
qed (auto intro!: parses_word parses_string simp: json_word_literals json_word_show_int)

text \<open>What \<open>json.Marshal\<close> writes, \<open>json.Unmarshal\<close> reads back.\<close>

lemma json_round_trip:
  assumes "encodable v" and "int (depth v) \<le> maxNestingDepth"
  shows "json_Unmarshal (json_Marshal v) = Inr v"
proof -
  have "lex_tokens LNone (json_Marshal v @ []) = before (tokens v) (lex_tokens LNone [])"
    using json_lexed [OF assms(1)] by (simp add: lexes_to_def ends_def)
  then have "lex_tokens LNone (json_Marshal v) = Some (tokens v)" by (simp add: lex_tokens.simps before_def)
  moreover have "parse_tokens (tokens v @ []) XValue [] = Some v"
    using json_parsed [OF assms(1)] assms(2) by (simp add: parses_to_def del: append_Nil2)
  ultimately show ?thesis by (simp add: json_Unmarshal_def)
qed

subsection \<open>Reading back base64\<close>

lemma b64_char_props:
  assumes "0 \<le> n" and "n < 64"
  shows "b64_value (b64_char n) = Some n" and "byte (b64_char n) < 128" and "byte (b64_char n) \<notin> {10, 13, 61}"
  using assms by (auto simp: b64_char_def b64_value_def Let_def)

lemma byte_parts:
  "0 \<le> byte a div 4" "byte a div 4 < 64" "0 \<le> byte a div 16" "byte a div 16 < 16" "0 \<le> byte a div 64" "byte a div 64 < 4"
  using byte_range [of a] by presburger+

lemma sextet_bounds:
  assumes "0 \<le> y" and "y < 16" and "0 \<le> z" and "z < 4"
  shows "0 \<le> x mod 4 * 16 + y" "x mod 4 * 16 + y < 64" "0 \<le> x mod 16 * 4 + z" "x mod 16 * 4 + z < (64 :: int)"
proof -
  have "0 \<le> x mod 4" "x mod 4 < 4" "0 \<le> x mod 16" "x mod 16 < 16" by simp_all
  then show "0 \<le> x mod 4 * 16 + y" "x mod 4 * 16 + y < 64" "0 \<le> x mod 16 * 4 + z" "x mod 16 * 4 + z < (64 :: int)"
    using assms by linarith+
qed

lemma digit_split: "0 \<le> k \<Longrightarrow> k < n \<Longrightarrow> (m * n + k) div n = m \<and> (m * n + k) mod n = (k :: int)"
  by simp

lemma b64_group_back:
  assumes "0 \<le> y" and "y < 256" and "0 \<le> z" and "z < 256"
  shows "b64_group (x div 4) (x mod 4 * 16 + y div 16) (y mod 16 * 4 + z div 64) (z mod 64) = [char_of x, char_of y, char_of z]"
proof -
  have "0 \<le> y div 16" "y div 16 < 16" "0 \<le> z div 64" "z div 64 < 4" using assms by presburger+
  then show ?thesis
    using digit_split [of "y div 16" 16 "x mod 4"] digit_split [of "z div 64" 4 "y mod 16"] by (simp add: b64_group_def)
qed

definition b64_sextet :: "char \<Rightarrow> bool" where
  "b64_sextet c \<longleftrightarrow> byte c < 128 \<and> byte c \<notin> {10, 13}"

lemma sextet_char: "0 \<le> n \<Longrightarrow> n < 64 \<Longrightarrow> b64_sextet (b64_char n)" "b64_sextet (CHR ''='')"
  using b64_char_props [of n] by (auto simp: b64_sextet_def byte_def)

lemmas b64_bounds = byte_parts sextet_bounds [OF byte_parts(3,4) byte_parts(5,6)]
  sextet_bounds [OF byte_parts(3,4), of 0, simplified] sextet_bounds [of 0 0, simplified]

lemma base64_text: "list_all b64_sextet (base64_Encode s)"
  by (induction s rule: base64_Encode.induct) (simp_all add: sextet_char b64_bounds)

lemma pad_neq: "0 \<le> n \<Longrightarrow> n < 64 \<Longrightarrow> b64_char n \<noteq> CHR ''=''"
  using b64_char_props(3) [of n] by (auto simp: byte_def)

lemma base64_groups_round_trip: "base64_groups (base64_Encode s) = Some s"
proof (induction s rule: base64_Encode.induct)
  case (1 a b c r)
  then show ?case
    using b64_group_back [of "byte b" "byte c" "byte a"] by (simp add: b64_char_props(1) b64_bounds pad_neq)
next
  case (2 a b)
  show ?case using b64_group_back [of "byte b" 0 "byte a"] by (simp add: b64_char_props(1) b64_bounds pad_neq)
next
  case (3 a)
  show ?case using b64_group_back [of 0 0 "byte a"] by (simp add: b64_char_props(1) b64_bounds)
qed simp

lemma base64_round_trip: "base64_Decode (base64_Encode s) = Some s"
proof -
  have "filter (\<lambda>c. c \<noteq> CHR 0x0D \<and> c \<noteq> CHR 0x0A) (base64_Encode s) = base64_Encode s"
    using base64_text [of s] by (auto simp: list_all_iff filter_id_conv b64_sextet_def byte_def)
  then show ?thesis by (simp add: base64_Decode_def base64_groups_round_trip)
qed

lemma ascii_valid: "list_all (\<lambda>c. byte c < 128) s \<Longrightarrow> valid_utf8 s"
  by (induction s) (auto simp: rune_len_ascii)

declare valid_utf8.simps [simp del] escape.simps [simp del] unquote.simps [simp del]

end
