(* ===== verification/Http.thy ===== *)
theory Http
  imports Encode Accounts
begin

text \<open>
  Requests, responses and the parts every handler shares: \<open>internal/api/problem/problem.go\<close>,
  \<open>internal/api/handler/util.go\<close>, the authentication, role, trace and rate-limit middleware of
  \<open>internal/api/middleware\<close>. A handler takes the response writer and the world and returns both; the
  writer keeps its header map and the calls made on it, so that a recorder around it sees the same
  calls.
\<close>

subsection \<open>Requests and responses\<close>

record request =
  r_method :: string
  r_path :: string
  r_header :: "(string \<times> string) list" \<comment> \<open>first values by canonical name\<close>
  r_body :: "err + string" \<comment> \<open>the bytes of the body, or the error reading it\<close>
  r_query :: "(string \<times> string) list" \<comment> \<open>URL.Query(), first values\<close>
  r_params :: "(string \<times> string) list" \<comment> \<open>chi's URL parameters\<close>
  r_user :: "string option" \<comment> \<open>context values\<close>
  r_role :: "string option"
  r_trace :: "string option"
  r_ticks :: nat \<comment> \<open>polling intervals before its context ends, and the error then\<close>
  r_ctx_err :: err

datatype wop = WriteHeaderOp int | WriteOp string

record response =
  rs_header :: "(string \<times> string) list"
  rs_ops :: "wop list"

type_synonym http = "response \<times> world"

type_synonym handler = "request \<Rightarrow> http \<Rightarrow> http"

definition get :: "string \<Rightarrow> (string \<times> string) list \<Rightarrow> string" where
  "get k kvs = (case map_of kvs k of None \<Rightarrow> '''' | Some v \<Rightarrow> v)"

definition set_header :: "string \<Rightarrow> string \<Rightarrow> http \<Rightarrow> http" where
  "set_header k v = (\<lambda>(rs, w). (rs\<lparr>rs_header := (k, v) # filter (\<lambda>h. fst h \<noteq> k) (rs_header rs)\<rparr>, w))"

definition WriteHeader :: "int \<Rightarrow> http \<Rightarrow> http" where
  "WriteHeader code = (\<lambda>(rs, w). (rs\<lparr>rs_ops := rs_ops rs @ [WriteHeaderOp code]\<rparr>, w))"

definition Write :: "string \<Rightarrow> http \<Rightarrow> http" where
  "Write b = (\<lambda>(rs, w). (rs\<lparr>rs_ops := rs_ops rs @ [WriteOp b]\<rparr>, w))"

text \<open>What the client receives: the first status written, 200 when a body comes first, and the body.\<close>

definition sent_status :: "response \<Rightarrow> int" where
  "sent_status rs = (case rs_ops rs of WriteHeaderOp code # _ \<Rightarrow> code | _ \<Rightarrow> 200)"

definition sent_body :: "response \<Rightarrow> string" where
  "sent_body rs = concat (map (\<lambda>x. case x of WriteOp b \<Rightarrow> b | WriteHeaderOp c \<Rightarrow> []) (rs_ops rs))"

definition no_response :: response where
  "no_response = \<lparr>rs_header = [], rs_ops = []\<rparr>"

text \<open>A call of a service: its result goes to the rest of the handler.\<close>

definition call :: "'a m \<Rightarrow> (err + 'a \<Rightarrow> http \<Rightarrow> http) \<Rightarrow> http \<Rightarrow> http" where
  "call m k = (\<lambda>(rs, w). (case m w of (r, w') \<Rightarrow> k r (rs, w')))"

subsection \<open>Problem details (problem.go)\<close>

definition StatusText :: "int \<Rightarrow> string" where
  "StatusText code =
     (if code = 200 then ''OK'' else if code = 201 then ''Created'' else if code = 202 then ''Accepted''
      else if code = 400 then ''Bad Request'' else if code = 401 then ''Unauthorized''
      else if code = 403 then ''Forbidden'' else if code = 404 then ''Not Found''
      else if code = 409 then ''Conflict'' else if code = 429 then ''Too Many Requests''
      else if code = 500 then ''Internal Server Error'' else if code = 503 then ''Service Unavailable''
      else '''')"

definition problem_Type :: "string \<Rightarrow> string" where
  "problem_Type slug = ''https://errors.paymentapp.com/'' @ slug"

record Details =
  pd_Type :: string
  pd_Title :: string
  pd_Status :: int
  pd_Detail :: string
  pd_Instance :: string
  pd_RequestID :: string

definition json_of_Details :: "Details \<Rightarrow> json" where
  "json_of_Details p = JObject [(''type'', JString (pd_Type p)), (''title'', JString (pd_Title p)),
     (''status'', JInt (pd_Status p)), (''detail'', JString (pd_Detail p)),
     (''instance'', JString (pd_Instance p)), (''request_id'', JString (pd_RequestID p))]"

definition problem_Write :: "request \<Rightarrow> int \<Rightarrow> string \<Rightarrow> string \<Rightarrow> string \<Rightarrow> http \<Rightarrow> http" where
  "problem_Write r status problemType title detail = (\<lambda>(rs, w).
     let title = (if title = '''' then StatusText status else title);
         problemType = (if problemType = '''' then ''about:blank'' else problemType);
         requestID = get ''X-Trace-Id'' (r_header r);
         requestID = (if requestID = '''' then get ''X-Trace-Id'' (rs_header rs) else requestID)
     in Write (Encode (Some (json_of_Details \<lparr>pd_Type = problemType, pd_Title = title, pd_Status = status,
          pd_Detail = detail, pd_Instance = r_path r, pd_RequestID = requestID\<rparr>)))
        (WriteHeader status (set_header ''Content-Type'' ''application/problem+json'' (rs, w))))"

subsection \<open>Helpers of the handlers (util.go)\<close>

definition RespondJSON :: "int \<Rightarrow> json option \<Rightarrow> http \<Rightarrow> http" where
  "RespondJSON status data h =
     (let h = WriteHeader status (set_header ''Content-Type'' ''application/json'' h) in
      case data of None \<Rightarrow> h | Some j \<Rightarrow> Write (Encode (Some j)) h)"

definition HasPrefix :: "string \<Rightarrow> string \<Rightarrow> bool" where
  "HasPrefix s p \<longleftrightarrow> take (length p) s = p"

definition RespondError :: "request \<Rightarrow> int \<Rightarrow> string \<Rightarrow> string \<Rightarrow> http \<Rightarrow> http" where
  "RespondError r status problemType message =
     (let problemType = (if problemType \<noteq> '''' \<and> problemType \<noteq> ''about:blank'' \<and> \<not> HasPrefix problemType ''http''
        then problem_Type problemType else problemType)
      in problem_Write r status problemType (StatusText status) message)"

definition UserIDFromContext :: "request \<Rightarrow> string" where
  "UserIDFromContext r = (case r_user r of None \<Rightarrow> '''' | Some u \<Rightarrow> u)"

definition UserRoleFromContext :: "request \<Rightarrow> string" where
  "UserRoleFromContext r = (case r_role r of None \<Rightarrow> '''' | Some u \<Rightarrow> u)"

definition TraceIDFromContext :: "request \<Rightarrow> string" where
  "TraceIDFromContext r = (case r_trace r of None \<Rightarrow> '''' | Some u \<Rightarrow> u)"

definition requestActor :: "lib \<Rightarrow> request \<Rightarrow> err + uuid \<times> bool" where
  "requestActor L r =
     (let userID = UserIDFromContext r in
      if userID = '''' then Inl (Msg ''missing user in auth context'')
      else case uuid_Parse L userID of
        Inl _ \<Rightarrow> Inl (Msg ''invalid user_id in auth context'')
      | Inr actorID \<Rightarrow> Inr (actorID, UserRoleFromContext r = ''admin''))"

definition mapDBError :: "err \<Rightarrow> (int \<times> string \<times> string) option" where
  "mapDBError err =
     (case errors_As_PgError err of
        None \<Rightarrow> None
      | Some code \<Rightarrow>
          if code = ''23505'' then Some (409, ''db/unique-violation'', ''resource already exists'')
          else if code = ''23503'' then Some (400, ''db/foreign-key-violation'', ''invalid reference'')
          else if code = ''23514'' then Some (400, ''db/check-violation'', ''request violates data constraints'')
          else if code = ''23502'' then Some (400, ''db/not-null-violation'', ''missing required field'')
          else None)"

text \<open>\<open>json.NewDecoder(r.Body).Decode\<close> into a struct: the members of the object, none for \<open>null\<close>.\<close>

definition decode_object :: "request \<Rightarrow> (string \<times> json) list option" where
  "decode_object r =
     (case r_body r of
        Inl _ \<Rightarrow> None
      | Inr body \<Rightarrow> (case Decode body of
          Inr (JObject ms) \<Rightarrow> Some ms | Inr JNull \<Rightarrow> Some [] | _ \<Rightarrow> None))"

subsection \<open>Trace identifiers and rate limits\<close>

definition TraceMiddleware :: "handler \<Rightarrow> handler" where
  "TraceMiddleware next r h =
     (let traceID = get ''X-Trace-Id'' (r_header r);
          serve = (\<lambda>traceID. (\<lambda>h. next (r\<lparr>r_trace := Some traceID\<rparr>) (set_header ''X-Trace-Id'' traceID h))) in
      if traceID = '''' then call uuid_New (\<lambda>i. case i of Inr u \<Rightarrow> serve (String u) | Inl e \<Rightarrow> (\<lambda>h. h)) h
      else serve traceID h)"

text \<open>The limiter of \<open>go-chi/httprate\<close> decides; the program supplies the answer to a request over the limit.\<close>

definition rate_limited :: "bool \<Rightarrow> int \<Rightarrow> string \<Rightarrow> handler \<Rightarrow> handler" where
  "rate_limited over rps whom next r =
     (if over then problem_Write r 429 (problem_Type ''rate-limit-exceeded'') (StatusText 429)
        (''Rate limit of '' @ show_int rps @ '' req/s exceeded for this '' @ whom)
      else next r)"

definition PublicRateLimiter :: "bool \<Rightarrow> int \<Rightarrow> handler \<Rightarrow> handler" where
  "PublicRateLimiter over rps = rate_limited over rps ''IP''"

definition AuthRateLimiter :: "bool \<Rightarrow> int \<Rightarrow> handler \<Rightarrow> handler" where
  "AuthRateLimiter over rps = rate_limited over rps ''user''"

text \<open>The key an authenticated request is counted under.\<close>

definition rate_key :: "(request \<Rightarrow> string) \<Rightarrow> request \<Rightarrow> string" where
  "rate_key keyByIP r = (if UserIDFromContext r \<noteq> '''' then UserIDFromContext r else keyByIP r)"

subsection \<open>Authentication (auth.go)\<close>

text \<open>
  The claims of a token, and \<open>golang-jwt\<close> as a parameter: parsing verifies the HS256 signature, the
  issuer and audience when given, and the times, and returns the claims.
\<close>

record claims =
  c_user_id :: string
  c_role :: string
  c_iss :: string
  c_aud :: string
  c_sub :: string
  c_iat :: int
  c_nbf :: int
  c_exp :: int
  c_jti :: string

record jwt_lib =
  jwt_ParseWithClaims :: "string \<Rightarrow> string \<Rightarrow> string option \<Rightarrow> string option \<Rightarrow> int \<Rightarrow> claims option"
  jwt_SignedString :: "claims \<Rightarrow> string \<Rightarrow> string option"

text \<open>
  A token signed with the secret is read back while it is valid; its claims travel as JSON, so their
  texts have to be UTF-8.
\<close>

definition claims_utf8 :: "claims \<Rightarrow> bool" where
  "claims_utf8 c \<longleftrightarrow> valid_utf8 (c_user_id c) \<and> valid_utf8 (c_role c) \<and> valid_utf8 (c_iss c) \<and> valid_utf8 (c_aud c) \<and>
     valid_utf8 (c_sub c) \<and> valid_utf8 (c_jti c)"

definition jwt_contract :: "jwt_lib \<Rightarrow> bool" where
  "jwt_contract J \<longleftrightarrow> (\<forall>c secret iss aud now token.
     jwt_SignedString J c secret = Some token \<and> claims_utf8 c \<and> (iss \<noteq> None \<longrightarrow> iss = Some (c_iss c)) \<and>
     (aud \<noteq> None \<longrightarrow> aud = Some (c_aud c)) \<and> c_nbf c \<le> now \<and> c_iat c \<le> now \<and> now < c_exp c \<longrightarrow>
     jwt_ParseWithClaims J token secret iss aud now = Some c)"

text \<open>The package variables.\<close>

record jwt_config =
  jwtSecret :: string
  jwtIssuer :: string
  jwtAudience :: string

definition SetJWTSecret :: "string \<Rightarrow> jwt_config \<Rightarrow> jwt_config" where
  "SetJWTSecret secret g = (if secret = '''' then g else g\<lparr>jwtSecret := secret\<rparr>)"

definition SetJWTValidation :: "string \<Rightarrow> string \<Rightarrow> jwt_config \<Rightarrow> jwt_config" where
  "SetJWTValidation issuer audience g = g\<lparr>jwtIssuer := TrimSpace issuer, jwtAudience := TrimSpace audience\<rparr>"

definition Unix :: "int \<Rightarrow> int" where
  "Unix t = t div 1000000"

definition unauthorized :: "request \<Rightarrow> string \<Rightarrow> string \<Rightarrow> http \<Rightarrow> http" where
  "unauthorized r slug detail = problem_Write r 401 (problem_Type slug) (StatusText 401) detail"

definition AuthMiddleware :: "jwt_lib \<Rightarrow> jwt_config \<Rightarrow> handler \<Rightarrow> handler" where
  "AuthMiddleware J g next r h =
     (let authHeader = get ''Authorization'' (r_header r) in
      if authHeader = '''' then unauthorized r ''auth/authorization-header-required'' ''Authorization header required'' h
      else if \<not> HasPrefix authHeader ''Bearer '' then unauthorized r ''auth/invalid-token-format'' ''Invalid token format'' h
      else if jwtSecret g = '''' then
        problem_Write r 500 (problem_Type ''auth/misconfigured'') (StatusText 500) ''auth is not configured'' h
      else call time_Now (\<lambda>now.
        case jwt_ParseWithClaims J (drop 7 authHeader) (jwtSecret g)
            (if jwtIssuer g \<noteq> '''' then Some (jwtIssuer g) else None)
            (if jwtAudience g \<noteq> '''' then Some (jwtAudience g) else None)
            (case now of Inr t \<Rightarrow> Unix t | Inl e \<Rightarrow> 0) of
          None \<Rightarrow> unauthorized r ''auth/invalid-token'' ''Invalid token''
        | Some claims \<Rightarrow>
            if c_user_id claims = '''' then unauthorized r ''auth/invalid-token-claims'' ''Invalid token claims''
            else if c_sub claims \<noteq> '''' \<and> c_sub claims \<noteq> c_user_id claims then
              unauthorized r ''auth/invalid-token-claims'' ''Invalid token claims''
            else next (r\<lparr>r_user := Some (c_user_id claims), r_role := Some (c_role claims)\<rparr>)) h)"

definition RequireRole :: "string \<Rightarrow> handler \<Rightarrow> handler" where
  "RequireRole requiredRole next r =
     (if UserRoleFromContext r \<noteq> requiredRole then
        problem_Write r 403 (problem_Type ''auth/insufficient-permissions'') (StatusText 403) ''insufficient permissions''
      else next r)"

subsection \<open>Writers\<close>

text \<open>What only writes the response.\<close>

definition response_only :: "(http \<Rightarrow> http) \<Rightarrow> bool" where
  "response_only f \<longleftrightarrow> (\<forall>rs w. snd (f (rs, w)) = w)"

lemma response_only_writer [simp]:
  "response_only (set_header k v)" "response_only (WriteHeader c)" "response_only (Write b)"
  "response_only (problem_Write r st ty ti de)" "response_only (RespondJSON st j)" "response_only (RespondError r st ty me)"
  "response_only (unauthorized r sl de)"
  by (auto simp: response_only_def set_header_def WriteHeader_def Write_def problem_Write_def RespondJSON_def RespondError_def
      unauthorized_def Let_def split: option.splits)

lemma snd_response_only: "response_only f \<Longrightarrow> snd (f h) = snd h"
  by (cases h) (simp add: response_only_def)

lemmas snd_writers [simp] = response_only_writer [THEN snd_response_only]

end
