(* ===== verification/Handlers.thy ===== *)
theory Handlers
  imports Http ExchangeTransfer ManualReview Webhook
begin

text \<open>
  The handlers of \<open>internal/api/handler\<close>: each decodes and checks its request, asks its service and
  maps the result to a response. Log output is left out.
\<close>

subsection \<open>JSON of the models\<close>

text \<open>The members of a struct; a time without a JSON form makes the whole value an error.\<close>

definition json_struct :: "(string \<times> json option) list \<Rightarrow> json option" where
  "json_struct ms =
     (if list_all (\<lambda>f. snd f \<noteq> None) ms then Some (JObject (map (\<lambda>(k, v). (k, the v)) ms)) else None)"

definition json_list :: "json option list \<Rightarrow> json option" where
  "json_list vs = (if list_all (\<lambda>v. v \<noteq> None) vs then Some (JArray (map the vs)) else None)"

definition json_of_user :: "model_user \<Rightarrow> json option" where
  "json_of_user u = json_struct [(''id'', Some (JString (String (mu_ID u)))), (''username'', Some (JString (mu_Username u))),
     (''email'', Some (JString (mu_Email u))), (''role'', Some (JString (mu_Role u))),
     (''created_at'', time_MarshalJSON (mu_CreatedAt u))]"

definition json_of_account :: "model_account \<Rightarrow> json option" where
  "json_of_account a = json_struct [(''id'', Some (JString (String (ma_ID a)))),
     (''user_id'', Some (JString (String (ma_UserID a)))), (''currency'', Some (JString (ma_Currency a))),
     (''balance'', Some (JInt (ma_Balance a))), (''created_at'', time_MarshalJSON (ma_CreatedAt a))]"

definition json_of_transaction :: "lib \<Rightarrow> model_transaction \<Rightarrow> json option" where
  "json_of_transaction L t = json_struct ([(''id'', Some (JString (String (mt_id t)))), (''amount'', Some (JInt (mt_amount t))),
     (''currency'', Some (JString (mt_currency t))), (''type'', Some (JString (mt_type t))),
     (''status'', Some (JString (mt_status t))), (''reference_id'', Some (JString (mt_reference_id t)))] @
     (case mt_fx_rate t of None \<Rightarrow> [] | Some x \<Rightarrow> [(''fx_rate'', Some (JString (dec_String L x)))]) @
     (case mt_metadata t of None \<Rightarrow> [] | Some j \<Rightarrow> [(''metadata'', Some j)]) @
     [(''created_at'', case mt_created_at t of None \<Rightarrow> Some zero_time | Some c \<Rightarrow> time_MarshalJSON c)])"

definition json_of_entry :: "model_entry \<Rightarrow> json option" where
  "json_of_entry e = json_struct [(''id'', Some (JString (String (me_ID e)))),
     (''transaction_id'', Some (JString (String (me_TransactionID e)))),
     (''account_id'', Some (JString (String (me_AccountID e)))), (''amount'', Some (JInt (me_Amount e))),
     (''direction'', Some (JString (me_Direction e))), (''created_at'', time_MarshalJSON (me_CreatedAt e))]"

definition json_of_payout :: "model_payout \<Rightarrow> json option" where
  "json_of_payout p = json_struct ([(''id'', Some (JString (String (mp_ID p)))),
     (''transaction_id'', Some (JString (String (mp_TransactionID p)))),
     (''account_id'', Some (JString (String (mp_AccountID p)))), (''amount_micros'', Some (JInt (mp_AmountMicros p))),
     (''currency'', Some (JString (mp_Currency p))), (''status'', Some (JString (mp_Status p)))] @
     (case mp_GatewayRef p of None \<Rightarrow> [] | Some g \<Rightarrow> [(''gateway_ref'', Some (JString g))]) @
     [(''created_at'', time_MarshalJSON (mp_CreatedAt p)), (''updated_at'', time_MarshalJSON (mp_UpdatedAt p))])"

definition json_of_payout_response :: "PayoutResponse \<Rightarrow> json option" where
  "json_of_payout_response p = json_struct [(''payout_id'', Some (JString (String (PayoutID p)))),
     (''status'', Some (JString (Status p))), (''message'', Some (JString (Message p)))]"

definition json_of_deposit_response :: "DepositWebhookResponse \<Rightarrow> json option" where
  "json_of_deposit_response p = json_struct [(''transaction_id'', Some (JString (String (TransactionID p)))),
     (''status'', Some (JString (dr_Status p))), (''message'', Some (JString (dr_Message p)))]"

text \<open>\<open>json.NewEncoder(w).Encode(v)\<close> on the writer.\<close>

definition encode_to :: "json option \<Rightarrow> http \<Rightarrow> http" where
  "encode_to v h = (case v of None \<Rightarrow> h | Some j \<Rightarrow> Write (Encode (Some j)) h)"

definition created_json :: "json option \<Rightarrow> http \<Rightarrow> http" where
  "created_json v h = encode_to v (WriteHeader 201 (set_header ''Content-Type'' ''application/json'' h))"

definition plain_json :: "json option \<Rightarrow> http \<Rightarrow> http" where
  "plain_json v h = encode_to v (set_header ''Content-Type'' ''application/json'' h)"

definition forbidden :: "request \<Rightarrow> http \<Rightarrow> http" where
  "forbidden r = RespondError r 403 ''auth/insufficient-permissions'' ''insufficient permissions''"

definition unauthorised :: "request \<Rightarrow> http \<Rightarrow> http" where
  "unauthorised r = RespondError r 401 ''auth/unauthorized'' ''Unauthorized''"

definition URLParam :: "request \<Rightarrow> string \<Rightarrow> string" where
  "URLParam r name = get name (r_params r)"

subsection \<open>Accounts (account.go)\<close>

definition Handler_GetBalance :: "lib \<Rightarrow> handler" where
  "Handler_GetBalance L r =
     (case requestActor L r of
        Inl _ \<Rightarrow> unauthorised r
      | Inr (actorID, isAdmin) \<Rightarrow>
      (case uuid_Parse L (URLParam r ''id'') of
         Inl _ \<Rightarrow> RespondError r 400 ''request/invalid-account-id'' ''Invalid account ID''
       | Inr accountID \<Rightarrow>
           call (GetBalance accountID) (\<lambda>res.
           case res of
             Inl err \<Rightarrow> RespondError r 500 ''account/balance-read-failed'' ''Failed to get balance''
           | Inr account \<Rightarrow>
               if \<not> isAdmin \<and> ma_UserID account \<noteq> actorID then forbidden r
               else plain_json (json_of_account account))))"

definition Handler_GetStatement :: "lib \<Rightarrow> handler" where
  "Handler_GetStatement L r =
     (case requestActor L r of
        Inl _ \<Rightarrow> unauthorised r
      | Inr (actorID, isAdmin) \<Rightarrow>
      (case uuid_Parse L (URLParam r ''id'') of
         Inl _ \<Rightarrow> RespondError r 400 ''request/invalid-account-id'' ''Invalid account ID''
       | Inr accountID \<Rightarrow>
           call (GetBalance accountID) (\<lambda>res.
           case res of
             Inl err \<Rightarrow> RespondError r 500 ''account/authorization-failed'' ''Failed to authorize account access''
           | Inr account \<Rightarrow>
               if \<not> isAdmin \<and> ma_UserID account \<noteq> actorID then forbidden r
               else
               (let page = fst (Atoi (get ''page'' (r_query r)));
                    pageSize = fst (Atoi (get ''page_size'' (r_query r))) in
                call (GetStatement accountID page pageSize) (\<lambda>res.
                case res of
                  Inl err \<Rightarrow> RespondError r 500 ''account/statement-read-failed'' ''Failed to get statement''
                | Inr es \<Rightarrow> plain_json (json_list (map json_of_entry es)))))))"

record create_account_request =
  ca_UserID :: string
  ca_Currency :: string
  ca_Balance :: int

definition decode_create_account :: "request \<Rightarrow> create_account_request option" where
  "decode_create_account r =
     (case decode_object r of
        None \<Rightarrow> None
      | Some ms \<Rightarrow>
          (let (ok1, userID) = unmarshal_string ''user_id'' ms (True, '''');
               (ok2, currency) = unmarshal_string ''currency'' ms (True, '''');
               (ok3, balance) = unmarshal_int64 ''balance'' ms (True, 0)
           in if ok1 \<and> ok2 \<and> ok3 then Some \<lparr>ca_UserID = userID, ca_Currency = currency, ca_Balance = balance\<rparr> else None))"

definition Handler_CreateAccount :: "lib \<Rightarrow> handler" where
  "Handler_CreateAccount L r =
     (case requestActor L r of
        Inl _ \<Rightarrow> unauthorised r
      | Inr (actorID, isAdmin) \<Rightarrow>
      (case decode_create_account r of
         None \<Rightarrow> RespondError r 400 ''request/invalid-body'' ''Invalid request body''
       | Some req \<Rightarrow>
       (case uuid_Parse L (ca_UserID req) of
          Inl _ \<Rightarrow> RespondError r 400 ''request/invalid-user-id'' ''Invalid user_id''
        | Inr userID \<Rightarrow>
            if \<not> isAdmin \<and> userID \<noteq> actorID then forbidden r
            else call (AccountService_CreateAccount userID (ca_Currency req) (ca_Balance req)) (\<lambda>res.
              case res of
                Inl err \<Rightarrow>
                  (case mapDBError err of
                     Some (status, pType, msg) \<Rightarrow> RespondError r status pType msg
                   | None \<Rightarrow> RespondError r 500 ''account/create-failed'' ''Failed to create account'')
              | Inr account \<Rightarrow> created_json (json_of_account account)))))"

subsection \<open>Transfers (transfer.go)\<close>

record transfer_request =
  tq_FromAccountID :: string
  tq_ToAccountID :: string
  tq_Amount :: int
  tq_FromCurrency :: string
  tq_ToCurrency :: string

definition decode_transfer :: "request \<Rightarrow> transfer_request option" where
  "decode_transfer r =
     (case decode_object r of
        None \<Rightarrow> None
      | Some ms \<Rightarrow>
          (let (ok1, from) = unmarshal_string ''from_account_id'' ms (True, '''');
               (ok2, to) = unmarshal_string ''to_account_id'' ms (True, '''');
               (ok3, amount) = unmarshal_int64 ''amount'' ms (True, 0)
           in if ok1 \<and> ok2 \<and> ok3 then Some \<lparr>tq_FromAccountID = from, tq_ToAccountID = to, tq_Amount = amount,
                tq_FromCurrency = '''', tq_ToCurrency = ''''\<rparr> else None))"

definition decode_exchange :: "request \<Rightarrow> transfer_request option" where
  "decode_exchange r =
     (case decode_object r of
        None \<Rightarrow> None
      | Some ms \<Rightarrow>
          (let (ok1, from) = unmarshal_string ''from_account_id'' ms (True, '''');
               (ok2, to) = unmarshal_string ''to_account_id'' ms (True, '''');
               (ok3, amount) = unmarshal_int64 ''amount'' ms (True, 0);
               (ok4, fromCurrency) = unmarshal_string ''from_currency'' ms (True, '''');
               (ok5, toCurrency) = unmarshal_string ''to_currency'' ms (True, '''')
           in if ok1 \<and> ok2 \<and> ok3 \<and> ok4 \<and> ok5
              then Some \<lparr>tq_FromAccountID = from, tq_ToAccountID = to, tq_Amount = amount,
                tq_FromCurrency = fromCurrency, tq_ToCurrency = toCurrency\<rparr> else None))"

text \<open>
  What both transfer handlers do between decoding and the service: parse the accounts, identify the
  caller and require that the source account is his.
\<close>

definition authorized_transfer :: "lib \<Rightarrow> request \<Rightarrow> transfer_request \<Rightarrow> (uuid \<Rightarrow> uuid \<Rightarrow> http \<Rightarrow> http) \<Rightarrow> http \<Rightarrow> http" where
  "authorized_transfer L r req k =
     (case uuid_Parse L (tq_FromAccountID req) of
        Inl _ \<Rightarrow> RespondError r 400 ''request/invalid-from-account-id'' ''Invalid from_account_id''
      | Inr fromID \<Rightarrow>
     (case uuid_Parse L (tq_ToAccountID req) of
        Inl _ \<Rightarrow> RespondError r 400 ''request/invalid-to-account-id'' ''Invalid to_account_id''
      | Inr toID \<Rightarrow>
     (case requestActor L r of
        Inl _ \<Rightarrow> unauthorised r
      | Inr (actorID, isAdmin) \<Rightarrow>
          call (Repository_GetAccount fromID) (\<lambda>res.
          case res of
            Inl err \<Rightarrow> RespondError r 400 ''request/invalid-from-account-id'' ''Invalid from_account_id''
          | Inr fromAcc \<Rightarrow>
              if \<not> isAdmin \<and> ma_UserID fromAcc \<noteq> actorID then forbidden r
              else k fromID toID))))"

definition transfer_error :: "request \<Rightarrow> err \<Rightarrow> http \<Rightarrow> http" where
  "transfer_error r err =
     (if err = ErrInsufficientFunds then RespondError r 400 ''transfer/insufficient-funds'' (Error err)
      else if errors_Is err ErrInvalidAmount \<or> errors_Is err ErrReferenceRequired \<or>
              errors_Is err ErrSameAccountTransfer \<or> errors_Is err ErrCurrencyMismatch then
        RespondError r 400 ''transfer/invalid-request'' (Error err)
      else RespondError r 500 ''transfer/internal-failure'' ''Transfer failed'')"

definition MakeInternalTransfer :: "lib \<Rightarrow> handler" where
  "MakeInternalTransfer L r =
     (let idempotencyKey = get ''Idempotency-Key'' (r_header r) in
      if idempotencyKey = '''' then RespondError r 400 ''idempotency/missing-key'' ''Idempotency-Key header is required''
      else case decode_transfer r of
        None \<Rightarrow> RespondError r 400 ''request/invalid-body'' ''Invalid request body''
      | Some req \<Rightarrow>
          authorized_transfer L r req (\<lambda>fromID toID.
            call (Transfer L fromID toID (tq_Amount req) idempotencyKey) (\<lambda>res.
            case res of
              Inl err \<Rightarrow> transfer_error r err
            | Inr tx \<Rightarrow> created_json (json_of_transaction L tx))))"

definition exchange_error :: "request \<Rightarrow> err \<Rightarrow> http \<Rightarrow> http" where
  "exchange_error r err =
     (if errors_Is err ErrInsufficientFunds then RespondError r 400 ''transfer/insufficient-funds'' (Error err)
      else if errors_Is err ErrUnsupportedCurrency \<or> errors_Is err ErrRateUnavailable then
        RespondError r 400 ''transfer/exchange-invalid-request'' (Error err)
      else if errors_Is err ErrInvalidAmount \<or> errors_Is err ErrReferenceRequired \<or>
              errors_Is err ErrSameAccountTransfer \<or> errors_Is err ErrSameCurrencyExchange then
        RespondError r 400 ''transfer/exchange-invalid-request'' (Error err)
      else RespondError r 500 ''transfer/exchange-failed'' ''Exchange failed'')"

definition MakeExchangeTransfer :: "lib \<Rightarrow> (string \<Rightarrow> string \<Rightarrow> err + rat) \<Rightarrow> handler" where
  "MakeExchangeTransfer L fxRates r =
     (let idempotencyKey = get ''Idempotency-Key'' (r_header r) in
      if idempotencyKey = '''' then RespondError r 400 ''idempotency/missing-key'' ''Idempotency-Key header is required''
      else case decode_exchange r of
        None \<Rightarrow> RespondError r 400 ''request/invalid-body'' ''Invalid request body''
      | Some req \<Rightarrow>
          (let req = req\<lparr>tq_FromCurrency := TrimSpace (tq_FromCurrency req), tq_ToCurrency := TrimSpace (tq_ToCurrency req)\<rparr> in
           if tq_Amount req \<le> 0 then RespondError r 400 ''request/invalid-amount'' ''Amount must be greater than zero''
           else if tq_FromCurrency req = '''' \<or> tq_ToCurrency req = '''' then
             RespondError r 400 ''request/missing-currency'' ''from_currency and to_currency are required''
           else authorized_transfer L r req (\<lambda>fromID toID.
             call (TransferExchange L fxRates \<lparr>xc_FromAccountID = fromID, xc_ToAccountID = toID, xc_Amount = tq_Amount req,
                 xc_FromCurrency = tq_FromCurrency req, xc_ToCurrency = tq_ToCurrency req, xc_ReferenceID = idempotencyKey\<rparr>) (\<lambda>res.
             case res of
               Inl err \<Rightarrow> exchange_error r err
             | Inr tx \<Rightarrow> created_json (json_of_transaction L tx)))))"

subsection \<open>Users and login (user.go, auth.go)\<close>

definition decode_strings :: "string \<Rightarrow> string \<Rightarrow> request \<Rightarrow> (string \<times> string) option" where
  "decode_strings a b r =
     (case decode_object r of
        None \<Rightarrow> None
      | Some ms \<Rightarrow>
          (let (ok1, x) = unmarshal_string a ms (True, ''''); (ok2, y) = unmarshal_string b ms (True, '''')
           in if ok1 \<and> ok2 then Some (x, y) else None))"

definition Handler_CreateUser :: handler where
  "Handler_CreateUser r =
     (case decode_strings ''username'' ''email'' r of
        None \<Rightarrow> RespondError r 400 ''request/invalid-body'' ''Invalid request body''
      | Some (username, email) \<Rightarrow>
          call (bind uuid_New (\<lambda>i. Repository_CreateUser \<lparr>mu_ID = i, mu_Username = username, mu_Email = email,
            mu_Role = ''user'', mu_CreatedAt = 0\<rparr>)) (\<lambda>res.
          case res of
            Inl err \<Rightarrow>
              (case mapDBError err of
                 Some (status, pType, msg) \<Rightarrow> RespondError r status pType msg
               | None \<Rightarrow> RespondError r 500 ''user/create-failed'' ''Failed to create user'')
          | Inr user \<Rightarrow> created_json (json_of_user user)))"

definition decode_login :: "request \<Rightarrow> string option" where
  "decode_login r =
     (case decode_object r of
        None \<Rightarrow> None
      | Some ms \<Rightarrow> (let (good, userID) = unmarshal_string ''user_id'' ms (True, '''') in if good then Some userID else None))"

text \<open>The claims of a new token: three readings of the clock and a fresh identifier.\<close>

definition login_claims :: "jwt_config \<Rightarrow> uuid \<Rightarrow> string \<Rightarrow> claims m" where
  "login_claims g uid role =
     bind time_Now (\<lambda>t1. bind time_Now (\<lambda>t2. bind time_Now (\<lambda>t3. bind uuid_New (\<lambda>jti.
     ret \<lparr>c_user_id = String uid, c_role = role, c_iss = jwtIssuer g, c_aud = jwtAudience g, c_sub = String uid,
       c_iat = Unix t1, c_nbf = Unix (t2 - 30 * 1000000), c_exp = Unix (t3 + 24 * 3600 * 1000000), c_jti = String jti\<rparr>))))"

definition Handler_Login :: "lib \<Rightarrow> jwt_lib \<Rightarrow> jwt_config \<Rightarrow> handler" where
  "Handler_Login L J g r =
     (case decode_login r of
        None \<Rightarrow> RespondError r 400 ''request/invalid-body'' ''Invalid request body''
      | Some userID \<Rightarrow>
     (case uuid_Parse L userID of
        Inl _ \<Rightarrow> RespondError r 400 ''request/invalid-user-id'' ''Invalid user_id''
      | Inr uid \<Rightarrow>
          call (Repository_GetUser uid) (\<lambda>res.
          case res of
            Inl err \<Rightarrow> RespondError r 404 ''auth/user-not-found'' ''User not found''
          | Inr user \<Rightarrow>
              call (login_claims g uid (mu_Role user)) (\<lambda>cs.
              case cs of
                Inl err \<Rightarrow> (\<lambda>h. h)
              | Inr c \<Rightarrow>
                  (case jwt_SignedString J c (jwtSecret g) of
                     None \<Rightarrow> RespondError r 500 ''auth/token-sign-failed'' ''Failed to sign token''
                   | Some tokenString \<Rightarrow> plain_json (Some (JObject [(''token'', JString tokenString)])))))))"

subsection \<open>Webhook and health (webhook.go, health.go)\<close>

definition webhook_error :: "request \<Rightarrow> err \<Rightarrow> http \<Rightarrow> http" where
  "webhook_error r err =
     (if errors_Is err ErrInvalidSignature then RespondError r 401 ''webhook/invalid-signature'' ''Invalid signature''
      else if errors_Is err ErrDepositInProgress then
        RespondError r 409 ''webhook/in-progress'' ''Deposit for this reference is still processing''
      else if errors_Is err ErrDepositPayloadMismatch then
        RespondError r 409 ''webhook/reference-mismatch'' ''Reference already used with different payload''
      else if errors_Is err ErrInvalidWebhookPayload then
        RespondError r 400 ''webhook/invalid-request'' ''Invalid webhook payload''
      else RespondError r 500 ''webhook/internal-failure'' ''Failed to process webhook'')"

definition Handler_HandleDepositWebhook :: "lib \<Rightarrow> WebhookService \<Rightarrow> handler" where
  "Handler_HandleDepositWebhook L s r =
     (case r_body r of
        Inl err \<Rightarrow> RespondError r 400 ''request/invalid-body'' ''Failed to read request body''
      | Inr body \<Rightarrow>
          call (HandleDepositWebhook L s body (get ''X-Webhook-Signature'' (r_header r))) (\<lambda>res.
          case res of
            Inl err \<Rightarrow> webhook_error r err
          | Inr resp \<Rightarrow> RespondJSON 200 (json_of_deposit_response resp)))"

definition Handler_Live :: handler where
  "Handler_Live r h = Write ''ok'' (WriteHeader 200 h)"

definition db_Ping :: "unit m" where
  "db_Ping w = (let w1 = w\<lparr>wfaults := pop (wfaults w)\<rparr> in
     case wfaults w 0 of NoFault \<Rightarrow> (Inr (), w1) | Fault f \<Rightarrow> (Inl (fault_err f), w1) | LostReply f \<Rightarrow> (Inl (fault_err f), w1))"

definition Handler_Ready :: "bool \<Rightarrow> handler" where
  "Handler_Ready hasRedis r =
     call db_Ping (\<lambda>res.
       case res of
         Inl err \<Rightarrow> RespondError r 503 ''health/database-unavailable'' ''database unavailable''
       | Inr _ \<Rightarrow>
           if hasRedis then
             call redis_Ping (\<lambda>reply.
               case reply of
                 Inr (RedisError e) \<Rightarrow> RespondError r 503 ''health/redis-unavailable'' ''redis unavailable''
               | _ \<Rightarrow> RespondJSON 200 (Some (JObject [(''status'', JString ''ready'')])))
           else RespondJSON 200 (Some (JObject [(''status'', JString ''ready'')])))"

subsection \<open>Payouts (payout.go)\<close>

text \<open>A nested struct: a later object overwrites the members it has.\<close>

fun decode_destination :: "(string \<times> json) list \<Rightarrow> bool \<times> PayoutDestinationInput \<Rightarrow> bool \<times> PayoutDestinationInput" where
  "decode_destination [] acc = acc"
| "decode_destination ((k, v) # ms) (good, d) =
     decode_destination ms
       (if matches_field ''destination'' k then
          (case v of
             JObject inner \<Rightarrow>
               (let (ok1, iban) = unmarshal_string ''iban'' inner (True, IBAN d);
                    (ok2, name) = unmarshal_string ''name'' inner (True, Name d)
                in (good \<and> ok1 \<and> ok2, \<lparr>IBAN = iban, Name = name\<rparr>))
           | JNull \<Rightarrow> (good, d) | _ \<Rightarrow> (False, d))
        else (good, d))"

record CreatePayoutRequest =
  cp_AccountID :: string
  cp_AmountMicros :: int
  cp_Currency :: string
  cp_Destination :: PayoutDestinationInput

definition decode_create_payout :: "request \<Rightarrow> CreatePayoutRequest option" where
  "decode_create_payout r =
     (case decode_object r of
        None \<Rightarrow> None
      | Some ms \<Rightarrow>
          (let (ok1, accountID) = unmarshal_string ''account_id'' ms (True, '''');
               (ok2, amount) = unmarshal_int64 ''amount_micros'' ms (True, 0);
               (ok3, currency) = unmarshal_string ''currency'' ms (True, '''');
               (ok4, dest) = decode_destination ms (True, \<lparr>IBAN = '''', Name = ''''\<rparr>)
           in if ok1 \<and> ok2 \<and> ok3 \<and> ok4
              then Some \<lparr>cp_AccountID = accountID, cp_AmountMicros = amount, cp_Currency = currency, cp_Destination = dest\<rparr>
              else None))"

definition Handler_CreatePayout :: "lib \<Rightarrow> handler" where
  "Handler_CreatePayout L r =
     (let idempotencyKey = get ''Idempotency-Key'' (r_header r) in
      if idempotencyKey = '''' then RespondError r 400 ''idempotency/missing-key'' ''Idempotency-Key header is required''
      else case decode_create_payout r of
        None \<Rightarrow> RespondError r 400 ''request/invalid-body'' ''Invalid request body''
      | Some req \<Rightarrow>
          if cp_AmountMicros req \<le> 0 then RespondError r 400 ''request/invalid-amount'' ''Amount must be greater than zero''
          else if cp_AccountID req = '''' then RespondError r 400 ''request/missing-account-id'' ''account_id is required''
          else if cp_Currency req = '''' then RespondError r 400 ''request/missing-currency'' ''currency is required''
          else case Validate (cp_Destination req) of
            Some err \<Rightarrow> RespondError r 400 ''request/invalid-destination'' (Error err)
          | None \<Rightarrow>
          (case uuid_Parse L (cp_AccountID req) of
             Inl _ \<Rightarrow> RespondError r 400 ''request/invalid-account-id'' ''Invalid account_id''
           | Inr accountID \<Rightarrow>
               call (RequestPayout \<lparr>rq_AccountID = accountID, rq_AmountMicros = cp_AmountMicros req, rq_Currency = cp_Currency req,
                   rq_Destination = cp_Destination req, rq_ReferenceID = idempotencyKey\<rparr>) (\<lambda>res.
               case res of
                 Inl err \<Rightarrow>
                   if errors_Is err ErrInsufficientFunds then RespondError r 400 ''payout/insufficient-funds'' (Error err)
                   else RespondError r 500 ''payout/create-failed'' ''Failed to create payout''
               | Inr resp \<Rightarrow> RespondJSON 202 (json_of_payout_response resp))))"

definition Handler_GetPayout :: "lib \<Rightarrow> handler" where
  "Handler_GetPayout L r =
     (case requestActor L r of
        Inl _ \<Rightarrow> unauthorised r
      | Inr (actorID, isAdmin) \<Rightarrow>
     (case uuid_Parse L (URLParam r ''id'') of
        Inl _ \<Rightarrow> RespondError r 400 ''request/invalid-payout-id'' ''Invalid payout ID''
      | Inr payoutID \<Rightarrow>
          call (PayoutService_GetPayout payoutID) (\<lambda>res.
          case res of
            Inl err \<Rightarrow>
              if errors_Is err ErrPayoutNotFound then RespondError r 404 ''payout/not-found'' ''Payout not found''
              else RespondError r 500 ''payout/read-failed'' ''Failed to get payout''
          | Inr payout \<Rightarrow>
              if isAdmin then RespondJSON 200 (json_of_payout payout)
              else call (Repository_GetAccount (mp_AccountID payout)) (\<lambda>res.
                case res of
                  Inl accErr \<Rightarrow> RespondError r 500 ''payout/account-read-failed'' ''Failed to verify payout ownership''
                | Inr account \<Rightarrow>
                    if ma_UserID account \<noteq> actorID then forbidden r
                    else RespondJSON 200 (json_of_payout payout)))))"

text \<open>A query parameter that is an integer satisfying \<open>P\<close>, a default when it is absent, an error otherwise.\<close>

definition int_param :: "(int \<Rightarrow> bool) \<Rightarrow> int \<Rightarrow> string \<Rightarrow> int option" where
  "int_param P def_val s =
     (let v = TrimSpace s in
      if v = '''' then Some def_val
      else (let (n, good) = Atoi v in if \<not> good \<or> \<not> P n then None else Some (wrap32 n)))"

definition Handler_ListManualReviewPayouts :: handler where
  "Handler_ListManualReviewPayouts r =
     (case int_param (\<lambda>n. n > 0) 50 (get ''limit'' (r_query r)) of
        None \<Rightarrow> RespondError r 400 ''request/invalid-limit'' ''limit must be a positive integer''
      | Some limit \<Rightarrow>
     (case int_param (\<lambda>n. n \<ge> 0) 0 (get ''offset'' (r_query r)) of
        None \<Rightarrow> RespondError r 400 ''request/invalid-offset'' ''offset must be a non-negative integer''
      | Some offset \<Rightarrow>
          call (ListManualReviewPayouts limit offset) (\<lambda>res.
          case res of
            Inl err \<Rightarrow> RespondError r 500 ''payout/manual-review-list-failed'' ''Failed to list manual review payouts''
          | Inr ps \<Rightarrow>
              call ManualReviewQueueSize (\<lambda>size.
              let total = (case size of Inl err \<Rightarrow> int (length ps) | Inr n \<Rightarrow> n) in
              RespondJSON 200 (json_struct [(''count'', Some (JInt (int (length ps)))),
                (''items'', json_list (map json_of_payout ps)), (''limit'', Some (JInt limit)),
                (''offset'', Some (JInt offset)), (''total_count'', Some (JInt total))])))))"

fun unmarshal_string_ptr :: "string \<Rightarrow> (string \<times> json) list \<Rightarrow> bool \<times> string option \<Rightarrow> bool \<times> string option" where
  "unmarshal_string_ptr name [] acc = acc"
| "unmarshal_string_ptr name ((k, v) # ms) (good, p) =
     unmarshal_string_ptr name ms
       (if matches_field name k then
          (case v of JString t \<Rightarrow> (good, Some t) | JNull \<Rightarrow> (good, None)
           | _ \<Rightarrow> (False, case p of None \<Rightarrow> Some '''' | Some t \<Rightarrow> Some t))
        else (good, p))"

record resolveManualReviewRequest =
  rv_Decision :: string
  rv_Reason :: string
  rv_GatewayRef :: "string option"

definition decode_resolve :: "request \<Rightarrow> resolveManualReviewRequest option" where
  "decode_resolve r =
     (case decode_object r of
        None \<Rightarrow> None
      | Some ms \<Rightarrow>
          (let (ok1, decision) = unmarshal_string ''decision'' ms (True, '''');
               (ok2, reason) = unmarshal_string ''reason'' ms (True, '''');
               (ok3, ref) = unmarshal_string_ptr ''gateway_ref'' ms (True, None)
           in if ok1 \<and> ok2 \<and> ok3 then Some \<lparr>rv_Decision = decision, rv_Reason = reason, rv_GatewayRef = ref\<rparr> else None))"

definition resolve_error :: "request \<Rightarrow> err \<Rightarrow> http \<Rightarrow> http" where
  "resolve_error r err =
     (if errors_Is err ErrPayoutNotFound then RespondError r 404 ''payout/not-found'' ''Payout not found''
      else if errors_Is err ErrPayoutNotInManualReview then
        RespondError r 409 ''payout/not-in-manual-review'' ''Payout is not in manual review''
      else if errors_Is err ErrInvalidManualReviewDecision then
        RespondError r 400 ''payout/invalid-decision'' ''decision must be confirm_sent or refund_failed''
      else RespondError r 500 ''payout/manual-review-resolve-failed'' ''Failed to resolve manual review payout'')"

definition Handler_ResolveManualReviewPayout :: "lib \<Rightarrow> handler" where
  "Handler_ResolveManualReviewPayout L r =
     (case requestActor L r of
        Inl _ \<Rightarrow> unauthorised r
      | Inr (actorID, isAdmin) \<Rightarrow>
     (case uuid_Parse L (URLParam r ''id'') of
        Inl _ \<Rightarrow> RespondError r 400 ''request/invalid-payout-id'' ''Invalid payout ID''
      | Inr payoutID \<Rightarrow>
     (case decode_resolve r of
        None \<Rightarrow> RespondError r 400 ''request/invalid-body'' ''Invalid request body''
      | Some req \<Rightarrow>
          (let decision = TrimSpace (ToLower (rv_Decision req)); reason = TrimSpace (rv_Reason req) in
           if decision = '''' then RespondError r 400 ''request/missing-decision'' ''decision is required''
           else if reason = '''' then RespondError r 400 ''request/missing-reason'' ''reason is required''
           else call (ResolveManualReviewPayout L \<lparr>rr_PayoutID = payoutID, rr_Decision = decision, rr_Reason = reason,
               rr_ActorID = Some actorID, rr_GatewayRef = rv_GatewayRef req\<rparr>) (\<lambda>res.
             case res of
               Inl err \<Rightarrow> resolve_error r err
             | Inr result \<Rightarrow> RespondJSON 200 (json_of_payout result))))))"

end
