(* ===== verification/Idempotency.thy ===== *)
theory Idempotency
  imports Http Digest
begin

text \<open>
  \<open>internal/idempotency/store.go\<close> and \<open>internal/api/middleware/idempotency.go\<close>: the record of a
  request under its key in PostgreSQL with a copy in Redis, and the middleware that answers a
  repeated request from the record instead of running the handler again.
\<close>

subsection \<open>The store\<close>

record Record =
  ir_Key :: string
  ir_RequestHash :: string
  ir_Status :: int
  ir_Body :: string
  ir_ContentType :: string
  ir_ServedBy :: string

record IdempotencyStore =
  is_redis :: bool \<comment> \<open>whether there is a Redis client\<close>
  is_ttl :: int

record cacheEnvelope =
  ce_Key :: string
  ce_Hash :: string
  ce_Status :: int
  ce_Body :: string
  ce_ContentType :: string

definition redisKey :: "string \<Rightarrow> string" where
  "redisKey key = ''idempotency:'' @ key"

definition marshal_envelope :: "cacheEnvelope \<Rightarrow> string" where
  "marshal_envelope env = json_Marshal (JObject [(''key'', JString (ce_Key env)), (''hash'', JString (ce_Hash env)),
     (''status'', JInt (ce_Status env)), (''body'', JString (base64_Encode (ce_Body env))),
     (''content_type'', JString (ce_ContentType env))])"

text \<open>A \<open>[]byte\<close> field: base64 text, an array of byte values, or \<open>null\<close> for the nil slice.\<close>

fun byte_values :: "json list \<Rightarrow> string option" where
  "byte_values [] = Some []"
| "byte_values (v # vs) =
     (case (v, byte_values vs) of
        (JInt n, Some s) \<Rightarrow> if 0 \<le> n \<and> n < 256 then Some (char_of n # s) else None
      | (JNull, Some s) \<Rightarrow> Some (char_of (0 :: int) # s)
      | _ \<Rightarrow> None)"

fun unmarshal_bytes :: "string \<Rightarrow> (string \<times> json) list \<Rightarrow> bool \<times> string \<Rightarrow> bool \<times> string" where
  "unmarshal_bytes name [] acc = acc"
| "unmarshal_bytes name ((k, v) # ms) (good, s) =
     unmarshal_bytes name ms
       (if matches_field name k then
          (case v of
             JString t \<Rightarrow> (case base64_Decode t of Some b \<Rightarrow> (good, b) | None \<Rightarrow> (False, s))
           | JArray vs \<Rightarrow> (case byte_values vs of Some b \<Rightarrow> (good, b) | None \<Rightarrow> (False, s))
           | JNull \<Rightarrow> (good, []) | _ \<Rightarrow> (False, s))
        else (good, s))"

definition unmarshal_envelope :: "string \<Rightarrow> cacheEnvelope option" where
  "unmarshal_envelope val =
     (case json_Unmarshal val of
        Inr JNull \<Rightarrow> Some \<lparr>ce_Key = '''', ce_Hash = '''', ce_Status = 0, ce_Body = '''', ce_ContentType = ''''\<rparr>
      | Inr (JObject ms) \<Rightarrow>
          (let (ok1, key) = unmarshal_string ''key'' ms (True, '''');
               (ok2, hash) = unmarshal_string ''hash'' ms (True, '''');
               (ok3, status) = unmarshal_int64 ''status'' ms (True, 0);
               (ok4, body) = unmarshal_bytes ''body'' ms (True, '''');
               (ok5, contentType) = unmarshal_string ''content_type'' ms (True, '''')
           in if ok1 \<and> ok2 \<and> ok3 \<and> ok4 \<and> ok5
              then Some \<lparr>ce_Key = key, ce_Hash = hash, ce_Status = status, ce_Body = body, ce_ContentType = contentType\<rparr>
              else None)
      | _ \<Rightarrow> None)"

definition store_cache :: "IdempotencyStore \<Rightarrow> Record \<Rightarrow> unit m" where
  "store_cache s rec =
     (if \<not> is_redis s then ret ()
      else bind (redis_Set (redisKey (ir_Key rec))
        (marshal_envelope \<lparr>ce_Key = ir_Key rec, ce_Hash = ir_RequestHash rec, ce_Status = ir_Status rec,
           ce_Body = ir_Body rec, ce_ContentType = ir_ContentType rec\<rparr>) (is_ttl s)) (\<lambda>_. ret ()))"

definition record_of_row :: "idempotency_row \<Rightarrow> Record" where
  "record_of_row row = \<lparr>ir_Key = k_key row, ir_RequestHash = k_request_hash row, ir_Status = k_response_status row,
     ir_Body = k_response_body row, ir_ContentType = k_content_type row, ir_ServedBy = ''postgres''\<rparr>"

definition lookup_db :: "IdempotencyStore \<Rightarrow> string \<Rightarrow> string \<Rightarrow> Record m" where
  "lookup_db s key requestHash =
     bind (attempt (auto_exec (GetIdempotencyKey key))) (\<lambda>found.
     case found of
       Inl err \<Rightarrow>
         if errors_Is err ErrNoRows then throw ErrNotFound
         else throw (Wrap ''lookup idempotency key: '' err '''')
     | Inr row \<Rightarrow>
         if k_request_hash row \<noteq> requestHash then throw ErrHashMismatch
         else if k_in_progress row then throw ErrInProgress
         else bind (store_cache s (record_of_row row)) (\<lambda>_. ret (record_of_row row)))"

definition Lookup :: "IdempotencyStore \<Rightarrow> string \<Rightarrow> string \<Rightarrow> Record m" where
  "Lookup s key requestHash =
     (if is_redis s then
        bind (redis_Get (redisKey key)) (\<lambda>reply.
        case reply of
          RedisValue val \<Rightarrow>
            (case unmarshal_envelope val of
               Some env \<Rightarrow>
                 if ce_Hash env \<noteq> requestHash then throw ErrHashMismatch
                 else ret \<lparr>ir_Key = ce_Key env, ir_RequestHash = ce_Hash env, ir_Status = ce_Status env,
                   ir_Body = ce_Body env, ir_ContentType = ce_ContentType env, ir_ServedBy = ''redis''\<rparr>
             | None \<Rightarrow> lookup_db s key requestHash)
        | _ \<Rightarrow> lookup_db s key requestHash)
      else lookup_db s key requestHash)"

definition Reserve :: "string \<Rightarrow> string \<Rightarrow> string \<Rightarrow> string \<Rightarrow> bool m" where
  "Reserve key requestHash meth path =
     bind (attempt (auto_exec (ReserveIdempotencyKey key requestHash meth path))) (\<lambda>result.
     case result of
       Inr _ \<Rightarrow> ret True
     | Inl err \<Rightarrow>
         if errors_Is err ErrNoRows then ret False
         else throw (Wrap ''reserve idempotency key: '' err ''''))"

definition Finalize :: "IdempotencyStore \<Rightarrow> string \<Rightarrow> string \<Rightarrow> int \<Rightarrow> string \<Rightarrow> string \<Rightarrow> Record m" where
  "Finalize s key requestHash status body contentType =
     bind (attempt (auto_exec (FinalizeIdempotencyKey (wrap32 status) body contentType key requestHash))) (\<lambda>result.
     case result of
       Inl err \<Rightarrow>
         if errors_Is err ErrNoRows then throw ErrNotFound
         else throw (Wrap ''finalize idempotency key: '' err '''')
     | Inr row \<Rightarrow>
         bind (store_cache s (record_of_row row)) (\<lambda>_. ret (record_of_row row)))"

text \<open>
  The polling loop: \<open>n\<close> intervals pass before the context ends with \<open>e\<close>; while it sleeps, other
  sessions commit.
\<close>

fun WaitForCompletion :: "IdempotencyStore \<Rightarrow> nat \<Rightarrow> err \<Rightarrow> string \<Rightarrow> string \<Rightarrow> Record m" where
  "WaitForCompletion s n e key requestHash =
     bind (attempt (Lookup s key requestHash)) (\<lambda>found.
     case found of
       Inr rec \<Rightarrow> ret rec
     | Inl err \<Rightarrow>
         if errors_Is err ErrInProgress then
           (case n of 0 \<Rightarrow> throw e | Suc m \<Rightarrow> bind tick (\<lambda>_. WaitForCompletion s m e key requestHash))
         else throw err)"

declare WaitForCompletion.simps [simp del]

subsection \<open>The middleware\<close>

definition idempotentMethods :: "string set" where
  "idempotentMethods = {''POST'', ''PUT'', ''PATCH'', ''DELETE''}"

definition hashRequest :: "string \<Rightarrow> string \<Rightarrow> string \<Rightarrow> string" where
  "hashRequest meth path body = EncodeToString (sha256_Sum (meth @ ''|'' @ path @ ''|'' @ body))"

text \<open>The recorder around the writer: its status and body after the calls made on it.\<close>

fun bodyRecorder :: "int \<times> string \<Rightarrow> wop list \<Rightarrow> int \<times> string" where
  "bodyRecorder rec [] = rec"
| "bodyRecorder (status, body) (WriteHeaderOp code # ops) = bodyRecorder (code, body) ops"
| "bodyRecorder (status, body) (WriteOp b # ops) =
     bodyRecorder (if status = 0 then 200 else status, body @ b) ops"

definition respondFromRecord :: "Record \<Rightarrow> http \<Rightarrow> http" where
  "respondFromRecord rec h =
     Write (ir_Body rec) (WriteHeader (ir_Status rec) (set_header ''X-Idempotent-Replay'' (ir_ServedBy rec)
       (set_header ''Content-Type'' (ir_ContentType rec) h)))"

definition idem_event :: "string \<Rightarrow> http \<Rightarrow> http" where
  "idem_event outcome = call (IncrementIdempotencyEvent outcome) (\<lambda>_ h. h)"

lemma idem_event_eq: "idem_event outcome (rs, w) = (rs, w\<lparr>wtrace := wtrace w @
    metric_events idempotencyCounter (\<lambda>name. Counter name [outcome]) w\<rparr>)"
  by (simp add: idem_event_def call_def metric_eqs)

definition wait_and_respond :: "IdempotencyStore \<Rightarrow> request \<Rightarrow> string \<Rightarrow> string \<Rightarrow> string \<Rightarrow> http \<Rightarrow> http" where
  "wait_and_respond s r key reqHash outcome =
     call (WaitForCompletion s (r_ticks r) (r_ctx_err r) key reqHash) (\<lambda>waited h.
       case waited of
         Inr rec \<Rightarrow> respondFromRecord rec (idem_event outcome h)
       | Inl waitErr \<Rightarrow>
           problem_Write r 409 (problem_Type ''idempotency/in-progress'') (StatusText 409) ''idempotency processing''
             (idem_event ''in_progress_conflict'' h))"

text \<open>After a reservation: the handler runs behind the recorder and its answer is stored.\<close>

definition run_and_finalize :: "IdempotencyStore \<Rightarrow> handler \<Rightarrow> request \<Rightarrow> string \<Rightarrow> string \<Rightarrow> http \<Rightarrow> http" where
  "run_and_finalize s next r key reqHash h =
     (let (rs', w') = next r h;
          (status, body) = bodyRecorder (0, '''') (drop (length (rs_ops (fst h))) (rs_ops rs'));
          contentType = get ''Content-Type'' (rs_header rs');
          contentType = (if contentType = '''' then ''application/json'' else contentType);
          status = (if status = 0 then 200 else status)
      in call (Finalize s key reqHash status body contentType) (\<lambda>done.
           case done of
             Inl err \<Rightarrow> idem_event ''finalize_error''
           | Inr rec \<Rightarrow> idem_event ''finalized'') (rs', w'))"

definition reserve_and_run :: "IdempotencyStore \<Rightarrow> handler \<Rightarrow> request \<Rightarrow> string \<Rightarrow> string \<Rightarrow> http \<Rightarrow> http" where
  "reserve_and_run s next r key reqHash =
     call (Reserve key reqHash (r_method r) (r_path r)) (\<lambda>reserved h.
       case reserved of
         Inl err \<Rightarrow>
           problem_Write r 500 (problem_Type ''idempotency/unavailable'') (StatusText 500) ''idempotency unavailable''
             (idem_event ''reserve_error'' h)
       | Inr False \<Rightarrow> wait_and_respond s r key reqHash ''replay_after_reserve'' h
       | Inr True \<Rightarrow> run_and_finalize s next r key reqHash (idem_event ''reserved'' h))"

definition lookup_or_run :: "IdempotencyStore \<Rightarrow> handler \<Rightarrow> request \<Rightarrow> string \<Rightarrow> string \<Rightarrow> http \<Rightarrow> http" where
  "lookup_or_run s next r key reqHash =
     call (Lookup s key reqHash) (\<lambda>found h.
       case found of
         Inr rec \<Rightarrow> respondFromRecord rec (idem_event ''replay'' h)
       | Inl err \<Rightarrow>
           if errors_Is err ErrHashMismatch then
             problem_Write r 409 (problem_Type ''idempotency/key-conflict'') (StatusText 409) ''conflicting idempotency key''
               (idem_event ''hash_mismatch'' h)
           else if errors_Is err ErrInProgress then wait_and_respond s r key reqHash ''replay_after_wait'' h
           else reserve_and_run s next r key reqHash
             (if err \<noteq> ErrNotFound then idem_event ''lookup_error'' h else h))"

definition IdempotencyMiddleware :: "IdempotencyStore option \<Rightarrow> handler \<Rightarrow> handler" where
  "IdempotencyMiddleware store next r h =
     (case store of
        None \<Rightarrow> next r h
      | Some s \<Rightarrow>
          if r_method r \<notin> idempotentMethods then next r h
          else let key = get ''Idempotency-Key'' (r_header r) in
          if key = '''' then
            problem_Write r 400 (problem_Type ''idempotency/missing-key'') (StatusText 400) ''Idempotency-Key header is required''
              (idem_event ''missing_key'' h)
          else case r_body r of
            Inl err \<Rightarrow>
              problem_Write r 400 (problem_Type ''request/invalid-body'') (StatusText 400) ''Failed to read request body'' h
          | Inr bodyBytes \<Rightarrow>
              lookup_or_run s next r key (hashRequest (r_method r) (r_path r) bodyBytes) h)"

subsection \<open>Reads\<close>

lemmas redis_defs = redis_Get_def redis_Set_def redis_Ping_def

lemma store_cache_idle: "wdb (snd (store_cache s rec w)) = wdb w" "fst (store_cache s rec w) = Inr ()"
  by (simp_all add: store_cache_def control_defs redis_defs)

lemma bind_attempt: "bind (attempt m) f w = f (fst (m w)) (snd (m w))"
  by (simp add: bind_def attempt_def split: prod.splits)

lemma bind_store_cache: "bind (store_cache s rec) f w = f () (snd (store_cache s rec w))"
  by (simp add: bind_def store_cache_def ret_def redis_defs)

lemma lookup_db_idle: "wdb (snd (lookup_db s key h w)) = wdb w"
proof -
  obtain x w1 where run: "auto_exec (GetIdempotencyKey key) w = (x, w1)" by fastforce
  have "wdb w1 = wdb w"
    using run by (rule auto_exec_read [rotated]) (auto simp: keeps_def GetIdempotencyKey_def split: option.splits)
  then show ?thesis
    using store_cache_idle [of s] run
    by (auto simp: lookup_db_def control_defs split: sum.splits prod.splits) (metis sndI)+
qed

lemma Lookup_idle: "wdb (snd (Lookup s key h w)) = wdb w"
  by (auto simp: Lookup_def bind_def redis_defs ret_def throw_def lookup_db_idle split: redis_reply.splits option.splits)

text \<open>A key that is in the table cannot be reserved again, whatever the driver does.\<close>

lemma Reserve_taken:
  assumes "key \<in> k_key ` set (idempotency_keys (wdb w))"
  shows "fst (Reserve key h me pa w) \<noteq> Inr True"
  using assms
  by (auto simp: Reserve_def bind_def attempt_def ret_def throw_def auto_exec_def ReserveIdempotencyKey_def Let_def split: fault.splits sum.splits)

lemma call_cong: "(\<And>w'. m w = (x, w') \<Longrightarrow> k x (rs, w') = k' x (rs, w')) \<Longrightarrow> x = fst (m w) \<Longrightarrow> call m k (rs, w) = call m k' (rs, w)"
  by (cases "m w") (simp add: call_def)

lemma reserve_and_run_taken:
  assumes "key \<in> k_key ` set (idempotency_keys (wdb w))"
  shows "reserve_and_run s nxt r key h (rs, w) = reserve_and_run s nxt' r key h (rs, w)"
  unfolding reserve_and_run_def
  using Reserve_taken [OF assms] by (intro call_cong [OF _ refl]) (auto split: sum.splits bool.splits)

text \<open>
  C5. The handler runs at most once under a key: once a key is in the table, with whatever hash and in
  whatever state, the answer to a request with that key does not depend on the handler, whatever
  Redis, the driver and other sessions do.
\<close>

theorem handler_not_rerun:
  assumes "r_method r \<in> idempotentMethods" and "key = get ''Idempotency-Key'' (r_header r)" and "key \<noteq> []"
    and "key \<in> k_key ` set (idempotency_keys (wdb w))"
  shows "IdempotencyMiddleware (Some s) nxt r (rs, w) = IdempotencyMiddleware (Some s) nxt' r (rs, w)"
proof -
  have "lookup_or_run s nxt r key h (rs, w) = lookup_or_run s nxt' r key h (rs, w)" for h
    unfolding lookup_or_run_def
  proof (rule call_cong [OF _ refl], goal_cases)
    case (1 w')
    then have "wdb w' = wdb w" using Lookup_idle [of s key h w] by (metis snd_conv)
    then have "key \<in> k_key ` set (idempotency_keys (wdb w'))" using assms(4) by simp
    then show ?case
      using reserve_and_run_taken [of key _ s nxt r h _ nxt']
      by (auto split: sum.splits simp: idem_event_eq)
  qed
  then show ?thesis using assms(1-3) by (simp add: IdempotencyMiddleware_def split: sum.splits)
qed

subsection \<open>The cache\<close>

lemma envelope_fields:
  "matches_field ''key'' ''key'' \<and> \<not> matches_field ''key'' ''hash'' \<and> \<not> matches_field ''key'' ''status'' \<and>
     \<not> matches_field ''key'' ''body'' \<and> \<not> matches_field ''key'' ''content_type''"
  "\<not> matches_field ''hash'' ''key'' \<and> matches_field ''hash'' ''hash'' \<and> \<not> matches_field ''hash'' ''status'' \<and>
     \<not> matches_field ''hash'' ''body'' \<and> \<not> matches_field ''hash'' ''content_type''"
  "\<not> matches_field ''status'' ''key'' \<and> \<not> matches_field ''status'' ''hash'' \<and> matches_field ''status'' ''status'' \<and>
     \<not> matches_field ''status'' ''body'' \<and> \<not> matches_field ''status'' ''content_type''"
  "\<not> matches_field ''body'' ''key'' \<and> \<not> matches_field ''body'' ''hash'' \<and> \<not> matches_field ''body'' ''status'' \<and>
     matches_field ''body'' ''body'' \<and> \<not> matches_field ''body'' ''content_type''"
  "\<not> matches_field ''content_type'' ''key'' \<and> \<not> matches_field ''content_type'' ''hash'' \<and>
     \<not> matches_field ''content_type'' ''status'' \<and> \<not> matches_field ''content_type'' ''body'' \<and>
     matches_field ''content_type'' ''content_type''"
  by (simp_all add: matches_field_def foldName.simps byte_def upper_char_def)

lemma literal_utf8: "valid_utf8 ''key''" "valid_utf8 ''hash''" "valid_utf8 ''status''" "valid_utf8 ''body''" "valid_utf8 ''content_type''"
  by (rule ascii_valid, simp add: byte_def)+

lemma base64_utf8: "valid_utf8 (base64_Encode s)"
  using base64_text [of s] by (intro ascii_valid) (auto simp: list_all_iff b64_sextet_def)

lemma envelope_round_trip:
  assumes "valid_utf8 (ce_Key env)" and "valid_utf8 (ce_Hash env)" and "valid_utf8 (ce_ContentType env)"
    and "in_int64 (ce_Status env)"
  shows "unmarshal_envelope (marshal_envelope env) = Some env"
proof -
  have "json_Unmarshal (marshal_envelope env) = Inr (JObject [(''key'', JString (ce_Key env)), (''hash'', JString (ce_Hash env)),
     (''status'', JInt (ce_Status env)), (''body'', JString (base64_Encode (ce_Body env))),
     (''content_type'', JString (ce_ContentType env))])"
    unfolding marshal_envelope_def
    by (rule json_round_trip) (use assms in \<open>simp_all add: literal_utf8 base64_utf8 maxNestingDepth_def\<close>)
  then show ?thesis
    using assms(4) by (simp add: unmarshal_envelope_def envelope_fields base64_round_trip)
qed

text \<open>The envelope of a stored row, and a reply of Redis that agrees with the row.\<close>

definition envelope_of_row :: "idempotency_row \<Rightarrow> cacheEnvelope" where
  "envelope_of_row row = \<lparr>ce_Key = k_key row, ce_Hash = k_request_hash row, ce_Status = k_response_status row,
     ce_Body = k_response_body row, ce_ContentType = k_content_type row\<rparr>"

definition coherent :: "idempotency_row \<Rightarrow> redis_reply \<Rightarrow> bool" where
  "coherent row reply \<longleftrightarrow> (\<forall>v. reply = RedisValue v \<longrightarrow> \<not> k_in_progress row \<and> v = marshal_envelope (envelope_of_row row))"

definition storable :: "idempotency_row \<Rightarrow> bool" where
  "storable row \<longleftrightarrow> valid_utf8 (k_key row) \<and> valid_utf8 (k_request_hash row) \<and> valid_utf8 (k_content_type row) \<and>
     in_int64 (k_response_status row)"

lemma storable_envelope: "storable row \<Longrightarrow> unmarshal_envelope (marshal_envelope (envelope_of_row row)) = Some (envelope_of_row row)"
  by (rule envelope_round_trip) (simp_all add: storable_def envelope_of_row_def)

text \<open>
  C29. What the store writes to Redis it reads back: a record with UTF-8 texts and any body, binary or
  not, that \<open>cache\<close> has written is what a hit returns for the same hash; for another hash the hit is a
  mismatch, and the database is not asked.
\<close>

theorem cache_round_trip:
  assumes "is_redis s" and "wtrace (snd (store_cache s rec w0)) = wtrace w0 @ [RedisSet k v ttl]"
    and "wredis w 0 k = RedisValue v"
    and "valid_utf8 (ir_Key rec)" and "valid_utf8 (ir_RequestHash rec)" and "valid_utf8 (ir_ContentType rec)"
    and "in_int64 (ir_Status rec)"
  shows "Lookup s (ir_Key rec) h w =
    ((if h = ir_RequestHash rec then Inr (rec\<lparr>ir_ServedBy := ''redis''\<rparr>) else Inl ErrHashMismatch),
     w\<lparr>wredis := pop (wredis w)\<rparr>)"
proof -
  let ?env = "\<lparr>ce_Key = ir_Key rec, ce_Hash = ir_RequestHash rec, ce_Status = ir_Status rec,
           ce_Body = ir_Body rec, ce_ContentType = ir_ContentType rec\<rparr>"
  have "k = redisKey (ir_Key rec)" "v = marshal_envelope ?env"
    using assms(1,2) by (simp_all add: store_cache_def control_defs redis_defs)
  moreover have "unmarshal_envelope (marshal_envelope ?env) = Some ?env"
    by (rule envelope_round_trip) (use assms(4-7) in simp_all)
  ultimately show ?thesis
    using assms(1,3) by (simp add: Lookup_def control_defs redis_defs)
qed

lemma hash_utf8: "valid_utf8 (hashRequest me pa body)"
proof -
  have "byte (Digest.hex_digit n) < 128" if "n < 16" for n
  proof -
    have "byte c = int (of_char c)" for c by (simp add: byte_def of_nat_of_char)
    then show ?thesis using that by (auto simp: Digest.hex_digit_def)
  qed
  moreover have "of_char c div 16 < (16 :: nat)" for c using nat_of_char_less_256 [of c] by linarith
  ultimately show ?thesis
    by (intro ascii_valid) (auto simp: hashRequest_def EncodeToString_def list_all_iff Let_def)
qed

subsection \<open>Answers from the record\<close>

text \<open>The lookup of a key whose row is \<open>row\<close>: by the cache or by the database, the same answer.\<close>

lemma Lookup_row:
  assumes "sel_one k_key key (idempotency_keys (wdb w)) = Some row" and "storable row" and "wfaults w 0 = NoFault"
    and "coherent row (wredis w 0 (redisKey key))"
  obtains src w' where "wdb w' = wdb w" and "Lookup s key h w =
    ((if k_request_hash row \<noteq> h then Inl ErrHashMismatch else if k_in_progress row then Inl ErrInProgress
      else Inr ((record_of_row row)\<lparr>ir_ServedBy := src\<rparr>)), w')"
proof -
  define x where "x = (if k_request_hash row \<noteq> h then Inl ErrHashMismatch else if k_in_progress row then Inl ErrInProgress
      else Inr (record_of_row row))"
  have db: "fst (lookup_db s key h w1) = x" if "wdb w1 = wdb w" "wfaults w1 0 = NoFault" for w1
    using that assms(1)
    by (simp add: x_def lookup_db_def bind_attempt bind_store_cache ret_def throw_def auto_exec_def GetIdempotencyKey_def Let_def)
  have pg: "(record_of_row row)\<lparr>ir_ServedBy := ''postgres''\<rparr> = record_of_row row"
    by (simp add: record_of_row_def)
  show thesis
  proof (cases "is_redis s \<and> (\<exists>v. wredis w 0 (redisKey key) = RedisValue v)")
    case True
    then have "wredis w 0 (redisKey key) = RedisValue (marshal_envelope (envelope_of_row row))" "\<not> k_in_progress row"
      using assms(4) by (auto simp: coherent_def)
    then show thesis using True storable_envelope [OF assms(2)]
      by (intro that [of "w\<lparr>wredis := pop (wredis w)\<rparr>" "''redis''"])
        (simp_all add: Lookup_def control_defs redis_defs envelope_of_row_def record_of_row_def)
  next
    case False
    define w1 where "w1 = (if is_redis s then w\<lparr>wredis := pop (wredis w)\<rparr> else w)"
    have "Lookup s key h w = lookup_db s key h w1"
      using False by (auto simp: Lookup_def w1_def bind_def redis_defs split: redis_reply.splits)
    moreover have "wdb w1 = wdb w" "wfaults w1 0 = NoFault" using assms(3) by (simp_all add: w1_def)
    ultimately show thesis
      using db [of w1] lookup_db_idle [of s key h w1] pg by (intro that [of "snd (lookup_db s key h w1)" "''postgres''"]) (simp_all add: x_def prod_eq_iff)
  qed
qed

lemma replay_row:
  assumes "r_method r \<in> idempotentMethods" and "key = get ''Idempotency-Key'' (r_header r)" and "key \<noteq> []"
    and "r_body r = Inr body" and "sel_one k_key key (idempotency_keys (wdb w)) = Some row" and "storable row"
    and "wfaults w 0 = NoFault" and "coherent row (wredis w 0 (redisKey key))" and "\<not> k_in_progress row"
    and "k_request_hash row = hashRequest (r_method r) (r_path r) body"
  obtains rs' w' where "IdempotencyMiddleware (Some s) nxt r (rs, w) = (rs', w')" and "wdb w' = wdb w"
    and "rs_ops rs' = rs_ops rs @ [WriteHeaderOp (k_response_status row), WriteOp (k_response_body row)]"
    and "get ''Content-Type'' (rs_header rs') = k_content_type row"
proof -
  obtain src w1 where "wdb w1 = wdb w" and "Lookup s key (k_request_hash row) w = (Inr ((record_of_row row)\<lparr>ir_ServedBy := src\<rparr>), w1)"
    by (rule Lookup_row [OF assms(5-8), of s "k_request_hash row"]) (use assms(9) in auto)
  then show thesis
    using assms(1-4,10)
    by (intro that [of "fst (IdempotencyMiddleware (Some s) nxt r (rs, w))" "snd (IdempotencyMiddleware (Some s) nxt r (rs, w))"])
      (simp_all add: IdempotencyMiddleware_def lookup_or_run_def call_def respondFromRecord_def idem_event_eq
        set_header_def WriteHeader_def Write_def record_of_row_def get_def)
qed

text \<open>
  C28. A key cannot be used for another request: when the record of the key has another hash, the
  answer is a conflict, the handler does not run and the database stays as it is.
\<close>

theorem key_conflict:
  assumes "r_method r \<in> idempotentMethods" and "key = get ''Idempotency-Key'' (r_header r)" and "key \<noteq> []"
    and "r_body r = Inr body" and "sel_one k_key key (idempotency_keys (wdb w)) = Some row" and "storable row"
    and "wfaults w 0 = NoFault" and "coherent row (wredis w 0 (redisKey key))"
    and "k_request_hash row \<noteq> hashRequest (r_method r) (r_path r) body"
  shows "sent_status (fst (IdempotencyMiddleware (Some s) nxt r (no_response, w))) = 409 \<and>
    wdb (snd (IdempotencyMiddleware (Some s) nxt r (no_response, w))) = wdb w"
proof -
  obtain w1 where "wdb w1 = wdb w" and
    "Lookup s key (hashRequest (r_method r) (r_path r) body) w = (Inl ErrHashMismatch, w1)"
    by (rule Lookup_row [OF assms(5-8), of s "hashRequest (r_method r) (r_path r) body"]) (use assms(9) in auto)
  then show ?thesis
    using assms(1-4)
    by (simp add: IdempotencyMiddleware_def lookup_or_run_def call_def idem_event_eq
        problem_Write_def set_header_def WriteHeader_def Write_def sent_status_def no_response_def Let_def)
qed

text \<open>
  The first request under a new key, without faults of the driver at its three statements: the handler
  runs once, behind the reservation, the client gets its answer, and the record has status, type and
  body of that answer.
\<close>

definition reserved_world :: "IdempotencyStore \<Rightarrow> request \<Rightarrow> string \<Rightarrow> string \<Rightarrow> world \<Rightarrow> world" where
  "reserved_world s r key h w =
     snd (idem_event ''reserved'' (no_response, snd (Reserve key h (r_method r) (r_path r) (snd (Lookup s key h w)))))"

lemma Lookup_absent:
  assumes "sel_one k_key key (idempotency_keys (wdb w)) = None" and "wfaults w 0 = NoFault"
    and "\<And>v. wredis w 0 (redisKey key) \<noteq> RedisValue v"
  shows "fst (Lookup s key h w) = Inl ErrNotFound" and "wfaults (snd (Lookup s key h w)) = pop (wfaults w)"
  using assms
  by (auto simp: Lookup_def lookup_db_def control_defs redis_defs auto_exec_def GetIdempotencyKey_def Let_def
      split: redis_reply.splits)

definition reserved_row :: "string \<Rightarrow> string \<Rightarrow> string \<Rightarrow> string \<Rightarrow> int \<Rightarrow> idempotency_row" where
  "reserved_row key h me pa t = \<lparr>k_key = key, k_request_hash = h, k_method = me, k_path = pa, k_response_status = 0,
     k_response_body = [], k_content_type = ''application/json'', k_in_progress = True, k_created_at = t, k_updated_at = t\<rparr>"

lemma Reserve_new:
  assumes "key \<notin> k_key ` set (idempotency_keys (wdb w))" and "wfaults w 0 = NoFault"
  shows "fst (Reserve key h me pa w) = Inr True"
    and "wdb (snd (Reserve key h me pa w)) =
      (wdb w)\<lparr>idempotency_keys := idempotency_keys (wdb w) @ [reserved_row key h me pa (wclock w 0)]\<rparr>"
  using assms
  by (auto simp: reserved_row_def Reserve_def bind_attempt ret_def auto_exec_def ReserveIdempotencyKey_def Let_def)

lemma find_updated:
  assumes "sel_one k_key key rs = Some row" and "k_request_hash row = h"
    and "\<And>r. k_key (f r) = k_key r" and "\<And>r. k_request_hash (f r) = k_request_hash r"
  shows "List.find (\<lambda>r. k_key r = key \<and> k_request_hash r = h)
      (map (\<lambda>r. if k_key r = key \<and> k_request_hash r = h then f r else r) rs) = Some (f row) \<and>
    sel_one k_key key (map (\<lambda>r. if k_key r = key \<and> k_request_hash r = h then f r else r) rs) = Some (f row)"
  using assms by (induction rs) (auto split: if_splits)

lemma FinalizeIdempotencyKey_row:
  assumes "sel_one k_key key (idempotency_keys d) = Some row"
    and "k_request_hash row = h" and "body \<noteq> []"
  shows "\<exists>d'. FinalizeIdempotencyKey st body ct key h t d =
    Inr (row\<lparr>k_response_status := st, k_response_body := body, k_content_type := ct, k_in_progress := False, k_updated_at := t\<rparr>, d') \<and>
    sel_one k_key key (idempotency_keys d') =
      Some (row\<lparr>k_response_status := st, k_response_body := body, k_content_type := ct, k_in_progress := False, k_updated_at := t\<rparr>) \<and>
    d' = d\<lparr>idempotency_keys := idempotency_keys d'\<rparr>"
proof -
  let ?f = "\<lambda>r. r\<lparr>k_response_status := st, k_response_body := body, k_content_type := ct, k_in_progress := False, k_updated_at := t\<rparr>"
  let ?P = "\<lambda>r. k_key r = key \<and> k_request_hash r = h"
  define rows where "rows = map (\<lambda>r. if ?P r then ?f r else r) (idempotency_keys d)"
  have upd: "update_rows ?P (\<lambda>r. if body = [] then Inl not_null_violation else Inr (?f r)) (idempotency_keys d) =
      Inr (int (length (filter ?P (idempotency_keys d))), rows)"
    unfolding rows_def using assms(3) by (intro update_rows_total) simp
  have "List.find ?P rows = Some (?f row)" "sel_one k_key key rows = Some (?f row)"
    using find_updated [OF assms(1,2), of ?f] unfolding rows_def by simp_all
  with upd show ?thesis by (auto simp: FinalizeIdempotencyKey_def)
qed

lemma first_request:
  assumes "r_method r \<in> idempotentMethods" and "key = get ''Idempotency-Key'' (r_header r)" and "key \<noteq> []"
    and "r_body r = Inr body" and "h = hashRequest (r_method r) (r_path r) body"
    and "key \<notin> k_key ` set (idempotency_keys (wdb w))" and "wfaults w 0 = NoFault" and "wfaults w 1 = NoFault"
    and "\<And>v. wredis w 0 (redisKey key) \<noteq> RedisValue v"
    and "nxt r (no_response, reserved_world s r key h w) = (rs1, w1)"
    and "idempotency_keys (wdb w1) = idempotency_keys (wdb (reserved_world s r key h w))" and "wfaults w1 0 = NoFault"
    and "rs_ops rs1 = [WriteHeaderOp c, WriteOp b]" and "c \<noteq> 0" and "b \<noteq> []" and "get ''Content-Type'' (rs_header rs1) \<noteq> []"
  obtains w' row where "IdempotencyMiddleware (Some s) nxt r (no_response, w) = (rs1, w')"
    and "wdb w' = (wdb w1)\<lparr>idempotency_keys := idempotency_keys (wdb w')\<rparr>"
    and "sel_one k_key key (idempotency_keys (wdb w')) = Some row" and "k_request_hash row = h" and "\<not> k_in_progress row"
    and "k_response_status row = wrap32 c" and "k_response_body row = b" and "k_content_type row = get ''Content-Type'' (rs_header rs1)"
proof -
  define wl where "wl = snd (Lookup s key h w)"
  define wr where "wr = snd (Reserve key h (r_method r) (r_path r) wl)"
  have none: "sel_one k_key key (idempotency_keys (wdb w)) = None" using assms(6) by (simp add: sel_one_None_iff)
  have look: "Lookup s key h w = (Inl ErrNotFound, wl)" "wdb wl = wdb w" "wfaults wl 0 = NoFault"
    using Lookup_absent [OF none assms(7,9), of s h] Lookup_idle [of s key h w] assms(8)
    by (simp_all add: wl_def prod_eq_iff pop_def)
  have "key \<notin> k_key ` set (idempotency_keys (wdb wl))" using assms(6) look(2) by simp
  note new = Reserve_new [OF this look(3), of h "r_method r" "r_path r"]
  define row0 where "row0 = reserved_row key h (r_method r) (r_path r) (wclock wl 0)"
  have res: "Reserve key h (r_method r) (r_path r) wl = (Inr True, wr)"
    and wr: "wdb wr = (wdb wl)\<lparr>idempotency_keys := idempotency_keys (wdb wl) @ [row0]\<rparr>"
    and row0: "k_key row0 = key" "k_request_hash row0 = h"
    using new by (simp_all add: wr_def prod_eq_iff row0_def) (simp_all add: reserved_row_def)
  have start: "idem_event ''reserved'' (no_response, wr) = (no_response, reserved_world s r key h w)"
    by (simp add: reserved_world_def wl_def [symmetric] wr_def [symmetric] idem_event_eq)
  have "idempotency_keys (wdb w1) = idempotency_keys (wdb w) @ [row0]"
    using assms(11) wr look(2) by (simp add: reserved_world_def wl_def [symmetric] wr_def [symmetric] idem_event_eq)
  then have old: "sel_one k_key key (idempotency_keys (wdb w1)) = Some row0" using none row0 by simp
  let ?row = "row0\<lparr>k_response_status := wrap32 c, k_response_body := b, k_content_type := get ''Content-Type'' (rs_header rs1),
        k_in_progress := False, k_updated_at := wclock w1 0\<rparr>"
  from FinalizeIdempotencyKey_row [OF old row0(2) assms(15)]
  obtain d' where fin: "FinalizeIdempotencyKey (wrap32 c) b (get ''Content-Type'' (rs_header rs1)) key h (wclock w1 0) (wdb w1) = Inr (?row, d')"
    and d': "sel_one k_key key (idempotency_keys d') = Some ?row" "d' = (wdb w1)\<lparr>idempotency_keys := idempotency_keys d'\<rparr>"
    by blast
  define wf where "wf = snd (Finalize s key h c b (get ''Content-Type'' (rs_header rs1)) w1)"
  have stored: "Finalize s key h c b (get ''Content-Type'' (rs_header rs1)) w1 = (Inr (record_of_row ?row), wf)" "wdb wf = d'"
    using fin assms(12) store_cache_idle(1) [of s]
    by (simp_all add: wf_def Finalize_def bind_attempt bind_store_cache auto_exec_def Let_def ret_def)
  have "IdempotencyMiddleware (Some s) nxt r (no_response, w) = idem_event ''finalized'' (rs1, wf)"
    using assms(1-5,10,13,14,16) look(1) res start stored(1)
    by (simp add: IdempotencyMiddleware_def lookup_or_run_def call_def reserve_and_run_def run_and_finalize_def no_response_def)
  then show thesis
    using d' stored(2) row0(2)
    by (intro that [of "snd (idem_event ''finalized'' (rs1, wf))" ?row]) (simp_all add: idem_event_eq)
qed

text \<open>
  C9. A repeated request gets the first answer: after the first request under a new key, in a database
  that still has the record, the same request is answered with the status, the type and the body of the
  first answer, by Redis or by PostgreSQL, and changes nothing.
\<close>

theorem idempotent_replay:
  assumes "r_method r \<in> idempotentMethods" and "key = get ''Idempotency-Key'' (r_header r)" and "key \<noteq> []"
    and "r_body r = Inr body" and "h = hashRequest (r_method r) (r_path r) body" and "valid_utf8 key"
    and "key \<notin> k_key ` set (idempotency_keys (wdb w))" and "wfaults w 0 = NoFault" and "wfaults w 1 = NoFault"
    and "\<And>v. wredis w 0 (redisKey key) \<noteq> RedisValue v"
    and "nxt r (no_response, reserved_world s r key h w) = (rs1, w1)"
    and "idempotency_keys (wdb w1) = idempotency_keys (wdb (reserved_world s r key h w))" and "wfaults w1 0 = NoFault"
    and "rs_ops rs1 = [WriteHeaderOp c, WriteOp b]" and "0 < c" and "c < 2 ^ 31" and "b \<noteq> []"
    and "get ''Content-Type'' (rs_header rs1) \<noteq> []" and "valid_utf8 (get ''Content-Type'' (rs_header rs1))"
    and "wdb w2 = wdb (snd (IdempotencyMiddleware (Some s) nxt r (no_response, w)))" and "wfaults w2 0 = NoFault"
    and "\<And>row. sel_one k_key key (idempotency_keys (wdb w2)) = Some row \<Longrightarrow> coherent row (wredis w2 0 (redisKey key))"
  shows "\<exists>rs' w'. IdempotencyMiddleware (Some s) nxt r (no_response, w) = (rs1, w') \<and>
    fst (IdempotencyMiddleware (Some s) nxt r (no_response, w2)) = rs' \<and>
    sent_status rs' = sent_status rs1 \<and> sent_body rs' = sent_body rs1 \<and>
    get ''Content-Type'' (rs_header rs') = get ''Content-Type'' (rs_header rs1) \<and>
    wdb (snd (IdempotencyMiddleware (Some s) nxt r (no_response, w2))) = wdb w2"
proof -
  have "c \<noteq> 0" using assms(15) by simp
  obtain w' row where run: "IdempotencyMiddleware (Some s) nxt r (no_response, w) = (rs1, w')"
    and row: "sel_one k_key key (idempotency_keys (wdb w')) = Some row" "k_request_hash row = h" "\<not> k_in_progress row"
      "k_response_status row = wrap32 c" "k_response_body row = b" "k_content_type row = get ''Content-Type'' (rs_header rs1)"
    by (rule first_request [OF assms(1-5,7-9), where nxt = nxt and s = s and ?w1.0 = w1 and ?rs1.0 = rs1 and c = c and b = b])
      (use assms(10-14,17,18) \<open>c \<noteq> 0\<close> in auto)
  have c: "wrap32 c = c" using assms(15,16) by (simp add: wrap32_id)
  have sel: "sel_one k_key key (idempotency_keys (wdb w2)) = Some row" using row(1) run assms(20) by simp
  have "storable row"
    using row c assms(5,6,15,16,19) sel_one_Some [OF row(1)] by (simp add: storable_def in_int64_def hash_utf8)
  note stored = this
  have hash: "k_request_hash row = hashRequest (r_method r) (r_path r) body" using row(2) assms(5) by simp
  obtain rs' w3 where "IdempotencyMiddleware (Some s) nxt r (no_response, w2) = (rs', w3)" "wdb w3 = wdb w2"
    "rs_ops rs' = [WriteHeaderOp c, WriteOp b]" "get ''Content-Type'' (rs_header rs') = get ''Content-Type'' (rs_header rs1)"
    by (rule replay_row [OF assms(1-4) sel stored assms(21) assms(22) [OF sel] row(3) hash, where rs = no_response and nxt = nxt and s = s])
      (use row c in \<open>simp add: no_response_def\<close>)
  with run assms(14) show ?thesis by (simp add: sent_status_def sent_body_def)
qed

end
