(* ===== verification/Api.thy ===== *)
theory Api
  imports Handlers Idempotency Interleaving
begin

text \<open>
  The handlers as clients of the services: what they leave unchanged, who may use them, and that
  they change the database by commits of the program only.
\<close>

subsection \<open>Frames of handlers\<close>

text \<open>
  A handler is framed by a relation on the database like the computations it calls. While it waits
  for another session (\<open>tick\<close>), what that session commits has to respect the relation too.
\<close>

definition hframe :: "(db \<Rightarrow> db \<Rightarrow> bool) \<Rightarrow> (http \<Rightarrow> http) \<Rightarrow> bool" where
  "hframe R f \<longleftrightarrow> (\<forall>rs w. R (wdb w) (wdb (snd (f (rs, w)))))"

definition hframe_others :: "(db \<Rightarrow> db \<Rightarrow> bool) \<Rightarrow> (http \<Rightarrow> http) \<Rightarrow> bool" where
  "hframe_others R f \<longleftrightarrow> (\<forall>rs w. (\<forall>n d. R d (wothers w n d)) \<longrightarrow> R (wdb w) (wdb (snd (f (rs, w)))))"

lemma hframeD: "hframe R f \<Longrightarrow> R (wdb w) (wdb (snd (f (rs, w))))"
  by (simp add: hframe_def)

lemma hframe_others_weaken: "hframe R f \<Longrightarrow> hframe_others R f"
  by (simp add: hframe_def hframe_others_def)

context frame_rel
begin

lemma hframe_response: "response_only f \<Longrightarrow> hframe R f"
  by (simp add: hframe_def response_only_def R_refl)

lemma hframe_writer [frame_intros]:
  "hframe R (set_header k v)" "hframe R (WriteHeader c)" "hframe R (Write b)"
  "hframe R (problem_Write r st ty ti de)" "hframe R (RespondJSON st j)" "hframe R (RespondError r st ty me)"
  "hframe R (unauthorized r sl de)" "hframe R (\<lambda>h. h)"
  by (rule hframe_response; simp add: response_only_def)+

lemma hframe_call [frame_intros]:
  assumes "frame R m" and "\<And>x. hframe R (k x)" shows "hframe R (call m k)"
proof -
  have "R (wdb w) (wdb (snd (call m k (rs, w))))" for rs w
  proof (cases "m w")
    case (Pair x w1)
    have "R (wdb w) (wdb w1)" using assms(1) Pair by (rule frameD)
    also note hframeD [OF assms(2) [of x], of w1 rs]
    finally (R_trans) show ?thesis using Pair by (simp add: call_def)
  qed
  then show ?thesis by (simp add: hframe_def)
qed

lemma hframe_cases [frame_intros]:
  "(b \<Longrightarrow> hframe R f) \<Longrightarrow> (\<not> b \<Longrightarrow> hframe R g) \<Longrightarrow> hframe R (if b then f else g)"
  "(x = None \<Longrightarrow> hframe R f) \<Longrightarrow> (\<And>a. x = Some a \<Longrightarrow> hframe R (fa a)) \<Longrightarrow> hframe R (case x of None \<Rightarrow> f | Some a \<Rightarrow> fa a)"
  "(\<And>a. y = Inl a \<Longrightarrow> hframe R (fl a)) \<Longrightarrow> (\<And>b. y = Inr b \<Longrightarrow> hframe R (fr b)) \<Longrightarrow> hframe R (case y of Inl a \<Rightarrow> fl a | Inr b \<Rightarrow> fr b)"
  "(\<And>a b. z = (a, b) \<Longrightarrow> hframe R (fp a b)) \<Longrightarrow> hframe R (case z of (a, b) \<Rightarrow> fp a b)"
  "(\<And>a. hframe R (fv a)) \<Longrightarrow> hframe R (let a = v in fv a)"
  by (auto split: option.splits sum.splits prod.splits)

end

subsection \<open>Writing answers\<close>

lemma response_only_answers [simp]:
  "response_only (encode_to v)" "response_only (created_json v)" "response_only (plain_json v)" "response_only (forbidden r)"
  "response_only (unauthorised r)" "response_only (transfer_error r err)" "response_only (exchange_error r err)"
  "response_only (webhook_error r err)" "response_only (resolve_error r err)" "response_only (Handler_Live r)"
  by (auto simp: response_only_def encode_to_def created_json_def plain_json_def forbidden_def unauthorised_def
      transfer_error_def exchange_error_def webhook_error_def resolve_error_def Handler_Live_def split: option.splits)

context frame_rel
begin

lemmas hframe_answers [frame_intros] = response_only_answers [THEN hframe_response]

lemma frame_ping [frame_intros]: "frame R db_Ping" "frame R redis_Ping"
  by (auto simp: frame_def db_Ping_def redis_Ping_def R_refl Let_def split: fault.splits)

lemma frame_reads [frame_intros]:
  "frame R (PayoutService_GetPayout i)" "frame R (ListManualReviewPayouts n p)" "frame R ManualReviewQueueSize"
  "frame R (login_claims g uid role)"
  unfolding PayoutService_GetPayout_def ListManualReviewPayouts_def ManualReviewQueueSize_def login_claims_def Let_def
  by (intro frame_intros)+

text \<open>The handlers that only read.\<close>

lemma hframe_read_handlers:
  "hframe R (Handler_GetBalance L r)" "hframe R (Handler_GetStatement L r)" "hframe R (Handler_GetPayout L r)"
  "hframe R (Handler_ListManualReviewPayouts r)" "hframe R (Handler_Login L J g r)" "hframe R (Handler_Live r)"
  unfolding Handler_GetBalance_def Handler_GetStatement_def Handler_GetPayout_def Handler_ListManualReviewPayouts_def
    Handler_Login_def
  by (rule frame_intros | assumption)+

lemma hframe_Ready: "hframe R (Handler_Ready hasRedis r)"
proof -
  have *: "hframe R (case reply of Inr (RedisError e) \<Rightarrow> RespondError r 503 ty me | _ \<Rightarrow> RespondJSON 200 j)"
    for reply :: "err + redis_reply" and ty me j
    by (cases reply; (rename_tac x, case_tac x)?; simp add: hframe_writer)
  show ?thesis unfolding Handler_Ready_def by (rule * frame_intros | assumption)+
qed

end

subsection \<open>Handlers are chains of commits\<close>

lemma decoded_amounts:
  "decode_transfer r = Some req \<Longrightarrow> in_int64 (tq_Amount req)"
  "decode_exchange r = Some req \<Longrightarrow> in_int64 (tq_Amount req)"
proof -
  have "in_int64 n" if "unmarshal_int64 ''amount'' ms (True, 0) = (b, n)" for ms b n
    using that unmarshal_int64_range [of "(True, 0)" "''amount''" ms] by (simp add: in_int64_def)
  then show "decode_transfer r = Some req \<Longrightarrow> in_int64 (tq_Amount req)"
    "decode_exchange r = Some req \<Longrightarrow> in_int64 (tq_Amount req)"
    by (auto simp: decode_transfer_def decode_exchange_def Let_def split: option.splits prod.splits if_splits)
qed

lemma hframe_authorized:
  assumes "frame_rel R" and "\<And>i j. hframe R (k i j)" shows "hframe R (authorized_transfer L r req k)"
  unfolding authorized_transfer_def
  by (rule assms(2) frame_rel.hframe_cases [OF assms(1)] frame_rel.hframe_writer [OF assms(1)] frame_rel.hframe_answers [OF assms(1)]
      frame_rel.hframe_call [OF assms(1)] frame_rel.frame_account_reads [OF assms(1)] | assumption)+

lemma chain_MakeInternalTransfer: "hframe (chained L ps) (MakeInternalTransfer L r)"
  unfolding MakeInternalTransfer_def
  by (rule hframe_authorized [OF run.frame_rel_axioms] chain_Transfer decoded_amounts(1) frame_intros | assumption)+

lemma chain_MakeExchangeTransfer: "hframe (chained L ps) (MakeExchangeTransfer L fx r)"
proof -
  have *: "in_int64 (xc_Amount \<lparr>xc_FromAccountID = i, xc_ToAccountID = j, xc_Amount = tq_Amount (req\<lparr>tq_FromCurrency := a, tq_ToCurrency := b\<rparr>),
      xc_FromCurrency = c, xc_ToCurrency = d, xc_ReferenceID = e\<rparr>)" if "decode_exchange r = Some req" for i j req a b c d e
    using decoded_amounts(2) [OF that] by simp
  show ?thesis
    unfolding MakeExchangeTransfer_def Let_def
    by (rule hframe_authorized [OF run.frame_rel_axioms] chain_TransferExchange frame_intros * | assumption)+
qed

lemma chain_handlers:
  "hframe (chained L ps) (Handler_CreateAccount L r)" "hframe (chained L ps) (Handler_CreateUser r)"
  "hframe (chained L ps) (Handler_HandleDepositWebhook L s r)" "hframe (chained L ps) (Handler_CreatePayout L r)"
  "hframe (chained L ps) (Handler_ResolveManualReviewPayout L r)"
  unfolding Handler_CreateAccount_def Handler_CreateUser_def Handler_HandleDepositWebhook_def Handler_CreatePayout_def
    Handler_ResolveManualReviewPayout_def
  by (rule chain_accounts chain_HandleDepositWebhook chain_RequestPayout chain_ResolveManualReviewPayout frame_intros | assumption)+

subsection \<open>The middleware\<close>

text \<open>The store only reserves and finalizes keys; both statements have to respect the relation.\<close>

locale key_frame = frame_rel +
  assumes key_Reserve [frame_intros]: "keeps R (ReserveIdempotencyKey k h me pa)"
    and key_Finalize [frame_intros]: "keeps R (FinalizeIdempotencyKey rs rb ct k h)"

sublocale stmt_frame \<subseteq> keys: key_frame
  by unfold_locales (intro frame_intros)+

interpretation runkeys: key_frame "chained L ps" for L ps
  by unfold_locales (intro frame_intros)+

text \<open>Everything but the idempotency keys is as it was.\<close>

definition keys_only :: "db \<Rightarrow> db \<Rightarrow> bool" where
  "keys_only d d' \<longleftrightarrow> (\<exists>ks n. d' = d\<lparr>idempotency_keys := ks, audit_seq := n\<rparr>)"

lemma keys_only_refl [simp]: "keys_only d d"
  unfolding keys_only_def by (intro exI [of _ "idempotency_keys d"] exI [of _ "audit_seq d"]) simp

lemma keys_only_update: "keys_only d (d\<lparr>idempotency_keys := ks\<rparr>)" "keys_only d (d\<lparr>audit_seq := n\<rparr>)"
  unfolding keys_only_def
  by (intro exI [of _ ks] exI [of _ "audit_seq d"], simp) (intro exI [of _ "idempotency_keys d"] exI [of _ n], simp)

lemma unchanged_keys_only: "unchanged d d' \<Longrightarrow> keys_only d d'"
  by (auto simp: unchanged_def intro: keys_only_update)

interpretation onlykeys: key_frame keys_only
proof (unfold_locales, goal_cases)
  case (2 d d' d'') then show ?case by (auto simp: keys_only_def) blast
qed (auto simp: keeps_def ReserveIdempotencyKey_def FinalizeIdempotencyKey_def keys_only_update Let_def
      split: if_splits sum.splits option.splits)

lemma keeps_others [simp]:
  "wothers (snd (Lookup s key h w)) = wothers w" "wothers (snd (Reserve key h me pa w)) = wothers w"
  by (auto simp: Lookup_def lookup_db_def store_cache_def Reserve_def control_defs redis_defs auto_exec_def Let_def
      split: redis_reply.splits option.splits fault.splits sum.splits prod.splits if_splits)

context key_frame
begin

lemma frame_store [frame_intros]:
  "frame R (store_cache s rec)" "frame R (Lookup s key h)" "frame R (Reserve key h me pa)" "frame R (Finalize s key h st b ct)"
proof -
  show cache: "frame R (store_cache s rec)" for s rec by (simp add: frame_def store_cache_idle R_refl)
  show "frame R (Lookup s key h)" by (simp add: frame_def Lookup_idle R_refl)
  show "frame R (Reserve key h me pa)" unfolding Reserve_def by (intro frame_intros)
  show "frame R (Finalize s key h st b ct)" unfolding Finalize_def by (rule cache frame_intros)+
qed

lemma WaitForCompletion_frame:
  "(\<forall>n d. R d (wothers w n d)) \<Longrightarrow> R (wdb w) (wdb (snd (WaitForCompletion s n e key h w)))"
proof (induction n arbitrary: w)
  case 0
  show ?case
    by (subst WaitForCompletion.simps) (auto simp: bind_attempt Lookup_idle throw_def ret_def R_refl split: sum.splits)
next
  case (Suc n)
  let ?w = "snd (Lookup s key h w)"
  have "R (wdb w) (wothers ?w 0 (wdb ?w))" using Suc.prems by (simp add: Lookup_idle)
  moreover have "R (wothers ?w 0 (wdb ?w)) (wdb (snd (WaitForCompletion s n e key h (snd (tick ?w)))))"
    using Suc.IH [of "snd (tick ?w)"] Suc.prems by (simp add: tick_def pop_def)
  ultimately have "R (wdb w) (wdb (snd (WaitForCompletion s n e key h (snd (tick ?w)))))"
    by (rule R_trans)
  then show ?case
    by (subst WaitForCompletion.simps)
      (auto simp: bind_attempt Lookup_idle R_refl throw_def ret_def bind_def [of tick] tick_def split: sum.splits)
qed

lemma hframe_others_call:
  assumes "frame R m" and "\<And>w :: world. wothers (snd (m w)) = wothers w" and "\<And>x. hframe_others R (k x)"
  shows "hframe_others R (call m k)"
  unfolding hframe_others_def
proof (intro allI impI)
  fix rs and w :: world assume others: "\<forall>n d. R d (wothers w n d)"
  obtain x w1 where run: "m w = (x, w1)" by fastforce
  have "R (wdb w) (wdb w1)" using assms(1) run by (rule frameD)
  moreover have "wothers w1 = wothers w" using assms(2) [of w] run by simp
  then have "R (wdb w1) (wdb (snd (k x (rs, w1))))" using assms(3) [of x] others by (simp add: hframe_others_def)
  ultimately show "R (wdb w) (wdb (snd (call m k (rs, w))))" using run by (auto simp: call_def intro: R_trans)
qed

lemma hframe_event: "hframe R (idem_event e)"
  by (simp add: hframe_def idem_event_eq R_refl)

lemma hframe_others_event:
  assumes "hframe_others R f" shows "hframe_others R (\<lambda>h. f (idem_event e h))"
  unfolding hframe_others_def
proof (intro allI impI)
  fix rs and w :: world assume "\<forall>n d. R d (wothers w n d)"
  moreover obtain w1 where "idem_event e (rs, w) = (rs, w1)" "wdb w1 = wdb w" "wothers w1 = wothers w"
    by (simp add: idem_event_eq)
  ultimately show "R (wdb w) (wdb (snd (f (idem_event e (rs, w)))))"
    using assms by (metis hframe_others_def)
qed

lemma hframe_others_cases:
  "hframe_others R f \<Longrightarrow> hframe_others R g \<Longrightarrow> hframe_others R (\<lambda>h. if b then f h else g h)"
  "(\<And>a. hframe_others R (fl a)) \<Longrightarrow> (\<And>a. hframe_others R (fr a)) \<Longrightarrow>
    hframe_others R (\<lambda>h. case x of Inl a \<Rightarrow> fl a h | Inr a \<Rightarrow> fr a h)"
  "hframe_others R f \<Longrightarrow> hframe_others R g \<Longrightarrow> hframe_others R (\<lambda>h. case b of True \<Rightarrow> f h | False \<Rightarrow> g h)"
  by ((cases b; simp), (cases x; simp), (cases b; simp))

lemma hframe_replay: "hframe_others R (respondFromRecord rec)" "hframe_others R (problem_Write r st ty ti de)"
  by (simp_all add: hframe_others_def respondFromRecord_def R_refl)

lemma hframe_wait: "hframe_others R (wait_and_respond s r key h out)"
  using WaitForCompletion_frame
  by (auto simp: hframe_others_def wait_and_respond_def call_def respondFromRecord_def idem_event_eq
      split: prod.splits sum.splits) (metis snd_conv)+

lemma hframe_run_and_finalize:
  assumes "hframe R (nxt r)" shows "hframe R (run_and_finalize s nxt r key h)"
proof -
  have *: "hframe R (call (Finalize s key h st b ct) (\<lambda>x. case x of Inl e \<Rightarrow> idem_event ''finalize_error''
      | Inr rec \<Rightarrow> idem_event ''finalized''))" for st b ct
    by (rule hframe_event frame_intros | assumption)+
  show ?thesis
    unfolding hframe_def
  proof (intro allI)
    fix rs and w :: world
    obtain rs1 w1 where run: "nxt r (rs, w) = (rs1, w1)" by fastforce
    have "R (wdb w) (wdb w1)" using hframeD [OF assms, of w rs] run by simp
    moreover obtain st b ct where "run_and_finalize s nxt r key h (rs, w) = call (Finalize s key h st b ct)
        (\<lambda>x. case x of Inl e \<Rightarrow> idem_event ''finalize_error''
          | Inr rec \<Rightarrow> idem_event ''finalized'') (rs1, w1)"
      using run by (cases "bodyRecorder (0, []) (drop (length (rs_ops rs)) (rs_ops rs1))") (simp add: run_and_finalize_def Let_def)
    ultimately show "R (wdb w) (wdb (snd (run_and_finalize s nxt r key h (rs, w))))"
      using hframeD [OF *, of w1 st b ct rs1] by (auto intro: R_trans)
  qed
qed

lemma hframe_reserve_and_run:
  assumes "hframe R (nxt r)" shows "hframe_others R (reserve_and_run s nxt r key h)"
  unfolding reserve_and_run_def
  by (rule hframe_others_call hframe_others_cases hframe_others_event hframe_replay hframe_wait
      hframe_others_weaken hframe_run_and_finalize assms frame_store keeps_others)+

lemma hframe_lookup_or_run:
  assumes "hframe R (nxt r)" shows "hframe_others R (lookup_or_run s nxt r key h)"
proof -
  have "hframe_others R (\<lambda>h'. reserve_and_run s nxt r key h (if b then idem_event e h' else h'))" for b e
    using hframe_others_event [OF hframe_reserve_and_run [of nxt r s key h, OF assms]] hframe_reserve_and_run [of nxt r s key h, OF assms]
    by (cases b) simp_all
  note * = this
  show ?thesis
    unfolding lookup_or_run_def
    by (rule hframe_others_call hframe_others_cases hframe_others_event hframe_replay hframe_wait * frame_store keeps_others)+
qed

lemma hframe_IdempotencyMiddleware:
  assumes "hframe R (nxt r)" shows "hframe_others R (IdempotencyMiddleware store nxt r)"
  using hframe_lookup_or_run [of nxt r, OF assms] assms
  by (auto simp: hframe_others_def hframe_def IdempotencyMiddleware_def idem_event_eq R_refl Let_def
      split: option.splits sum.splits)

end

subsection \<open>Owners\<close>

lemma GetAccount_read:
  assumes "Repository_GetAccount i w = (res, w')"
  obtains "wdb w' = wdb w" and "\<And>a. res = Inr a \<Longrightarrow> \<exists>row. acct (wdb w) i = Some row \<and> ma_UserID a = a_user_id row"
proof -
  have "wdb w' = wdb w \<and> (\<forall>a. res = Inr a \<longrightarrow> (\<exists>row. acct (wdb w) i = Some row \<and> ma_UserID a = a_user_id row))"
    using assms
    by (auto simp: Repository_GetAccount_def control_defs auto_exec_def GetAccount_def Let_def
        split: fault.splits option.splits)
  then show thesis using that by blast
qed

text \<open>A customer who does not own the account, or names none.\<close>

definition not_owner :: "db \<Rightarrow> uuid \<Rightarrow> uuid \<Rightarrow> bool" where
  "not_owner d actor i \<longleftrightarrow> (\<forall>row. acct d i = Some row \<longrightarrow> a_user_id row \<noteq> actor)"

lemma status_RespondError: "sent_status (fst (RespondError r st ty me (no_response, w))) = st"
  by (simp add: RespondError_def problem_Write_def set_header_def WriteHeader_def Write_def sent_status_def no_response_def Let_def)

lemma authorized_refused:
  assumes "requestActor L r = Inr (actor, False)" and "uuid_Parse L (tq_FromAccountID req) = Inr i" and "not_owner (wdb w) actor i"
  shows "sent_status (fst (authorized_transfer L r req k (no_response, w))) \<in> {400, 403} \<and>
    wdb (snd (authorized_transfer L r req k (no_response, w))) = wdb w"
proof -
  obtain res w1 where run: "Repository_GetAccount i w = (res, w1)" by fastforce
  then have "wdb w1 = wdb w" "\<And>a. res = Inr a \<Longrightarrow> ma_UserID a \<noteq> actor"
    using assms(3) by (auto simp: not_owner_def elim!: GetAccount_read)
  then show ?thesis
    using assms(1,2) run
    by (auto simp: authorized_transfer_def call_def forbidden_def status_RespondError split: sum.splits)
qed

text \<open>
  C7. Only the owner of an account, or an administrator, moves money out of it: a request of anyone
  else for an internal transfer or an exchange is refused with 400 or 403 and changes nothing.
\<close>

theorem transfer_owner_only:
  assumes "requestActor L r = Inr (actor, False)" and "uuid_Parse L (tq_FromAccountID req) = Inr i"
    and "not_owner (wdb w) actor i"
    and "H = MakeInternalTransfer L \<and> decode_transfer r = Some req \<or> H = MakeExchangeTransfer L fx \<and> decode_exchange r = Some req"
  shows "sent_status (fst (H r (no_response, w))) \<in> {400, 403} \<and> wdb (snd (H r (no_response, w))) = wdb w"
proof -
  note refused = authorized_refused [OF assms(1) _ assms(3)]
  from assms(4) show ?thesis
  proof (elim disjE conjE)
    assume "H = MakeInternalTransfer L" "decode_transfer r = Some req"
    with refused [OF assms(2)] show ?thesis by (auto simp: MakeInternalTransfer_def status_RespondError Let_def)
  next
    assume "H = MakeExchangeTransfer L fx" "decode_exchange r = Some req"
    with refused [of "req\<lparr>tq_FromCurrency := TrimSpace (tq_FromCurrency req), tq_ToCurrency := TrimSpace (tq_ToCurrency req)\<rparr>"] assms(2)
    show ?thesis by (auto simp: MakeExchangeTransfer_def status_RespondError Let_def)
  qed
qed

text \<open>
  C22. Balance and statement of an account are shown to its owner and to administrators only: anyone
  else gets one of three fixed answers, which do not depend on what is stored about the account.
\<close>

theorem accounts_hidden:
  assumes "requestActor L r = Inr (actor, False)" and "uuid_Parse L (URLParam r ''id'') = Inr i"
    and "not_owner (wdb w) actor i" and "H \<in> {Handler_GetBalance L, Handler_GetStatement L}"
  shows "fst (H r (rs, w)) \<in> (\<lambda>(status, slug, detail). fst (RespondError r status slug detail (rs, w))) `
    {(403, ''auth/insufficient-permissions'', ''insufficient permissions''),
     (500, ''account/balance-read-failed'', ''Failed to get balance''),
     (500, ''account/authorization-failed'', ''Failed to authorize account access'')}"
proof -
  have fst_RespondError: "fst (RespondError r st ty me (rs, w1)) = fst (RespondError r st ty me (rs, w))" for st ty me w1
    by (simp add: RespondError_def problem_Write_def set_header_def WriteHeader_def Write_def Let_def)
  obtain res w1 where run: "Repository_GetAccount i w = (res, w1)" by fastforce
  then have "wdb w1 = wdb w" "\<And>a. res = Inr a \<Longrightarrow> ma_UserID a \<noteq> actor"
    using assms(3) by (auto simp: not_owner_def elim!: GetAccount_read)
  then show ?thesis
    using assms(1,2,4) run
    by (auto simp: Handler_GetBalance_def Handler_GetStatement_def GetBalance_def call_def forbidden_def
        fst_RespondError [of _ _ _ w1] split: sum.splits)
qed

subsection \<open>Login\<close>

lemma AuthMiddleware_accepts:
  assumes "get ''Authorization'' (r_header r) = ''Bearer '' @ token" and "jwtSecret g \<noteq> []"
    and "jwt_ParseWithClaims J token (jwtSecret g) (if jwtIssuer g \<noteq> [] then Some (jwtIssuer g) else None)
      (if jwtAudience g \<noteq> [] then Some (jwtAudience g) else None) (Unix (wclock w 0)) = Some c"
    and "c_user_id c \<noteq> []" and "c_sub c = c_user_id c"
  shows "AuthMiddleware J g nxt r (rs, w) =
    nxt (r\<lparr>r_user := Some (c_user_id c), r_role := Some (c_role c)\<rparr>) (rs, w\<lparr>wclock := pop (wclock w)\<rparr>)"
proof -
  have "HasPrefix (''Bearer '' @ token) ''Bearer ''" "drop 7 (''Bearer '' @ token) = token"
    by (simp_all add: HasPrefix_def)
  then show ?thesis
    using assms by (simp add: AuthMiddleware_def call_def time_Now_def Let_def)
qed

text \<open>
  C23. A login is good for a day: for a user of the table the login is answered with a token, and any
  request carrying that token from the second of the login until a day later passes the
  authentication with the user's identifier and role.
\<close>

theorem login_token_accepted:
  assumes "jwt_contract J" and "\<And>c. jwt_SignedString J c (jwtSecret g) \<noteq> None" and "jwtSecret g \<noteq> []"
    and "decode_login r = Some text" and "uuid_Parse L text = Inr uid" and "String uid \<noteq> []"
    and "sel_one u_id uid (users (wdb w)) = Some user" and "wfaults w 0 = NoFault"
    and "valid_utf8 (String uid)" and "valid_utf8 (String (wuuids w 0))" and "valid_utf8 (u_role user)"
    and "valid_utf8 (jwtIssuer g)" and "valid_utf8 (jwtAudience g)"
  shows "\<exists>token. sent_status (fst (Handler_Login L J g r (no_response, w))) = 200 \<and>
    sent_body (fst (Handler_Login L J g r (no_response, w))) = Encode (Some (JObject [(''token'', JString token)])) \<and>
    (\<forall>nxt r2 rs w2. get ''Authorization'' (r_header r2) = ''Bearer '' @ token \<and>
       Unix (wclock w 1) \<le> Unix (wclock w2 0) \<and> Unix (wclock w 2 - 30 * 1000000) \<le> Unix (wclock w2 0) \<and>
       Unix (wclock w2 0) < Unix (wclock w 3 + 24 * 3600 * 1000000) \<longrightarrow>
       AuthMiddleware J g nxt r2 (rs, w2) =
         nxt (r2\<lparr>r_user := Some (String uid), r_role := Some (u_role user)\<rparr>) (rs, w2\<lparr>wclock := pop (wclock w2)\<rparr>))"
proof -
  define c where "c = \<lparr>c_user_id = String uid, c_role = u_role user, c_iss = jwtIssuer g, c_aud = jwtAudience g, c_sub = String uid,
       c_iat = Unix (wclock w 1), c_nbf = Unix (wclock w 2 - 30 * 1000000), c_exp = Unix (wclock w 3 + 24 * 3600 * 1000000),
       c_jti = String (wuuids w 0)\<rparr>"
  obtain token where token: "jwt_SignedString J c (jwtSecret g) = Some token" using assms(2) [of c] by blast
  obtain w1 where "Handler_Login L J g r (no_response, w) = plain_json (Some (JObject [(''token'', JString token)])) (no_response, w1)"
    using assms(4,5,7,8) token
    by (simp add: Handler_Login_def call_def Repository_GetUser_def login_claims_def control_defs auto_exec_def GetUser_def
        time_Now_def uuid_New_def c_def pop_def eval_nat_numeral Let_def)
  then have "sent_status (fst (Handler_Login L J g r (no_response, w))) = 200"
    "sent_body (fst (Handler_Login L J g r (no_response, w))) = Encode (Some (JObject [(''token'', JString token)]))"
    by (simp_all add: plain_json_def encode_to_def set_header_def Write_def sent_status_def sent_body_def no_response_def)
  moreover have "AuthMiddleware J g nxt r2 (rs, w2) =
         nxt (r2\<lparr>r_user := Some (String uid), r_role := Some (u_role user)\<rparr>) (rs, w2\<lparr>wclock := pop (wclock w2)\<rparr>)"
    if "get ''Authorization'' (r_header r2) = ''Bearer '' @ token" "c_iat c \<le> Unix (wclock w2 0)" "c_nbf c \<le> Unix (wclock w2 0)"
      "Unix (wclock w2 0) < c_exp c" for nxt r2 rs w2
  proof -
    have "jwt_ParseWithClaims J token (jwtSecret g) (if jwtIssuer g \<noteq> [] then Some (jwtIssuer g) else None)
      (if jwtAudience g \<noteq> [] then Some (jwtAudience g) else None) (Unix (wclock w2 0)) = Some c"
      using assms(1,9-13) token that(2-) by (simp add: jwt_contract_def claims_utf8_def c_def)
    from AuthMiddleware_accepts [OF that(1) assms(3) this] assms(6) show ?thesis by (simp add: c_def)
  qed
  ultimately show ?thesis by (intro exI [of _ token]) (simp add: c_def)
qed

end
