(* ===== verification/Router.thy ===== *)
theory Router
  imports Api
begin

text \<open>
  \<open>internal/api/router.go\<close> with the middleware around every request (\<open>recover.go\<close>, \<open>logging.go\<close>,
  \<open>metrics.go\<close>): the table of routes, the middleware of each, and what the whole stack guarantees for
  a request. The matching of \<open>go-chi/chi\<close>, the limiter of \<open>go-chi/httprate\<close> and the third-party handlers
  for metrics and Swagger are parameters.
\<close>

subsection \<open>Recording and recovering\<close>

fun statusRecorder :: "int \<Rightarrow> wop list \<Rightarrow> int" where
  "statusRecorder status [] = status"
| "statusRecorder status (WriteHeaderOp code # ops) = statusRecorder code ops"
| "statusRecorder status (WriteOp b # ops) = statusRecorder (if status = 0 then 200 else status) ops"

text \<open>The clock is read before and after; \<open>entry\<close> gets the recorded status and the duration.\<close>

definition around :: "(int \<Rightarrow> int \<Rightarrow> unit m) \<Rightarrow> handler \<Rightarrow> handler" where
  "around entry next r =
     call time_Now (\<lambda>start h.
       let (rs', w') = next r h;
           status = statusRecorder 200 (drop (length (rs_ops (fst h))) (rs_ops rs'))
       in call time_Now (\<lambda>stop. call (entry status (case (start, stop) of (Inr a, Inr b) \<Rightarrow> b - a | _ \<Rightarrow> 0))
            (\<lambda>_ h. h)) (rs', w'))"

definition LoggingMiddleware :: "handler \<Rightarrow> handler" where
  "LoggingMiddleware next r =
     around (\<lambda>status duration. emit (LogEntry ''http_request''
       [r_method r, r_path r, show_int status, TraceIDFromContext r, show_int duration])) next r"

definition routePattern :: "(request \<Rightarrow> string) \<Rightarrow> request \<Rightarrow> string" where
  "routePattern RoutePattern r = (if RoutePattern r \<noteq> '''' then RoutePattern r else r_path r)"

definition MetricsMiddleware :: "(request \<Rightarrow> string) \<Rightarrow> handler \<Rightarrow> handler" where
  "MetricsMiddleware RoutePattern next r =
     around (\<lambda>status duration. ObserveHTTP (r_method r) (routePattern RoutePattern r) status duration) next r"

text \<open>A handler that may panic: what it has done so far, and whether it panicked.\<close>

definition RecoverMiddleware :: "(request \<Rightarrow> http \<Rightarrow> http \<times> bool) \<Rightarrow> handler" where
  "RecoverMiddleware next r h =
     (let (h', panicked) = next r h in
      if panicked then
        call (emit (LogEntry ''panic recovered'' [r_path r, r_method r, TraceIDFromContext r])) (\<lambda>_.
          problem_Write r 500 (problem_Type ''internal-server-error'') (StatusText 500) ''unexpected server error'') h'
      else h')"

definition OpenAPIHandler :: "string option \<Rightarrow> handler" where
  "OpenAPIHandler content r h =
     (case content of
        None \<Rightarrow>
          Write (''openapi spec not available'' @ [CHR 0x0A]) (WriteHeader 500 (set_header ''X-Content-Type-Options'' ''nosniff''
            (set_header ''Content-Type'' ''text/plain; charset=utf-8'' h)))
      | Some yaml \<Rightarrow> Write yaml (WriteHeader 200 (set_header ''Content-Type'' ''application/yaml'' h)))"

subsection \<open>Routes\<close>

record chi_lib =
  chi_Find :: "(string \<times> string) list \<Rightarrow> string \<Rightarrow> string \<Rightarrow> ((string \<times> string) \<times> (string \<times> string) list) option"
  chi_RoutePattern :: "request \<Rightarrow> string"
  chi_Unmatched :: "request \<Rightarrow> response \<Rightarrow> response" \<comment> \<open>the answer without a route: 404 or 405\<close>
  rate_Public :: "request \<Rightarrow> bool" \<comment> \<open>whether a request is over the limit\<close>
  rate_Auth :: "string \<Rightarrow> request \<Rightarrow> bool" \<comment> \<open>by the key it is counted under\<close>
  rate_KeyByIP :: "request \<Rightarrow> string"
  foreign_Handler :: "string \<Rightarrow> request \<Rightarrow> response \<Rightarrow> response" \<comment> \<open>promhttp, httpSwagger\<close>
  openapi_File :: "string option" \<comment> \<open>the embedded openapi.yaml\<close>

record Router =
  rt_PublicRateLimitRPS :: int
  rt_AuthRateLimitRPS :: int
  rt_idemStore :: "IdempotencyStore option"
  rt_redis :: bool
  rt_jwt :: jwt_config
  rt_fxRates :: "string \<Rightarrow> string \<Rightarrow> err + rat"
  rt_accountSvc :: bool \<comment> \<open>whether the service is given; it holds only the store\<close>
  rt_transferSvc :: bool
  rt_payoutSvc :: bool
  rt_webhookSvc :: "WebhookService option"

definition foreign :: "chi_lib \<Rightarrow> string \<Rightarrow> handler" where
  "foreign C name r h = (foreign_Handler C name r (fst h), snd h)"

definition public_routes :: "lib \<Rightarrow> jwt_lib \<Rightarrow> chi_lib \<Rightarrow> Router \<Rightarrow> WebhookService \<Rightarrow> (string \<times> string \<times> handler) list" where
  "public_routes L J C api webhookSvc =
     [(''POST'', ''/v1/auth/login'', Handler_Login L J (rt_jwt api)),
      (''POST'', ''/v1/users'', Handler_CreateUser),
      (''POST'', ''/v1/webhooks/deposit'', Handler_HandleDepositWebhook L webhookSvc),
      (''GET'', ''/health/live'', Handler_Live),
      (''GET'', ''/health/ready'', Handler_Ready (rt_redis api)),
      (''*'', ''/metrics'', foreign C ''metrics''),
      (''GET'', ''/openapi.yaml'', OpenAPIHandler (openapi_File C)),
      (''GET'', ''/swagger/*'', foreign C ''swagger'')]"

definition auth_routes :: "lib \<Rightarrow> Router \<Rightarrow> (string \<times> string \<times> handler) list" where
  "auth_routes L api =
     [(''POST'', ''/v1/accounts'', Handler_CreateAccount L),
      (''GET'', ''/v1/accounts/{id}/balance'', Handler_GetBalance L),
      (''GET'', ''/v1/accounts/{id}/statement'', Handler_GetStatement L),
      (''POST'', ''/v1/transfers/internal'', IdempotencyMiddleware (rt_idemStore api) (MakeInternalTransfer L)),
      (''POST'', ''/v1/transfers/exchange'', IdempotencyMiddleware (rt_idemStore api) (MakeExchangeTransfer L (rt_fxRates api))),
      (''POST'', ''/v1/payouts'', IdempotencyMiddleware (rt_idemStore api) (RequireRole ''admin'' (Handler_CreatePayout L))),
      (''GET'', ''/v1/payouts/manual-review'', RequireRole ''admin'' Handler_ListManualReviewPayouts),
      (''POST'', ''/v1/payouts/{id}/resolve'', RequireRole ''admin'' (Handler_ResolveManualReviewPayout L)),
      (''GET'', ''/v1/payouts/{id}'', Handler_GetPayout L)]"

text \<open>The middleware of the two groups.\<close>

definition public_group :: "chi_lib \<Rightarrow> Router \<Rightarrow> handler \<Rightarrow> handler" where
  "public_group C api hnd r = PublicRateLimiter (rate_Public C r) (rt_PublicRateLimitRPS api) hnd r"

definition auth_group :: "jwt_lib \<Rightarrow> chi_lib \<Rightarrow> Router \<Rightarrow> handler \<Rightarrow> handler" where
  "auth_group J C api hnd =
     AuthMiddleware J (rt_jwt api) (\<lambda>r.
       AuthRateLimiter (rate_Auth C (rate_key (rate_KeyByIP C) r) r) (rt_AuthRateLimitRPS api) hnd r)"

definition route_table :: "lib \<Rightarrow> jwt_lib \<Rightarrow> chi_lib \<Rightarrow> Router \<Rightarrow> WebhookService \<Rightarrow> ((string \<times> string) \<times> handler) list" where
  "route_table L J C api webhookSvc =
     map (\<lambda>(m, p, hnd). ((m, p), public_group C api hnd)) (public_routes L J C api webhookSvc) @
     map (\<lambda>(m, p, hnd). ((m, p), auth_group J C api hnd)) (auth_routes L api)"

definition dispatch :: "chi_lib \<Rightarrow> ((string \<times> string) \<times> handler) list \<Rightarrow> handler" where
  "dispatch C table r h =
     (case chi_Find C (map fst table) (r_method r) (r_path r) of
        Some (route, params) \<Rightarrow>
          (case map_of table route of
             Some hnd \<Rightarrow> hnd (r\<lparr>r_params := params\<rparr>) h
           | None \<Rightarrow> (chi_Unmatched C r (fst h), snd h))
      | None \<Rightarrow> (chi_Unmatched C r (fst h), snd h))"

text \<open>The stack; without a service \<open>Routes\<close> panics.\<close>

definition Routes :: "lib \<Rightarrow> jwt_lib \<Rightarrow> chi_lib \<Rightarrow> Router \<Rightarrow> handler option" where
  "Routes L J C api =
     (case rt_webhookSvc api of
        Some webhookSvc \<Rightarrow>
          if \<not> rt_accountSvc api \<or> \<not> rt_transferSvc api \<or> \<not> rt_payoutSvc api then None
          else Some (RecoverMiddleware (\<lambda>r h.
            (TraceMiddleware (LoggingMiddleware (MetricsMiddleware (chi_RoutePattern C)
               (dispatch C (route_table L J C api webhookSvc)))) r h, False)))
      | None \<Rightarrow> None)"

text \<open>The claims a request carries in a token that verifies at a time.\<close>

definition token_claims :: "jwt_lib \<Rightarrow> jwt_config \<Rightarrow> request \<Rightarrow> int \<Rightarrow> claims option" where
  "token_claims J g r now =
     (let authHeader = get ''Authorization'' (r_header r) in
      if HasPrefix authHeader ''Bearer '' then
        jwt_ParseWithClaims J (drop 7 authHeader) (jwtSecret g)
          (if jwtIssuer g \<noteq> [] then Some (jwtIssuer g) else None) (if jwtAudience g \<noteq> [] then Some (jwtAudience g) else None) now
      else None)"

subsection \<open>Frames of the stack\<close>

lemma around_runs:
  "around entry nxt r (rs, w) =
     (let (rs', w') = nxt r (rs, w\<lparr>wclock := pop (wclock w)\<rparr>) in
      (rs', snd (entry (statusRecorder 200 (drop (length (rs_ops rs)) (rs_ops rs'))) (wclock w' 0 - wclock w 0)
         (w'\<lparr>wclock := pop (wclock w')\<rparr>))))"
  by (auto simp: around_def call_def time_Now_def emit_def Let_def split: prod.splits)

context key_frame
begin

lemma hframe_others_shift:
  assumes "hframe_others R f" and "\<And>n d. R d (wothers w n d)" and "wdb w1 = wdb w" and "wothers w1 = wothers w"
  shows "R (wdb w) (wdb (snd (f (rs, w1))))"
  using assms by (metis hframe_others_def)

lemma hframe_around:
  assumes "hframe_others R (nxt r)" and "\<And>status duration w. wdb (snd (entry status duration w)) = wdb w"
  shows "hframe_others R (around entry nxt r)"
  unfolding hframe_others_def
proof (intro allI impI)
  fix rs and w :: world assume "\<forall>n d. R d (wothers w n d)"
  then have "R (wdb w) (wdb (snd (nxt r (rs, w\<lparr>wclock := pop (wclock w)\<rparr>))))"
    by (intro hframe_others_shift [OF assms(1)]) simp_all
  then show "R (wdb w) (wdb (snd (around entry nxt r (rs, w))))"
    by (auto simp: around_runs assms(2) Let_def split: prod.splits)
qed

lemma hframe_TraceMiddleware:
  assumes "\<And>r. hframe_others R (nxt r)" shows "hframe_others R (TraceMiddleware nxt r)"
  unfolding hframe_others_def
proof (intro allI impI)
  fix rs and w :: world assume others: "\<forall>n d. R d (wothers w n d)"
  have "R (wdb w) (wdb (snd (nxt r' (rs', w1))))" if "wdb w1 = wdb w" "wothers w1 = wothers w" for r' rs' w1
    using others that by (intro hframe_others_shift [OF assms]) simp_all
  then show "R (wdb w) (wdb (snd (TraceMiddleware nxt r (rs, w))))"
    by (simp add: TraceMiddleware_def call_def uuid_New_def set_header_def Let_def)
qed

lemma hframe_AuthMiddleware_claims:
  assumes "\<And>c now. token_claims J g r now = Some c \<Longrightarrow> hframe_others R (nxt (r\<lparr>r_user := Some (c_user_id c), r_role := Some (c_role c)\<rparr>))"
  shows "hframe_others R (AuthMiddleware J g nxt r)"
  unfolding hframe_others_def
proof (intro allI impI)
  fix rs and w :: world assume others: "\<forall>n d. R d (wothers w n d)"
  have "R (wdb w) (wdb (snd (nxt (r\<lparr>r_user := Some (c_user_id c), r_role := Some (c_role c)\<rparr>) (rs', w1))))"
    if "wdb w1 = wdb w" "wothers w1 = wothers w" "token_claims J g r now = Some c" for c now rs' w1
    using others that by (intro hframe_others_shift [OF assms]) simp_all
  then show "R (wdb w) (wdb (snd (AuthMiddleware J g nxt r (rs, w))))"
    by (auto simp: AuthMiddleware_def token_claims_def call_def time_Now_def R_refl Let_def split: option.splits)
qed

lemma hframe_rate_limited: "hframe_others R (nxt r) \<Longrightarrow> hframe_others R (rate_limited over rps whom nxt r)"
  by (simp add: rate_limited_def hframe_replay)

lemma hframe_RequireRole: "hframe_others R (nxt r) \<Longrightarrow> hframe_others R (RequireRole role nxt r)"
  by (simp add: RequireRole_def hframe_replay)

lemma hframe_dispatch:
  assumes "\<And>r route hnd. map_of table route = Some hnd \<Longrightarrow> hframe_others R (hnd r)"
  shows "hframe_others R (dispatch C table r)"
proof -
  have "hframe_others R (\<lambda>h. (chi_Unmatched C r (fst h), snd h))" by (simp add: hframe_others_def R_refl)
  moreover have "hframe_others R (\<lambda>h. case map_of table route of Some hnd \<Rightarrow> hnd (r\<lparr>r_params := params\<rparr>) h
      | None \<Rightarrow> (chi_Unmatched C r (fst h), snd h))" for route params
    using assms calculation by (cases "map_of table route") simp_all
  ultimately show ?thesis
    unfolding dispatch_def by (cases "chi_Find C (map fst table) (r_method r) (r_path r)") auto
qed

lemma hframe_groups:
  "hframe_others R (hnd r) \<Longrightarrow> hframe_others R (public_group C api hnd r)"
  "(\<And>r. hframe_others R (hnd r)) \<Longrightarrow> hframe_others R (auth_group J C api hnd r)"
  unfolding public_group_def auth_group_def PublicRateLimiter_def AuthRateLimiter_def
  by (blast intro: hframe_rate_limited hframe_AuthMiddleware_claims)+

lemma hframe_Routes:
  assumes "Routes L J C api = Some serve"
    and "\<And>s r m p hnd. (m, p, hnd) \<in> set (public_routes L J C api s) \<union> set (auth_routes L api) \<Longrightarrow> hframe_others R (hnd r)"
  shows "hframe_others R (serve r)"
proof -
  obtain s where serve: "serve = RecoverMiddleware (\<lambda>r h. (TraceMiddleware (LoggingMiddleware (MetricsMiddleware (chi_RoutePattern C)
      (dispatch C (route_table L J C api s)))) r h, False))"
    using assms(1) by (auto simp: Routes_def split: option.splits if_splits)
  have "hframe_others R (dispatch C (route_table L J C api s) r)" for r
    by (rule hframe_dispatch)
      (use assms(2) [of _ _ _ s] hframe_groups in \<open>fastforce simp: route_table_def dest!: map_of_SomeD\<close>)
  then have "hframe_others R (TraceMiddleware (LoggingMiddleware (MetricsMiddleware (chi_RoutePattern C)
      (dispatch C (route_table L J C api s)))) r)"
    unfolding LoggingMiddleware_def MetricsMiddleware_def by (intro hframe_TraceMiddleware hframe_around) (simp_all add: emit_def metric_eqs)
  then show ?thesis by (simp add: serve RecoverMiddleware_def hframe_others_def)
qed

end

subsection \<open>Every request is a chain of commits\<close>

lemma chain_routes:
  assumes "(m, p, hnd) \<in> set (public_routes L J C api s) \<union> set (auth_routes L api)"
  shows "hframe_others (chained L ps) (hnd r)"
proof -
  have foreign: "hframe (chained L ps) (foreign C name r)" for name
    by (rule run.hframe_response) (simp add: foreign_def response_only_def)
  have spec: "hframe (chained L ps) (OpenAPIHandler content r)" for content
    by (rule run.hframe_response) (simp add: OpenAPIHandler_def response_only_def split: option.split)
  have role: "hframe (chained L ps) (f r) \<Longrightarrow> hframe (chained L ps) (RequireRole q f r)" for f q
    unfolding RequireRole_def by (simp add: run.hframe_writer)
  note rules = foreign spec role chain_handlers chain_MakeInternalTransfer chain_MakeExchangeTransfer
    run.hframe_read_handlers run.hframe_Ready run.hframe_answers
  show ?thesis
    using assms unfolding public_routes_def auth_routes_def
    by (auto intro!: runkeys.hframe_IdempotencyMiddleware rules rules [THEN hframe_others_weaken])
qed

text \<open>
  C3. Whatever request arrives, with whatever answers of the outside, the whole stack of middleware,
  handler and service changes the database by a sequence of commits of the program, as long as the
  sessions it waits for do.
\<close>

theorem requests_are_commit_chains:
  assumes "Routes L J C api = Some serve" and "\<And>n d. (commit L)\<^sup>*\<^sup>* d (wothers w n d)"
  shows "(commit L)\<^sup>*\<^sup>* (wdb w) (wdb (snd (serve r (rs, w))))"
proof -
  have "hframe_others (chained L []) (serve r)"
    by (rule runkeys.hframe_Routes [OF assms(1)]) (rule chain_routes)
  then show ?thesis using assms(2) by (simp add: hframe_others_def chained_def)
qed

subsection \<open>The route of a request\<close>

lemma serve_route:
  assumes "Routes L J C api = Some serve" and "rt_webhookSvc api = Some s"
    and "chi_Find C (map fst (route_table L J C api s)) (r_method r) (r_path r) = Some (route, params)"
    and "map_of (route_table L J C api s) route = Some hnd"
  obtains rs1 tr w1 w2 where "serve r (rs, w) = (fst (hnd (r\<lparr>r_trace := Some tr, r_params := params\<rparr>) (rs1, w1)), w2)"
    and "wdb w2 = wdb (snd (hnd (r\<lparr>r_trace := Some tr, r_params := params\<rparr>) (rs1, w1)))"
    and "rs_ops rs1 = rs_ops rs" and "wdb w1 = wdb w" and "wothers w1 = wothers w"
proof -
  let ?d = "dispatch C (route_table L J C api s)"
  have serve: "serve r (rs, w) = TraceMiddleware (LoggingMiddleware (MetricsMiddleware (chi_RoutePattern C) ?d)) r (rs, w)"
    using assms(1,2) by (auto simp: Routes_def RecoverMiddleware_def split: if_splits)
  define tr where "tr = (if get ''X-Trace-Id'' (r_header r) = [] then String (wuuids w 0) else get ''X-Trace-Id'' (r_header r))"
  define w0 where "w0 = (if get ''X-Trace-Id'' (r_header r) = [] then w\<lparr>wuuids := pop (wuuids w)\<rparr> else w)"
  define rs1 where "rs1 = fst (set_header ''X-Trace-Id'' tr (rs, w))"
  define w1 where "w1 = w0\<lparr>wclock := pop (pop (wclock w0))\<rparr>"
  let ?r = "r\<lparr>r_trace := Some tr\<rparr>"
  have "serve r (rs, w) = LoggingMiddleware (MetricsMiddleware (chi_RoutePattern C) ?d) ?r (rs1, w0)"
    by (simp add: serve TraceMiddleware_def tr_def w0_def rs1_def call_def uuid_New_def set_header_def Let_def)
  then obtain w2 where "serve r (rs, w) = (fst (?d ?r (rs1, w1)), w2)" "wdb w2 = wdb (snd (?d ?r (rs1, w1)))"
    by (auto simp: LoggingMiddleware_def MetricsMiddleware_def around_runs emit_def metric_eqs w1_def Let_def split: prod.splits)
  moreover have "?d ?r (rs1, w1) = hnd (r\<lparr>r_trace := Some tr, r_params := params\<rparr>) (rs1, w1)"
    using assms(3,4) by (simp add: dispatch_def)
  ultimately show thesis
    by (intro that [of tr rs1 w1 w2]) (simp_all add: rs1_def w1_def w0_def set_header_def)
qed

text \<open>The protected routes.\<close>

definition protected :: "lib \<Rightarrow> Router \<Rightarrow> (string \<times> string) set" where
  "protected L api = (\<lambda>(m, p, hnd). (m, p)) ` set (auth_routes L api)"

lemma protected_route:
  assumes "route \<in> protected L api"
  obtains hnd where "(fst route, snd route, hnd) \<in> set (auth_routes L api)"
    and "map_of (route_table L J C api s) route = Some (auth_group J C api hnd)"
proof -
  let ?pub = "map (\<lambda>(m, p, hnd). ((m, p), public_group C api hnd)) (public_routes L J C api s)"
  let ?auth = "map (\<lambda>(m, p, hnd). ((m, p), auth_group J C api hnd)) (auth_routes L api)"
  from assms have route: "route \<in> fst ` set ?auth" by (force simp: protected_def image_image)
  moreover have "fst ` set ?pub \<inter> fst ` set ?auth = {}"
    unfolding public_routes_def auth_routes_def by simp
  ultimately have "route \<notin> fst ` set ?pub" by blast
  then have "map_of ?pub route = None" by (simp only: map_of_eq_None_iff not_False_eq_True)
  moreover obtain x where x: "map_of ?auth route = Some x" using route by (metis map_of_eq_None_iff not_None_eq)
  moreover from map_of_SomeD [OF x] obtain hnd where "(fst route, snd route, hnd) \<in> set (auth_routes L api)" "x = auth_group J C api hnd"
    by auto
  ultimately show thesis by (intro that) (auto simp: route_table_def map_add_def)
qed

lemma unauthenticated_refused:
  assumes "\<And>now. token_claims J g r now = None" and "jwtSecret g \<noteq> []" and "rs_ops rs = []"
  shows "sent_status (fst (AuthMiddleware J g nxt r (rs, w))) = 401 \<and> wdb (snd (AuthMiddleware J g nxt r (rs, w))) = wdb w"
proof -
  have "sent_status (fst (unauthorized r slug de (rs, w1))) = 401" for slug de w1
    using assms(3) by (simp add: unauthorized_def problem_Write_def set_header_def WriteHeader_def Write_def sent_status_def Let_def)
  then show ?thesis
    using assms(1,2) by (auto simp: AuthMiddleware_def token_claims_def call_def time_Now_def Let_def split: if_splits)
qed

text \<open>
  C6. No protected route without a valid token: a request for one of the nine routes of the
  authenticated group whose Authorization header has no token that verifies is answered with 401
  and changes nothing.
\<close>

theorem token_required:
  assumes "Routes L J C api = Some serve" and "rt_webhookSvc api = Some s"
    and "chi_Find C (map fst (route_table L J C api s)) (r_method r) (r_path r) = Some (route, params)"
    and "route \<in> protected L api" and "jwtSecret (rt_jwt api) \<noteq> []" and "\<And>now. token_claims J (rt_jwt api) r now = None"
  shows "sent_status (fst (serve r (no_response, w))) = 401 \<and> wdb (snd (serve r (no_response, w))) = wdb w"
proof -
  obtain hnd where "map_of (route_table L J C api s) route = Some (auth_group J C api hnd)"
    using protected_route [OF assms(4)] by blast
  from serve_route [OF assms(1-3) this] obtain rs1 tr w1 w2 where run: "serve r (no_response, w) =
      (fst (auth_group J C api hnd (r\<lparr>r_trace := Some tr, r_params := params\<rparr>) (rs1, w1)), w2)"
    and db: "wdb w2 = wdb (snd (auth_group J C api hnd (r\<lparr>r_trace := Some tr, r_params := params\<rparr>) (rs1, w1)))"
    and start: "rs_ops rs1 = rs_ops no_response" "wdb w1 = wdb w" by metis
  have "token_claims J (rt_jwt api) (r\<lparr>r_trace := Some tr, r_params := params\<rparr>) now = None" for now
    using assms(6) [of now] by (simp add: token_claims_def)
  from unauthenticated_refused [OF this assms(5), of rs1] start db run show ?thesis
    by (simp add: auth_group_def no_response_def)
qed

text \<open>
  C8. Payouts are for administrators: a request for creating, listing or resolving payouts whose
  token, if any, has another role leaves every table but that of the idempotency keys as it is, as
  long as the sessions it waits for do.
\<close>

theorem payouts_for_admins:
  assumes "Routes L J C api = Some serve" and "rt_webhookSvc api = Some s"
    and "chi_Find C (map fst (route_table L J C api s)) (r_method r) (r_path r) = Some (route, params)"
    and "route \<in> {(''POST'', ''/v1/payouts''), (''GET'', ''/v1/payouts/manual-review''), (''POST'', ''/v1/payouts/{id}/resolve'')}"
    and "\<And>now c. token_claims J (rt_jwt api) r now = Some c \<Longrightarrow> c_role c \<noteq> ''admin''"
    and "\<And>n d. keys_only d (wothers w n d)"
  shows "keys_only (wdb w) (wdb (snd (serve r (rs, w))))"
proof -
  have "route \<in> protected L api" using assms(4) by (auto simp: protected_def auth_routes_def)
  then obtain hnd where hnd: "(fst route, snd route, hnd) \<in> set (auth_routes L api)"
    and found: "map_of (route_table L J C api s) route = Some (auth_group J C api hnd)"
    by (rule protected_route)
  have customer: "hframe_others keys_only (hnd r')" if "UserRoleFromContext r' \<noteq> ''admin''" for r'
  proof -
    have "hframe keys_only (RequireRole ''admin'' f r')" for f
      using that by (simp add: RequireRole_def onlykeys.hframe_writer)
    then show ?thesis
      using hnd assms(4) unfolding auth_routes_def
      by (auto intro!: onlykeys.hframe_IdempotencyMiddleware intro: hframe_others_weaken)
  qed
  from serve_route [OF assms(1-3) found] obtain rs1 tr w1 w2 where run: "serve r (rs, w) =
      (fst (auth_group J C api hnd (r\<lparr>r_trace := Some tr, r_params := params\<rparr>) (rs1, w1)), w2)"
    and db: "wdb w2 = wdb (snd (auth_group J C api hnd (r\<lparr>r_trace := Some tr, r_params := params\<rparr>) (rs1, w1)))"
    and start: "wdb w1 = wdb w" "wothers w1 = wothers w" by metis
  have "hframe_others keys_only (auth_group J C api hnd (r\<lparr>r_trace := Some tr, r_params := params\<rparr>))"
    unfolding auth_group_def AuthRateLimiter_def
    by (rule onlykeys.hframe_AuthMiddleware_claims) (use assms(5) in \<open>auto simp: token_claims_def UserRoleFromContext_def
      intro!: onlykeys.hframe_rate_limited customer\<close>)
  from onlykeys.hframe_others_shift [OF this assms(6) start] run db show ?thesis by simp
qed

end
