(* ===== verification/Replay.thy ===== *)
theory Replay
  imports Router
begin

text \<open>
  What the idempotency layer does over several requests: a request that arrives while the first one
  is running is answered when that one is finished, and the order of the middleware on the payout
  route lets a stored answer reach a caller whom the role check would refuse.
\<close>

subsection \<open>Waiting\<close>

text \<open>One poll of the database without faults.\<close>

lemma poll_db:
  assumes "\<not> is_redis s" and "sel_one k_key key (idempotency_keys (wdb w)) = Some row" and "k_request_hash row = h"
    and "wfaults w 0 = NoFault"
  shows "fst (Lookup s key h w) = (if k_in_progress row then Inl ErrInProgress else Inr (record_of_row row))"
    and "k_in_progress row \<Longrightarrow>
      snd (Lookup s key h w) = w\<lparr>wfaults := pop (wfaults w), wclock := pop (wclock w), wnow := wclock w 0\<rparr>"
  using assms
  by (simp_all add: Lookup_def lookup_db_def bind_attempt bind_store_cache ret_def throw_def auto_exec_def GetIdempotencyKey_def Let_def)


subsection \<open>The payout route\<close>

text \<open>
  The idempotency middleware stands before the role check, and the key and the hash of a request do
  not name its user: the stored answer to an administrator's payout request is sent to any
  authenticated customer who repeats the request, where the handler alone answers 403.
\<close>

theorem replay_before_role_check:
  assumes "r_method r \<in> idempotentMethods" and "key = get ''Idempotency-Key'' (r_header r)" and "key \<noteq> []"
    and "r_body r = Inr body" and "sel_one k_key key (idempotency_keys (wdb w)) = Some row" and "storable row"
    and "wfaults w 0 = NoFault" and "coherent row (wredis w 0 (redisKey key))" and "\<not> k_in_progress row"
    and "k_request_hash row = hashRequest (r_method r) (r_path r) body" and "UserRoleFromContext r \<noteq> ''admin''"
  shows "sent_body (fst (IdempotencyMiddleware (Some s) (RequireRole ''admin'' hnd) r (no_response, w))) = k_response_body row \<and>
    sent_status (fst (IdempotencyMiddleware (Some s) (RequireRole ''admin'' hnd) r (no_response, w))) = k_response_status row \<and>
    sent_status (fst (RequireRole ''admin'' hnd r (no_response, w))) = 403"
proof -
  obtain rs' w' where "IdempotencyMiddleware (Some s) (RequireRole ''admin'' hnd) r (no_response, w) = (rs', w')"
    "rs_ops rs' = rs_ops no_response @ [WriteHeaderOp (k_response_status row), WriteOp (k_response_body row)]"
    using replay_row [OF assms(1-10), of s "RequireRole ''admin'' hnd" no_response] by metis
  then show ?thesis
    using assms(11)
    by (simp add: sent_body_def sent_status_def no_response_def RequireRole_def problem_Write_def set_header_def WriteHeader_def
        Write_def Let_def)
qed

end
