(* ===== verification/Workers.thy ===== *)
theory Workers
  imports Interleaving Encode
begin

text \<open>
  The loops of \<open>internal/worker/payout_worker.go\<close> and \<open>reconciliation_worker.go\<close>, and the mock gateway of
  \<open>internal/gateway/mock.go\<close>. A worker's life is the list of what its \<open>select\<close> wakes up for; an empty
  list leaves it blocked. Durations are in nanoseconds.
\<close>

subsection \<open>The loop\<close>

datatype wake = CtxDone | StopSignal | Ticked

text \<open>Whether the loop has returned, and the world after its runs.\<close>

fun select_loop :: "unit m \<Rightarrow> wake list \<Rightarrow> world \<Rightarrow> bool \<times> world" where
  "select_loop step [] w = (False, w)"
| "select_loop step (CtxDone # wakes) w = (True, w)"
| "select_loop step (StopSignal # wakes) w = (True, w)"
| "select_loop step (Ticked # wakes) w = select_loop step wakes (snd (step w))"

subsection \<open>The payout worker\<close>

record PayoutWorker =
  pw_pollInterval :: int
  pw_batchSize :: int
  pw_stopCh :: bool \<comment> \<open>whether the channel is closed\<close>

definition NewPayoutWorker :: PayoutWorker where
  "NewPayoutWorker = \<lparr>pw_pollInterval = 10 * 1000000000, pw_batchSize = 10, pw_stopCh = False\<rparr>"

definition WithPollInterval :: "int \<Rightarrow> PayoutWorker \<Rightarrow> PayoutWorker" where
  "WithPollInterval interval wk = wk\<lparr>pw_pollInterval := interval\<rparr>"

definition WithBatchSize :: "int \<Rightarrow> PayoutWorker \<Rightarrow> PayoutWorker" where
  "WithBatchSize n wk = wk\<lparr>pw_batchSize := n\<rparr>"

text \<open>\<open>time.NewTicker\<close> panics on an interval that is not positive: then there is no result.\<close>

definition PayoutWorker_Start :: "lib \<Rightarrow> PayoutWorker \<Rightarrow> wake list \<Rightarrow> world \<Rightarrow> (bool \<times> world) option" where
  "PayoutWorker_Start L wk wakes w =
     (if pw_pollInterval wk \<le> 0 then None else Some (select_loop (processBatch L (pw_batchSize wk)) wakes w))"

text \<open>Closing a second time would panic; \<open>stopOnce\<close> closes once.\<close>

definition PayoutWorker_Stop :: "PayoutWorker \<Rightarrow> PayoutWorker" where
  "PayoutWorker_Stop wk = (if pw_stopCh wk then wk else wk\<lparr>pw_stopCh := True\<rparr>)"

definition ProcessOnce :: "lib \<Rightarrow> PayoutWorker \<Rightarrow> unit m" where
  "ProcessOnce L wk = ProcessPayouts L (pw_batchSize wk)"

subsection \<open>The reconciliation worker\<close>

record ReconciliationWorker =
  rw_interval :: int
  rw_stopCh :: bool

definition NewReconciliationWorker :: ReconciliationWorker where
  "NewReconciliationWorker = \<lparr>rw_interval = 24 * 3600 * 1000000000, rw_stopCh = False\<rparr>"

definition WithInterval :: "int \<Rightarrow> ReconciliationWorker \<Rightarrow> ReconciliationWorker" where
  "WithInterval interval wk = (if interval > 0 then wk\<lparr>rw_interval := interval\<rparr> else wk)"

definition ReconciliationWorker_Start :: "ReconciliationWorker \<Rightarrow> wake list \<Rightarrow> world \<Rightarrow> (bool \<times> world) option" where
  "ReconciliationWorker_Start wk wakes w =
     (if rw_interval wk \<le> 0 then None
      else Some (select_loop reconciliation_runOnce wakes (snd (reconciliation_runOnce w))))"

definition ReconciliationWorker_Stop :: "ReconciliationWorker \<Rightarrow> ReconciliationWorker" where
  "ReconciliationWorker_Stop wk = (if rw_stopCh wk then wk else wk\<lparr>rw_stopCh := True\<rparr>)"

subsection \<open>The mock gateway\<close>

record MockGateway =
  FailureRate :: rat

text \<open>The \<open>float64\<close> nearest to 0.1.\<close>

definition NewMockGateway :: MockGateway where
  "NewMockGateway = \<lparr>FailureRate = 3602879701896397 / 36028797018963968\<rparr>"

text \<open>What \<open>math/rand\<close> returns: two draws for the delay, one for the failure, one for the reference.\<close>

record draws =
  dr_seconds :: int
  dr_millis :: int
  dr_float :: rat
  dr_ref :: int

definition draws_ok :: "draws \<Rightarrow> bool" where
  "draws_ok d \<longleftrightarrow> dr_seconds d \<in> {0..<3} \<and> dr_millis d \<in> {0..<1000} \<and> 0 \<le> dr_float d \<and> dr_float d < 1 \<and> dr_ref d \<in> {0..<100000}"

definition mock_delay :: "draws \<Rightarrow> int" where
  "mock_delay d = (2 + dr_seconds d) * 1000 + dr_millis d"

definition mock_reference :: "int \<Rightarrow> draws \<Rightarrow> string" where
  "mock_reference now d =
     (let s = now div 1000000; (y, m, dy) = civil_date (s div 86400); sec = s mod 86400 in
      ''MOCK-'' @ pad 4 y @ pad 2 m @ pad 2 dy @ ''-'' @ pad 2 (sec div 3600) @ pad 2 (sec div 60 mod 60) @ pad 2 (sec mod 60) @
      ''-'' @ pad 5 (dr_ref d))"

text \<open>
  The call with the milliseconds after which the context ends, if it ends; at the same moment the
  \<open>select\<close> may take either case.
\<close>

definition MockGateway_SendPayout :: "MockGateway \<Rightarrow> draws \<Rightarrow> (int \<times> err) option \<Rightarrow> bool \<Rightarrow> int \<Rightarrow> err + string" where
  "MockGateway_SendPayout g d ctx tie now =
     (case ctx of
        Some (after, e) \<Rightarrow>
          if after < mock_delay d \<or> after = mock_delay d \<and> tie then Inl (Wrap ''gateway call canceled: '' e [])
          else if dr_float d < FailureRate g then Inl (Msg ''gateway temporarily unavailable'')
          else Inr (mock_reference now d)
      | None \<Rightarrow>
          if dr_float d < FailureRate g then Inl (Msg ''gateway temporarily unavailable'')
          else Inr (mock_reference now d))"

subsection \<open>Properties of the loops\<close>

lemma select_loop_ticks: "select_loop step (replicate n Ticked @ wakes) w = select_loop step wakes (((\<lambda>w. snd (step w)) ^^ n) w)"
  by (induction n arbitrary: w) (simp_all add: funpow_Suc_right del: funpow.simps(2))

lemma select_loop_stops: "stop \<noteq> Ticked \<Longrightarrow> select_loop step (stop # rest) w = (True, w)"
  by (cases stop) simp_all

context frame_rel
begin

lemma frame_select_loop:
  assumes "frame R step" shows "R (wdb w) (wdb (snd (select_loop step wakes w)))"
  using assms
proof (induction step wakes w rule: select_loop.induct)
  case (4 step wakes w)
  then show ?case using R_trans by (auto simp: frame_def)
qed (simp_all add: R_refl)

end

text \<open>
  C25. Both workers stop: at the first stop signal or end of the context after \<open>n\<close> ticks the loop
  returns, having run \<open>n\<close> batches of payouts, which are commits of the program, or \<open>n + 1\<close>
  reconciliations, which change nothing; no interval makes the reconciliation worker panic.
\<close>

theorem workers_stop:
  assumes "0 < pw_pollInterval wk" and "stop \<noteq> Ticked"
  shows "(let w' = ((\<lambda>w. snd (processBatch L (pw_batchSize wk) w)) ^^ n) w in
      PayoutWorker_Start L wk (replicate n Ticked @ stop # rest) w = Some (True, w') \<and> (commit L)\<^sup>*\<^sup>* (wdb w) (wdb w')) \<and>
    (let w' = ((\<lambda>w. snd (reconciliation_runOnce w)) ^^ Suc n) w in
      ReconciliationWorker_Start (WithInterval i NewReconciliationWorker) (replicate n Ticked @ stop # rest) w = Some (True, w') \<and>
      unchanged (wdb w) (wdb w'))"
proof -
  have "(commit L)\<^sup>*\<^sup>* (wdb w) (wdb (snd (processBatch L b w)))" for b w
    using chain_processBatch [of L b] by (simp add: frame_def chained_def)
  then have "(commit L)\<^sup>*\<^sup>* (wdb w) (wdb (((\<lambda>w. snd (processBatch L b w)) ^^ n) w))" for b
    by (induction n) (auto intro: rtranclp_trans)
  moreover have "unchanged (wdb w) (wdb (snd (reconciliation_runOnce w)))" for w
    using idle.frame_reconciliation(2) by (simp add: frame_def)
  then have "unchanged (wdb w) (wdb (((\<lambda>w. snd (reconciliation_runOnce w)) ^^ Suc n) w))"
    by (induction n) (auto intro: idle.R_trans)
  ultimately show ?thesis
    using assms
    by (simp add: PayoutWorker_Start_def ReconciliationWorker_Start_def WithInterval_def NewReconciliationWorker_def
        select_loop_ticks select_loop_stops funpow_Suc_right Let_def del: funpow.simps(2))
qed

text \<open>The mock: between two and five seconds, and an error of the context is wrapped.\<close>

lemma mock_delay_bounds: "draws_ok d \<Longrightarrow> mock_delay d \<in> {2000..<5000}"
  by (auto simp: draws_ok_def mock_delay_def)

lemma mock_timeout:
  assumes "draws_ok d" and "after < 2000"
  shows "\<exists>err. MockGateway_SendPayout g d (Some (after, ContextDeadlineExceeded)) tie now = Inl err \<and>
    errors_Is err ContextDeadlineExceeded"
  using assms by (auto simp: MockGateway_SendPayout_def draws_ok_def mock_delay_def)

end
