(* ===== verification/Process.thy ===== *)
theory Process
  imports Http
begin

text \<open>
  The process around the services, as \<open>internal/app/app.go\<close> builds and leaves it: the package variables
  it sets, what it acquires and releases, and Go's \<open>defer\<close>. A function's deferred releases run when it
  returns, with or without an error, the last one first.
\<close>

datatype resource =
    Logger | RootContext | ConnectContext | Pool | PingContext | RedisClient
  | PayoutLoop | ReconciliationLoop | HttpServer | ShutdownContext

datatype action = Acquire resource | Release resource

record process =
  pr_metrics :: collectors
  pr_jwt :: jwt_config
  pr_log :: "action list"
  pr_defers :: "action list" \<comment> \<open>of the running function, the last one first\<close>

type_synonym 'a run = "process \<Rightarrow> (err + 'a) \<times> process"

definition done_with :: "'a \<Rightarrow> 'a run" where
  "done_with a p = (Inr a, p)"

definition fail_with :: "err \<Rightarrow> 'a run" where
  "fail_with e p = (Inl e, p)"

definition and_then :: "'a run \<Rightarrow> ('a \<Rightarrow> 'b run) \<Rightarrow> 'b run" where
  "and_then m f p = (case m p of (Inl e, p') \<Rightarrow> (Inl e, p') | (Inr a, p') \<Rightarrow> f a p')"

text \<open>\<open>if err != nil { return fmt.Errorf("text: %w", err) }\<close> on a result.\<close>

definition or_wrap :: "string \<Rightarrow> 'a run \<Rightarrow> 'a run" where
  "or_wrap text m p = (case m p of (Inl e, p') \<Rightarrow> (Inl (Wrap text e []), p') | r \<Rightarrow> r)"

definition answer :: "err option \<Rightarrow> unit run" where
  "answer e = (case e of None \<Rightarrow> done_with () | Some err \<Rightarrow> fail_with err)"

definition given :: "err + 'a \<Rightarrow> 'a run" where
  "given r = (case r of Inl e \<Rightarrow> fail_with e | Inr a \<Rightarrow> done_with a)"

definition act :: "action \<Rightarrow> unit run" where
  "act a p = (Inr (), p\<lparr>pr_log := pr_log p @ [a]\<rparr>)"

definition put_off :: "action \<Rightarrow> unit run" where
  "put_off a p = (Inr (), p\<lparr>pr_defers := a # pr_defers p\<rparr>)"

definition set_globals :: "(process \<Rightarrow> process) \<Rightarrow> unit run" where
  "set_globals f p = (Inr (), f p)"

definition func :: "'a run \<Rightarrow> 'a run" where
  "func body p = (case body (p\<lparr>pr_defers := []\<rparr>) of
     (r, p') \<Rightarrow> (r, p'\<lparr>pr_log := pr_log p' @ pr_defers p', pr_defers := pr_defers p\<rparr>))"

lemmas run_defs = done_with_def fail_with_def and_then_def or_wrap_def answer_def given_def act_def put_off_def
  set_globals_def func_def

subsection \<open>Orderly release\<close>

text \<open>What runs on top of a resource and must have ended before it is released.\<close>

definition users_of :: "resource \<Rightarrow> resource set" where
  "users_of r =
     (if r = Pool then {PayoutLoop, ReconciliationLoop, HttpServer} else if r = RedisClient then {HttpServer} else {})"

text \<open>
  What is held after the actions; nothing when one acquires what is held, releases what is not, or
  releases what something running still uses.
\<close>

fun holds :: "resource list \<Rightarrow> action list \<Rightarrow> resource list option" where
  "holds hs [] = Some hs"
| "holds hs (Acquire r # as) = (if r \<in> set hs then None else holds (r # hs) as)"
| "holds hs (Release r # as) =
     (if r \<in> set hs \<and> users_of r \<inter> set hs = {} then holds (remove1 r hs) as else None)"

lemma holds_append: "holds hs (as @ bs) = Option.bind (holds hs as) (\<lambda>hs'. holds hs' bs)"
  by (induction hs as rule: holds.induct) simp_all

end
