(* ===== verification/Startup.thy ===== *)
theory Startup
  imports Configuration Workers Process
begin

text \<open>
  \<open>internal/app/app.go\<close> and \<open>internal/db/db.go\<close>: how the configuration becomes the running
  program. What zap, the PostgreSQL pool and the Redis client answer is a parameter. The theorems join
  the components: what \<open>Run\<close> builds meets the hypotheses of the theorems about the routes.
\<close>

subsection \<open>Connections\<close>

datatype level = DebugLevel | InfoLevel | WarnLevel | ErrorLevel

definition logger_level :: "string \<Rightarrow> level" where
  "logger_level text =
     (let l = ToLower text in
      if l = ''debug'' then DebugLevel else if l = ''info'' \<or> l = [] then InfoLevel
      else if l = ''warn'' then WarnLevel else if l = ''error'' then ErrorLevel else InfoLevel)"

record pool_config =
  pc_URL :: string
  pc_MaxConns :: int
  pc_MinConns :: int
  pc_MaxConnLifetime :: int
  pc_MaxConnIdleTime :: int

text \<open>The answers of the libraries: an error, or none.\<close>

record platform =
  zap_Build :: "level \<Rightarrow> err option"
  pgxpool_ParseConfig :: "string \<Rightarrow> err option"
  pgxpool_NewWithConfig :: "pool_config \<Rightarrow> err option"
  pgxpool_Ping :: "pool_config \<Rightarrow> err option"
  goredis_ParseURL :: "string \<Rightarrow> err option"
  goredis_Ping :: "string \<Rightarrow> err option"

definition newLogger :: "platform \<Rightarrow> string \<Rightarrow> err + level" where
  "newLogger P text =
     (case zap_Build P (logger_level text) of None \<Rightarrow> Inr (logger_level text) | Some err \<Rightarrow> Inl err)"

definition Connect :: "platform \<Rightarrow> string \<Rightarrow> pool_config run" where
  "Connect P dbURL = func (
     and_then (or_wrap ''unable to parse database config: '' (answer (pgxpool_ParseConfig P dbURL))) (\<lambda>_.
     let config = \<lparr>pc_URL = dbURL, pc_MaxConns = 10, pc_MinConns = 2, pc_MaxConnLifetime = 3600 * 1000000000,
       pc_MaxConnIdleTime = 30 * 60 * 1000000000\<rparr> in
     and_then (act (Acquire ConnectContext)) (\<lambda>_.
     and_then (put_off (Release ConnectContext)) (\<lambda>_.
     and_then (or_wrap ''unable to create connection pool: '' (answer (pgxpool_NewWithConfig P config))) (\<lambda>_.
     and_then (act (Acquire Pool)) (\<lambda>_.
     case pgxpool_Ping P config of
       Some err \<Rightarrow>
         and_then (act (Release Pool)) (\<lambda>_. fail_with (Wrap ''unable to connect to database: '' err []))
     | None \<Rightarrow> done_with config))))))"

definition newRedisClient :: "platform \<Rightarrow> string \<Rightarrow> unit run" where
  "newRedisClient P url = func (
     and_then (or_wrap ''parse redis url: '' (answer (goredis_ParseURL P url))) (\<lambda>_.
     and_then (act (Acquire RedisClient)) (\<lambda>_.
     and_then (act (Acquire PingContext)) (\<lambda>_.
     and_then (put_off (Release PingContext)) (\<lambda>_.
     case goredis_Ping P url of
       Some err \<Rightarrow> and_then (act (Release RedisClient)) (\<lambda>_. fail_with (Wrap ''redis ping: '' err []))
     | None \<Rightarrow> done_with ())))))"

subsection \<open>Wiring\<close>

text \<open>The constructors called by \<open>Run\<close>.\<close>

definition NewIdempotencyStore :: "bool \<Rightarrow> int \<Rightarrow> IdempotencyStore" where
  "NewIdempotencyStore redis ttl = \<lparr>is_redis = redis, is_ttl = ttl\<rparr>"

definition NewWebhookService :: "string \<Rightarrow> bool \<Rightarrow> WebhookService" where
  "NewWebhookService key skipSignature = \<lparr>hmacKey = key, skipSig = skipSignature\<rparr>"

definition NewRouter :: "lib \<Rightarrow> Config \<Rightarrow> jwt_config \<Rightarrow> IdempotencyStore \<Rightarrow> WebhookService \<Rightarrow> Router" where
  "NewRouter L cfg g idemStore webhookSvc =
     \<lparr>rt_PublicRateLimitRPS = PublicRateLimitRPS cfg, rt_AuthRateLimitRPS = AuthRateLimitRPS cfg,
      rt_idemStore = Some idemStore, rt_redis = True, rt_jwt = g, rt_fxRates = GetExchangeRate L,
      rt_accountSvc = True, rt_transferSvc = True, rt_payoutSvc = True, rt_webhookSvc = Some webhookSvc\<rparr>"

record app =
  app_Router :: Router
  app_PayoutWorker :: PayoutWorker
  app_ReconciliationWorker :: ReconciliationWorker
  app_Addr :: string
  app_stopWorker :: "PayoutWorker \<Rightarrow> PayoutWorker"
  app_stopReconciliationWorker :: "ReconciliationWorker \<Rightarrow> ReconciliationWorker"

text \<open>The workers' \<open>Run\<close>: the loop runs on its own, and what stops it is returned.\<close>

definition PayoutWorker_Run :: "PayoutWorker \<Rightarrow> (PayoutWorker \<Rightarrow> PayoutWorker) run" where
  "PayoutWorker_Run wk = and_then (act (Acquire PayoutLoop)) (\<lambda>_. done_with PayoutWorker_Stop)"

definition ReconciliationWorker_Run :: "ReconciliationWorker \<Rightarrow> (ReconciliationWorker \<Rightarrow> ReconciliationWorker) run" where
  "ReconciliationWorker_Run wk = and_then (act (Acquire ReconciliationLoop)) (\<lambda>_. done_with ReconciliationWorker_Stop)"

text \<open>\<open>Run\<close> up to the start of the server.\<close>

definition start :: "lib \<Rightarrow> viper_lib \<Rightarrow> platform \<Rightarrow> app run" where
  "start L V P =
     and_then (or_wrap ''load config: '' (given (Load V))) (\<lambda>cfg.
     and_then (or_wrap ''init logger: '' (given (newLogger P (LogLevel cfg)))) (\<lambda>_.
     and_then (act (Acquire Logger)) (\<lambda>_.
     and_then (put_off (Release Logger)) (\<lambda>_.
     and_then (set_globals (\<lambda>p. p\<lparr>pr_metrics := Init (pr_metrics p)\<rparr>)) (\<lambda>_.
     and_then (set_globals (\<lambda>p. p\<lparr>pr_jwt := SetJWTSecret (JWTSecret cfg) (pr_jwt p)\<rparr>)) (\<lambda>_.
     and_then (set_globals (\<lambda>p. p\<lparr>pr_jwt := SetJWTValidation (JWTIssuer cfg) (JWTAudience cfg) (pr_jwt p)\<rparr>)) (\<lambda>_.
     and_then (act (Acquire RootContext)) (\<lambda>_.
     and_then (put_off (Release RootContext)) (\<lambda>_.
     and_then (or_wrap ''connect database: '' (Connect P (DatabaseURL cfg))) (\<lambda>pool.
     and_then (put_off (Release Pool)) (\<lambda>_.
     and_then (or_wrap ''connect redis: '' (newRedisClient P (RedisURL cfg))) (\<lambda>_.
     and_then (put_off (Release RedisClient)) (\<lambda>_.
     let idemStore = NewIdempotencyStore True (IdempotencyTTL cfg);
         payoutWorker = WithBatchSize (PayoutBatchSize cfg) (WithPollInterval (PayoutPollInterval cfg) NewPayoutWorker);
         webhookSvc = NewWebhookService (WebhookHMACKey cfg) (WebhookSkipSignature cfg);
         reconciliationWorker = WithInterval (ReconciliationInterval cfg) NewReconciliationWorker in
     and_then (PayoutWorker_Run payoutWorker) (\<lambda>stopWorker.
     and_then (ReconciliationWorker_Run reconciliationWorker) (\<lambda>stopReconciliationWorker.
     and_then (\<lambda>p. (Inr (pr_jwt p), p)) (\<lambda>g.
     done_with \<lparr>app_Router = NewRouter L cfg g idemStore webhookSvc, app_PayoutWorker = payoutWorker,
       app_ReconciliationWorker = reconciliationWorker, app_Addr = '':'' @ HTTPPort cfg,
       app_stopWorker = stopWorker, app_stopReconciliationWorker = stopReconciliationWorker\<rparr>))))))))))))))))"

text \<open>
  What ends the program: a signal, or the server returning \<open>nil\<close>, \<open>ErrServerClosed\<close> or another error.
  On the last \<open>Run\<close> returns at once: the workers and the server are left to the deferred \<open>cancel\<close>.
\<close>

datatype ending = Signal | ServerReturned | ServerClosed | ServerError err

definition Run :: "lib \<Rightarrow> viper_lib \<Rightarrow> platform \<Rightarrow> ending \<Rightarrow> app run" where
  "Run L V P ending = func (
     and_then (start L V P) (\<lambda>a.
     and_then (act (Acquire HttpServer)) (\<lambda>_.
     case ending of
       ServerError err \<Rightarrow> fail_with (Wrap ''server error: '' err [])
     | _ \<Rightarrow>
         and_then (act (Release PayoutLoop)) (\<lambda>_.
         and_then (act (Release ReconciliationLoop)) (\<lambda>_.
         and_then (act (Acquire ShutdownContext)) (\<lambda>_.
         and_then (put_off (Release ShutdownContext)) (\<lambda>_.
         and_then (act (Release HttpServer)) (\<lambda>_.
         done_with (a\<lparr>app_PayoutWorker := app_stopWorker a (app_PayoutWorker a),
           app_ReconciliationWorker := app_stopReconciliationWorker a (app_ReconciliationWorker a)\<rparr>)))))))))"

text \<open>The process before \<open>main\<close>, and \<open>main\<close>: the exit code and what goes to standard error.\<close>

definition new_process :: process where
  "new_process = \<lparr>pr_metrics = no_collectors, pr_jwt = \<lparr>jwtSecret = [], jwtIssuer = [], jwtAudience = []\<rparr>, pr_log = [], pr_defers = []\<rparr>"

definition go_main :: "lib \<Rightarrow> viper_lib \<Rightarrow> platform \<Rightarrow> ending \<Rightarrow> int \<times> string" where
  "go_main L V P ending =
     (case fst (Run L V P ending new_process) of
        Inl err \<Rightarrow> (1, ''application error: '' @ Error err @ [CHR 0x0A])
      | Inr _ \<Rightarrow> (0, []))"

subsection \<open>What has started\<close>

lemmas start_defs = start_def Connect_def newRedisClient_def PayoutWorker_Run_def ReconciliationWorker_Run_def run_defs

lemma started:
  assumes "fst (start L V P p) = Inr a"
  obtains cfg where "Load V = Inr cfg" and "app_Router a = NewRouter L cfg
      (SetJWTValidation (JWTIssuer cfg) (JWTAudience cfg) (SetJWTSecret (JWTSecret cfg) (pr_jwt p)))
      (NewIdempotencyStore True (IdempotencyTTL cfg)) (NewWebhookService (WebhookHMACKey cfg) (WebhookSkipSignature cfg))"
    and "app_PayoutWorker a = WithBatchSize (PayoutBatchSize cfg) (WithPollInterval (PayoutPollInterval cfg) NewPayoutWorker)"
    and "app_ReconciliationWorker a = WithInterval (ReconciliationInterval cfg) NewReconciliationWorker"
    and "pr_metrics (snd (start L V P p)) = Init (pr_metrics p)"
  using assms by (auto simp: start_defs Let_def split: sum.splits option.splits)

text \<open>
  C26. A program that has started is protected: its router has all its services, authentication is
  configured with a secret of at least 32 bytes, an issuer and an audience; the idempotency
  middleware has a store; a webhook has no effect without a signature under a key that is not
  blank, unless that check is switched off; and the reconciliation worker has a positive interval.
\<close>

theorem started_is_protected:
  assumes "fst (start L V P p) = Inr a"
  shows "Routes L J C (app_Router a) \<noteq> None \<and> 32 \<le> length (jwtSecret (rt_jwt (app_Router a))) \<and>
    jwtIssuer (rt_jwt (app_Router a)) \<noteq> [] \<and> jwtAudience (rt_jwt (app_Router a)) \<noteq> [] \<and>
    rt_idemStore (app_Router a) \<noteq> None \<and>
    (\<exists>s. rt_webhookSvc (app_Router a) = Some s \<and> (skipSig s \<or> TrimSpace (hmacKey s) \<noteq> [])) \<and>
    0 < rw_interval (app_ReconciliationWorker a)"
proof -
  obtain cfg g where cfg: "Load V = Inr cfg" and a: "app_Router a = NewRouter L cfg
      (SetJWTValidation (JWTIssuer cfg) (JWTAudience cfg) (SetJWTSecret (JWTSecret cfg) g))
      (NewIdempotencyStore True (IdempotencyTTL cfg)) (NewWebhookService (WebhookHMACKey cfg) (WebhookSkipSignature cfg))"
    "app_ReconciliationWorker a = WithInterval (ReconciliationInterval cfg) NewReconciliationWorker"
    using started [OF assms] by metis
  from Load_validated [OF cfg] show ?thesis
    by (auto simp: a NewRouter_def Routes_def SetJWTValidation_def SetJWTSecret_def NewWebhookService_def WithInterval_def
        NewReconciliationWorker_def)
qed

text \<open>
  A poll interval that is not positive passes the checks of the configuration, and the payout
  worker panics when it starts; a batch size past 32 bits wraps around.
\<close>

theorem poll_interval_unchecked:
  assumes "fst (start L V P p) = Inr a" and "viper_GetString V configured_viper ''payout_poll_interval'' = ''0s''"
    and "viper_GetInt V configured_viper ''payout_batch_size'' = 2 ^ 31"
  shows "PayoutWorker_Start L (app_PayoutWorker a) wakes w = None \<and> pw_batchSize (app_PayoutWorker a) = - (2 ^ 31)"
proof -
  obtain cfg where cfg: "Load V = Inr cfg" and a: "app_PayoutWorker a =
      WithBatchSize (PayoutBatchSize cfg) (WithPollInterval (PayoutPollInterval cfg) NewPayoutWorker)"
    using started [OF assms(1)] by metis
  have "ParseDuration ''0s'' = Inr 0"
    by (simp add: parse_simps)
  then have "PayoutPollInterval cfg = 0" "PayoutBatchSize cfg = - (2 ^ 31)"
    using Load_settings(2,5) [OF cfg] assms(2,3) by (simp_all add: wrap32_def)
  then show ?thesis by (simp add: a PayoutWorker_Start_def WithBatchSize_def WithPollInterval_def)
qed

subsection \<open>Leaving\<close>


end
