(* ===== verification/ApiWitnesses.thy ===== *)
theory ApiWitnesses
  imports Witnesses Replay Startup
begin

text \<open>
  Concrete requests, a router, and implementations of the library parameters that satisfy their
  contracts; the theorems about the HTTP layer, the workers and the start-up applied to them.
\<close>

subsection \<open>Data\<close>

definition sample_request :: "string \<Rightarrow> string \<Rightarrow> (string \<times> string) list \<Rightarrow> string \<Rightarrow> request" where
  "sample_request meth path header body = \<lparr>r_method = meth, r_path = path, r_header = header, r_body = Inr body,
     r_query = [], r_params = [], r_user = None, r_role = None, r_trace = None, r_ticks = 3, r_ctx_err = ContextDeadlineExceeded\<rparr>"

definition pg_store :: IdempotencyStore where
  "pg_store = \<lparr>is_redis = False, is_ttl = 0\<rparr>"

definition keyed_request :: request where
  "keyed_request = sample_request ''POST'' ''/v1/transfers/internal'' [(''Idempotency-Key'', ''k1'')] ''{}''"

definition keyed_hash :: string where
  "keyed_hash = hashRequest ''POST'' ''/v1/transfers/internal'' ''{}''"

definition stored_row :: "string \<Rightarrow> idempotency_row" where
  "stored_row h = (reserved_row ''k1'' h ''POST'' ''/v1/transfers/internal'' 0)
     \<lparr>k_response_status := 201, k_response_body := ''done'', k_in_progress := False\<rparr>"

definition keyed_db :: "idempotency_row \<Rightarrow> db" where
  "keyed_db row = sample_db\<lparr>idempotency_keys := [row]\<rparr>"

definition created_handler :: handler where
  "created_handler r h = Write ''done'' (WriteHeader 201 (set_header ''Content-Type'' ''application/json'' h))"

lemma keyed_request_sel [simp]:
  "r_method keyed_request = ''POST''" "r_path keyed_request = ''/v1/transfers/internal''" "r_body keyed_request = Inr ''{}''"
  "get ''Idempotency-Key'' (r_header keyed_request) = ''k1''"
  by (simp_all add: keyed_request_def sample_request_def get_def)

lemma keyed_db_sel [simp]: "idempotency_keys (keyed_db row) = [row]"
  by (simp add: keyed_db_def)

lemma stored_row_sel [simp]:
  "k_key (stored_row h) = ''k1''" "k_request_hash (stored_row h) = h" "\<not> k_in_progress (stored_row h)"
  "k_response_status (stored_row h) = 201" "k_response_body (stored_row h) = ''done''" "k_content_type (stored_row h) = ''application/json''"
  by (simp_all add: stored_row_def reserved_row_def)

lemma sample_redis [simp]: "wredis (sample_world d) = (\<lambda>_ _. RedisNil)" "wothers (sample_world d) = (\<lambda>_ d. d)"
  by (simp_all add: sample_world_def)

lemma short_utf8: "valid_utf8 ''k1''" "valid_utf8 ''application/json''" "valid_utf8 ''z''"
  by (rule ascii_valid, simp add: byte_def)+

lemma not_a_hash: "hashRequest me pa body \<noteq> ''z''"
proof -
  have "length (EncodeToString bs) = 2 * length bs" for bs
    by (induction bs) (simp_all add: EncodeToString_def Let_def)
  then have "length (hashRequest me pa body) \<noteq> 1" by (simp add: hashRequest_def)
  then show ?thesis by auto
qed

subsection \<open>Idempotency\<close>

theorem handler_not_rerun_witness:
  "IdempotencyMiddleware (Some pg_store) created_handler keyed_request (no_response, sample_world (keyed_db (stored_row ''z''))) =
   IdempotencyMiddleware (Some pg_store) (\<lambda>r h. h) keyed_request (no_response, sample_world (keyed_db (stored_row ''z'')))"
  by (rule handler_not_rerun [of keyed_request "''k1''"]) (simp_all add: idempotentMethods_def)

theorem key_conflict_witness:
  "sent_status (fst (IdempotencyMiddleware (Some pg_store) created_handler keyed_request
     (no_response, sample_world (keyed_db (stored_row ''z''))))) = 409"
  using key_conflict [of keyed_request "''k1''" "''{}''" "sample_world (keyed_db (stored_row ''z''))" "stored_row ''z''" pg_store created_handler]
    not_a_hash short_utf8
  by (simp add: idempotentMethods_def coherent_def storable_def in_int64_def) metis

theorem cache_round_trip_witness:
  "fst (Lookup \<lparr>is_redis = True, is_ttl = 60\<rparr> ''k1'' ''z'' ((sample_world sample_db)\<lparr>wredis := \<lambda>_ _. RedisValue
     (marshal_envelope \<lparr>ce_Key = ''k1'', ce_Hash = ''z'', ce_Status = 201, ce_Body = [CHR 0xFF], ce_ContentType = ''application/json''\<rparr>)\<rparr>)) =
   Inr \<lparr>ir_Key = ''k1'', ir_RequestHash = ''z'', ir_Status = 201, ir_Body = [CHR 0xFF], ir_ContentType = ''application/json'',
     ir_ServedBy = ''redis''\<rparr>"
  using cache_round_trip [of "\<lparr>is_redis = True, is_ttl = 60\<rparr>" "\<lparr>ir_Key = ''k1'', ir_RequestHash = ''z'', ir_Status = 201,
      ir_Body = [CHR 0xFF], ir_ContentType = ''application/json'', ir_ServedBy = ''postgres''\<rparr>" "sample_world sample_db"
      "redisKey ''k1''" "marshal_envelope \<lparr>ce_Key = ''k1'', ce_Hash = ''z'', ce_Status = 201, ce_Body = [CHR 0xFF],
        ce_ContentType = ''application/json''\<rparr>" 60 "(sample_world sample_db)\<lparr>wredis := \<lambda>_ _. RedisValue
     (marshal_envelope \<lparr>ce_Key = ''k1'', ce_Hash = ''z'', ce_Status = 201, ce_Body = [CHR 0xFF], ce_ContentType = ''application/json''\<rparr>)\<rparr>" "''z''"]
    short_utf8
  by (simp add: store_cache_def control_defs redis_defs in_int64_def)


lemma get_Cons: "get k ((k', v) # kvs) = (if k' = k then v else get k kvs)"
  by (simp add: get_def)

lemma created_handler_runs:
  "created_handler r (no_response, w) =
     (\<lparr>rs_header = [(''Content-Type'', ''application/json'')], rs_ops = [WriteHeaderOp 201, WriteOp ''done'']\<rparr>, w)"
  by (simp add: created_handler_def no_response_def set_header_def WriteHeader_def Write_def)

lemma sample_keys: "idempotency_keys sample_db = []"
  by (simp add: sample_defs)

lemma reserved_sample_faults: "wfaults (reserved_world pg_store keyed_request ''k1'' h (sample_world sample_db)) = (\<lambda>_. NoFault)"
  by (simp add: reserved_world_def idem_event_eq Reserve_def bind_attempt ret_def throw_def auto_exec_def
      Lookup_def lookup_db_def pg_store_def GetIdempotencyKey_def ReserveIdempotencyKey_def pop_def sample_keys Let_def)

theorem idempotent_replay_witness:
  "let w2 = sample_world (wdb (snd (IdempotencyMiddleware (Some pg_store) created_handler keyed_request (no_response, sample_world sample_db)))) in
   sent_status (fst (IdempotencyMiddleware (Some pg_store) created_handler keyed_request (no_response, w2))) = 201 \<and>
   sent_body (fst (IdempotencyMiddleware (Some pg_store) created_handler keyed_request (no_response, w2))) = ''done''"
proof -
  define w2 where "w2 = sample_world (wdb (snd (IdempotencyMiddleware (Some pg_store) created_handler keyed_request
    (no_response, sample_world sample_db))))"
  have "\<exists>rs' w'. IdempotencyMiddleware (Some pg_store) created_handler keyed_request (no_response, sample_world sample_db) =
       (\<lparr>rs_header = [(''Content-Type'', ''application/json'')], rs_ops = [WriteHeaderOp 201, WriteOp ''done'']\<rparr>, w') \<and>
    fst (IdempotencyMiddleware (Some pg_store) created_handler keyed_request (no_response, w2)) = rs' \<and>
    sent_status rs' = sent_status \<lparr>rs_header = [(''Content-Type'', ''application/json'')], rs_ops = [WriteHeaderOp 201, WriteOp ''done'']\<rparr> \<and>
    sent_body rs' = sent_body \<lparr>rs_header = [(''Content-Type'', ''application/json'')], rs_ops = [WriteHeaderOp 201, WriteOp ''done'']\<rparr> \<and>
    get ''Content-Type'' (rs_header rs') = get ''Content-Type'' (rs_header \<lparr>rs_header = [(''Content-Type'', ''application/json'')],
      rs_ops = [WriteHeaderOp 201, WriteOp ''done'']\<rparr>) \<and>
    wdb (snd (IdempotencyMiddleware (Some pg_store) created_handler keyed_request (no_response, w2))) = wdb w2"
    by (rule idempotent_replay [where key = "''k1''" and body = "''{}''" and c = 201 and b = "''done''" and h = keyed_hash
          and ?w1.0 = "reserved_world pg_store keyed_request ''k1'' keyed_hash (sample_world sample_db)"])
      (simp_all add: idempotentMethods_def keyed_hash_def sample_keys short_utf8 created_handler_runs reserved_sample_faults w2_def coherent_def get_Cons)
  then show ?thesis by (auto simp: w2_def Let_def sent_status_def sent_body_def)
qed

subsection \<open>Owners and logins\<close>

definition transfer_body :: string where
  "transfer_body = ''{'' @ quoted ''from_account_id'' @ '':'' @ quoted ''a-usd'' @ '','' @ quoted ''to_account_id'' @ '':'' @ quoted ''b-usd'' @
     '','' @ quoted ''amount'' @ '':5}''"

definition bob_request :: request where
  "bob_request = (sample_request ''POST'' ''/v1/transfers/internal'' [(''Idempotency-Key'', ''k2'')] transfer_body)
     \<lparr>r_user := Some ''bob'', r_role := Some ''user'', r_params := [(''id'', ''a-usd'')]\<rparr>"

lemma bob_body: "decode_transfer bob_request = Some \<lparr>tq_FromAccountID = ''a-usd'', tq_ToAccountID = ''b-usd'', tq_Amount = 5,
    tq_FromCurrency = [], tq_ToCurrency = []\<rparr>"
  by code_simp

lemma bob_actor: "requestActor sample_lib bob_request = Inr (UUID ''bob'', False)"
  by (simp add: requestActor_def UserIDFromContext_def UserRoleFromContext_def bob_request_def sample_lib_def Let_def)

lemma bob_not_owner: "not_owner (wdb (sample_world sample_db)) (UUID ''bob'') alice_usd"
  by (simp add: not_owner_def sample_defs)

theorem transfer_owner_only_witness:
  "sent_status (fst (MakeInternalTransfer sample_lib bob_request (no_response, sample_world sample_db))) \<in> {400, 403} \<and>
   wdb (snd (MakeInternalTransfer sample_lib bob_request (no_response, sample_world sample_db))) = sample_db"
  using transfer_owner_only [OF bob_actor _ bob_not_owner, where H = "MakeInternalTransfer sample_lib" and
      req = "\<lparr>tq_FromAccountID = ''a-usd'', tq_ToAccountID = ''b-usd'', tq_Amount = 5, tq_FromCurrency = [], tq_ToCurrency = []\<rparr>"] bob_body
  by (simp add: sample_lib_def)

theorem accounts_hidden_witness:
  "fst (Handler_GetBalance sample_lib bob_request (no_response, sample_world sample_db)) \<in>
     (\<lambda>(status, slug, detail). fst (RespondError bob_request status slug detail (no_response, sample_world sample_db))) `
    {(403, ''auth/insufficient-permissions'', ''insufficient permissions''),
     (500, ''account/balance-read-failed'', ''Failed to get balance''),
     (500, ''account/authorization-failed'', ''Failed to authorize account access'')}"
  by (rule accounts_hidden [OF bob_actor _ bob_not_owner])
    (simp_all add: sample_lib_def URLParam_def bob_request_def get_def)

text \<open>A token library that writes the claims as JSON.\<close>

definition sample_jwt :: jwt_lib where
  "sample_jwt = \<lparr>
     jwt_ParseWithClaims = (\<lambda>token secret iss aud now.
       case json_Unmarshal token of
         Inr (JArray [JString u, JString ro, JString i, JString a, JString su, JInt ia, JInt nb, JInt ex, JString j]) \<Rightarrow>
           if now < ex then Some \<lparr>c_user_id = u, c_role = ro, c_iss = i, c_aud = a, c_sub = su, c_iat = ia, c_nbf = nb, c_exp = ex, c_jti = j\<rparr>
           else None
       | _ \<Rightarrow> None),
     jwt_SignedString = (\<lambda>c secret. Some (json_Marshal (JArray [JString (c_user_id c), JString (c_role c), JString (c_iss c),
       JString (c_aud c), JString (c_sub c), JInt (c_iat c), JInt (c_nbf c), JInt (c_exp c), JString (c_jti c)])))\<rparr>"

lemma sample_jwt_contract: "jwt_contract sample_jwt"
proof -
  have "json_Unmarshal (json_Marshal (JArray [JString (c_user_id c), JString (c_role c), JString (c_iss c),
       JString (c_aud c), JString (c_sub c), JInt (c_iat c), JInt (c_nbf c), JInt (c_exp c), JString (c_jti c)])) =
     Inr (JArray [JString (c_user_id c), JString (c_role c), JString (c_iss c),
       JString (c_aud c), JString (c_sub c), JInt (c_iat c), JInt (c_nbf c), JInt (c_exp c), JString (c_jti c)])" if "claims_utf8 c" for c
    by (rule json_round_trip) (use that in \<open>simp_all add: claims_utf8_def maxNestingDepth_def\<close>)
  then show ?thesis by (auto simp: jwt_contract_def sample_jwt_def)
qed

definition sample_config :: jwt_config where
  "sample_config = \<lparr>jwtSecret = ''secret'', jwtIssuer = ''iss'', jwtAudience = ''aud''\<rparr>"

definition alice_login :: request where
  "alice_login = sample_request ''POST'' ''/v1/auth/login'' [] (''{'' @ quoted ''user_id'' @ '':'' @ quoted ''alice'' @ ''}'')"

lemma login_body: "decode_login alice_login = Some ''alice''"
  by code_simp

lemma login_utf8: "valid_utf8 ''alice''" "valid_utf8 ''x''" "valid_utf8 ''user''" "valid_utf8 ''iss''" "valid_utf8 ''aud''"
  by (rule ascii_valid, simp add: byte_def)+

theorem login_token_accepted_witness:
  "\<exists>token. sent_status (fst (Handler_Login sample_lib sample_jwt sample_config alice_login (no_response, sample_world sample_db))) = 200 \<and>
    AuthMiddleware sample_jwt sample_config (\<lambda>r. WriteHeader 204)
      (sample_request ''GET'' ''/'' [(''Authorization'', ''Bearer '' @ token)] []) (no_response, sample_world sample_db) =
      WriteHeader 204 (no_response, sample_world sample_db)"
proof -
  have user: "sel_one u_id (UUID ''alice'') (users (wdb (sample_world sample_db))) =
      Some \<lparr>u_id = UUID ''alice'', u_username = ''alice'', u_email = ''a@x'', u_role = ''user'', u_created_at = 0\<rparr>"
    by (simp add: sample_defs)
  have clock: "(sample_world sample_db)\<lparr>wclock := pop (\<lambda>_. 0)\<rparr> = sample_world sample_db"
    by (simp add: sample_world_def pop_def)
  have signs: "jwt_SignedString sample_jwt c secret \<noteq> None" for c secret by (simp add: sample_jwt_def)
  define q where "q = (\<lambda>token. sample_request ''GET'' ''/'' [(''Authorization'', ''Bearer '' @ token)] [])"
  have auth: "get ''Authorization'' (r_header (q token)) = ''Bearer '' @ token" for token
    by (simp add: q_def sample_request_def get_Cons)
  have p: "jwtSecret sample_config \<noteq> []" "uuid_Parse sample_lib ''alice'' = Inr (UUID ''alice'')" "String (UUID ''alice'') \<noteq> []"
    "wfaults (sample_world sample_db) 0 = NoFault" "valid_utf8 (String (UUID ''alice''))"
    "valid_utf8 (String (wuuids (sample_world sample_db) 0))"
    "valid_utf8 (u_role \<lparr>u_id = UUID ''alice'', u_username = ''alice'', u_email = ''a@x'', u_role = ''user'', u_created_at = 0\<rparr>)"
    "valid_utf8 (jwtIssuer sample_config)" "valid_utf8 (jwtAudience sample_config)"
    using login_utf8 by (simp_all add: sample_config_def sample_lib_def)
  from login_token_accepted [OF sample_jwt_contract signs p(1) login_body p(2,3) user p(4-9)] show ?thesis
  proof (elim exE conjE, goal_cases)
    case (1 token)
    from 1(3) have "AuthMiddleware sample_jwt sample_config (\<lambda>r. WriteHeader 204) (q token) (no_response, sample_world sample_db) =
        WriteHeader 204 (no_response, sample_world sample_db)"
      using auth [of token] clock
      by (elim allE [of _ "\<lambda>r. WriteHeader 204"] allE [of _ "q token"] allE [of _ no_response] allE [of _ "sample_world sample_db"])
        (simp add: Unix_def)
    with 1(1) show ?case by (auto simp: q_def)
  qed
qed

subsection \<open>Routes\<close>

text \<open>Exact paths only.\<close>

definition sample_chi :: chi_lib where
  "sample_chi = \<lparr>chi_Find = (\<lambda>table meth path. map_option (\<lambda>route. (route, [])) (List.find (\<lambda>(m, p). m = meth \<and> p = path) table)),
     chi_RoutePattern = r_path, chi_Unmatched = (\<lambda>r rs. rs), rate_Public = (\<lambda>r. False), rate_Auth = (\<lambda>k r. False),
     rate_KeyByIP = (\<lambda>r. ''ip''), foreign_Handler = (\<lambda>n r rs. rs), openapi_File = None\<rparr>"

definition sample_router :: Router where
  "sample_router = \<lparr>rt_PublicRateLimitRPS = 10, rt_AuthRateLimitRPS = 100, rt_idemStore = Some pg_store, rt_redis = False,
     rt_jwt = sample_config, rt_fxRates = GetExchangeRate sample_lib, rt_accountSvc = True, rt_transferSvc = True,
     rt_payoutSvc = True, rt_webhookSvc = Some open_service\<rparr>"

lemma sample_routes: "\<exists>serve. Routes sample_lib sample_jwt sample_chi sample_router = Some serve"
  by (simp add: Routes_def sample_router_def)

definition payout_request :: request where
  "payout_request = sample_request ''POST'' ''/v1/payouts'' [(''Idempotency-Key'', ''k3'')] ''{}''"

lemma payout_route:
  "chi_Find sample_chi (map fst (route_table sample_lib sample_jwt sample_chi sample_router open_service)) (r_method payout_request)
     (r_path payout_request) = Some ((''POST'', ''/v1/payouts''), [])"
  by (simp add: sample_chi_def route_table_def public_routes_def auth_routes_def payout_request_def sample_request_def)

lemma payout_no_token: "token_claims sample_jwt (rt_jwt sample_router) payout_request now = None"
  by (simp add: token_claims_def payout_request_def sample_request_def HasPrefix_def get_def)

theorem requests_are_commit_chains_witness:
  "(commit sample_lib)\<^sup>*\<^sup>* sample_db (wdb (snd (the (Routes sample_lib sample_jwt sample_chi sample_router) payout_request
     (no_response, sample_world sample_db))))"
proof -
  obtain serve where "Routes sample_lib sample_jwt sample_chi sample_router = Some serve" using sample_routes by blast
  with requests_are_commit_chains [OF this, of "sample_world sample_db" payout_request no_response] show ?thesis by simp
qed

theorem token_required_witness:
  "sent_status (fst (the (Routes sample_lib sample_jwt sample_chi sample_router) payout_request (no_response, sample_world sample_db))) = 401"
proof -
  obtain serve where serve: "Routes sample_lib sample_jwt sample_chi sample_router = Some serve" using sample_routes by blast
  have svc: "rt_webhookSvc sample_router = Some open_service" by (simp add: sample_router_def)
  have "(''POST'', ''/v1/payouts'') \<in> protected sample_lib sample_router" "jwtSecret (rt_jwt sample_router) \<noteq> []"
    by (auto simp: protected_def auth_routes_def sample_router_def sample_config_def)
  from token_required [OF serve svc payout_route this payout_no_token] serve show ?thesis by simp
qed

theorem payouts_for_admins_witness:
  "keys_only sample_db (wdb (snd (the (Routes sample_lib sample_jwt sample_chi sample_router) payout_request
     (no_response, sample_world sample_db))))"
proof -
  obtain serve where serve: "Routes sample_lib sample_jwt sample_chi sample_router = Some serve" using sample_routes by blast
  have svc: "rt_webhookSvc sample_router = Some open_service" by (simp add: sample_router_def)
  from payouts_for_admins [OF serve svc payout_route, of "sample_world sample_db" no_response] payout_no_token serve
  show ?thesis by simp
qed

subsection \<open>Workers and start-up\<close>

theorem workers_stop_witness:
  "ReconciliationWorker_Start (WithInterval 0 NewReconciliationWorker) [Ticked, StopSignal] (sample_world sample_db) \<noteq> None \<and>
   PayoutWorker_Start sample_lib NewPayoutWorker [Ticked, StopSignal] (sample_world sample_db) \<noteq> None"
  using workers_stop [of NewPayoutWorker StopSignal 1 sample_lib "sample_world sample_db" "[]" 0]
  by (simp add: NewPayoutWorker_def Let_def)

definition sample_viper :: viper_lib where
  "sample_viper = \<lparr>
     viper_GetString = (\<lambda>v key. if key = ''jwt_secret'' then replicate 32 (CHR ''s'') else if key = ''webhook_hmac_key'' then ''hook''
       else case map_of (vp_defaults v) key of Some (SString x) \<Rightarrow> x | _ \<Rightarrow> []),
     viper_GetInt = (\<lambda>v key. case map_of (vp_defaults v) key of Some (SInt n) \<Rightarrow> n | _ \<Rightarrow> 0),
     viper_GetBool = (\<lambda>v key. case map_of (vp_defaults v) key of Some (SBool b) \<Rightarrow> b | _ \<Rightarrow> False)\<rparr>"

definition sample_platform :: platform where
  "sample_platform = \<lparr>zap_Build = (\<lambda>l. None), pgxpool_ParseConfig = (\<lambda>u. None), pgxpool_NewWithConfig = (\<lambda>c. None),
     pgxpool_Ping = (\<lambda>c. None), goredis_ParseURL = (\<lambda>u. None), goredis_Ping = (\<lambda>u. None)\<rparr>"

lemma sample_loads: "\<not> isl (Load sample_viper)"
  by code_simp

lemma sample_starts: "\<not> isl (fst (start sample_lib sample_viper sample_platform new_process))"
  using sample_loads by (cases "Load sample_viper") (simp_all add: start_defs newLogger_def sample_platform_def Let_def)

theorem started_is_protected_witness:
  "32 \<le> length (jwtSecret (rt_jwt (app_Router (projr (fst (start sample_lib sample_viper sample_platform new_process))))))"
proof -
  obtain a where a: "fst (start sample_lib sample_viper sample_platform new_process) = Inr a"
    using sample_starts by (cases "fst (start sample_lib sample_viper sample_platform new_process)") simp_all
  from started_is_protected [OF a] a show ?thesis by simp
qed

theorem metrics_recorded_witness:
  "\<exists>ev. IncrementLedgerImbalance ''ALL'' (sample_world sample_db) = (Inr (), (sample_world sample_db)\<lparr>wtrace := [ev]\<rparr>) \<and>
     fits (Init no_collectors) ev"
  using metrics_recorded [where update = "IncrementLedgerImbalance ''ALL''" and c = "''ALL''" and k = 0 and w = "sample_world sample_db"]
  by simp

end
