(* ===== verification/System.thy ===== *)
theory System
  imports Startup
begin

text \<open>
  The running system: what started processes, restarted or several on the same database, do one
  after another: serve a request through the router, or run the loop of a worker for some ticks.
  Every run gets a world of its own, with the current database; while it sleeps, other sessions
  commit.
\<close>

inductive operation :: "lib \<Rightarrow> jwt_lib \<Rightarrow> chi_lib \<Rightarrow> db \<Rightarrow> db \<Rightarrow> bool" for L J C where
  request: "fst (start L V P p) = Inr a \<Longrightarrow> Routes L J C (app_Router a) = Some serve \<Longrightarrow>
    \<forall>n d. (commit L)\<^sup>*\<^sup>* d (wothers w n d) \<Longrightarrow> operation L J C (wdb w) (wdb (snd (serve r (rs, w))))"
| batch: "fst (start L V P p) = Inr a \<Longrightarrow> PayoutWorker_Start L (app_PayoutWorker a) wakes w = Some (ended, w') \<Longrightarrow>
    operation L J C (wdb w) (wdb w')"
| reconcile: "fst (start L V P p) = Inr a \<Longrightarrow>
    ReconciliationWorker_Start (app_ReconciliationWorker a) wakes w = Some (ended, w') \<Longrightarrow>
    operation L J C (wdb w) (wdb w')"

text \<open>Every operation is a chain of commits, and reconciliation writes nothing.\<close>

lemma operation_chain: "operation L J C d d' \<Longrightarrow> (commit L)\<^sup>*\<^sup>* d d'"
proof (induction rule: operation.induct)
  case (request V P p a serve w r rs)
  then have "hframe_others (chained L []) (serve r)"
    by (intro runkeys.hframe_Routes [OF request(2)]) (rule chain_routes)
  then show ?case using request(3) by (simp add: hframe_others_def chained_def)
next
  case (batch V P p a wakes w ended w')
  then have "w' = snd (select_loop (processBatch L (pw_batchSize (app_PayoutWorker a))) wakes w)"
    by (auto simp: PayoutWorker_Start_def split: if_splits dest: arg_cong [of _ _ snd])
  then show ?case using run.frame_select_loop [OF chain_processBatch] by (simp add: chained_def)
next
  case (reconcile V P p a wakes w ended w')
  let ?w = "snd (reconciliation_runOnce w)"
  have "chained L [] (wdb w) (wdb ?w)"
    using run.frame_reconciliation(2) by (simp add: frame_def)
  moreover have "chained L [] (wdb ?w) (wdb (snd (select_loop reconciliation_runOnce wakes ?w)))"
    by (rule run.frame_select_loop) (rule run.frame_reconciliation)
  moreover have "w' = snd (select_loop reconciliation_runOnce wakes ?w)"
    using reconcile(2) by (auto simp: ReconciliationWorker_Start_def split: if_splits dest: arg_cong [of _ _ snd])
  ultimately show ?case by (simp add: chained_def)
qed

lemma operations_chain: "(operation L J C)\<^sup>*\<^sup>* d d' \<Longrightarrow> (commit L)\<^sup>*\<^sup>* d d'"
  by (induction rule: rtranclp_induct) (auto dest: operation_chain)

text \<open>A started process serves every request.\<close>

lemma started_serves:
  assumes "fst (start L V P p) = Inr a" shows "\<exists>serve. Routes L J C (app_Router a) = Some serve"
  by (rule started [OF assms]) (simp add: NewRouter_def Routes_def)

end
