(* ===== verification/Spec2Isabelle.thy ===== *)
theory Spec2Isabelle
  imports Hazards Progress ApiWitnesses System
begin

text \<open>
  A model of a multi-currency payment backend and the theorems that make it correct.

  \<^bold>\<open>The program.\<close> An HTTP service over PostgreSQL. Customers hold accounts in USD, EUR and GBP;
  money moves by internal transfers, currency exchanges over the system's liquidity accounts,
  payouts sent by a background worker through a gateway, and deposits announced by a signed
  webhook. Every movement is a double entry in \<open>entries\<close> beside the cached balance in \<open>accounts\<close>,
  every change of a transaction's status goes through a state machine and is audited, and a
  reconciliation worker checks that the entries cancel.

  \<^bold>\<open>The theories.\<close>
  \<^item> \<open>Prelude\<close>, \<open>Domain\<close>: Go strings and integers, tables as lists of rows; errors with wrapping,
    UUIDs, the constants of \<open>internal/domain/constants.go\<close>, JSON values.
  \<^item> \<open>Database\<close>: the tables of \<open>internal/repository/models.go\<close> and one definition for each generated
    query (\<open>*.sql.go\<close>) with the constraints of \<open>db/migrations\<close>.
  \<^item> \<open>Store\<close>: the world (database, clock, identifiers, driver faults, context errors, gateway replies,
    event trace), the state and error monad, \<open>RunInTx\<close> of \<open>internal/repository/store.go\<close>. A commit
    can fail with or without having happened. The locale \<open>frame_rel\<close> has the composition rules of
    relations between database states; \<open>stmt_frame\<close> adds one law per writing statement.
  \<^item> \<open>Metrics\<close>, \<open>Observability\<close>: the collectors of \<open>internal/observability/metrics.go\<close>, their registration
    and their updates, which are events of the trace.
  \<^item> \<open>TransactionState\<close>: \<open>internal/service/transaction_state.go\<close>, \<open>audit.go\<close>, \<open>utils.go\<close>; the locales
    \<open>ledger_frame\<close>, \<open>service_frame\<close>, \<open>worker_frame\<close> are the interfaces the services are built on.
  \<^item> \<open>Ledger\<close>, \<open>Effects\<close>, \<open>Lifecycle\<close>: the relations every statement keeps (\<open>evolves\<close>: history;
    \<open>keeps_schema\<close>: constraints), the abstract ledger of an account (balance, locked funds, net of
    entries) with the calculus \<open>moves\<close> that computes the movement of a computation along its text,
    and the life of a transaction from PENDING to COMPLETED with its entries and audit trail.
  \<^item> \<open>StateMachine\<close>: the paths of statuses; \<open>follows\<close> is a \<open>service_frame\<close>.
  \<^item> \<open>Money\<close>: \<open>internal/domain/money.go\<close>, \<open>exchange_rate.go\<close>, \<open>getSystemAccountID\<close>.
  \<^item> \<open>Json\<close>, \<open>Digest\<close>: what the program uses of \<open>encoding/json\<close>, \<open>crypto/sha256\<close>, \<open>crypto/hmac\<close> and
    \<open>encoding/hex\<close>.
  \<^item> \<open>InternalTransfer\<close>, \<open>ExchangeTransfer\<close>: \<open>internal/service/transfer.go\<close>.
  \<^item> \<open>Payout\<close>, \<open>PayoutFinalize\<close>, \<open>ManualReview\<close>: \<open>internal/service/payout.go\<close> and \<open>processBatch\<close> of
    \<open>internal/worker/payout_worker.go\<close>.
  \<^item> \<open>Webhook\<close>: \<open>internal/service/webhook.go\<close>. \<open>Accounts\<close>: \<open>internal/service/account.go\<close> and
    \<open>internal/repository/repository.go\<close>. \<open>Reconciliation\<close>: \<open>internal/service/reconciliation.go\<close>.
  \<^item> \<open>Conservation\<close>, \<open>Interleaving\<close>: the system as sequences of commits and the double-entry
    invariant \<open>sound\<close>.
  \<^item> \<open>Encode\<close>: what the HTTP layer uses of \<open>encoding/json\<close> (writing), \<open>encoding/base64\<close>, \<open>time\<close> and \<open>strconv\<close>,
    with the theorem that \<open>json.Unmarshal\<close> reads back what \<open>json.Marshal\<close> writes.
  \<^item> \<open>Http\<close>: requests, the response writer as the list of calls made on it, \<open>internal/api/problem\<close>,
    \<open>handler/util.go\<close>, the authentication, role, trace and rate-limit middleware. \<open>Idempotency\<close>:
    \<open>internal/idempotency/store.go\<close> and \<open>middleware/idempotency.go\<close>. \<open>Handlers\<close>: the other files of
    \<open>internal/api/handler\<close>.
  \<^item> \<open>Api\<close>: frames of handlers, so that the composition rules of \<open>frame_rel\<close> reach the HTTP layer
    (\<open>key_frame\<close> is the interface of the idempotency store); who may do what; the login.
  \<^item> \<open>Router\<close>: \<open>internal/api/router.go\<close>, logging, metrics and recovery, and the theorems about a request
    through the whole stack. \<open>Replay\<close>: the idempotency layer over several requests.
  \<^item> \<open>Configuration\<close>: \<open>internal/config/config.go\<close> with \<open>time.ParseDuration\<close>. \<open>Workers\<close>: the loops of
    \<open>internal/worker\<close> and the mock gateway. \<open>Process\<close>, \<open>Startup\<close>: \<open>cmd/api/main.go\<close>,
    \<open>internal/app/app.go\<close> and \<open>internal/db/db.go\<close>, with deferred calls. \<open>System\<close>: started processes at work.
  \<^item> \<open>Hazards\<close>: runs in which the code does what it should not. \<open>Progress\<close>: when a transfer succeeds
    and how it is refused. \<open>PayoutProgress\<close>: how a batch pays a payout.
  \<^item> \<open>Sample\<close>, \<open>Witnesses\<close>, \<open>ApiWitnesses\<close>: concrete data and evaluated runs.

  \<^bold>\<open>What the theorems show.\<close> For each service an all-or-nothing theorem: under
  every schedule of faults, lost replies, clock readings and identifiers the operation leaves the
  tables alone or has done exactly one complete movement, and an answer describes it; and without
  faults a valid transfer succeeds and a pending payout is paid. For the system: every service is a
  chain of commits, and every chain of commits (so every interleaving of concurrent requests) keeps
  the ledger balanced per currency, the balances in step with the entries, the history append-only
  and the schema's constraints. For the HTTP layer: every request is such a chain; protected routes
  need a token, payouts an administrator, money leaves an account only by its owner; under an
  idempotency key the handler runs at most once, and a repeated request gets the first answer. For
  the process: the workers stop when told to, and a program that has started has what the other
  theorems assume of its configuration; whatever started processes serve and their workers do, the
  books balance; and \<open>Run\<close> releases what it acquired on every way out but one.

  \<^bold>\<open>Parameters.\<close> \<open>google/uuid\<close>, \<open>shopspring/decimal\<close> and \<open>pgtype.Numeric\<close> are fields of the record
  \<open>lib\<close>; what the code relies on is stated by \<open>uuid_lib\<close> and \<open>decimal_lib\<close>, and \<open>sample_lib\<close>
  satisfies both. \<open>golang-jwt\<close> is \<open>jwt_lib\<close> with \<open>jwt_contract\<close> (\<open>sample_jwt\<close> satisfies it); the routing
  of \<open>chi\<close>, the limiter of \<open>httprate\<close> and the handlers of Prometheus and Swagger are \<open>chi_lib\<close>; \<open>viper\<close> is
  \<open>viper_lib\<close>; zap, the pool and the Redis client at start-up are \<open>platform\<close>. Replies of Redis and the
  commits of other sessions during a wait come from the world.

  \<^bold>\<open>Loops and bounds.\<close> Only three loops have no bound in the code. The wait for a key has as many polls
  as intervals fit into the life of the request's context (\<open>r_ticks\<close>), the worker loops run along
  the list of what wakes them, and both are total; \<open>ParseDuration\<close> ends because each step
  shortens its text.

  \<^bold>\<open>Simplifications.\<close> Case and space functions are those on ASCII text. The texts of JSON syntax
  errors are abbreviated. Times are in UTC. Fractions of durations are exact where Go computes in
  \<open>float64\<close>. Row locks have no effect on the state: within a transaction the database is the one its
  statements see, and concurrency is the order of commits. Header maps hold one value per name, the
  headers that \<open>httprate\<close> adds are left out, and log output other than the request log is left out.
  No handler panics in the model, so \<open>RecoverMiddleware\<close> is modelled for a handler that may.

  \<^bold>\<open>Not modelled.\<close> The listener of the server and its timeouts, help texts and buckets of the
  metrics, the text form of the payout worker, the partitions of the table of entries as types of
  their own, and the generated plumbing of \<open>internal/repository/db.go\<close>: they are calls of libraries without a decision of the program's own.
\<close>

section \<open>The whole system\<close>

text \<open>
  C2. Every operation of the services is a sequence of commits: whatever faults, lost replies,
  clock readings, identifiers, context errors and gateway replies occur and whether the operation
  returns an answer or an error, the database it leaves is reached from the one it found by
  committed transactions and statements of the program. What holds of all sequences of commits
  holds of every interleaving of concurrent operations.
\<close>

theorem services_are_commit_chains:
  fixes w :: world
  assumes "in_int64 a" and "in_int64 (xc_Amount cmd)"
  shows "(commit L)\<^sup>*\<^sup>* (wdb w) (wdb (snd (Transfer L f t a ref w))) \<and>
    (commit L)\<^sup>*\<^sup>* (wdb w) (wdb (snd (TransferExchange L fx cmd w))) \<and>
    (commit L)\<^sup>*\<^sup>* (wdb w) (wdb (snd (RequestPayout req w))) \<and>
    (commit L)\<^sup>*\<^sup>* (wdb w) (wdb (snd (processBatch L n w))) \<and>
    (commit L)\<^sup>*\<^sup>* (wdb w) (wdb (snd (ResolveManualReviewPayout L rreq w))) \<and>
    (commit L)\<^sup>*\<^sup>* (wdb w) (wdb (snd (HandleDepositWebhook L s payload sig w))) \<and>
    (commit L)\<^sup>*\<^sup>* (wdb w) (wdb (snd (AccountService_CreateAccount u c b w)))"
  using chain_Transfer [OF assms(1), of L "[]"] chain_TransferExchange [OF assms(2), of L "[]"]
    chain_RequestPayout [of L "[]"] chain_processBatch [of L n] chain_ResolveManualReviewPayout [of L "[]"]
    chain_HandleDepositWebhook [of L "[]"] chain_accounts(2) [of L "[]"]
  by (simp add: frame_def chained_def)

theorem services_are_commit_chains_witness:
  "(commit sample_lib)\<^sup>*\<^sup>* sample_db (wdb (snd transfer_example)) \<and>
   balance_of (wdb (snd transfer_example)) alice_usd = 300"
  using services_are_commit_chains [of 200 exchange_example_cmd sample_lib "sample_world sample_db"]
    transfer_example_balance by (simp add: exchange_example_cmd_def transfer_example_def)

text \<open>A database reached from the seed: a user and an account are created, money is transferred.\<close>

definition opened_world :: world where
  "opened_world = snd (AccountService_CreateAccount (UUID ''u'') ''USD'' 500
     (snd (Repository_CreateUser \<lparr>mu_ID = UUID ''u'', mu_Username = ''u'', mu_Email = ''u@x'', mu_Role = ''user'',
        mu_CreatedAt = 0\<rparr> (sample_world seed_db))))"

definition moved_world :: world where
  "moved_world = snd (Transfer sample_lib (UUID ''x'') (UUID SystemAccountUSD) 200 ''r1'' opened_world)"

lemma moved_entries: "length (entries (wdb moved_world)) = 2" by code_simp

lemma moved_balance: "balance_of (wdb moved_world) (UUID SystemAccountUSD) = 200" by code_simp

lemma moved_reachable: "(commit sample_lib)\<^sup>*\<^sup>* seed_db (wdb moved_world)"
proof -
  have "(commit sample_lib)\<^sup>*\<^sup>* seed_db (wdb opened_world)"
    using chain_accounts [of sample_lib "[]", unfolded frame_def chained_def, simplified]
      rtranclp_trans [of "commit sample_lib"]
    unfolding opened_world_def by (metis sample_world_sel(1))
  also have "(commit sample_lib)\<^sup>*\<^sup>* (wdb opened_world) (wdb moved_world)"
    using chain_Transfer [of 200 sample_lib "[]"] by (simp add: frame_def chained_def moved_world_def)
  finally show ?thesis .
qed

subsection \<open>Conservation\<close>

lemma seed_sound:
  assumes "uuid_lib L" shows "sound L seed_db"
proof -
  have sys: "getSystemAccountID L ''USD'' = Inr (UUID SystemAccountUSD)"
    "getSystemAccountID L ''EUR'' = Inr (UUID SystemAccountEUR)"
    "getSystemAccountID L ''GBP'' = Inr (UUID SystemAccountGBP)"
    using assms by (simp_all add: getSystemAccountID_def parse_system_account_def uuid_lib_def string_defs Let_def)
  have "UUID SystemAccountUSD \<in> ids_of seed_db ''USD''" "UUID SystemAccountEUR \<in> ids_of seed_db ''EUR''"
    "UUID SystemAccountGBP \<in> ids_of seed_db ''GBP''"
    by (simp_all add: ids_of_def sample_defs)
  then have "s \<in> ids_of seed_db c" if "c \<in> supported_currencies" "getSystemAccountID L c = Inr s" for c s
    using that sys by (auto simp: supported_currencies_def)
  moreover have "payouts seed_db = []" "entries seed_db = []" by (simp_all add: seed_db_def)
  ultimately show ?thesis by (simp add: sound_def currency_net_def)
qed

lemma chain_sound:
  assumes "(commit L)\<^sup>*\<^sup>* d d'" and "decimal_lib L" and "sound L d" shows "sound L d'"
  using assms by (induction rule: rtranclp_induct) (auto intro: commit_sound)

text \<open>
  C1. Double entry: in every database reachable from the one the migrations create, by any sequence
  of commits, the debits and credits of each currency cancel, and so do all entries together.
\<close>

theorem ledger_always_balances:
  assumes "(commit L)\<^sup>*\<^sup>* seed_db d" and "uuid_lib L" and "decimal_lib L"
  shows "(\<forall>c. currency_net d c = 0) \<and> ledger_net d = 0"
proof -
  have "sound L d" using chain_sound [OF assms(1,3) seed_sound [OF assms(2)]] .
  then show ?thesis by (simp add: sound_def ledger_net_by_currency)
qed

theorem ledger_always_balances_witness:
  "ledger_net (wdb moved_world) = 0 \<and> length (entries (wdb moved_world)) = 2"
  using ledger_always_balances [OF moved_reachable] moved_entries by simp

lemma chain_drift:
  assumes "(commit L)\<^sup>*\<^sup>* d d'" and "decimal_lib L" and "sound L d" and "acct d k \<noteq> None"
  shows "drift d' k = drift d k \<and> acct d' k \<noteq> None"
  using assms
proof (induction rule: rtranclp_induct)
  case (step y z)
  then have "sound L y" using chain_sound by blast
  then have "balanced y z" using commit_balanced step by blast
  moreover obtain r where "acct y k = Some r" using step by auto
  then have "k \<in> ids_of z (a_currency r)"
    using ids_of_grows [of y z k "a_currency r"] evo.commit_respects [OF step(2)]
    by (auto simp: evolves_def ids_of_def)
  ultimately show ?case using step by (auto simp: balanced_def ids_of_def)
qed simp

text \<open>
  C15. No service moves a balance without the entries that account for it: over any sequence of
  commits from a sound database, the difference between an account's balance and the net of its
  entries is constant from the creation of the account on.
\<close>

theorem balance_matches_entries:
  assumes "(commit L)\<^sup>*\<^sup>* d d'" and "decimal_lib L" and "sound L d" and "acct d k = Some r"
  shows "balance_of d' k - net_of d' k = balance_of d k - net_of d k"
  using chain_drift [OF assms(1-3), of k] assms(4) by (simp add: drift_def)

lemma seed_system_account: "acct seed_db (UUID SystemAccountUSD) = Some (account_row_of SystemAccountUSD SystemUserID ''USD'' 0 0)"
  by (simp add: sample_defs)

theorem balance_matches_entries_witness:
  "net_of (wdb moved_world) (UUID SystemAccountUSD) = 200"
  using balance_matches_entries [OF moved_reachable sample_decimal_lib seed_sound [OF sample_uuid_lib] seed_system_account]
    moved_balance by (simp add: balance_of_def net_of_def sample_defs)

lemma grows_row:
  assumes "grows f xs ys" and "\<And>r. key r = fst (f r)" and "sel_one key k xs = Some r"
  shows "\<exists>r'. sel_one key k ys = Some r' \<and> f r' = f r"
  using grows_sel_one [OF assms] by metis



text \<open>
  C20. The constraints of the schema are an invariant: keys and references stay unique, statuses,
  types, directions and currencies stay in their sets, amounts positive, locked funds non-negative,
  and every reference between tables points to a row.
\<close>

theorem schema_invariant:
  assumes "(commit L)\<^sup>*\<^sup>* d d'" and "schema_ok d" shows "schema_ok d'"
  using sch.chain_respects [OF assms(1)] assms(2) by (simp add: keeps_schema_def)

theorem schema_invariant_witness: "schema_ok (wdb moved_world)"
  using schema_invariant [OF moved_reachable] by simp

subsection \<open>Reconciliation\<close>

lemma sound_silent:
  assumes "sound L (wdb w)"
  shows "wtrace (snd (reconciliation_Run w)) = wtrace w \<and> wdb (snd (reconciliation_Run w)) = wdb w"
proof -
  have "sum_list (map signed_amount (entries (wdb w))) = 0"
    using assms ledger_net_by_currency [of "wdb w"] by (simp add: sound_def ledger_net_def)
  then show ?thesis
    by (auto simp: reconciliation_Run_def control_defs auto_exec_def Let_def GetLedgerNet_def
        split: fault.splits)
qed

text \<open>
  The alarm stays silent: whatever the driver does, a reconciliation run on a database reached
  from the seed by commits increments no imbalance counter and leaves the database as it is.
\<close>

theorem reconciliation_silent:
  assumes "(commit L)\<^sup>*\<^sup>* seed_db (wdb w)" and "uuid_lib L" and "decimal_lib L"
  shows "wtrace (snd (reconciliation_Run w)) = wtrace w \<and> wdb (snd (reconciliation_Run w)) = wdb w"
  using sound_silent [OF chain_sound [OF assms(1,3) seed_sound [OF assms(2)]]] .

theorem reconciliation_silent_witness: "wtrace (snd (reconciliation_Run moved_world)) = wtrace moved_world"
  using reconciliation_silent [OF moved_reachable] by simp

subsection \<open>The running system\<close>

text \<open>
  C4. The books of the running system: whatever requests the started processes serve and whatever
  their workers do, from the migrated database on, the entries of each currency and all together
  cancel, the constraints of the schema hold, a reconciliation raises no alarm, and a process that
  starts serves.
\<close>

theorem system_keeps_books:
  assumes "(operation L J C)\<^sup>*\<^sup>* seed_db d" and "uuid_lib L" and "decimal_lib L"
  shows "(\<forall>c. currency_net d c = 0) \<and> ledger_net d = 0 \<and> schema_ok d \<and>
    (\<forall>w. wdb w = d \<longrightarrow> wtrace (snd (reconciliation_Run w)) = wtrace w) \<and>
    (\<forall>V P p a. fst (start L V P p) = Inr a \<longrightarrow> Routes L J C (app_Router a) \<noteq> None)"
proof -
  have sound: "sound L d"
    using chain_sound [OF operations_chain [OF assms(1)] assms(3) seed_sound [OF assms(2)]] .
  then have "(\<forall>c. currency_net d c = 0) \<and> ledger_net d = 0 \<and> schema_ok d"
    by (simp add: sound_def ledger_net_by_currency)
  moreover have "\<forall>w. wdb w = d \<longrightarrow> wtrace (snd (reconciliation_Run w)) = wtrace w"
    using sound sound_silent by blast
  moreover have "\<forall>V P p a. fst (start L V P p) = Inr a \<longrightarrow> Routes L J C (app_Router a) \<noteq> None"
    using started_serves by fastforce
  ultimately show ?thesis by blast
qed

theorem system_keeps_books_witness:
  "let a = projr (fst (start sample_lib sample_viper sample_platform new_process)) in
   ledger_net (wdb (snd (the (Routes sample_lib sample_jwt sample_chi (app_Router a)) payout_request
     (no_response, sample_world seed_db)))) = 0"
proof -
  obtain a where a: "fst (start sample_lib sample_viper sample_platform new_process) = Inr a"
    using sample_starts by (cases "fst (start sample_lib sample_viper sample_platform new_process)") simp_all
  obtain serve where serve: "Routes sample_lib sample_jwt sample_chi (app_Router a) = Some serve"
    using started_serves [OF a] by blast
  have "operation sample_lib sample_jwt sample_chi (wdb (sample_world seed_db))
      (wdb (snd (serve payout_request (no_response, sample_world seed_db))))"
    by (rule operation.request [OF a serve]) (simp add: sample_world_def)
  then have "(operation sample_lib sample_jwt sample_chi)\<^sup>*\<^sup>* seed_db
      (wdb (snd (serve payout_request (no_response, sample_world seed_db))))" by simp
  from system_keeps_books [OF this] show ?thesis by (simp add: a serve)
qed

subsection \<open>The state machine\<close>

lemmas fsm_frames = fsm.frame_Transfer fsm.frame_TransferExchange fsm.frame_RequestPayout
  fsm.frame_batches(2,3,5) fsm.frame_handlePayoutSuccess fsm.frame_ResolveManualReviewPayout
  fsm.frame_HandleDepositWebhook

lemmas schema_frames = sch.worker.frame_Transfer sch.worker.frame_TransferExchange sch.worker.frame_RequestPayout
  sch.worker.frame_batches(2,3,5) sch.worker.frame_handlePayoutSuccess
  sch.worker.frame_ResolveManualReviewPayout sch.worker.frame_HandleDepositWebhook


text \<open>
  One call of such a service, with any arguments, or a change outside the database; sequences of
  calls are the life of the system without the worker's failure fallback.
\<close>

inductive call :: "lib \<Rightarrow> world \<Rightarrow> world \<Rightarrow> bool" for L where
  call_transfer: "call L w (snd (Transfer L f t a ref w))"
| call_exchange: "call L w (snd (TransferExchange L fx cmd w))"
| call_request: "call L w (snd (RequestPayout req w))"
| call_recover: "call L w (snd (recoverStaleProcessingPayouts n w))"
| call_claim: "call L w (snd (claimPendingPayouts n w))"
| call_requeue: "call L w (snd (requeueClaimedPayouts ps w))"
| call_success: "call L w (snd (handlePayoutSuccess L pid k x c i g w))"
| call_resolve: "call L w (snd (ResolveManualReviewPayout L rreq w))"
| call_deposit: "call L w (snd (HandleDepositWebhook L s payload sig w))"
| outside: "wdb w' = wdb w \<Longrightarrow> call L w w'"

lemma call_follows: "call L w w' \<Longrightarrow> follows (wdb w) (wdb w')"
  by (induction rule: call.induct)
    (simp_all add: fsm_frames [unfolded frame_def] follows_eq)

lemma call_schema: "call L w w' \<Longrightarrow> keeps_schema (wdb w) (wdb w')"
  by (induction rule: call.induct)
    (simp_all add: schema_frames [unfolded frame_def], simp add: keeps_schema_def)

lemma calls_follow: "(call L)\<^sup>*\<^sup>* w w' \<Longrightarrow> follows (wdb w) (wdb w') \<and> keeps_schema (wdb w) (wdb w')"
  by (induction rule: rtranclp_induct)
    (auto intro: fsm.R_refl sch.R_refl dest: call_follows call_schema intro: fsm.R_trans sch.R_trans)


lemma transfer_example_completed:
  "map_option t_status (txn (wdb (snd transfer_example)) (UUID ''x'')) = Some ''COMPLETED''"
  by code_simp


end
